(* ===== verification/Prelude.thy ===== *)
theory Prelude
  imports Main "HOL-Library.AList" "HOL-Library.Multiset"
begin

section \<open>Prelude: what the components share\<close>

text \<open>
  This theory holds the parts of the Go language and of its standard library that the
  controller uses (64-bit counters, \<^verbatim>\<open>fmt.Sprintf("%d")\<close>, \<^verbatim>\<open>time.Duration.String\<close>, the
  \<^verbatim>\<open>strings\<close> helpers, \<^verbatim>\<open>sort.SliceStable\<close>), the loop shapes that recur in the source, the
  lemma collections of the development, and generic facts about all of them.
\<close>

named_theorems getter_simps \<open>definitional equations of accessors with a default\<close>
named_theorems frame_simps \<open>which fields of the state an operation leaves alone\<close>
named_theorems op_defs \<open>definitions of the operations of a component\<close>

subsection \<open>Integers of fixed width\<close>

text \<open>Go's \<^verbatim>\<open>int\<close> and \<^verbatim>\<open>int64\<close> have 64 bits on every platform the controller is built for;
  \<open>wrap64\<close> is the two's complement reading of an integer.\<close>

type_synonym int64 = int

definition wrap64 :: "int \<Rightarrow> int64" where
  "wrap64 x = (x + 2 ^ 63) mod 2 ^ 64 - 2 ^ 63"

definition inc64 :: "int64 \<Rightarrow> int64" where
  "inc64 x = wrap64 (x + 1)"

definition is_int64 :: "int \<Rightarrow> bool" where
  "is_int64 x \<longleftrightarrow> - (2 ^ 63) \<le> x \<and> x < 2 ^ 63"

lemma wrap64_range: "is_int64 (wrap64 x)"
  by (simp add: wrap64_def is_int64_def)

lemma wrap64_id: "is_int64 x \<Longrightarrow> wrap64 x = x"
  by (simp add: wrap64_def is_int64_def)

lemma inc64_Suc: "is_int64 x \<Longrightarrow> x < 2 ^ 63 - 1 \<Longrightarrow> inc64 x = x + 1"
  by (simp add: inc64_def wrap64_def is_int64_def)

lemma inc64_wraps: "inc64 (2 ^ 63 - 1) = - (2 ^ 63)"
  by (simp add: inc64_def wrap64_def)

subsection \<open>Decimal numbers and durations\<close>

definition digit_char :: "nat \<Rightarrow> char" where
  "digit_char d = ''0123456789'' ! (d mod 10)"

fun nat_str :: "nat \<Rightarrow> string" where
  "nat_str n = (if n < 10 then [digit_char n] else nat_str (n div 10) @ [digit_char (n mod 10)])"

declare nat_str.simps [simp del]

function dec_str :: "int \<Rightarrow> string" where
  "dec_str i = (if i < 10 then [digit_char (nat i)] else dec_str (i div 10) @ [digit_char (nat (i mod 10))])"
  by pat_completeness auto
termination by (relation "measure nat") auto

declare dec_str.simps [simp del]

definition itoa :: "int \<Rightarrow> string" where
  "itoa i = (if i < 0 then CHR ''-'' # dec_str (- i) else dec_str i)"

text \<open>\<open>frac_str v prec\<close> is the fraction \<open>v / 10 ^ prec\<close> as \<^verbatim>\<open>time.fmtFrac\<close> writes it: trailing
  zeros are left out, and so is the point when nothing remains.\<close>

fun pad_digits :: "nat \<Rightarrow> int \<Rightarrow> string" where
  "pad_digits 0 v = []"
| "pad_digits (Suc p) v = pad_digits p (v div 10) @ [digit_char (nat (v mod 10))]"

definition frac_str :: "int \<Rightarrow> nat \<Rightarrow> string" where
  "frac_str v prec =
     (let ds = rev (dropWhile (\<lambda>c. c = CHR ''0'') (rev (pad_digits prec v)))
      in if ds = [] then [] else CHR ''.'' # ds)"

type_synonym duration = int64

definition Duration_String :: "duration \<Rightarrow> string" where
  "Duration_String d =
     (let u = \<bar>d\<bar>; sign = (if d < 0 then ''-'' else [])
      in if u = 0 then ''0s''
         else if u < 1000 then sign @ dec_str u @ ''ns''
         else if u < 1000000
           then sign @ dec_str (u div 1000) @ frac_str (u mod 1000) 3 @ [CHR 0xC2, CHR 0xB5, CHR ''s'']
         else if u < 1000000000
           then sign @ dec_str (u div 1000000) @ frac_str (u mod 1000000) 6 @ ''ms''
         else
           (let secs = u div 1000000000;
                tail = dec_str (secs mod 60) @ frac_str (u mod 1000000000) 9 @ ''s'';
                mins = secs div 60
            in if mins = 0 then sign @ tail
               else if mins div 60 = 0 then sign @ dec_str mins @ ''m'' @ tail
               else sign @ dec_str (mins div 60) @ ''h'' @ dec_str (mins mod 60) @ ''m'' @ tail))"

definition Second :: duration where "Second = 1000000000"
definition Minute :: duration where "Minute = 60 * Second"

lemma nat_str_nonempty: "nat_str n \<noteq> []"
  by (subst nat_str.simps) simp

subsection \<open>Strings\<close>

definition is_space :: "char \<Rightarrow> bool" where
  "is_space c \<longleftrightarrow> c \<in> {CHR '' '', CHR 0x09, CHR 0x0A, CHR 0x0B, CHR 0x0C, CHR 0x0D}"

definition TrimSpace :: "string \<Rightarrow> string" where
  "TrimSpace s = rev (dropWhile is_space (rev (dropWhile is_space s)))"

fun HasPrefix :: "string \<Rightarrow> string \<Rightarrow> bool" where
  "HasPrefix s [] = True"
| "HasPrefix [] (p # ps) = False"
| "HasPrefix (c # cs) (p # ps) = (c = p \<and> HasPrefix cs ps)"

definition TrimPrefix :: "string \<Rightarrow> string \<Rightarrow> string" where
  "TrimPrefix s p = (if HasPrefix s p then drop (length p) s else s)"

definition TrimSuffix :: "string \<Rightarrow> string \<Rightarrow> string" where
  "TrimSuffix s p =
     (if HasPrefix (rev s) (rev p) then take (length s - length p) s else s)"

fun Contains :: "string \<Rightarrow> string \<Rightarrow> bool" where
  "Contains [] p = (p = [])"
| "Contains (c # cs) p = (HasPrefix (c # cs) p \<or> Contains cs p)"

text \<open>\<^verbatim>\<open>strings.Split(s, sep)\<close> for a separator of one byte.\<close>

fun Split :: "string \<Rightarrow> char \<Rightarrow> string list" where
  "Split [] sep = [[]]"
| "Split (c # cs) sep =
     (if c = sep then [] # Split cs sep
      else (case Split cs sep of [] \<Rightarrow> [[c]] | w # ws \<Rightarrow> (c # w) # ws))"

fun Join :: "string list \<Rightarrow> string \<Rightarrow> string" where
  "Join [] sep = []"
| "Join [s] sep = s"
| "Join (s # t # ts) sep = s @ sep @ Join (t # ts) sep"

definition to_lower :: "char \<Rightarrow> char" where
  "to_lower c = (if of_char c \<ge> (65::nat) \<and> of_char c \<le> (90::nat) then char_of (of_char c + (32::nat)) else c)"

text \<open>\<^verbatim>\<open>strings.EqualFold\<close> on ASCII strings.\<close>

definition EqualFold :: "string \<Rightarrow> string \<Rightarrow> bool" where
  "EqualFold s t \<longleftrightarrow> map to_lower s = map to_lower t"

definition LastIndex :: "string \<Rightarrow> char \<Rightarrow> nat option" where
  "LastIndex s c =
     (if c \<in> set s then Some (length s - 1 - length (takeWhile (\<lambda>d. d \<noteq> c) (rev s))) else None)"

definition ReplaceAll :: "string \<Rightarrow> char \<Rightarrow> char \<Rightarrow> string" where
  "ReplaceAll s a b = map (\<lambda>c. if c = a then b else c) s"

lemma HasPrefix_iff: "HasPrefix s p \<longleftrightarrow> take (length p) s = p"
  by (induction s p rule: HasPrefix.induct) auto

lemma HasPrefix_append [simp]: "HasPrefix (p @ s) p"
  by (simp add: HasPrefix_iff)

lemma TrimPrefix_append [simp]: "TrimPrefix (p @ s) p = s"
  by (simp add: TrimPrefix_def)

lemma Split_nonempty [simp]: "Split s sep \<noteq> []"
  by (induction s) (auto split: list.splits)

lemma Split_no_sep: "sep \<notin> set s \<Longrightarrow> Split s sep = [s]"
  by (induction s) auto

lemma Split_append_sep: "sep \<notin> set s \<Longrightarrow> Split (s @ sep # t) sep = s # Split t sep"
  by (induction s) auto

lemma Join_Split: "Join (Split s sep) [sep] = s"
proof (induction s)
  case Nil
  show ?case by simp
next
  case (Cons c cs)
  obtain w ws where "Split cs sep = w # ws"
    by (cases "Split cs sep") auto
  with Cons.IH show ?case
    by (cases ws) auto
qed

lemma EqualFold_refl [simp]: "EqualFold s s"
  by (simp add: EqualFold_def)

subsection \<open>Sorting\<close>

text \<open>
  \<^verbatim>\<open>sort.SliceStable\<close> and \<^verbatim>\<open>sort.Slice\<close> sort slices of up to 20 and 12 elements by insertion:
  element after element is moved to the left while it is less than its left neighbour.
  \<open>sort_insert\<close> works on the reversed prefix. The comparator need not be an order, and the
  result is then still the one this algorithm computes.
\<close>

fun sort_insert :: "('a \<Rightarrow> 'a \<Rightarrow> bool) \<Rightarrow> 'a \<Rightarrow> 'a list \<Rightarrow> 'a list" where
  "sort_insert lt x [] = [x]"
| "sort_insert lt x (y # ys) = (if lt x y then y # sort_insert lt x ys else x # y # ys)"

fun sort_rev :: "('a \<Rightarrow> 'a \<Rightarrow> bool) \<Rightarrow> 'a list \<Rightarrow> 'a list \<Rightarrow> 'a list" where
  "sort_rev lt acc [] = acc"
| "sort_rev lt acc (x # xs) = sort_rev lt (sort_insert lt x acc) xs"

definition SliceStable :: "('a \<Rightarrow> 'a \<Rightarrow> bool) \<Rightarrow> 'a list \<Rightarrow> 'a list" where
  "SliceStable lt xs = rev (sort_rev lt [] xs)"

lemma mset_sort_insert [simp]: "mset (sort_insert lt x ys) = add_mset x (mset ys)"
  by (induction ys) auto

lemma mset_sort_rev: "mset (sort_rev lt acc xs) = mset acc + mset xs"
  by (induction xs arbitrary: acc) auto

lemma mset_SliceStable [simp]: "mset (SliceStable lt xs) = mset xs"
  by (simp add: SliceStable_def mset_sort_rev)

lemma set_SliceStable [simp]: "set (SliceStable lt xs) = set xs"
  by (metis mset_SliceStable set_mset_mset)

lemma length_SliceStable [simp]: "length (SliceStable lt xs) = length xs"
  by (metis mset_SliceStable size_mset)

lemma SliceStable_Nil [simp]: "SliceStable lt [] = []"
  by (simp add: SliceStable_def)

lemma SliceStable_single [simp]: "SliceStable lt [x] = [x]"
  by (simp add: SliceStable_def)

lemma SliceStable_eq_Nil [simp]: "SliceStable lt xs = [] \<longleftrightarrow> xs = []"
  by (metis length_0_conv length_SliceStable)

text \<open>An element that is less than all others, and that no other is less than, comes first,
  whatever else the comparator does.\<close>

lemma sort_insert_keeps_last:
  "ys \<noteq> [] \<Longrightarrow> \<not> lt x (last ys) \<Longrightarrow> last (sort_insert lt x ys) = last ys"
proof (induction ys)
  case Nil
  then show ?case by simp
next
  case (Cons y ys)
  have "sort_insert lt x ys \<noteq> []" by (cases ys) auto
  with Cons show ?case by (cases ys) auto
qed

lemma sort_insert_passes_all: "\<forall>y \<in> set ys. lt x y \<Longrightarrow> sort_insert lt x ys = ys @ [x]"
  by (induction ys) auto

lemma sort_rev_last_min:
  assumes "\<forall>y \<in> set acc \<union> set xs. (y \<noteq> x \<longrightarrow> lt x y) \<and> \<not> lt y x"
    and "x \<in> set acc \<longrightarrow> last acc = x" and "x \<in> set acc \<union> set xs"
  shows "last (sort_rev lt acc xs) = x"
  using assms
proof (induction xs arbitrary: acc)
  case Nil
  then show ?case by simp
next
  case (Cons y xs)
  let ?acc = "sort_insert lt y acc"
  have s: "set ?acc = insert y (set acc)"
    by (metis mset_sort_insert set_mset_add_mset_insert set_mset_mset)
  have "x \<in> set ?acc \<longrightarrow> last ?acc = x"
  proof (cases "x \<in> set acc")
    case True
    then have "acc \<noteq> []" "last acc = x" using Cons.prems(2) by auto
    then show ?thesis using sort_insert_keeps_last [of acc lt y] Cons.prems(1) by simp
  next
    case False
    show ?thesis
    proof (cases "y = x")
      case True
      have "\<forall>z \<in> set acc. lt x z" using False Cons.prems(1) by auto
      with True show ?thesis by (simp add: sort_insert_passes_all)
    qed (simp add: s False)
  qed
  then show ?case using Cons.IH [of ?acc] Cons.prems s by simp
qed

lemma SliceStable_hd_min:
  assumes "x \<in> set xs" and "\<forall>y \<in> set xs. (y \<noteq> x \<longrightarrow> lt x y) \<and> \<not> lt y x"
  shows "\<exists>ys. SliceStable lt xs = x # ys"
proof -
  have "last (sort_rev lt [] xs) = x"
    by (rule sort_rev_last_min) (use assms in simp_all)
  moreover have "sort_rev lt [] xs \<noteq> []"
    using assms(1) by (metis SliceStable_def SliceStable_eq_Nil list.set(1) empty_iff rev_is_Nil_conv)
  ultimately show ?thesis
    by (metis SliceStable_def append_butlast_last_id rev_eq_Cons_iff rev_rev_ident)
qed

text \<open>Sorting by a key in descending order, the shape of \<^verbatim>\<open>in[i].Version > in[j].Version\<close>.\<close>

lemma sort_insert_by_key:
  fixes key :: "'a \<Rightarrow> 'b :: linorder"
  assumes "sorted (map key ys)"
  shows "sorted (map key (sort_insert (\<lambda>a b. key a > key b) x ys))"
  using assms
proof (induction ys)
  case Nil
  show ?case by simp
next
  case (Cons y ys)
  have "set (sort_insert (\<lambda>a b. key a > key b) x ys) = insert x (set ys)"
    by (metis mset_sort_insert set_mset_add_mset_insert set_mset_mset)
  with Cons show ?case by auto
qed

lemma sort_rev_by_key:
  fixes key :: "'a \<Rightarrow> 'b :: linorder"
  assumes "sorted (map key acc)"
  shows "sorted (map key (sort_rev (\<lambda>a b. key a > key b) acc xs))"
  using assms by (induction xs arbitrary: acc) (auto intro: sort_insert_by_key)

lemma SliceStable_desc:
  fixes key :: "'a \<Rightarrow> 'b :: linorder"
  shows "sorted_wrt (\<ge>) (map key (SliceStable (\<lambda>a b. key a > key b) xs))"
proof -
  have "sorted (map key (sort_rev (\<lambda>a b. key a > key b) [] xs))"
    by (rule sort_rev_by_key) simp
  then show ?thesis
    by (simp add: SliceStable_def rev_map [symmetric] sorted_wrt_rev)
qed

text \<open>When no two keys agree there is only one descending arrangement, so any sorting
  algorithm returns what \<open>SliceStable\<close> returns.\<close>

lemma desc_perm_unique:
  fixes key :: "'a \<Rightarrow> 'b :: linorder"
  assumes "mset xs = mset ys" and "distinct (map key xs)"
    and "sorted_wrt (\<ge>) (map key xs)" and "sorted_wrt (\<ge>) (map key ys)"
  shows "xs = ys"
proof -
  have inj: "inj_on key (set xs)" and dx: "distinct xs"
    using assms(2) by (simp_all add: distinct_map)
  have "sorted (map key (rev xs))" "sorted (map key (rev ys))"
    using assms(3,4) by (simp_all add: rev_map [symmetric] sorted_wrt_rev)
  moreover have "mset (rev xs) = mset (rev ys)" using assms(1) by simp
  ultimately have "map key (rev xs) = map key (rev ys)"
    by (metis mset_map properties_for_sort)
  moreover have "set ys = set xs" using assms(1) by (metis set_mset_mset)
  ultimately have "rev xs = rev ys"
    using inj by (metis map_inj_on set_rev sup.idem)
  then show ?thesis by simp
qed

lemma SliceStable_already:
  fixes key :: "'a \<Rightarrow> 'b :: linorder"
  assumes "sorted_wrt (>) (map key xs)"
  shows "SliceStable (\<lambda>a b. key a > key b) xs = xs"
proof (rule sym, rule desc_perm_unique [where key = key])
  show "mset xs = mset (SliceStable (\<lambda>a b. key a > key b) xs)" by simp
  show "distinct (map key xs)"
    using assms by (metis distinct_rev sorted_wrt_rev strict_sorted_iff)
  show "sorted_wrt (\<ge>) (map key xs)"
    using assms by (rule sorted_wrt_mono_rel [rotated]) auto
qed (rule SliceStable_desc)

subsection \<open>Loop shapes\<close>

text \<open>
  \<^verbatim>\<open>for i := range xs { if p(xs[i]) { xs[i] = f(xs[i]); return } }\<close>: the first element that
  satisfies \<open>p\<close> is replaced, and the loop ends there.
\<close>

fun update_first :: "('a \<Rightarrow> bool) \<Rightarrow> ('a \<Rightarrow> 'a) \<Rightarrow> 'a list \<Rightarrow> 'a list" where
  "update_first p f [] = []"
| "update_first p f (x # xs) = (if p x then f x # xs else x # update_first p f xs)"

lemma length_update_first [simp]: "length (update_first p f xs) = length xs"
  by (induction xs) auto

lemma update_first_eq_Nil [simp]: "update_first p f xs = [] \<longleftrightarrow> xs = []"
  by (cases xs) auto

lemma update_first_none: "\<forall>x \<in> set xs. \<not> p x \<Longrightarrow> update_first p f xs = xs"
  by (induction xs) auto

lemma map_update_first:
  "(\<And>x. x \<in> set xs \<Longrightarrow> p x \<Longrightarrow> g (f x) = g x) \<Longrightarrow> map g (update_first p f xs) = map g xs"
  by (induction xs) auto

lemma set_update_first: "set (update_first p f xs) \<subseteq> set xs \<union> f ` set xs"
  by (induction xs) auto

lemma update_first_split:
  assumes "\<forall>x \<in> set ys. \<not> p x" and "p x"
  shows "update_first p f (ys @ x # zs) = ys @ f x # zs"
  using assms by (induction ys) auto

text \<open>\<^verbatim>\<open>for _, x := range xs { if p(x) { return x } }\<close> is \<^const>\<open>List.find\<close>.\<close>

definition head_opt :: "'a list \<Rightarrow> 'a option" where
  "head_opt xs = (case xs of [] \<Rightarrow> None | x # _ \<Rightarrow> Some x)"

lemma head_opt_simps [simp]: "head_opt [] = None" "head_opt (x # xs) = Some x"
  by (simp_all add: head_opt_def)

lemma head_opt_eq_None [simp]: "head_opt xs = None \<longleftrightarrow> xs = []"
  by (simp add: head_opt_def split: list.split)

lemma head_opt_Some: "head_opt xs = Some x \<longleftrightarrow> (\<exists>ys. xs = x # ys)"
  by (cases xs) auto

subsection \<open>JSON values\<close>

text \<open>What \<^verbatim>\<open>map[string]any\<close> and \<^verbatim>\<open>encoding/json\<close> range over. Objects keep their members in
  the order in which the encoder writes them.\<close>

datatype json =
    JNull
  | JBool bool
  | JInt int
  | JStr string
  | JArr "json list"
  | JObj "(string \<times> json) list"

type_synonym strmap = "(string \<times> string) list"

definition JStrMap :: "strmap \<Rightarrow> json" where
  "JStrMap m = JObj (map (\<lambda>(k, v). (k, JStr v)) m)"

text \<open>A member that \<^verbatim>\<open>omitempty\<close> leaves out.\<close>

definition omitempty :: "string \<Rightarrow> bool \<Rightarrow> json \<Rightarrow> (string \<times> json) list" where
  "omitempty k skip v = (if skip then [] else [(k, v)])"

end
