(* ===== verification/Snapshots.thy ===== *)
theory Snapshots
  imports Prelude
begin

section \<open>Release history: api/v2/snapshot\_types.go\<close>

text \<open>
  A snapshot records one release as observed in the Helm storage; the history of a
  HelmRelease is a list of snapshots. This theory models the snapshot, the operations on
  single snapshots and the operations on histories (sorting, \<open>Latest\<close>, \<open>Previous\<close> and the two
  truncations), and shows what they return and keep. A nil \<^verbatim>\<open>*Snapshot\<close> is \<open>None\<close>.
\<close>

datatype ReleaseAction =
    ReleaseActionNone
  | ReleaseActionInstall
  | ReleaseActionUpgrade
  | ReleaseActionRollback
  | ReleaseActionUninstall
  | ReleaseActionUninstallRemediation

fun ReleaseAction_String :: "ReleaseAction \<Rightarrow> string" where
  "ReleaseAction_String ReleaseActionNone = ''''"
| "ReleaseAction_String ReleaseActionInstall = ''install''"
| "ReleaseAction_String ReleaseActionUpgrade = ''upgrade''"
| "ReleaseAction_String ReleaseActionRollback = ''rollback''"
| "ReleaseAction_String ReleaseActionUninstall = ''uninstall''"
| "ReleaseAction_String ReleaseActionUninstallRemediation = ''uninstall-remediation''"

type_synonym time = int

definition CurrentSnapshotAPIVersion :: string where
  "CurrentSnapshotAPIVersion = ''v2''"

definition snapshotStatusDeployed :: string where "snapshotStatusDeployed = ''deployed''"
definition snapshotStatusSuperseded :: string where "snapshotStatusSuperseded = ''superseded''"
definition snapshotTestPhaseFailed :: string where "snapshotTestPhaseFailed = ''Failed''"
definition snapshotTestPhaseSucceeded :: string where "snapshotTestPhaseSucceeded = ''Succeeded''"

definition defaultMaxHistory :: nat where "defaultMaxHistory = 5"

record TestHookStatus =
  TH_LastStarted :: time
  TH_LastCompleted :: time
  TH_Phase :: string

text \<open>A \<^verbatim>\<open>map[string]*TestHookStatus\<close>: the names are distinct, the values may be nil.\<close>

type_synonym test_hooks = "(string \<times> TestHookStatus option) list"

record Snapshot =
  Snap_APIVersion :: string
  Snap_Digest :: string
  Snap_Name :: string
  Snap_Namespace :: string
  Snap_Version :: int64
  Snap_Status :: string
  Snap_Action :: ReleaseAction
  Snap_ChartName :: string
  Snap_ChartVersion :: string
  Snap_AppVersion :: string
  Snap_ConfigDigest :: string
  Snap_FirstDeployed :: time
  Snap_LastDeployed :: time
  Snap_Deleted :: time
  Snap_TestHooks :: "test_hooks option"
  Snap_OCIDigest :: string

type_synonym Snapshots = "Snapshot list"

subsection \<open>Operations on a snapshot\<close>

definition FullReleaseName :: "Snapshot option \<Rightarrow> string" where
  "FullReleaseName s = (case s of None \<Rightarrow> ''''
     | Some s \<Rightarrow> Snap_Namespace s @ ''/'' @ Snap_Name s @ ''.v'' @ itoa (Snap_Version s))"

definition VersionedChartName :: "Snapshot option \<Rightarrow> string" where
  "VersionedChartName s = (case s of None \<Rightarrow> ''''
     | Some s \<Rightarrow> Snap_ChartName s @ ''@'' @ Snap_ChartVersion s)"

definition hook_in_phase :: "string \<Rightarrow> string \<times> TestHookStatus option \<Rightarrow> bool" where
  "hook_in_phase ph h = (case snd h of None \<Rightarrow> False | Some t \<Rightarrow> TH_Phase t = ph)"

definition HasBeenTested :: "Snapshot option \<Rightarrow> bool" where
  "HasBeenTested s = (case s of None \<Rightarrow> False
     | Some s \<Rightarrow> (case Snap_TestHooks s of None \<Rightarrow> False
        | Some hs \<Rightarrow>
            if hs = [] then True
            else if list_ex (hook_in_phase snapshotTestPhaseFailed) hs then True
            else list_all (hook_in_phase snapshotTestPhaseSucceeded) hs))"

definition GetTestHooks :: "Snapshot option \<Rightarrow> test_hooks option" where
  "GetTestHooks s = (case s of None \<Rightarrow> None | Some s \<Rightarrow> Snap_TestHooks s)"

definition HasTestInPhase :: "Snapshot option \<Rightarrow> string \<Rightarrow> bool" where
  "HasTestInPhase s ph = (case GetTestHooks s of None \<Rightarrow> False
     | Some hs \<Rightarrow> list_ex (hook_in_phase ph) hs)"

definition SetTestHooks :: "Snapshot \<Rightarrow> test_hooks option \<Rightarrow> Snapshot" where
  "SetTestHooks s hooks = (case hooks of None \<Rightarrow> s | Some hs \<Rightarrow> s\<lparr>Snap_TestHooks := Some hs\<rparr>)"

definition Targets :: "Snapshot option \<Rightarrow> string \<Rightarrow> string \<Rightarrow> int64 \<Rightarrow> bool" where
  "Targets s name ns version = (case s of None \<Rightarrow> False
     | Some s \<Rightarrow> Snap_Name s = name \<and> Snap_Namespace s = ns \<and> Snap_Version s = version)"

definition GetAction :: "Snapshot option \<Rightarrow> ReleaseAction" where
  "GetAction s = (case s of None \<Rightarrow> ReleaseActionNone | Some s \<Rightarrow> Snap_Action s)"

subsection \<open>Operations on a history\<close>

definition SortByVersion :: "Snapshots \<Rightarrow> Snapshots" where
  "SortByVersion h = SliceStable (\<lambda>a b. Snap_Version a > Snap_Version b) h"

text \<open>\<^verbatim>\<open>Latest\<close> and \<^verbatim>\<open>Previous\<close> sort the slice in place. Their callers in the model apply
  \<^const>\<open>SortByVersion\<close> to the history of the object they hold.\<close>

definition Latest :: "Snapshots \<Rightarrow> Snapshot option" where
  "Latest h = head_opt (SortByVersion h)"

definition was_released :: "bool \<Rightarrow> Snapshot \<Rightarrow> bool" where
  "was_released ignoreTests s \<longleftrightarrow>
     (Snap_Status s = snapshotStatusDeployed \<or> Snap_Status s = snapshotStatusSuperseded) \<and>
     (ignoreTests \<or> \<not> HasTestInPhase (Some s) snapshotTestPhaseFailed)"

definition Previous :: "Snapshots \<Rightarrow> bool \<Rightarrow> Snapshot option" where
  "Previous h ignoreTests =
     (if length h < 2 then None else find (was_released ignoreTests) (tl (SortByVersion h)))"

fun take_through :: "('a \<Rightarrow> bool) \<Rightarrow> 'a list \<Rightarrow> 'a list option" where
  "take_through p [] = None"
| "take_through p (x # xs) = (if p x then Some [x] else map_option ((#) x) (take_through p xs))"

definition Truncate :: "Snapshots \<Rightarrow> bool \<Rightarrow> Snapshots" where
  "Truncate h ignoreTests =
     (if length h < 2 then h
      else (let s = SortByVersion h
            in case take_through (was_released ignoreTests) (tl s) of
                 Some keep \<Rightarrow> hd s # keep
               | None \<Rightarrow> if length s > defaultMaxHistory then take defaultMaxHistory s else s))"

definition TruncateIgnoringPreviousSnapshots :: "Snapshots \<Rightarrow> Snapshots" where
  "TruncateIgnoringPreviousSnapshots h =
     (let s = SortByVersion h
      in if length s > defaultMaxHistory then take defaultMaxHistory s else s)"

subsection \<open>Sorting a history\<close>

lemma SortByVersion_desc: "sorted_wrt (\<ge>) (map Snap_Version (SortByVersion h))"
  unfolding SortByVersion_def by (rule SliceStable_desc)

lemma mset_SortByVersion [simp]: "mset (SortByVersion h) = mset h"
  by (simp add: SortByVersion_def)

lemma set_SortByVersion [simp]: "set (SortByVersion h) = set h"
  by (simp add: SortByVersion_def)

lemma length_SortByVersion [simp]: "length (SortByVersion h) = length h"
  by (simp add: SortByVersion_def)

lemma SortByVersion_eq_Nil [simp]: "SortByVersion h = [] \<longleftrightarrow> h = []"
  by (simp add: SortByVersion_def)

lemma SortByVersion_Nil [simp]: "SortByVersion [] = []"
  by simp

lemma SortByVersion_single [simp]: "SortByVersion [s] = [s]"
  by (simp add: SortByVersion_def)

text \<open>With distinct versions the order does not depend on the sorting algorithm, so the
  instability of \<^verbatim>\<open>sort.Slice\<close> cannot be observed.\<close>

lemma SortByVersion_unique:
  assumes "distinct (map Snap_Version h)" and "mset ys = mset h"
    and "sorted_wrt (\<ge>) (map Snap_Version ys)"
  shows "ys = SortByVersion h"
proof -
  have "image_mset Snap_Version (mset ys) = image_mset Snap_Version (mset h)"
    using assms(2) by simp
  then have "mset (map Snap_Version ys) = mset (map Snap_Version h)" by simp
  then have "distinct (map Snap_Version ys)"
    using assms(1) by (metis mset_eq_imp_distinct_iff)
  then show ?thesis
    using assms(2,3) by (intro desc_perm_unique [of ys _ Snap_Version])
      (simp_all add: SortByVersion_desc)
qed

lemma Latest_None [simp]: "Latest h = None \<longleftrightarrow> h = []"
  by (simp add: Latest_def)

lemma Latest_Nil [simp]: "Latest [] = None"
  by simp

lemma Latest_Some_iff: "h \<noteq> [] \<longleftrightarrow> (\<exists>s. Latest h = Some s)"
  using Latest_None by (metis not_Some_eq)

lemma Latest_maximal:
  assumes "Latest h = Some s"
  shows "s \<in> set h \<and> (\<forall>t \<in> set h. Snap_Version t \<le> Snap_Version s)"
proof -
  obtain r where r: "SortByVersion h = s # r"
    using assms by (auto simp: Latest_def head_opt_Some)
  then have "\<forall>t \<in> set r. Snap_Version t \<le> Snap_Version s"
    using SortByVersion_desc [of h] by simp
  moreover have "set h = insert s (set r)" using r by (metis list.simps(15) set_SortByVersion)
  ultimately show ?thesis by auto
qed

text \<open>A snapshot that is newer than the whole history becomes its latest one when prepended.\<close>

lemma sort_insert_end:
  "\<forall>t \<in> set r. \<not> lt x t \<Longrightarrow> sort_insert lt x r = x # r"
  by (cases r) auto

lemma sort_rev_desc:
  assumes "sorted_wrt (\<ge>) (map key (rev acc @ xs))"
  shows "sort_rev (\<lambda>a b. key a > (key b :: 'k :: linorder)) acc xs = rev xs @ acc"
  using assms
proof (induction xs arbitrary: acc)
  case (Cons x xs)
  then have "\<forall>t \<in> set acc. \<not> key x > key t" by (force simp: sorted_wrt_append)
  with Cons sort_insert_end [of acc "\<lambda>a b. key a > key b" x] show ?case by simp
qed simp

lemma SortByVersion_twice [simp]: "SortByVersion (SortByVersion h) = SortByVersion h"
  using sort_rev_desc [of Snap_Version "[]" "SortByVersion h"] SortByVersion_desc [of h]
  by (simp add: SortByVersion_def SliceStable_def)

lemma Latest_sorted [simp]: "Latest (SortByVersion h) = Latest h"
  by (simp add: Latest_def)

lemma SortByVersion_Cons_newest:
  assumes "\<forall>t \<in> set h. Snap_Version t < Snap_Version s"
  shows "SortByVersion (s # h) = s # SortByVersion h"
proof -
  let ?lt = "\<lambda>a b. Snap_Version a > Snap_Version b"
  have "sort_rev ?lt (acc @ [s]) xs = sort_rev ?lt acc xs @ [s]"
    if "\<forall>t \<in> set xs. Snap_Version t < Snap_Version s" for acc xs
    using that
  proof (induction xs arbitrary: acc)
    case Nil
    show ?case by simp
  next
    case (Cons x xs)
    have "sort_insert ?lt x (acc @ [s]) = sort_insert ?lt x acc @ [s]"
      using Cons.prems by (induction acc) auto
    with Cons show ?case by simp
  qed
  from this [of h "[]"] assms show ?thesis
    by (simp add: SortByVersion_def SliceStable_def)
qed

lemma Latest_Cons_newest:
  "\<forall>t \<in> set h. Snap_Version t < Snap_Version s \<Longrightarrow> Latest (s # h) = Some s"
  by (simp add: Latest_def SortByVersion_Cons_newest)

subsection \<open>Previous and the truncations\<close>

lemma take_through_find:
  "take_through p xs = None \<longleftrightarrow> find p xs = None"
  by (induction xs) auto

lemma take_through_prefix:
  "take_through p xs = Some ys \<Longrightarrow> \<exists>zs. xs = ys @ zs"
  by (induction xs arbitrary: ys) (auto split: if_splits)

lemma take_through_last:
  assumes "take_through p xs = Some ys"
  shows "ys \<noteq> [] \<and> p (last ys) \<and> (\<forall>y \<in> set (butlast ys). \<not> p y) \<and> find p xs = Some (last ys)"
  using assms
proof (induction xs arbitrary: ys)
  case Nil
  then show ?case by simp
next
  case (Cons x xs)
  show ?case
  proof (cases "p x")
    case True
    with Cons.prems show ?thesis by auto
  next
    case False
    with Cons.prems obtain zs where zs: "take_through p xs = Some zs" and ys: "ys = x # zs"
      by auto
    from Cons.IH [OF zs] False ys show ?thesis by auto
  qed
qed

lemma take_through_idem:
  assumes "take_through p xs = Some ys"
  shows "take_through p ys = Some ys"
  using assms by (induction xs arbitrary: ys) (auto split: if_splits)

lemma Previous_Some:
  assumes "Previous h ig = Some p"
  shows "p \<in> set h \<and> was_released ig p \<and> (\<exists>s. Latest h = Some s \<and> Snap_Version p \<le> Snap_Version s)"
proof -
  from assms have len: "\<not> length h < 2" and f: "find (was_released ig) (tl (SortByVersion h)) = Some p"
    by (auto simp: Previous_def split: if_splits)
  from f have "p \<in> set (tl (SortByVersion h))" and rel: "was_released ig p"
    by (auto simp: find_Some_iff)
  then have p: "p \<in> set h"
    by (metis list.sel(2) list.set_sel(2) set_SortByVersion)
  from len have "h \<noteq> []" by auto
  then obtain s where s: "Latest h = Some s" by (auto simp: Latest_Some_iff)
  with p rel Latest_maximal [OF s] show ?thesis by auto
qed

text \<open>The prefix structure of a truncated history.\<close>

lemma SortByVersion_hd_tl: "h \<noteq> [] \<Longrightarrow> SortByVersion h = hd (SortByVersion h) # tl (SortByVersion h)"
  by simp

lemma Truncate_prefix:
  assumes "2 \<le> length h"
  shows "\<exists>n > 0. Truncate h ig = take n (SortByVersion h)"
proof -
  let ?s = "SortByVersion h"
  have ne: "?s \<noteq> []" using assms by auto
  show ?thesis
  proof (cases "take_through (was_released ig) (tl ?s)")
    case None
    then have "Truncate h ig = (if length ?s > defaultMaxHistory then take defaultMaxHistory ?s else ?s)"
      using assms by (simp add: Truncate_def)
    then have "Truncate h ig = take (if length ?s > defaultMaxHistory then defaultMaxHistory else length ?s) ?s"
      by simp
    moreover have "0 < (if length ?s > defaultMaxHistory then defaultMaxHistory else length ?s)"
      using assms by (auto simp: defaultMaxHistory_def)
    ultimately show ?thesis by blast
  next
    case (Some keep)
    obtain zs where "tl ?s = keep @ zs" using take_through_prefix [OF Some] by auto
    then have "Truncate h ig = take (Suc (length keep)) ?s"
      using Some assms ne by (cases ?s) (auto simp: Truncate_def Let_def)
    then show ?thesis by blast
  qed
qed

lemma Truncate_subset: "set (Truncate h ig) \<subseteq> set h"
proof (cases "length h < 2")
  case True
  then show ?thesis by (simp add: Truncate_def)
next
  case False
  then obtain n where "Truncate h ig = take n (SortByVersion h)"
    using Truncate_prefix [of h ig] by auto
  then show ?thesis by (metis set_SortByVersion set_take_subset)
qed

lemma Truncate_Nil [simp]: "Truncate [] ig = []"
  by (simp add: Truncate_def)

lemma Truncate_nonempty [simp]: "Truncate h ig = [] \<longleftrightarrow> h = []"
proof (cases "length h < 2")
  case True
  then show ?thesis by (simp add: Truncate_def)
next
  case False
  then obtain n where "n > 0" "Truncate h ig = take n (SortByVersion h)"
    using Truncate_prefix [of h ig] by auto
  with False show ?thesis by auto
qed

lemma sort_of_prefix:
  assumes "distinct (map Snap_Version h)"
  shows "SortByVersion (take n (SortByVersion h)) = take n (SortByVersion h)"
proof (rule sym, rule SortByVersion_unique)
  have "distinct (map Snap_Version (SortByVersion h))"
    using assms by (metis mset_SortByVersion mset_eq_imp_distinct_iff mset_map)
  then show "distinct (map Snap_Version (take n (SortByVersion h)))"
    by (metis distinct_take take_map)
  show "sorted_wrt (\<ge>) (map Snap_Version (take n (SortByVersion h)))"
    using SortByVersion_desc [of h] by (metis sorted_wrt_take take_map)
qed simp

text \<open>The two shapes of a truncated history: it ends with the previous release, or it is cut
  to the default length when there is none.\<close>

lemma Truncate_with_previous:
  assumes "take_through (was_released ig) (tl (SortByVersion h)) = Some keep"
  shows "Truncate h ig = hd (SortByVersion h) # keep"
    and "Previous h ig = Some (last keep)"
    and "hd (SortByVersion h) # keep = take (Suc (length keep)) (SortByVersion h)"
proof -
  let ?s = "SortByVersion h"
  have k: "keep \<noteq> []" and f: "find (was_released ig) (tl ?s) = Some (last keep)"
    using take_through_last [OF assms] by auto
  obtain zs where z: "tl ?s = keep @ zs" using take_through_prefix [OF assms] by auto
  have "\<not> length ?s < 2"
    using z k by (cases ?s) (auto simp: Suc_le_eq neq_Nil_conv)
  then have len: "\<not> length h < 2" by simp
  then show "Truncate h ig = hd ?s # keep" and "Previous h ig = Some (last keep)"
    using assms f by (simp_all add: Truncate_def Previous_def)
  show "hd ?s # keep = take (Suc (length keep)) ?s"
    using z len by (cases ?s) auto
qed

lemma Truncate_without_previous:
  assumes "take_through (was_released ig) (tl (SortByVersion h)) = None" and "2 \<le> length h"
  shows "Truncate h ig = take defaultMaxHistory (SortByVersion h)"
    and "Previous h ig = None"
  using assms take_through_find [of "was_released ig" "tl (SortByVersion h)"]
  by (simp_all add: Truncate_def Previous_def Let_def)

lemma Latest_take_sorted:
  assumes "distinct (map Snap_Version h)" and "0 < n"
  shows "Latest (take n (SortByVersion h)) = Latest h"
proof -
  have "head_opt (take n (SortByVersion h)) = head_opt (SortByVersion h)"
    using assms(2) by (cases n; cases "SortByVersion h") simp_all
  then show ?thesis by (simp add: Latest_def sort_of_prefix [OF assms(1)])
qed

lemma find_None_subset:
  "find p xs = None \<Longrightarrow> set ys \<subseteq> set xs \<Longrightarrow> find p ys = None"
  by (auto simp: find_None_iff)

lemma Previous_truncated:
  assumes d: "distinct (map Snap_Version h)" and l: "2 \<le> length h"
  shows "Previous (Truncate h ig) ig = Previous h ig"
proof (cases "take_through (was_released ig) (tl (SortByVersion h))")
  case None
  note w = Truncate_without_previous [OF None l]
  have "find (was_released ig) (tl (SortByVersion h)) = None"
    using None by (simp add: take_through_find)
  moreover have "set (tl (take defaultMaxHistory (SortByVersion h))) \<subseteq> set (tl (SortByVersion h))"
    by (metis set_take_subset tl_take)
  ultimately show ?thesis
    unfolding w by (simp add: Previous_def sort_of_prefix [OF d] find_None_subset)
next
  case (Some keep)
  note w = Truncate_with_previous [OF Some]
  have k: "keep \<noteq> []" and "find (was_released ig) keep = Some (last keep)"
    using take_through_last [OF Some] take_through_last [OF take_through_idem [OF Some]] by auto
  moreover have "SortByVersion (hd (SortByVersion h) # keep) = hd (SortByVersion h) # keep"
    unfolding w(3) by (rule sort_of_prefix [OF d])
  ultimately show ?thesis
    unfolding w(1,2) by (cases keep) (simp_all add: Previous_def)
qed

lemma Truncate_truncated:
  assumes d: "distinct (map Snap_Version h)" and l: "2 \<le> length h"
  shows "Truncate (Truncate h ig) ig = Truncate h ig"
proof (cases "take_through (was_released ig) (tl (SortByVersion h))")
  case None
  note w = Truncate_without_previous [OF None l]
  have "find (was_released ig) (tl (SortByVersion h)) = None"
    using None by (simp add: take_through_find)
  moreover have "set (tl (take defaultMaxHistory (SortByVersion h))) \<subseteq> set (tl (SortByVersion h))"
    by (metis set_take_subset tl_take)
  ultimately have "find (was_released ig) (tl (take defaultMaxHistory (SortByVersion h))) = None"
    by (rule find_None_subset)
  then have "take_through (was_released ig) (tl (take defaultMaxHistory (SortByVersion h))) = None"
    by (simp add: take_through_find)
  then show ?thesis
    unfolding w by (simp add: Truncate_def sort_of_prefix [OF d] Let_def)
next
  case (Some keep)
  note w = Truncate_with_previous [OF Some]
  have "SortByVersion (hd (SortByVersion h) # keep) = hd (SortByVersion h) # keep"
    unfolding w(3) by (rule sort_of_prefix [OF d])
  then show ?thesis
    unfolding w(1) using take_through_last [OF Some] take_through_idem [OF Some]
    by (cases keep) (simp_all add: Truncate_def)
qed

subsection \<open>Properties of the history\<close>

text \<open>C28. Truncating a history never loses what the reconciler may still need: the latest
  release and the release a rollback would target are the same before and after, nothing is
  invented, and truncating again changes nothing. Storage versions are distinct.\<close>

theorem Truncate_keeps_latest_and_previous:
  assumes "distinct (map Snap_Version h)"
  shows "Latest (Truncate h ig) = Latest h \<and> Previous (Truncate h ig) ig = Previous h ig \<and>
         set (Truncate h ig) \<subseteq> set h \<and> Truncate (Truncate h ig) ig = Truncate h ig"
proof (cases "length h < 2")
  case True
  then show ?thesis by (simp add: Truncate_def)
next
  case False
  then have l: "2 \<le> length h" by simp
  obtain n where "n > 0" "Truncate h ig = take n (SortByVersion h)"
    using Truncate_prefix [OF l] by auto
  then have "Latest (Truncate h ig) = Latest h"
    by (simp add: Latest_take_sorted [OF assms])
  then show ?thesis
    using Truncate_subset Previous_truncated [OF assms l] Truncate_truncated [OF assms l] by blast
qed

theorem Truncate_keeps_latest_and_previous_witness:
  "let snap = (\<lambda>v st. \<lparr>Snap_APIVersion = ''v2'', Snap_Digest = [], Snap_Name = ''app'',
          Snap_Namespace = ''ns'', Snap_Version = v, Snap_Status = st, Snap_Action = ReleaseActionNone,
          Snap_ChartName = [], Snap_ChartVersion = [], Snap_AppVersion = [], Snap_ConfigDigest = [],
          Snap_FirstDeployed = 0, Snap_LastDeployed = 0, Snap_Deleted = 0, Snap_TestHooks = None,
          Snap_OCIDigest = []\<rparr>);
       h = [snap 1 ''superseded'', snap 4 ''failed'', snap 2 ''superseded'', snap 3 ''failed'']
   in Previous (Truncate h False) False = Previous h False \<and> Previous h False = Some (h ! 2) \<and>
      length (Truncate h False) = 3"
  unfolding Let_def
  apply (subst Truncate_keeps_latest_and_previous [THEN conjunct2, THEN conjunct1])
   apply simp
  apply (simp add: Truncate_def Previous_def SortByVersion_def SliceStable_def was_released_def
      snapshotStatusDeployed_def snapshotStatusSuperseded_def HasTestInPhase_def GetTestHooks_def)
  done

text \<open>C29. A truncated history is short: it holds at most five snapshots, or it ends with the
  first earlier release that was deployed or superseded, and nothing in between was.\<close>

theorem Truncate_bounded:
  "length (Truncate h ig) \<le> defaultMaxHistory \<or>
   (\<exists>s mid p. Truncate h ig = s # mid @ [p] \<and> Latest h = Some s \<and> Previous h ig = Some p \<and>
      list_all (\<lambda>m. \<not> was_released ig m) mid)"
proof (cases "length h < 2")
  case True
  then show ?thesis by (simp add: Truncate_def defaultMaxHistory_def)
next
  case False
  show ?thesis
  proof (cases "take_through (was_released ig) (tl (SortByVersion h))")
    case None
    then show ?thesis using False by (simp add: Truncate_without_previous)
  next
    case (Some keep)
    have "Latest h = Some (hd (SortByVersion h))"
      using False by (cases "SortByVersion h") (auto simp: Latest_def)
    moreover have "keep = butlast keep @ [last keep]"
      "list_all (\<lambda>m. \<not> was_released ig m) (butlast keep)"
      using take_through_last [OF Some] by (auto simp: list_all_iff)
    ultimately show ?thesis using Truncate_with_previous(1,2) [OF Some] by metis
  qed
qed

end
