(* ===== verification/ApiTypes.thy ===== *)
theory ApiTypes
  imports Snapshots
begin

section \<open>The HelmRelease API: api/v2/helmrelease\_types.go and reference\_types.go\<close>

text \<open>
  The HelmRelease object with its specification and status, field by field, and the accessors
  that apply the defaults. An optional pointer is an \<open>option\<close>, a Go map with string keys an
  association list. Values of third-party types that the controller only carries around
  (patches, images, value references, health check expressions) are represented by their
  JSON encoding. The Go interface \<^verbatim>\<open>Remediation\<close> is a datatype of its two implementations,
  and the contract that both keep is the locale \<open>remediation\<close>.
\<close>

subsection \<open>Metadata, conditions and references\<close>

datatype ConditionStatus = ConditionTrue | ConditionFalse | ConditionUnknown

record Condition =
  Cond_Type :: string
  Cond_Status :: ConditionStatus
  Cond_ObservedGeneration :: int64
  Cond_LastTransitionTime :: time
  Cond_Reason :: string
  Cond_Message :: string

record CrossNamespaceObjectReference =
  COR_APIVersion :: string
  COR_Kind :: string
  COR_Name :: string
  COR_Namespace :: string

record CrossNamespaceSourceReference =
  CSR_APIVersion :: string
  CSR_Kind :: string
  CSR_Name :: string
  CSR_Namespace :: string

record HelmChartReference =
  Ref_Kind :: string
  Ref_Name :: string
  Ref_Namespace :: string

definition HelmChartReference_String :: "HelmChartReference option \<Rightarrow> string" where
  "HelmChartReference_String r = (case r of None \<Rightarrow> ''''
     | Some r \<Rightarrow> Ref_Kind r @ ''/'' @ Ref_Namespace r @ ''/'' @ Ref_Name r)"

definition Matches :: "HelmChartReference option \<Rightarrow> HelmChartReference option \<Rightarrow> bool" where
  "Matches a b = (case a of None \<Rightarrow> False | Some x \<Rightarrow> (case b of None \<Rightarrow> False | Some y \<Rightarrow> x = y))"

definition GetObjectKey :: "HelmChartReference \<Rightarrow> string \<times> string" where
  "GetObjectKey r = (Ref_Namespace r, Ref_Name r)"

record DependencyReference =
  Dep_Name :: string
  Dep_Namespace :: string
  Dep_ReadyExpr :: string

record KubeConfigReference =
  KC_ConfigMapRef :: "string option"
  KC_SecretRef :: "(string \<times> string) option"

record ValuesReference =
  VR_Kind :: string
  VR_Name :: string
  VR_Rest :: json

record ResourceRef =
  RR_ID :: string
  RR_Version :: string

type_synonym ResourceInventory = "ResourceRef list"

subsection \<open>The chart template\<close>

text \<open>\<^verbatim>\<open>OCIRepositorySpec\<close> and the verification reference belong to the source-controller API;
  the fields that the template code reads are kept apart, the others are carried as JSON.\<close>

record OCIRepositorySpec =
  OCI_Interval :: "duration option"
  OCI_LayerSelector :: "(string \<times> string) option"
  OCI_Verify :: "(string \<times> json) option"
  OCI_Rest :: json

record HelmChartTemplateObjectMeta =
  TplMeta_Labels :: "strmap option"
  TplMeta_Annotations :: "strmap option"

record HelmChartTemplateSpec =
  TplSpec_OCI :: OCIRepositorySpec
  TplSpec_Chart :: string
  TplSpec_Version :: string
  TplSpec_SourceRef :: "CrossNamespaceObjectReference option"
  TplSpec_ReconcileStrategy :: string
  TplSpec_ValuesFiles :: "string list"
  TplSpec_IgnoreMissingValuesFiles :: bool

record HelmChartTemplate =
  Tpl_Kind :: string
  Tpl_ObjectMeta :: "HelmChartTemplateObjectMeta option"
  Tpl_Spec :: HelmChartTemplateSpec

definition HelmChartKind :: string where "HelmChartKind = ''HelmChart''"
definition OCIRepositoryKind :: string where "OCIRepositoryKind = ''OCIRepository''"
definition ExternalArtifactKind :: string where "ExternalArtifactKind = ''ExternalArtifact''"

definition GetVersion :: "HelmChartTemplateSpec \<Rightarrow> string" where
  "GetVersion t = (if TplSpec_Version t = '''' then ''*'' else TplSpec_Version t)"

definition GetReconcileStrategy :: "HelmChartTemplateSpec \<Rightarrow> string" where
  "GetReconcileStrategy t =
     (if TplSpec_ReconcileStrategy t = '''' then ''ChartVersion'' else TplSpec_ReconcileStrategy t)"

subsection \<open>Post-renderers, drift detection, waiting\<close>

record KustomizeSpec =
  Kust_Patches :: "json list"
  Kust_Images :: "json list"

record PostRenderer =
  PR_Kustomize :: "KustomizeSpec option"

record CommonMetadata =
  CM_Annotations :: "strmap option"
  CM_Labels :: "strmap option"

datatype PostRenderStrategy =
    PostRenderStrategyUnset
  | PostRenderStrategyNoHooks
  | PostRenderStrategyCombined
  | PostRenderStrategySeparate

datatype DriftDetectionMode =
    DriftDetectionUnset
  | DriftDetectionEnabled
  | DriftDetectionWarn
  | DriftDetectionDisabled

record Selector =
  Sel_Group :: string
  Sel_Version :: string
  Sel_Kind :: string
  Sel_Namespace :: string
  Sel_Name :: string
  Sel_AnnotationSelector :: string
  Sel_LabelSelector :: string

record IgnoreRule =
  IR_Paths :: "string list"
  IR_Target :: "Selector option"

record DriftDetection =
  DD_Mode :: DriftDetectionMode
  DD_Ignore :: "IgnoreRule list"

definition GetMode :: "DriftDetection \<Rightarrow> DriftDetectionMode" where
  "GetMode d = (if DD_Mode d = DriftDetectionUnset then DriftDetectionDisabled else DD_Mode d)"

definition MustDetectChanges :: "DriftDetection \<Rightarrow> bool" where
  "MustDetectChanges d \<longleftrightarrow> GetMode d = DriftDetectionEnabled \<or> GetMode d = DriftDetectionWarn"

datatype WaitStrategyName = WaitStrategyUnset | WaitStrategyPoller | WaitStrategyLegacy

subsection \<open>Install, upgrade, test, rollback and uninstall configuration\<close>

datatype CRDsPolicy = CRDsUnset | Skip | Create | CreateReplace | CRDsOther string

datatype ServerSideApplyMode =
    ServerSideApplyUnset
  | ServerSideApplyEnabled
  | ServerSideApplyDisabled
  | ServerSideApplyAuto

datatype ChartNameChangeStrategy =
    ChartNameChangeStrategyUnset
  | ChartNameChangeStrategyInPlaceUpdate
  | ChartNameChangeStrategyReinstall

datatype RemediationStrategy =
    RollbackRemediationStrategy
  | UninstallRemediationStrategy
  | OtherRemediationStrategy string

fun RemediationStrategy_String :: "RemediationStrategy \<Rightarrow> string" where
  "RemediationStrategy_String RollbackRemediationStrategy = ''rollback''"
| "RemediationStrategy_String UninstallRemediationStrategy = ''uninstall''"
| "RemediationStrategy_String (OtherRemediationStrategy s) = s"

text \<open>\<^verbatim>\<open>InstallStrategy\<close> and \<^verbatim>\<open>UpgradeStrategy\<close> have the same fields and the same
  \<^verbatim>\<open>GetRetryInterval\<close>; both implement the interface \<^verbatim>\<open>Retry\<close>.\<close>

record ActionStrategy =
  Strat_Name :: string
  Strat_RetryInterval :: "duration option"

definition ActionStrategyRetryOnFailure :: string where
  "ActionStrategyRetryOnFailure = ''RetryOnFailure''"

definition ActionStrategyRemediateOnFailure :: string where
  "ActionStrategyRemediateOnFailure = ''RemediateOnFailure''"

definition GetRetryInterval :: "ActionStrategy \<Rightarrow> duration" where
  "GetRetryInterval s = (case Strat_RetryInterval s of None \<Rightarrow> 5 * Minute | Some d \<Rightarrow> d)"

record InstallRemediation =
  IRem_Retries :: int64
  IRem_IgnoreTestFailures :: "bool option"
  IRem_RemediateLastFailure :: "bool option"

record UpgradeRemediation =
  URem_Retries :: int64
  URem_IgnoreTestFailures :: "bool option"
  URem_RemediateLastFailure :: "bool option"
  URem_Strategy :: "RemediationStrategy option"

record InstallSpec =
  Inst_Timeout :: "duration option"
  Inst_Strategy :: "ActionStrategy option"
  Inst_Remediation :: "InstallRemediation option"
  Inst_DisableTakeOwnership :: bool
  Inst_DisableWait :: bool
  Inst_DisableWaitForJobs :: bool
  Inst_DisableHooks :: bool
  Inst_DisableOpenAPIValidation :: bool
  Inst_DisableSchemaValidation :: bool
  Inst_Replace :: bool
  Inst_SkipCRDs :: bool
  Inst_CRDs :: CRDsPolicy
  Inst_CreateNamespace :: bool
  Inst_ServerSideApply :: "bool option"

record UpgradeSpec =
  Upg_Timeout :: "duration option"
  Upg_Strategy :: "ActionStrategy option"
  Upg_Remediation :: "UpgradeRemediation option"
  Upg_DisableTakeOwnership :: bool
  Upg_DisableWait :: bool
  Upg_DisableWaitForJobs :: bool
  Upg_DisableHooks :: bool
  Upg_DisableOpenAPIValidation :: bool
  Upg_DisableSchemaValidation :: bool
  Upg_Force :: bool
  Upg_PreserveValues :: bool
  Upg_CleanupOnFail :: bool
  Upg_CRDs :: CRDsPolicy
  Upg_ServerSideApply :: ServerSideApplyMode
  Upg_ChartNameChangeStrategy :: ChartNameChangeStrategy

record Filter =
  Filter_Name :: string
  Filter_Exclude :: bool

record TestSpec =
  Test_Enable :: bool
  Test_Timeout :: "duration option"
  Test_IgnoreFailures :: bool
  Test_Filters :: "Filter list option"

record RollbackSpec =
  Rb_Timeout :: "duration option"
  Rb_DisableWait :: bool
  Rb_DisableWaitForJobs :: bool
  Rb_DisableHooks :: bool
  Rb_Recreate :: bool
  Rb_Force :: bool
  Rb_CleanupOnFail :: bool
  Rb_ServerSideApply :: ServerSideApplyMode

record UninstallSpec =
  Uni_Timeout :: "duration option"
  Uni_DisableHooks :: bool
  Uni_KeepHistory :: bool
  Uni_DisableWait :: bool
  Uni_DeletionPropagation :: "string option"

definition InstallSpec_zero :: InstallSpec where
  "InstallSpec_zero =
     \<lparr>Inst_Timeout = None, Inst_Strategy = None, Inst_Remediation = None,
      Inst_DisableTakeOwnership = False, Inst_DisableWait = False,
      Inst_DisableWaitForJobs = False, Inst_DisableHooks = False,
      Inst_DisableOpenAPIValidation = False, Inst_DisableSchemaValidation = False,
      Inst_Replace = False, Inst_SkipCRDs = False, Inst_CRDs = CRDsUnset,
      Inst_CreateNamespace = False, Inst_ServerSideApply = None\<rparr>"

definition UpgradeSpec_zero :: UpgradeSpec where
  "UpgradeSpec_zero =
     \<lparr>Upg_Timeout = None, Upg_Strategy = None, Upg_Remediation = None,
      Upg_DisableTakeOwnership = False, Upg_DisableWait = False,
      Upg_DisableWaitForJobs = False, Upg_DisableHooks = False,
      Upg_DisableOpenAPIValidation = False, Upg_DisableSchemaValidation = False,
      Upg_Force = False, Upg_PreserveValues = False, Upg_CleanupOnFail = False,
      Upg_CRDs = CRDsUnset, Upg_ServerSideApply = ServerSideApplyUnset,
      Upg_ChartNameChangeStrategy = ChartNameChangeStrategyUnset\<rparr>"

definition TestSpec_zero :: TestSpec where
  "TestSpec_zero =
     \<lparr>Test_Enable = False, Test_Timeout = None, Test_IgnoreFailures = False, Test_Filters = None\<rparr>"

definition RollbackSpec_zero :: RollbackSpec where
  "RollbackSpec_zero =
     \<lparr>Rb_Timeout = None, Rb_DisableWait = False, Rb_DisableWaitForJobs = False,
      Rb_DisableHooks = False, Rb_Recreate = False, Rb_Force = False,
      Rb_CleanupOnFail = False, Rb_ServerSideApply = ServerSideApplyUnset\<rparr>"

definition UninstallSpec_zero :: UninstallSpec where
  "UninstallSpec_zero =
     \<lparr>Uni_Timeout = None, Uni_DisableHooks = False, Uni_KeepHistory = False,
      Uni_DisableWait = False, Uni_DeletionPropagation = None\<rparr>"

definition DriftDetection_zero :: DriftDetection where
  "DriftDetection_zero = \<lparr>DD_Mode = DriftDetectionUnset, DD_Ignore = []\<rparr>"

definition InstallRemediation_zero :: InstallRemediation where
  "InstallRemediation_zero =
     \<lparr>IRem_Retries = 0, IRem_IgnoreTestFailures = None, IRem_RemediateLastFailure = None\<rparr>"

definition UpgradeRemediation_zero :: UpgradeRemediation where
  "UpgradeRemediation_zero =
     \<lparr>URem_Retries = 0, URem_IgnoreTestFailures = None, URem_RemediateLastFailure = None,
      URem_Strategy = None\<rparr>"

lemmas zero_defs = InstallSpec_zero_def UpgradeSpec_zero_def TestSpec_zero_def
  RollbackSpec_zero_def UninstallSpec_zero_def DriftDetection_zero_def
  InstallRemediation_zero_def UpgradeRemediation_zero_def

subsection \<open>The HelmRelease\<close>

record HelmReleaseSpec =
  Spec_Chart :: "HelmChartTemplate option"
  Spec_ChartRef :: "CrossNamespaceSourceReference option"
  Spec_Interval :: duration
  Spec_KubeConfig :: "KubeConfigReference option"
  Spec_Suspend :: bool
  Spec_ReleaseName :: string
  Spec_TargetNamespace :: string
  Spec_StorageNamespace :: string
  Spec_DependsOn :: "DependencyReference list"
  Spec_Timeout :: "duration option"
  Spec_MaxHistory :: "int64 option"
  Spec_ServiceAccountName :: string
  Spec_PersistentClient :: "bool option"
  Spec_DriftDetection :: "DriftDetection option"
  Spec_Install :: "InstallSpec option"
  Spec_Upgrade :: "UpgradeSpec option"
  Spec_Test :: "TestSpec option"
  Spec_Rollback :: "RollbackSpec option"
  Spec_Uninstall :: "UninstallSpec option"
  Spec_ValuesFrom :: "ValuesReference list"
  Spec_Values :: "json option"
  Spec_CommonMetadata :: "CommonMetadata option"
  Spec_PostRenderers :: "PostRenderer list option"
  Spec_PostRenderStrategy :: PostRenderStrategy
  Spec_WaitStrategy :: "WaitStrategyName option"
  Spec_HealthCheckExprs :: "json list"

record HelmReleaseStatus =
  St_ObservedGeneration :: int64
  St_ObservedPostRenderersDigest :: string
  St_ObservedCommonMetadataDigest :: string
  St_LastAttemptedGeneration :: int64
  St_Conditions :: "Condition list"
  St_HelmChart :: string
  St_StorageNamespace :: string
  St_History :: Snapshots
  St_Inventory :: "ResourceInventory option"
  St_LastAttemptedReleaseAction :: ReleaseAction
  St_LastAttemptedReleaseActionDuration :: "duration option"
  St_Failures :: int64
  St_InstallFailures :: int64
  St_UpgradeFailures :: int64
  St_LastAttemptedRevision :: string
  St_LastAttemptedRevisionDigest :: string
  St_LastAttemptedValuesChecksum :: string
  St_LastReleaseRevision :: int64
  St_LastAttemptedConfigDigest :: string
  St_LastHandledResetAt :: string
  St_LastHandledReconcileAt :: string
  St_LastHandledForceAt :: string

record HelmRelease =
  HR_Name :: string
  HR_Namespace :: string
  HR_Generation :: int64
  HR_DeletionTimestamp :: "time option"
  HR_Annotations :: strmap
  HR_Finalizers :: "string list"
  HR_Spec :: HelmReleaseSpec
  HR_Status :: HelmReleaseStatus

text \<open>Updating one field of the status of an object.\<close>

definition with_status :: "(HelmReleaseStatus \<Rightarrow> HelmReleaseStatus) \<Rightarrow> HelmRelease \<Rightarrow> HelmRelease" where
  "with_status f hr = hr\<lparr>HR_Status := f (HR_Status hr)\<rparr>"

lemma with_status_simps [simp]:
  "HR_Status (with_status f hr) = f (HR_Status hr)"
  "HR_Spec (with_status f hr) = HR_Spec hr"
  "HR_Name (with_status f hr) = HR_Name hr"
  "HR_Namespace (with_status f hr) = HR_Namespace hr"
  "HR_Generation (with_status f hr) = HR_Generation hr"
  "HR_DeletionTimestamp (with_status f hr) = HR_DeletionTimestamp hr"
  "HR_Annotations (with_status f hr) = HR_Annotations hr"
  "HR_Finalizers (with_status f hr) = HR_Finalizers hr"
  by (simp_all add: with_status_def)

abbreviation History :: "HelmRelease \<Rightarrow> Snapshots" where
  "History hr \<equiv> St_History (HR_Status hr)"

abbreviation Conditions :: "HelmRelease \<Rightarrow> Condition list" where
  "Conditions hr \<equiv> St_Conditions (HR_Status hr)"

definition set_history :: "Snapshots \<Rightarrow> HelmRelease \<Rightarrow> HelmRelease" where
  "set_history h = with_status (\<lambda>st. st\<lparr>St_History := h\<rparr>)"

definition SetConditions :: "Condition list \<Rightarrow> HelmRelease \<Rightarrow> HelmRelease" where
  "SetConditions cs = with_status (\<lambda>st. st\<lparr>St_Conditions := cs\<rparr>)"

subsection \<open>Operations on the status\<close>

definition ClearHistory :: "HelmReleaseStatus \<Rightarrow> HelmReleaseStatus" where
  "ClearHistory st = st\<lparr>St_History := []\<rparr>"

definition ClearFailures :: "HelmReleaseStatus \<Rightarrow> HelmReleaseStatus" where
  "ClearFailures st = st\<lparr>St_Failures := 0, St_InstallFailures := 0, St_UpgradeFailures := 0\<rparr>"

definition HasChart :: "HelmReleaseStatus \<Rightarrow> bool" where
  "HasChart st \<longleftrightarrow> St_HelmChart st \<noteq> ''''"

definition SetChart :: "HelmChartReference option \<Rightarrow> HelmReleaseStatus \<Rightarrow> HelmReleaseStatus" where
  "SetChart ref st =
     st\<lparr>St_HelmChart := TrimPrefix (HelmChartReference_String ref) (HelmChartKind @ ''/'')\<rparr>"

definition Status_GetHelmChartReference :: "HelmReleaseStatus \<Rightarrow> HelmChartReference option" where
  "Status_GetHelmChartReference st =
     (if St_HelmChart st = '''' then None
      else (case Split (St_HelmChart st) (CHR ''/'') of
          [ns, name] \<Rightarrow> Some \<lparr>Ref_Kind = HelmChartKind, Ref_Name = name, Ref_Namespace = ns\<rparr>
        | [kind, ns, name] \<Rightarrow> Some \<lparr>Ref_Kind = kind, Ref_Name = name, Ref_Namespace = ns\<rparr>
        | _ \<Rightarrow> None))"

subsection \<open>Accessors with defaults\<close>

definition Spec_GetHelmChartReference :: "HelmRelease \<Rightarrow> HelmChartReference option" where
  "Spec_GetHelmChartReference hr = (case Spec_ChartRef (HR_Spec hr) of None \<Rightarrow> None
     | Some r \<Rightarrow> Some
         \<lparr>Ref_Kind = (if CSR_Kind r = '''' then HelmChartKind else CSR_Kind r),
          Ref_Name = CSR_Name r,
          Ref_Namespace = (if CSR_Namespace r = '''' then HR_Namespace hr else CSR_Namespace r)\<rparr>)"

definition GetHelmChartTemplateReference :: "HelmRelease \<Rightarrow> HelmChartReference option" where
  "GetHelmChartTemplateReference hr = (case Spec_Chart (HR_Spec hr) of None \<Rightarrow> None
     | Some t \<Rightarrow>
        (let kind = (if Tpl_Kind t = '''' then HelmChartKind else Tpl_Kind t);
             ns = (case TplSpec_SourceRef (Tpl_Spec t) of
                 Some sr \<Rightarrow> if kind = HelmChartKind \<and> COR_Namespace sr \<noteq> '''' then COR_Namespace sr
                           else HR_Namespace hr
               | None \<Rightarrow> HR_Namespace hr)
         in Some \<lparr>Ref_Kind = kind, Ref_Name = Join [HR_Namespace hr, HR_Name hr] ''-'',
                  Ref_Namespace = ns\<rparr>))"

definition GetTemplateInterval :: "HelmRelease \<Rightarrow> duration" where
  "GetTemplateInterval hr = (case Spec_Chart (HR_Spec hr) of None \<Rightarrow> Spec_Interval (HR_Spec hr)
     | Some t \<Rightarrow> (case OCI_Interval (TplSpec_OCI (Tpl_Spec t)) of
         None \<Rightarrow> Spec_Interval (HR_Spec hr) | Some d \<Rightarrow> d))"

definition GetWaitStrategy :: "HelmRelease \<Rightarrow> WaitStrategyName" where
  "GetWaitStrategy hr = (case Spec_WaitStrategy (HR_Spec hr) of None \<Rightarrow> WaitStrategyUnset | Some w \<Rightarrow> w)"

definition GetDriftDetection :: "HelmRelease \<Rightarrow> DriftDetection" where
  "GetDriftDetection hr = (case Spec_DriftDetection (HR_Spec hr) of None \<Rightarrow> DriftDetection_zero | Some d \<Rightarrow> d)"

definition GetInstall :: "HelmRelease \<Rightarrow> InstallSpec" where
  "GetInstall hr = (case Spec_Install (HR_Spec hr) of None \<Rightarrow> InstallSpec_zero | Some i \<Rightarrow> i)"

definition GetUpgrade :: "HelmRelease \<Rightarrow> UpgradeSpec" where
  "GetUpgrade hr = (case Spec_Upgrade (HR_Spec hr) of None \<Rightarrow> UpgradeSpec_zero | Some u \<Rightarrow> u)"

definition GetTest :: "HelmRelease \<Rightarrow> TestSpec" where
  "GetTest hr = (case Spec_Test (HR_Spec hr) of None \<Rightarrow> TestSpec_zero | Some t \<Rightarrow> t)"

definition GetRollback :: "HelmRelease \<Rightarrow> RollbackSpec" where
  "GetRollback hr = (case Spec_Rollback (HR_Spec hr) of None \<Rightarrow> RollbackSpec_zero | Some r \<Rightarrow> r)"

definition GetUninstall :: "HelmRelease \<Rightarrow> UninstallSpec" where
  "GetUninstall hr = (case Spec_Uninstall (HR_Spec hr) of None \<Rightarrow> UninstallSpec_zero | Some u \<Rightarrow> u)"

definition GetTimeout :: "HelmRelease \<Rightarrow> duration" where
  "GetTimeout hr = (case Spec_Timeout (HR_Spec hr) of None \<Rightarrow> 300 * Second | Some d \<Rightarrow> d)"

definition Install_GetTimeout :: "InstallSpec \<Rightarrow> duration \<Rightarrow> duration" where
  "Install_GetTimeout i d = (case Inst_Timeout i of None \<Rightarrow> d | Some t \<Rightarrow> t)"

definition Upgrade_GetTimeout :: "UpgradeSpec \<Rightarrow> duration \<Rightarrow> duration" where
  "Upgrade_GetTimeout u d = (case Upg_Timeout u of None \<Rightarrow> d | Some t \<Rightarrow> t)"

definition Test_GetTimeout :: "TestSpec \<Rightarrow> duration \<Rightarrow> duration" where
  "Test_GetTimeout t d = (case Test_Timeout t of None \<Rightarrow> d | Some x \<Rightarrow> x)"

definition Rollback_GetTimeout :: "RollbackSpec \<Rightarrow> duration \<Rightarrow> duration" where
  "Rollback_GetTimeout r d = (case Rb_Timeout r of None \<Rightarrow> d | Some t \<Rightarrow> t)"

definition Uninstall_GetTimeout :: "UninstallSpec \<Rightarrow> duration \<Rightarrow> duration" where
  "Uninstall_GetTimeout u d = (case Uni_Timeout u of None \<Rightarrow> d | Some t \<Rightarrow> t)"

definition GetDeletionPropagation :: "UninstallSpec \<Rightarrow> string" where
  "GetDeletionPropagation u = (case Uni_DeletionPropagation u of None \<Rightarrow> ''background'' | Some p \<Rightarrow> p)"

definition GetChartNameChangeStrategy :: "UpgradeSpec \<Rightarrow> ChartNameChangeStrategy" where
  "GetChartNameChangeStrategy u =
     (if Upg_ChartNameChangeStrategy u = ChartNameChangeStrategyUnset
      then ChartNameChangeStrategyReinstall else Upg_ChartNameChangeStrategy u)"

definition GetFilters :: "TestSpec \<Rightarrow> Filter list" where
  "GetFilters t = (case Test_Filters t of None \<Rightarrow> [] | Some fs \<Rightarrow> fs)"

definition GetReleaseName :: "HelmRelease \<Rightarrow> string" where
  "GetReleaseName hr =
     (if Spec_ReleaseName (HR_Spec hr) \<noteq> '''' then Spec_ReleaseName (HR_Spec hr)
      else if Spec_TargetNamespace (HR_Spec hr) \<noteq> ''''
        then Join [Spec_TargetNamespace (HR_Spec hr), HR_Name hr] ''-''
      else HR_Name hr)"

definition GetReleaseNamespace :: "HelmRelease \<Rightarrow> string" where
  "GetReleaseNamespace hr =
     (if Spec_TargetNamespace (HR_Spec hr) \<noteq> '''' then Spec_TargetNamespace (HR_Spec hr)
      else HR_Namespace hr)"

definition GetStorageNamespace :: "HelmRelease \<Rightarrow> string" where
  "GetStorageNamespace hr =
     (if Spec_StorageNamespace (HR_Spec hr) \<noteq> '''' then Spec_StorageNamespace (HR_Spec hr)
      else HR_Namespace hr)"

definition GetMaxHistory :: "HelmRelease \<Rightarrow> int64" where
  "GetMaxHistory hr = (case Spec_MaxHistory (HR_Spec hr) of None \<Rightarrow> int defaultMaxHistory | Some n \<Rightarrow> n)"

definition UsePersistentClient :: "HelmRelease \<Rightarrow> bool" where
  "UsePersistentClient hr = (case Spec_PersistentClient (HR_Spec hr) of None \<Rightarrow> True | Some b \<Rightarrow> b)"

definition GetRequeueAfter :: "HelmRelease \<Rightarrow> duration" where
  "GetRequeueAfter hr = Spec_Interval (HR_Spec hr)"

text \<open>The raw values of the specification are JSON; what does not decode to an object is dropped.\<close>

definition GetValues :: "HelmRelease \<Rightarrow> (string \<times> json) list option" where
  "GetValues hr = (case Spec_Values (HR_Spec hr) of Some (JObj kvs) \<Rightarrow> Some kvs | _ \<Rightarrow> None)"

definition GetDependsOn :: "HelmRelease \<Rightarrow> (string \<times> string) list" where
  "GetDependsOn hr = map (\<lambda>d. (Dep_Namespace d, Dep_Name d)) (Spec_DependsOn (HR_Spec hr))"

definition HasChartRef :: "HelmRelease \<Rightarrow> bool" where
  "HasChartRef hr \<longleftrightarrow> Spec_ChartRef (HR_Spec hr) \<noteq> None"

definition HasChartTemplate :: "HelmRelease \<Rightarrow> bool" where
  "HasChartTemplate hr \<longleftrightarrow> Spec_Chart (HR_Spec hr) \<noteq> None"

subsection \<open>Retry and remediation\<close>

text \<open>The two implementations of the interface \<^verbatim>\<open>Remediation\<close>.\<close>

definition InstallRemediation_MustIgnoreTestFailures :: "InstallRemediation \<Rightarrow> bool \<Rightarrow> bool" where
  "InstallRemediation_MustIgnoreTestFailures r d =
     (case IRem_IgnoreTestFailures r of None \<Rightarrow> d | Some b \<Rightarrow> b)"

definition InstallRemediation_MustRemediateLastFailure :: "InstallRemediation \<Rightarrow> bool" where
  "InstallRemediation_MustRemediateLastFailure r =
     (case IRem_RemediateLastFailure r of None \<Rightarrow> False | Some b \<Rightarrow> b)"

definition InstallRemediation_GetFailureCount :: "InstallRemediation \<Rightarrow> HelmRelease \<Rightarrow> int64" where
  "InstallRemediation_GetFailureCount r hr = St_InstallFailures (HR_Status hr)"

definition InstallRemediation_IncrementFailureCount :: "InstallRemediation \<Rightarrow> HelmRelease \<Rightarrow> HelmRelease" where
  "InstallRemediation_IncrementFailureCount r =
     with_status (\<lambda>st. st\<lparr>St_InstallFailures := inc64 (St_InstallFailures st)\<rparr>)"

definition InstallRemediation_RetriesExhausted :: "InstallRemediation \<Rightarrow> HelmRelease \<Rightarrow> bool" where
  "InstallRemediation_RetriesExhausted r hr \<longleftrightarrow>
     IRem_Retries r \<ge> 0 \<and> InstallRemediation_GetFailureCount r hr > IRem_Retries r"

definition UpgradeRemediation_MustIgnoreTestFailures :: "UpgradeRemediation \<Rightarrow> bool \<Rightarrow> bool" where
  "UpgradeRemediation_MustIgnoreTestFailures r d =
     (case URem_IgnoreTestFailures r of None \<Rightarrow> d | Some b \<Rightarrow> b)"

definition UpgradeRemediation_MustRemediateLastFailure :: "UpgradeRemediation \<Rightarrow> bool" where
  "UpgradeRemediation_MustRemediateLastFailure r =
     (case URem_RemediateLastFailure r of None \<Rightarrow> URem_Retries r > 0 | Some b \<Rightarrow> b)"

definition UpgradeRemediation_GetStrategy :: "UpgradeRemediation \<Rightarrow> RemediationStrategy" where
  "UpgradeRemediation_GetStrategy r =
     (case URem_Strategy r of None \<Rightarrow> RollbackRemediationStrategy | Some s \<Rightarrow> s)"

definition UpgradeRemediation_GetFailureCount :: "UpgradeRemediation \<Rightarrow> HelmRelease \<Rightarrow> int64" where
  "UpgradeRemediation_GetFailureCount r hr = St_UpgradeFailures (HR_Status hr)"

definition UpgradeRemediation_IncrementFailureCount :: "UpgradeRemediation \<Rightarrow> HelmRelease \<Rightarrow> HelmRelease" where
  "UpgradeRemediation_IncrementFailureCount r =
     with_status (\<lambda>st. st\<lparr>St_UpgradeFailures := inc64 (St_UpgradeFailures st)\<rparr>)"

definition UpgradeRemediation_RetriesExhausted :: "UpgradeRemediation \<Rightarrow> HelmRelease \<Rightarrow> bool" where
  "UpgradeRemediation_RetriesExhausted r hr \<longleftrightarrow>
     URem_Retries r \<ge> 0 \<and> UpgradeRemediation_GetFailureCount r hr > URem_Retries r"

datatype Remediation = RemInstall InstallRemediation | RemUpgrade UpgradeRemediation

fun GetRetries :: "Remediation \<Rightarrow> int64" where
  "GetRetries (RemInstall r) = IRem_Retries r"
| "GetRetries (RemUpgrade r) = URem_Retries r"

fun MustIgnoreTestFailures :: "Remediation \<Rightarrow> bool \<Rightarrow> bool" where
  "MustIgnoreTestFailures (RemInstall r) d = InstallRemediation_MustIgnoreTestFailures r d"
| "MustIgnoreTestFailures (RemUpgrade r) d = UpgradeRemediation_MustIgnoreTestFailures r d"

fun MustRemediateLastFailure :: "Remediation \<Rightarrow> bool" where
  "MustRemediateLastFailure (RemInstall r) = InstallRemediation_MustRemediateLastFailure r"
| "MustRemediateLastFailure (RemUpgrade r) = UpgradeRemediation_MustRemediateLastFailure r"

fun GetStrategy :: "Remediation \<Rightarrow> RemediationStrategy" where
  "GetStrategy (RemInstall r) = UninstallRemediationStrategy"
| "GetStrategy (RemUpgrade r) = UpgradeRemediation_GetStrategy r"

fun GetFailureCount :: "Remediation \<Rightarrow> HelmRelease \<Rightarrow> int64" where
  "GetFailureCount (RemInstall r) hr = InstallRemediation_GetFailureCount r hr"
| "GetFailureCount (RemUpgrade r) hr = UpgradeRemediation_GetFailureCount r hr"

fun IncrementFailureCount :: "Remediation \<Rightarrow> HelmRelease \<Rightarrow> HelmRelease" where
  "IncrementFailureCount (RemInstall r) hr = InstallRemediation_IncrementFailureCount r hr"
| "IncrementFailureCount (RemUpgrade r) hr = UpgradeRemediation_IncrementFailureCount r hr"

fun RetriesExhausted :: "Remediation \<Rightarrow> HelmRelease \<Rightarrow> bool" where
  "RetriesExhausted (RemInstall r) hr = InstallRemediation_RetriesExhausted r hr"
| "RetriesExhausted (RemUpgrade r) hr = UpgradeRemediation_RetriesExhausted r hr"

fun IsUninstallAfterUpgrade :: "Remediation \<Rightarrow> bool" where
  "IsUninstallAfterUpgrade (RemInstall r) = False"
| "IsUninstallAfterUpgrade (RemUpgrade r) = (UpgradeRemediation_GetStrategy r = UninstallRemediationStrategy)"

definition Install_GetRemediation :: "InstallSpec \<Rightarrow> Remediation" where
  "Install_GetRemediation i =
     RemInstall (case Inst_Remediation i of None \<Rightarrow> InstallRemediation_zero | Some r \<Rightarrow> r)"

definition Upgrade_GetRemediation :: "UpgradeSpec \<Rightarrow> Remediation" where
  "Upgrade_GetRemediation u =
     RemUpgrade (case Upg_Remediation u of None \<Rightarrow> UpgradeRemediation_zero | Some r \<Rightarrow> r)"

definition Install_GetRetry :: "InstallSpec \<Rightarrow> bool \<Rightarrow> ActionStrategy option" where
  "Install_GetRetry i defaultToRetryOnFailure = (case Inst_Strategy i of
       None \<Rightarrow> if defaultToRetryOnFailure
               then Some \<lparr>Strat_Name = ActionStrategyRetryOnFailure, Strat_RetryInterval = None\<rparr>
               else None
     | Some s \<Rightarrow> if Strat_Name s \<noteq> ActionStrategyRetryOnFailure then None else Some s)"

definition Upgrade_GetRetry :: "UpgradeSpec \<Rightarrow> bool \<Rightarrow> ActionStrategy option" where
  "Upgrade_GetRetry u defaultToRetryOnFailure = (case Upg_Strategy u of
       None \<Rightarrow> if defaultToRetryOnFailure
               then Some \<lparr>Strat_Name = ActionStrategyRetryOnFailure, Strat_RetryInterval = None\<rparr>
               else None
     | Some s \<Rightarrow> if Strat_Name s \<noteq> ActionStrategyRetryOnFailure then None else Some s)"

definition GetActiveRemediation :: "HelmRelease \<Rightarrow> Remediation option" where
  "GetActiveRemediation hr = (case St_LastAttemptedReleaseAction (HR_Status hr) of
       ReleaseActionInstall \<Rightarrow> Some (Install_GetRemediation (GetInstall hr))
     | ReleaseActionUpgrade \<Rightarrow> Some (Upgrade_GetRemediation (GetUpgrade hr))
     | _ \<Rightarrow> None)"

definition GetActiveRetry :: "HelmRelease \<Rightarrow> bool \<Rightarrow> ActionStrategy option" where
  "GetActiveRetry hr defaultToRetryOnFailure = (case St_LastAttemptedReleaseAction (HR_Status hr) of
       ReleaseActionInstall \<Rightarrow> Install_GetRetry (GetInstall hr) defaultToRetryOnFailure
     | ReleaseActionUpgrade \<Rightarrow> Upgrade_GetRetry (GetUpgrade hr) defaultToRetryOnFailure
     | _ \<Rightarrow> None)"

text \<open>The accessors of the specification do not look at the status.\<close>

lemma getters_with_status [simp]:
  "GetTest (with_status f hr) = GetTest hr" "GetInstall (with_status f hr) = GetInstall hr"
  "GetUpgrade (with_status f hr) = GetUpgrade hr" "GetRollback (with_status f hr) = GetRollback hr"
  "GetUninstall (with_status f hr) = GetUninstall hr" "GetTimeout (with_status f hr) = GetTimeout hr"
  "GetDriftDetection (with_status f hr) = GetDriftDetection hr"
  "GetReleaseName (with_status f hr) = GetReleaseName hr"
  "GetReleaseNamespace (with_status f hr) = GetReleaseNamespace hr"
  "GetStorageNamespace (with_status f hr) = GetStorageNamespace hr"
  "GetMaxHistory (with_status f hr) = GetMaxHistory hr"
  "GetWaitStrategy (with_status f hr) = GetWaitStrategy hr"
  by (simp_all add: GetTest_def GetInstall_def GetUpgrade_def GetRollback_def GetUninstall_def
      GetTimeout_def GetDriftDetection_def GetReleaseName_def GetReleaseNamespace_def
      GetStorageNamespace_def GetMaxHistory_def GetWaitStrategy_def)

lemma active_with_status:
  assumes "St_LastAttemptedReleaseAction (f (HR_Status hr)) = St_LastAttemptedReleaseAction (HR_Status hr)"
  shows "GetActiveRemediation (with_status f hr) = GetActiveRemediation hr"
    and "GetActiveRetry (with_status f hr) d = GetActiveRetry hr d"
  using assms by (simp_all add: GetActiveRemediation_def GetActiveRetry_def split: ReleaseAction.split)

subsection \<open>The contract of a remediation\<close>

text \<open>What the reconciler relies on when it holds a \<^verbatim>\<open>Remediation\<close>: the failure count is a
  counter, and the retries are exhausted when it exceeds a non-negative limit. The object that holds
  the counters is a HelmRelease of any version of the API.\<close>

locale remediation =
  fixes retries :: "'r \<Rightarrow> int64"
    and count :: "'r \<Rightarrow> 'o \<Rightarrow> int64"
    and incr :: "'r \<Rightarrow> 'o \<Rightarrow> 'o"
    and exhausted :: "'r \<Rightarrow> 'o \<Rightarrow> bool"
  assumes exhausted_iff: "exhausted r hr \<longleftrightarrow> retries r \<ge> 0 \<and> count r hr > retries r"
    and count_incr: "count r (incr r hr) = inc64 (count r hr)"
begin

lemma count_after:
  "count r hr = 0 \<Longrightarrow> int n < 2 ^ 63 \<Longrightarrow> count r ((incr r ^^ n) hr) = int n"
  by (induction n) (simp_all add: count_incr inc64_Suc is_int64_def)

lemma unlimited: "retries r < 0 \<Longrightarrow> \<not> exhausted r hr"
  by (simp add: exhausted_iff)

lemma exhausted_after:
  "count r hr = 0 \<Longrightarrow> int n < 2 ^ 63 \<Longrightarrow>
   exhausted r ((incr r ^^ n) hr) \<longleftrightarrow> 0 \<le> retries r \<and> retries r < int n"
  by (simp add: exhausted_iff count_after)

end

interpretation install_remediation: remediation IRem_Retries InstallRemediation_GetFailureCount
  InstallRemediation_IncrementFailureCount InstallRemediation_RetriesExhausted
  by unfold_locales (simp_all add: InstallRemediation_RetriesExhausted_def
      InstallRemediation_GetFailureCount_def InstallRemediation_IncrementFailureCount_def)

interpretation upgrade_remediation: remediation URem_Retries UpgradeRemediation_GetFailureCount
  UpgradeRemediation_IncrementFailureCount UpgradeRemediation_RetriesExhausted
  by unfold_locales (simp_all add: UpgradeRemediation_RetriesExhausted_def
      UpgradeRemediation_GetFailureCount_def UpgradeRemediation_IncrementFailureCount_def)

interpretation active_remediation: remediation GetRetries GetFailureCount
  IncrementFailureCount RetriesExhausted
proof unfold_locales
  fix r hr
  show "RetriesExhausted r hr \<longleftrightarrow> GetRetries r \<ge> 0 \<and> GetFailureCount r hr > GetRetries r"
    by (cases r) (simp_all add: install_remediation.exhausted_iff upgrade_remediation.exhausted_iff)
  show "GetFailureCount r (IncrementFailureCount r hr) = inc64 (GetFailureCount r hr)"
    by (cases r) (simp_all add: install_remediation.count_incr upgrade_remediation.count_incr)
qed

lemma IncrementFailureCount_frame [frame_simps]:
  "HR_Spec (IncrementFailureCount r hr) = HR_Spec hr"
  "St_History (HR_Status (IncrementFailureCount r hr)) = St_History (HR_Status hr)"
  "St_LastAttemptedReleaseAction (HR_Status (IncrementFailureCount r hr)) =
     St_LastAttemptedReleaseAction (HR_Status hr)"
  by (cases r; simp add: InstallRemediation_IncrementFailureCount_def
      UpgradeRemediation_IncrementFailureCount_def)+

lemma ClearFailures_count:
  "GetFailureCount r (with_status ClearFailures hr) = 0"
  by (cases r) (simp_all add: ClearFailures_def InstallRemediation_GetFailureCount_def
      UpgradeRemediation_GetFailureCount_def)

lemma HelmChartReference_String_slashes:
  assumes "CHR ''/'' \<notin> set k" "CHR ''/'' \<notin> set ns" "CHR ''/'' \<notin> set n"
  shows "Split (ns @ ''/'' @ n) (CHR ''/'') = [ns, n]"
    and "Split (k @ ''/'' @ ns @ ''/'' @ n) (CHR ''/'') = [k, ns, n]"
  using assms by (simp_all add: Split_append_sep Split_no_sep)

lemma HasPrefix_other_kind:
  assumes "CHR ''/'' \<notin> set k" "CHR ''/'' \<notin> set p" "HasPrefix (k @ CHR ''/'' # t) (p @ ''/'')"
  shows "k = p"
  using assms
proof (induction k arbitrary: p)
  case Nil
  then show ?case by (cases p) auto
next
  case (Cons c k)
  then show ?case by (cases p) auto
qed

subsection \<open>Properties\<close>

text \<open>Once the failure counters have been cleared, a remediation with a limit of
  \<open>R \<ge> 0\<close> retries is exhausted by exactly the \<open>R + 1\<close>st failure and stays so, and one with
  a negative limit is never exhausted, for as many failures as the 64-bit counter can hold.\<close>

theorem RetriesExhausted_after_failures:
  assumes "int n < 2 ^ 63"
  shows "RetriesExhausted r ((IncrementFailureCount r ^^ n) (with_status ClearFailures hr))
         \<longleftrightarrow> 0 \<le> GetRetries r \<and> GetRetries r < int n"
  using assms by (intro active_remediation.exhausted_after ClearFailures_count)

theorem RetriesExhausted_after_failures_witness:
  "\<forall>hr. RetriesExhausted (RemInstall (InstallRemediation_zero\<lparr>IRem_Retries := 3\<rparr>))
     ((IncrementFailureCount (RemInstall (InstallRemediation_zero\<lparr>IRem_Retries := 3\<rparr>)) ^^ 4)
        (with_status ClearFailures hr))"
  by (subst RetriesExhausted_after_failures) simp_all

lemma SetChart_read_back:
  assumes "CHR ''/'' \<notin> set (Ref_Kind r)" "CHR ''/'' \<notin> set (Ref_Namespace r)"
    "CHR ''/'' \<notin> set (Ref_Name r)"
  shows "Status_GetHelmChartReference (SetChart (Some r) st) = Some r"
proof (cases "Ref_Kind r = HelmChartKind")
  case True
  have "TrimPrefix (HelmChartReference_String (Some r)) (HelmChartKind @ ''/'')
      = Ref_Namespace r @ ''/'' @ Ref_Name r"
    using TrimPrefix_append [of "HelmChartKind @ ''/''"] True
    by (simp add: HelmChartReference_String_def)
  with True HelmChartReference_String_slashes [OF assms] show ?thesis
    by (simp add: SetChart_def Status_GetHelmChartReference_def)
next
  case False
  have "CHR ''/'' \<notin> set HelmChartKind" by (simp add: HelmChartKind_def)
  then have "TrimPrefix (HelmChartReference_String (Some r)) (HelmChartKind @ ''/'')
      = Ref_Kind r @ ''/'' @ Ref_Namespace r @ ''/'' @ Ref_Name r"
    using False HasPrefix_other_kind [OF assms(1)]
    by (fastforce simp: HelmChartReference_String_def TrimPrefix_def)
  with HelmChartReference_String_slashes [OF assms] show ?thesis
    by (simp add: SetChart_def Status_GetHelmChartReference_def)
qed

text \<open>The chart reference written to the status by \<^verbatim>\<open>SetChart\<close>, with the kind left out for
  a HelmChart, is read back by \<^verbatim>\<open>GetHelmChartReference\<close> unchanged, when its parts are names
  without a slash (as Kubernetes names and namespaces are).\<close>

theorem SetChart_roundtrip:
  assumes "CHR ''/'' \<notin> set (Ref_Kind r)" "CHR ''/'' \<notin> set (Ref_Namespace r)"
    "CHR ''/'' \<notin> set (Ref_Name r)"
  shows "Status_GetHelmChartReference (SetChart (Some r) st) = Some r"
  using assms by (rule SetChart_read_back)

theorem SetChart_roundtrip_witness:
  "\<forall>st0. Status_GetHelmChartReference
     (SetChart (Some \<lparr>Ref_Kind = ''OCIRepository'', Ref_Name = ''podinfo'', Ref_Namespace = ''apps''\<rparr>) st0)
   = Some \<lparr>Ref_Kind = ''OCIRepository'', Ref_Name = ''podinfo'', Ref_Namespace = ''apps''\<rparr>"
  by (intro allI SetChart_roundtrip) simp_all

end
