(* ===== verification/Errors.thy ===== *)
theory Errors
  imports ApiTypes
begin

section \<open>Errors: internal/errors and the error values of the components\<close>

text \<open>
  A Go error is modelled by the list of sentinel errors that its chain of wrapped errors
  contains, which is what \<^verbatim>\<open>errors.Is\<close> looks at, together with its message. A call returns a
  value, an error or panics with a nil dereference; \<open>res\<close> has a constructor for each.
\<close>

datatype sentinel =
    ErrReleaseDisappeared
  | ErrReleaseNotFound
  | ErrReleaseNotObserved
  | ErrReleaseDigest
  | ErrChartChanged
  | ErrConfigDigest
  | ErrNoLatest
  | ErrReleaseMismatch
  | ErrNoStorageUpdate
  | ErrExceededMaxRetries
  | ErrRetryAfterInterval
  | ErrMustRequeue
  | ErrMissingRollbackTarget
  | ErrUnknownReleaseStatus
  | ErrUnknownRemediationStrategy
  | DriverReleaseNotFound
  | ContextCanceled
  | DeadlineExceeded
  | ApiNotFound
  | ApiAlreadyExists
  | AccessDenied
  | ErrWaitForDependency
  | ErrWaitForChart
  | ErrFileNotFound
  | ErrDigestMismatch
  | TerminalErr
  | OtherSentinel string

fun sentinel_msg :: "sentinel \<Rightarrow> string" where
  "sentinel_msg ErrReleaseDisappeared = ''release disappeared from storage''"
| "sentinel_msg ErrReleaseNotFound = ''no release found''"
| "sentinel_msg ErrReleaseNotObserved = ''release not observed to be made for object''"
| "sentinel_msg ErrReleaseDigest = ''release digest verification error''"
| "sentinel_msg ErrChartChanged = ''release chart changed''"
| "sentinel_msg ErrConfigDigest = ''release config values changed''"
| "sentinel_msg ErrNoLatest = ''no latest release''"
| "sentinel_msg ErrReleaseMismatch = ''release mismatch''"
| "sentinel_msg ErrNoStorageUpdate = ''release not updated in Helm storage''"
| "sentinel_msg ErrExceededMaxRetries = ''exceeded maximum retries''"
| "sentinel_msg ErrRetryAfterInterval = ''retry after interval''"
| "sentinel_msg ErrMustRequeue = ''must requeue''"
| "sentinel_msg ErrMissingRollbackTarget = ''missing target release for rollback''"
| "sentinel_msg ErrUnknownReleaseStatus = ''unknown release status''"
| "sentinel_msg ErrUnknownRemediationStrategy = ''unknown remediation strategy''"
| "sentinel_msg DriverReleaseNotFound = ''release: not found''"
| "sentinel_msg ContextCanceled = ''context canceled''"
| "sentinel_msg DeadlineExceeded = ''context deadline exceeded''"
| "sentinel_msg ApiNotFound = ''not found''"
| "sentinel_msg ApiAlreadyExists = ''already exists''"
| "sentinel_msg AccessDenied = ''access denied''"
| "sentinel_msg ErrWaitForDependency = ''must wait for dependency''"
| "sentinel_msg ErrWaitForChart = ''must wait for chart''"
| "sentinel_msg ErrFileNotFound = ''file not found''"
| "sentinel_msg ErrDigestMismatch = ''digest mismatch''"
| "sentinel_msg TerminalErr = ''terminal error''"
| "sentinel_msg (OtherSentinel s) = s"

record gerror =
  Err_Chain :: "sentinel list"
  Err_Msg :: string

definition errors_New :: "string \<Rightarrow> gerror" where
  "errors_New m = \<lparr>Err_Chain = [], Err_Msg = m\<rparr>"

definition sentinel_err :: "sentinel \<Rightarrow> gerror" where
  "sentinel_err s = \<lparr>Err_Chain = [s], Err_Msg = sentinel_msg s\<rparr>"

text \<open>\<^verbatim>\<open>fmt.Errorf("pre%wpost", err)\<close>.\<close>

definition Errorf_w :: "string \<Rightarrow> gerror \<Rightarrow> string \<Rightarrow> gerror" where
  "Errorf_w pre e post = \<lparr>Err_Chain = Err_Chain e, Err_Msg = pre @ Err_Msg e @ post\<rparr>"

definition errors_Is :: "gerror \<Rightarrow> sentinel \<Rightarrow> bool" where
  "errors_Is e s \<longleftrightarrow> s \<in> set (Err_Chain e)"

fun IsOneOf :: "gerror option \<Rightarrow> sentinel list \<Rightarrow> bool" where
  "IsOneOf e [] = False"
| "IsOneOf e (s # ss) = ((case e of None \<Rightarrow> False | Some e \<Rightarrow> errors_Is e s) \<or> IsOneOf e ss)"

definition Ignore :: "gerror option \<Rightarrow> sentinel list \<Rightarrow> gerror option" where
  "Ignore e ss = (if IsOneOf e ss then None else e)"

text \<open>\<^verbatim>\<open>reconcile.TerminalError(err)\<close>, \<^verbatim>\<open>acl.AccessDeniedError(msg)\<close> and
  \<^verbatim>\<open>client.IgnoreNotFound(err)\<close>.\<close>

definition TerminalError :: "gerror \<Rightarrow> gerror" where
  "TerminalError e = \<lparr>Err_Chain = TerminalErr # Err_Chain e, Err_Msg = ''terminal error: '' @ Err_Msg e\<rparr>"

definition AccessDeniedError :: "string \<Rightarrow> gerror" where
  "AccessDeniedError m = \<lparr>Err_Chain = [AccessDenied], Err_Msg = m\<rparr>"

definition IgnoreNotFound :: "gerror option \<Rightarrow> gerror option" where
  "IgnoreNotFound e = (case e of None \<Rightarrow> None | Some e \<Rightarrow> if errors_Is e ApiNotFound then None else Some e)"

definition errChartAPI :: gerror where
  "errChartAPI = errors_New ''only the Chart API v2 is supported''"

datatype 'a res = Ok 'a | Err gerror | Panic

fun bind_res :: "'a res \<Rightarrow> ('a \<Rightarrow> 'b res) \<Rightarrow> 'b res" where
  "bind_res (Ok x) f = f x"
| "bind_res (Err e) f = Err e"
| "bind_res Panic f = Panic"

lemma errors_Is_sentinel [simp]: "errors_Is (sentinel_err s) t \<longleftrightarrow> t = s"
  by (auto simp: errors_Is_def sentinel_err_def)

lemma errors_Is_Errorf [simp]: "errors_Is (Errorf_w p e q) t \<longleftrightarrow> errors_Is e t"
  by (simp add: errors_Is_def Errorf_w_def)

lemma errors_Is_New [simp]: "\<not> errors_Is (errors_New m) t"
  by (simp add: errors_Is_def errors_New_def)

lemma errors_Is_constructed [simp]:
  "errors_Is (TerminalError e) t \<longleftrightarrow> t = TerminalErr \<or> errors_Is e t"
  "errors_Is (AccessDeniedError m) t \<longleftrightarrow> t = AccessDenied"
  by (auto simp: errors_Is_def TerminalError_def AccessDeniedError_def)

lemma sentinel_err_inject: "sentinel_err s = sentinel_err t \<longleftrightarrow> s = t"
  by (auto simp: sentinel_err_def)

lemma Err_Msg_simps [simp]:
  "Err_Msg (errors_New m) = m"
  "Err_Msg (sentinel_err s) = sentinel_msg s"
  "Err_Msg (Errorf_w p e q) = p @ Err_Msg e @ q"
  by (simp_all add: errors_New_def sentinel_err_def Errorf_w_def)

lemma IsOneOf_iff: "IsOneOf (Some e) ss \<longleftrightarrow> (\<exists>s \<in> set ss. errors_Is e s)"
  by (induction ss) auto

lemma IsOneOf_None [simp]: "\<not> IsOneOf None ss"
  by (induction ss) auto

lemma Ignore_Some_iff: "Ignore (Some e) ss = None \<longleftrightarrow> (\<exists>s \<in> set ss. errors_Is e s)"
  by (simp add: Ignore_def IsOneOf_iff)

end
