(* ===== verification/Releases.thy ===== *)
theory Releases
  imports Errors
begin

section \<open>Observing releases: internal/release, internal/storage and internal/digest\<close>

text \<open>
  Helm release objects, the detached copy (\<^verbatim>\<open>Observation\<close>) the controller makes of them when
  Helm writes them to its storage, the snapshot recorded in the status, and the storage driver
  that notifies the observers. Of the Helm types only the fields the controller reads are
  kept apart; the rest is carried as JSON. The digest library, SHA-256 and the JSON encoding
  of the Helm types are parameters, collected in \<open>digest_api\<close>; what the controller relies on
  is \<open>digest_ok\<close>.
\<close>

type_synonym "values" = "(string \<times> json) list option"

record HelmInfo =
  Info_FirstDeployed :: time
  Info_LastDeployed :: time
  Info_Deleted :: time
  Info_Description :: string
  Info_Status :: string
  Info_Rest :: json

record HelmMetadata =
  Meta_Name :: string
  Meta_Version :: string
  Meta_AppVersion :: string
  Meta_Rest :: json

record HelmHook =
  Hook_Name :: string
  Hook_Events :: "string list"
  Hook_StartedAt :: time
  Hook_CompletedAt :: time
  Hook_Phase :: string
  Hook_Rest :: json

text \<open>A release whose chart or chart metadata is nil has \<open>Rel_Chart = None\<close>.\<close>

record HelmRel =
  Rel_Name :: string
  Rel_Namespace :: string
  Rel_Version :: int64
  Rel_Info :: "HelmInfo option"
  Rel_Chart :: "HelmMetadata option"
  Rel_Config :: "values"
  Rel_Manifest :: string
  Rel_Hooks :: "HelmHook list"
  Rel_ApplyMethod :: string

text \<open>The dynamic type behind the \<^verbatim>\<open>Releaser\<close> interface.\<close>

datatype Releaser = RelV1 HelmRel | RelOther

definition HelmInfo_zero :: HelmInfo where
  "HelmInfo_zero = \<lparr>Info_FirstDeployed = 0, Info_LastDeployed = 0, Info_Deleted = 0,
     Info_Description = '''', Info_Status = '''', Info_Rest = JNull\<rparr>"

definition HelmMetadata_zero :: HelmMetadata where
  "HelmMetadata_zero = \<lparr>Meta_Name = '''', Meta_Version = '''', Meta_AppVersion = '''', Meta_Rest = JNull\<rparr>"

subsection \<open>The digest library\<close>

record digest_api =
  dCanonical :: string
  dAvailable :: "string \<Rightarrow> bool"
  dParse :: "string \<Rightarrow> bool"
  dAlgorithm :: "string \<Rightarrow> string"
  dDigest :: "string \<Rightarrow> json \<Rightarrow> string"
  dVerified :: "string \<Rightarrow> json \<Rightarrow> bool"
  dDigestValues :: "string \<Rightarrow> values \<Rightarrow> string"
  dVerifyValues :: "string \<Rightarrow> values \<Rightarrow> bool"
  dSha256 :: "string \<Rightarrow> string"
  dEncInfo :: "HelmInfo \<Rightarrow> json option"
  dEncMetadata :: "HelmMetadata \<Rightarrow> json option"
  dEncHook :: "HelmHook \<Rightarrow> json option"

text \<open>What the controller relies on: a digest made with an available algorithm parses, names
  its algorithm, and verifies exactly the content that has this digest; the digest of values
  verifies these values; a SHA-256 sum has 64 hexadecimal digits.\<close>

definition digest_ok :: "digest_api \<Rightarrow> bool" where
  "digest_ok D \<longleftrightarrow>
     dAvailable D (dCanonical D) \<and>
     (\<forall>a j. dAvailable D a \<longrightarrow> dParse D (dDigest D a j) \<and> dAlgorithm D (dDigest D a j) = a) \<and>
     (\<forall>d j. dParse D d \<longrightarrow> dVerified D d j = (dDigest D (dAlgorithm D d) j = d)) \<and>
     (\<forall>a v. dAvailable D a \<longrightarrow> dVerifyValues D (dDigestValues D a v) v) \<and>
     (\<forall>s. length (dSha256 D s) = 64)"

text \<open>\<^verbatim>\<open>AlgorithmForName\<close>.\<close>

definition AlgorithmForName :: "digest_api \<Rightarrow> string \<Rightarrow> string res" where
  "AlgorithmForName D name =
     (if \<not> dAvailable D name then Err (Errorf_w [] (sentinel_err (OtherSentinel ''unsupported digest algorithm'')) ('': '' @ name))
      else Ok name)"

subsection \<open>Names\<close>

definition ShortenName :: "digest_api \<Rightarrow> string \<Rightarrow> string" where
  "ShortenName D name =
     (if length name \<le> 53 then name
      else take (53 - (12 + 1)) name @ ''-'' @ take 12 (dSha256 D name))"

subsection \<open>Hooks\<close>

definition HookTest :: string where "HookTest = ''test''"
definition HookPhaseFailed :: string where "HookPhaseFailed = ''Failed''"

fun IsHookForEvent :: "HelmHook option \<Rightarrow> string \<Rightarrow> bool" where
  "IsHookForEvent None event = False"
| "IsHookForEvent (Some h) event = list_ex (\<lambda>e. e = event) (Hook_Events h)"

text \<open>The test hooks by name: a later hook replaces an earlier one of the same name.\<close>

definition Rel_GetTestHooks :: "HelmRel \<Rightarrow> (string \<times> HelmHook) list" where
  "Rel_GetTestHooks rls =
     fold (\<lambda>h th. if IsHookForEvent (Some h) HookTest then AList.update (Hook_Name h) h th else th)
       (Rel_Hooks rls) []"

fun test_hook_selected :: "string \<Rightarrow> Filter list \<Rightarrow> bool \<Rightarrow> bool \<Rightarrow> bool" where
  "test_hook_selected name [] hasInclude included = (\<not> hasInclude \<or> included)"
| "test_hook_selected name (f # fs) hasInclude included =
     (if Filter_Exclude f
      then (if Filter_Name f = name then False else test_hook_selected name fs hasInclude included)
      else test_hook_selected name fs True (included \<or> Filter_Name f = name))"

definition isTestHookSelected :: "string \<Rightarrow> Filter list \<Rightarrow> bool" where
  "isTestHookSelected name filters = test_hook_selected name filters False False"

definition TestHooksFromRelease :: "HelmRel \<Rightarrow> Filter list \<Rightarrow> test_hooks" where
  "TestHooksFromRelease rls filters =
     map (\<lambda>(k, h). (k, Some \<lparr>TH_LastStarted = Hook_StartedAt h, TH_LastCompleted = Hook_CompletedAt h,
                              TH_Phase = Hook_Phase h\<rparr>))
       (List.filter (\<lambda>(k, h). isTestHookSelected k filters) (Rel_GetTestHooks rls))"

subsection \<open>Observations\<close>

record Observation =
  Obs_Name :: string
  Obs_Version :: int64
  Obs_Info :: HelmInfo
  Obs_Action :: ReleaseAction
  Obs_ChartMetadata :: HelmMetadata
  Obs_Config :: "values"
  Obs_Manifest :: string
  Obs_Hooks :: "HelmHook list option"
  Obs_Namespace :: string
  Obs_OCIDigest :: string

definition Observation_zero :: Observation where
  "Observation_zero = \<lparr>Obs_Name = '''', Obs_Version = 0, Obs_Info = HelmInfo_zero,
     Obs_Action = ReleaseActionNone, Obs_ChartMetadata = HelmMetadata_zero, Obs_Config = None,
     Obs_Manifest = '''', Obs_Hooks = None, Obs_Namespace = '''', Obs_OCIDigest = ''''\<rparr>"

definition nil_if_empty :: "'a list \<Rightarrow> 'a list option" where
  "nil_if_empty xs = (if xs = [] then None else Some xs)"

definition IgnoreHookTestEvents :: "Observation \<Rightarrow> Observation" where
  "IgnoreHookTestEvents o' = (case Obs_Hooks o' of
       None \<Rightarrow> o'
     | Some hs \<Rightarrow> if hs = [] then o'
         else o'\<lparr>Obs_Hooks := nil_if_empty (List.filter (\<lambda>h. \<not> IsHookForEvent (Some h) HookTest) hs)\<rparr>)"

definition Observation_Targets :: "Observation \<Rightarrow> string \<Rightarrow> string \<Rightarrow> int64 \<Rightarrow> bool" where
  "Observation_Targets o' name ns version \<longleftrightarrow>
     Obs_Name o' = name \<and> Obs_Namespace o' = ns \<and> (version = 0 \<or> Obs_Version o' = version)"

fun enc_all :: "('a \<Rightarrow> json option) \<Rightarrow> 'a list \<Rightarrow> json list option" where
  "enc_all f [] = Some []"
| "enc_all f (x # xs) = (case f x of None \<Rightarrow> None
     | Some j \<Rightarrow> map_option ((#) j) (enc_all f xs))"

text \<open>The JSON encoding of an observation, \<open>None\<close> when the encoder fails. The action has no
  member: its tag is \<^verbatim>\<open>json:"-"\<close>.\<close>

definition Observation_Encode :: "digest_api \<Rightarrow> Observation \<Rightarrow> json option" where
  "Observation_Encode D o' =
     (case (dEncInfo D (Obs_Info o'), dEncMetadata D (Obs_ChartMetadata o'),
            case Obs_Hooks o' of None \<Rightarrow> Some JNull
              | Some hs \<Rightarrow> map_option JArr (enc_all (dEncHook D) hs)) of
        (Some i, Some m, Some h) \<Rightarrow> Some (JObj
          ([(''name'', JStr (Obs_Name o')), (''version'', JInt (Obs_Version o')), (''info'', i),
            (''chartMetadata'', m),
            (''config'', case Obs_Config o' of None \<Rightarrow> JNull | Some kvs \<Rightarrow> JObj kvs),
            (''manifest'', JStr (Obs_Manifest o')), (''hooks'', h),
            (''namespace'', JStr (Obs_Namespace o'))]
           @ omitempty ''ociDigest'' (Obs_OCIDigest o' = '''') (JStr (Obs_OCIDigest o'))))
      | _ \<Rightarrow> None)"

definition ObserveRelease_with :: "(Observation \<Rightarrow> Observation) list \<Rightarrow> HelmRel option \<Rightarrow> Observation" where
  "ObserveRelease_with filters rel = (case rel of None \<Rightarrow> Observation_zero
     | Some rel \<Rightarrow> fold (\<lambda>f o'. f o') filters
         \<lparr>Obs_Name = Rel_Name rel, Obs_Version = Rel_Version rel,
          Obs_Info = (case Rel_Info rel of None \<Rightarrow> HelmInfo_zero | Some i \<Rightarrow> i),
          Obs_Action = ReleaseActionNone,
          Obs_ChartMetadata = (case Rel_Chart rel of None \<Rightarrow> HelmMetadata_zero | Some m \<Rightarrow> m),
          Obs_Config = (case Rel_Config rel of None \<Rightarrow> None | Some kvs \<Rightarrow> nil_if_empty kvs),
          Obs_Manifest = Rel_Manifest rel, Obs_Hooks = nil_if_empty (Rel_Hooks rel),
          Obs_Namespace = Rel_Namespace rel, Obs_OCIDigest = ''''\<rparr>)"

definition DefaultDataFilters :: "(Observation \<Rightarrow> Observation) list" where
  "DefaultDataFilters = [IgnoreHookTestEvents]"

definition ObserveRelease :: "HelmRel \<Rightarrow> Observation" where
  "ObserveRelease rel = ObserveRelease_with DefaultDataFilters (Some rel)"

definition Digest_Observation :: "digest_api \<Rightarrow> string \<Rightarrow> Observation \<Rightarrow> string" where
  "Digest_Observation D algo o' =
     (case Observation_Encode D o' of None \<Rightarrow> '''' | Some j \<Rightarrow> dDigest D algo j)"

definition ObservedToSnapshot :: "digest_api \<Rightarrow> Observation \<Rightarrow> Snapshot" where
  "ObservedToSnapshot D rls =
     \<lparr>Snap_APIVersion = CurrentSnapshotAPIVersion,
      Snap_Digest = Digest_Observation D (dCanonical D) rls,
      Snap_Name = Obs_Name rls, Snap_Namespace = Obs_Namespace rls, Snap_Version = Obs_Version rls,
      Snap_Status = Info_Status (Obs_Info rls), Snap_Action = Obs_Action rls,
      Snap_ChartName = Meta_Name (Obs_ChartMetadata rls),
      Snap_ChartVersion = Meta_Version (Obs_ChartMetadata rls),
      Snap_AppVersion = Meta_AppVersion (Obs_ChartMetadata rls),
      Snap_ConfigDigest = dDigestValues D (dCanonical D) (Obs_Config rls),
      Snap_FirstDeployed = Info_FirstDeployed (Obs_Info rls),
      Snap_LastDeployed = Info_LastDeployed (Obs_Info rls),
      Snap_Deleted = Info_Deleted (Obs_Info rls), Snap_TestHooks = None,
      Snap_OCIDigest = Obs_OCIDigest rls\<rparr>"

subsection \<open>The observing storage driver\<close>

text \<open>An observer changes a state \<open>'s\<close>; it may read the world \<open>'w\<close> in which the release was
  persisted. The wrapped driver is a parameter.\<close>

type_synonym ('w, 's) ObserveFunc = "Releaser \<Rightarrow> 'w \<Rightarrow> 's \<Rightarrow> 's"

definition notify :: "('w, 's) ObserveFunc list \<Rightarrow> Releaser \<Rightarrow> 'w \<Rightarrow> 's \<Rightarrow> 's" where
  "notify observers rls w s = fold (\<lambda>obs. obs rls w) observers s"

definition Observer_Create ::
  "('w, 's) ObserveFunc list \<Rightarrow> (string \<Rightarrow> Releaser \<Rightarrow> 'w \<Rightarrow> gerror option \<times> 'w) \<Rightarrow>
   string \<Rightarrow> Releaser \<Rightarrow> 'w \<Rightarrow> 's \<Rightarrow> gerror option \<times> 'w \<times> 's" where
  "Observer_Create observers create key rls w s = (case create key rls w of
       (Some e, w') \<Rightarrow> (Some e, w', s)
     | (None, w') \<Rightarrow> (None, w', notify observers rls w' s))"

definition Observer_Update ::
  "('w, 's) ObserveFunc list \<Rightarrow> (string \<Rightarrow> Releaser \<Rightarrow> 'w \<Rightarrow> gerror option \<times> 'w) \<Rightarrow>
   string \<Rightarrow> Releaser \<Rightarrow> 'w \<Rightarrow> 's \<Rightarrow> gerror option \<times> 'w \<times> 's" where
  "Observer_Update observers update key rls w s = (case update key rls w of
       (Some e, w') \<Rightarrow> (Some e, w', s)
     | (None, w') \<Rightarrow> (None, w', notify observers rls w' s))"

definition Observer_Delete ::
  "('w, 's) ObserveFunc list \<Rightarrow> (string \<Rightarrow> 'w \<Rightarrow> (gerror + Releaser) \<times> 'w) \<Rightarrow>
   string \<Rightarrow> 'w \<Rightarrow> 's \<Rightarrow> (gerror + Releaser) \<times> 'w \<times> 's" where
  "Observer_Delete observers delete key w s = (case delete key w of
       (Inl e, w') \<Rightarrow> (Inl e, w', s)
     | (Inr rls, w') \<Rightarrow> (Inr rls, w', notify observers rls w' s))"

text \<open>The storage operations of one run of a Helm action, in order, each with the outcome the
  wrapped driver gave it. Replaying them calls the observers as the driver does.\<close>

datatype 'w storage_op =
    OpCreate Releaser "gerror option" 'w
  | OpUpdate Releaser "gerror option" 'w
  | OpDelete "gerror + Releaser" 'w

fun replay_op :: "('w, 's) ObserveFunc list \<Rightarrow> 'w storage_op \<Rightarrow> 's \<Rightarrow> 's" where
  "replay_op obs (OpCreate rls err w) s =
     snd (snd (Observer_Create obs (\<lambda>k r w. (err, w)) [] rls w s))"
| "replay_op obs (OpUpdate rls err w) s =
     snd (snd (Observer_Update obs (\<lambda>k r w. (err, w)) [] rls w s))"
| "replay_op obs (OpDelete out w) s =
     snd (snd (Observer_Delete obs (\<lambda>k w. (out, w)) [] w s))"

definition replay :: "('w, 's) ObserveFunc list \<Rightarrow> 'w storage_op list \<Rightarrow> 's \<Rightarrow> 's" where
  "replay obs ops s = fold (replay_op obs) ops s"

text \<open>The releases an observer is told about: those that were persisted.\<close>

fun persisted :: "'w storage_op \<Rightarrow> (Releaser \<times> 'w) list" where
  "persisted (OpCreate rls err w) = (if err = None then [(rls, w)] else [])"
| "persisted (OpUpdate rls err w) = (if err = None then [(rls, w)] else [])"
| "persisted (OpDelete out w) = (case out of Inl e \<Rightarrow> [] | Inr rls \<Rightarrow> [(rls, w)])"

subsection \<open>Lemmas\<close>

lemma replay_op_persisted:
  "replay_op obs op s = fold (\<lambda>(rls, w). notify obs rls w) (persisted op) s"
  by (cases op) (auto simp: Observer_Create_def Observer_Update_def Observer_Delete_def
      split: option.splits sum.splits)

lemma replay_persisted:
  "replay obs ops s = fold (\<lambda>(rls, w). notify obs rls w) (concat (map persisted ops)) s"
  unfolding replay_def
  by (induction ops arbitrary: s) (simp_all add: replay_op_persisted)

lemma replay_Nil [simp]: "replay obs [] s = s"
  by (simp add: replay_def)

lemma replay_invariant:
  assumes "\<And>obs rls w s. obs \<in> set observers \<Longrightarrow> P s \<Longrightarrow> P (obs rls w s)" and "P s"
  shows "P (replay observers ops s)"
proof -
  have all: "P s \<Longrightarrow> P (fold (\<lambda>obs. obs rls w) os s)" if "set os \<subseteq> set observers" for os rls w s
    using that assms(1) by (induction os arbitrary: s) auto
  have step: "P s \<Longrightarrow> P (notify observers rls w s)" for rls w s
    unfolding notify_def by (rule all) simp_all
  have "P s \<Longrightarrow> P (fold (\<lambda>(rls, w). notify observers rls w) xs s)" for xs s
    by (induction xs arbitrary: s) (auto intro: step)
  then show ?thesis using assms(2) by (simp add: replay_persisted)
qed

lemma ObserveRelease_simps [simp]:
  "Obs_Name (ObserveRelease r) = Rel_Name r"
  "Obs_Namespace (ObserveRelease r) = Rel_Namespace r"
  "Obs_Version (ObserveRelease r) = Rel_Version r"
  "Obs_Action (ObserveRelease r) = ReleaseActionNone"
  "Obs_OCIDigest (ObserveRelease r) = ''''"
  by (simp_all add: ObserveRelease_def ObserveRelease_with_def DefaultDataFilters_def
      IgnoreHookTestEvents_def split: option.splits)

lemma ObservedToSnapshot_simps [simp]:
  "Snap_Name (ObservedToSnapshot D obs) = Obs_Name obs"
  "Snap_Namespace (ObservedToSnapshot D obs) = Obs_Namespace obs"
  "Snap_Version (ObservedToSnapshot D obs) = Obs_Version obs"
  "Snap_Action (ObservedToSnapshot D obs) = Obs_Action obs"
  "Snap_APIVersion (ObservedToSnapshot D obs) = CurrentSnapshotAPIVersion"
  "Snap_OCIDigest (ObservedToSnapshot D obs) = Obs_OCIDigest obs"
  "Snap_TestHooks (ObservedToSnapshot D obs) = None"
  by (simp_all add: ObservedToSnapshot_def)

lemma test_hook_selected_iff:
  "test_hook_selected name fs hi inc \<longleftrightarrow>
     (\<forall>f \<in> set fs. Filter_Exclude f \<longrightarrow> Filter_Name f \<noteq> name) \<and>
     ((\<not> hi \<and> (\<forall>f \<in> set fs. Filter_Exclude f)) \<or> inc \<or>
      (\<exists>f \<in> set fs. \<not> Filter_Exclude f \<and> Filter_Name f = name))"
  by (induction fs arbitrary: hi inc) auto

lemma digest_okD:
  assumes "digest_ok D"
  shows "dAvailable D (dCanonical D)"
    and "dAvailable D a \<Longrightarrow> dParse D (dDigest D a j)"
    and "dAvailable D a \<Longrightarrow> dAlgorithm D (dDigest D a j) = a"
    and "dParse D d \<Longrightarrow> dVerified D d j \<longleftrightarrow> dDigest D (dAlgorithm D d) j = d"
    and "dAvailable D a \<Longrightarrow> dVerifyValues D (dDigestValues D a v) v"
    and "length (dSha256 D s) = 64"
  using assms unfolding digest_ok_def by auto

text \<open>Hooks without test events are what the digest covers.\<close>

lemma IgnoreHookTestEvents_idem:
  "IgnoreHookTestEvents (IgnoreHookTestEvents o') = IgnoreHookTestEvents o'"
  by (auto simp: IgnoreHookTestEvents_def nil_if_empty_def filter_empty_conv
      split: option.splits if_splits)

lemma Digest_ignores_action:
  "Digest_Observation D a (o'\<lparr>Obs_Action := x\<rparr>) = Digest_Observation D a o'"
  by (simp add: Digest_Observation_def Observation_Encode_def split: option.split)

lemma ObserveRelease_test_hooks:
  assumes "List.filter (\<lambda>h. \<not> IsHookForEvent (Some h) HookTest) hs
         = List.filter (\<lambda>h. \<not> IsHookForEvent (Some h) HookTest) (Rel_Hooks r)"
  shows "ObserveRelease (r\<lparr>Rel_Hooks := hs\<rparr>) = ObserveRelease r"
  using assms
  by (auto simp: ObserveRelease_def ObserveRelease_with_def DefaultDataFilters_def
      IgnoreHookTestEvents_def nil_if_empty_def split: option.splits)

lemma GetTestHooks_keys:
  "set (map fst (Rel_GetTestHooks rls)) = Hook_Name ` {h \<in> set (Rel_Hooks rls). IsHookForEvent (Some h) HookTest}"
proof -
  have "set (map fst (fold (\<lambda>h th. if IsHookForEvent (Some h) HookTest then AList.update (Hook_Name h) h th else th) hs th)) =
      set (map fst th) \<union> Hook_Name ` {h \<in> set hs. IsHookForEvent (Some h) HookTest}" for hs th
    by (induction hs arbitrary: th) (auto simp: dom_update)
  from this [of "Rel_Hooks rls" "[]"] show ?thesis by (simp add: Rel_GetTestHooks_def)
qed

subsection \<open>Properties\<close>

text \<open>The test hooks recorded for a release are exactly its hooks for the test event that the filters
  select: no filter excludes their name, and a filter includes it unless there are no including
  filters at all.\<close>

theorem TestHooks_selected:
  "name \<in> set (map fst (TestHooksFromRelease rls filters)) \<longleftrightarrow>
     list_ex (\<lambda>h. Hook_Name h = name \<and> list_ex (\<lambda>e. e = HookTest) (Hook_Events h)) (Rel_Hooks rls) \<and>
     \<not> list_ex (\<lambda>f. Filter_Exclude f \<and> Filter_Name f = name) filters \<and>
     (list_all Filter_Exclude filters \<or> list_ex (\<lambda>f. \<not> Filter_Exclude f \<and> Filter_Name f = name) filters)"
proof -
  have "name \<in> set (map fst (TestHooksFromRelease rls filters)) \<longleftrightarrow>
      name \<in> set (map fst (Rel_GetTestHooks rls)) \<and> isTestHookSelected name filters"
    by (force simp: TestHooksFromRelease_def)
  then show ?thesis
    unfolding GetTestHooks_keys isTestHookSelected_def test_hook_selected_iff
    by (auto simp: list_ex_iff list_all_iff)
qed

end
