(* ===== verification/Environment.thy ===== *)
theory Environment
  imports Releases
begin

section \<open>The environment of the controller\<close>

text \<open>
  The controller calls the Helm SDK, the Kubernetes API and the Flux runtime libraries. Their
  code is not part of the program, so it enters the model as functions of the records below,
  over a type \<open>'w\<close> of states of the world (the cluster, the Helm storage, the clock). A call that
  may change something returns the next world; a call that only reads is given the current
  one. What the controller relies on is stated by predicates such as \<open>conditions_ok\<close>, and each
  of them has an instance that satisfies it.
\<close>

subsection \<open>Constants of api/v2/condition\_types.go, api/v2/action.go and of the Flux meta package\<close>

definition ReleasedCondition :: string where "ReleasedCondition = ''Released''"
definition TestSuccessCondition :: string where "TestSuccessCondition = ''TestSuccess''"
definition RemediatedCondition :: string where "RemediatedCondition = ''Remediated''"
definition DriftedCondition :: string where "DriftedCondition = ''Drifted''"
definition ReadyCondition :: string where "ReadyCondition = ''Ready''"
definition ReconcilingCondition :: string where "ReconcilingCondition = ''Reconciling''"
definition StalledCondition :: string where "StalledCondition = ''Stalled''"

lemmas condition_defs = ReleasedCondition_def TestSuccessCondition_def RemediatedCondition_def
  DriftedCondition_def ReadyCondition_def ReconcilingCondition_def StalledCondition_def

definition InstallSucceededReason :: string where "InstallSucceededReason = ''InstallSucceeded''"
definition InstallFailedReason :: string where "InstallFailedReason = ''InstallFailed''"
definition UpgradeSucceededReason :: string where "UpgradeSucceededReason = ''UpgradeSucceeded''"
definition UpgradeFailedReason :: string where "UpgradeFailedReason = ''UpgradeFailed''"
definition TestSucceededReason :: string where "TestSucceededReason = ''TestSucceeded''"
definition TestFailedReason :: string where "TestFailedReason = ''TestFailed''"
definition RollbackSucceededReason :: string where "RollbackSucceededReason = ''RollbackSucceeded''"
definition RollbackFailedReason :: string where "RollbackFailedReason = ''RollbackFailed''"
definition UninstallSucceededReason :: string where "UninstallSucceededReason = ''UninstallSucceeded''"
definition UninstallFailedReason :: string where "UninstallFailedReason = ''UninstallFailed''"
definition ArtifactFailedReason :: string where "ArtifactFailedReason = ''ArtifactFailed''"
definition DependencyNotReadyReason :: string where "DependencyNotReadyReason = ''DependencyNotReady''"
definition DriftDetectedReason :: string where "DriftDetectedReason = ''DriftDetected''"
definition NoDriftDetectedReason :: string where "NoDriftDetectedReason = ''NoDriftDetected''"
definition InventoryBuildFailedReason :: string where "InventoryBuildFailedReason = ''InventoryBuildFailed''"
definition NamespaceCheckSkippedReason :: string where "NamespaceCheckSkippedReason = ''NamespaceCheckSkipped''"
definition ProgressingReason :: string where "ProgressingReason = ''Progressing''"
definition ProgressingWithRetryReason :: string where "ProgressingWithRetryReason = ''ProgressingWithRetry''"

lemmas reason_defs = InstallSucceededReason_def InstallFailedReason_def UpgradeSucceededReason_def
  UpgradeFailedReason_def TestSucceededReason_def TestFailedReason_def RollbackSucceededReason_def
  RollbackFailedReason_def UninstallSucceededReason_def UninstallFailedReason_def
  ArtifactFailedReason_def DependencyNotReadyReason_def DriftDetectedReason_def
  NoDriftDetectedReason_def InventoryBuildFailedReason_def NamespaceCheckSkippedReason_def
  ProgressingReason_def ProgressingWithRetryReason_def

datatype Action =
    ActionReconcile
  | ActionCheckDependencies
  | ActionResolveSource
  | ActionResolveValues
  | ActionHealthCheck
  | ActionDriftDetection
  | ActionHelmInstall
  | ActionHelmUpgrade
  | ActionHelmRollback
  | ActionHelmTest
  | ActionHelmUninstall
  | ActionUnlock

definition GroupName :: string where "GroupName = ''helm.toolkit.fluxcd.io''"

subsection \<open>Conditions: the Flux runtime package\<close>

text \<open>Setting a condition stamps it with the generation of the object; the first argument is the
  current time. Marking an object as reconciling removes the stalled condition and conversely.\<close>

record cond_api =
  cGet :: "Condition list \<Rightarrow> string \<Rightarrow> Condition option"
  cSet :: "time \<Rightarrow> int64 \<Rightarrow> Condition \<Rightarrow> Condition list \<Rightarrow> Condition list"
  cDelete :: "string \<Rightarrow> Condition list \<Rightarrow> Condition list"
  cMark :: "time \<Rightarrow> int64 \<Rightarrow> string \<Rightarrow> ConditionStatus \<Rightarrow> string \<Rightarrow> string \<Rightarrow> Condition list \<Rightarrow> Condition list"
  cMarkReconciling :: "time \<Rightarrow> int64 \<Rightarrow> string \<Rightarrow> string \<Rightarrow> Condition list \<Rightarrow> Condition list"
  cMarkStalled :: "time \<Rightarrow> int64 \<Rightarrow> string \<Rightarrow> string \<Rightarrow> Condition list \<Rightarrow> Condition list"
  cIsTrue :: "Condition list \<Rightarrow> string \<Rightarrow> bool"
  cIsReady :: "Condition list \<Rightarrow> bool"
  cGetReason :: "Condition list \<Rightarrow> string \<Rightarrow> string"
  cGetMessage :: "Condition list \<Rightarrow> string \<Rightarrow> string"

definition cond_shows :: "Condition option \<Rightarrow> string \<Rightarrow> ConditionStatus \<Rightarrow> string \<Rightarrow> string \<Rightarrow> int64 \<Rightarrow> bool" where
  "cond_shows c t st reason msg gen = (case c of None \<Rightarrow> False
     | Some c \<Rightarrow> Cond_Type c = t \<and> Cond_Status c = st \<and> Cond_Reason c = reason \<and>
                Cond_Message c = msg \<and> Cond_ObservedGeneration c = gen)"

definition conditions_ok :: "cond_api \<Rightarrow> bool" where
  "conditions_ok C \<longleftrightarrow>
     (\<forall>now gen c cs. cond_shows (cGet C (cSet C now gen c cs) (Cond_Type c))
        (Cond_Type c) (Cond_Status c) (Cond_Reason c) (Cond_Message c) gen) \<and>
     (\<forall>now gen c cs t. t \<noteq> Cond_Type c \<longrightarrow> cGet C (cSet C now gen c cs) t = cGet C cs t) \<and>
     (\<forall>t cs. cDelete C t cs = List.filter (\<lambda>c. Cond_Type c \<noteq> t) cs) \<and>
     (\<forall>t cs. cGet C cs t = find (\<lambda>c. Cond_Type c = t) cs) \<and>
     (\<forall>now gen t st r m cs. cMark C now gen t st r m cs =
        cSet C now gen \<lparr>Cond_Type = t, Cond_Status = st, Cond_ObservedGeneration = 0,
          Cond_LastTransitionTime = 0, Cond_Reason = r, Cond_Message = m\<rparr> cs) \<and>
     (\<forall>now gen r m cs. cMarkReconciling C now gen r m cs =
        cMark C now gen ReconcilingCondition ConditionTrue r m (cDelete C StalledCondition cs)) \<and>
     (\<forall>now gen r m cs. cMarkStalled C now gen r m cs =
        cMark C now gen StalledCondition ConditionTrue r m (cDelete C ReconcilingCondition cs)) \<and>
     (\<forall>cs t. cIsTrue C cs t = (case cGet C cs t of None \<Rightarrow> False | Some c \<Rightarrow> Cond_Status c = ConditionTrue)) \<and>
     (\<forall>cs. cIsReady C cs \<longrightarrow> cIsTrue C cs ReadyCondition) \<and>
     (\<forall>cs t. cGetReason C cs t = (case cGet C cs t of None \<Rightarrow> '''' | Some c \<Rightarrow> Cond_Reason c)) \<and>
     (\<forall>cs t. cGetMessage C cs t = (case cGet C cs t of None \<Rightarrow> '''' | Some c \<Rightarrow> Cond_Message c)) \<and>
     (\<forall>now gen c cs. distinct (map Cond_Type cs) \<longrightarrow> distinct (map Cond_Type (cSet C now gen c cs)))"

subsection \<open>Helm\<close>

text \<open>\<open>Ch_ID\<close> stands for the chart object in memory; its files and dependencies, which Helm
  mutates, belong to the world.\<close>

record HelmChart =
  Ch_Metadata :: HelmMetadata
  Ch_ID :: nat

datatype Renderer =
    RKustomize KustomizeSpec
  | RCommon "strmap option" "strmap option"
  | ROriginLabels string string string

record InstallConfig =
  IC_ReleaseName :: string
  IC_Namespace :: string
  IC_Timeout :: duration
  IC_TakeOwnership :: bool
  IC_WaitStrategy :: string
  IC_WaitForJobs :: bool
  IC_DisableHooks :: bool
  IC_DisableOpenAPIValidation :: bool
  IC_SkipSchemaValidation :: bool
  IC_Replace :: bool
  IC_Devel :: bool
  IC_SkipCRDs :: bool
  IC_CreateNamespace :: bool
  IC_EnableDNS :: bool
  IC_PostRenderer :: "Renderer list"
  IC_PostRenderStrategy :: string
  IC_ServerSideApply :: bool
  IC_ForceConflicts :: bool

record UpgradeConfig =
  UC_Namespace :: string
  UC_ResetValues :: bool
  UC_ReuseValues :: bool
  UC_MaxHistory :: int64
  UC_Timeout :: duration
  UC_TakeOwnership :: bool
  UC_WaitStrategy :: string
  UC_WaitForJobs :: bool
  UC_DisableHooks :: bool
  UC_DisableOpenAPIValidation :: bool
  UC_SkipSchemaValidation :: bool
  UC_CleanupOnFail :: bool
  UC_Devel :: bool
  UC_EnableDNS :: bool
  UC_PostRenderer :: "Renderer list"
  UC_PostRenderStrategy :: string
  UC_ServerSideApply :: string
  UC_ForceConflicts :: bool
  UC_ForceReplace :: bool

record RollbackConfig =
  RC_Version :: int64
  RC_Timeout :: duration
  RC_WaitStrategy :: string
  RC_WaitForJobs :: bool
  RC_DisableHooks :: bool
  RC_CleanupOnFail :: bool
  RC_MaxHistory :: int64
  RC_ServerSideApply :: string
  RC_ForceConflicts :: bool
  RC_ForceReplace :: bool

record UninstallConfig =
  NC_Timeout :: duration
  NC_DisableHooks :: bool
  NC_KeepHistory :: bool
  NC_WaitStrategy :: string
  NC_DeletionPropagation :: string

record TestConfig =
  TC_Namespace :: string
  TC_Timeout :: duration
  TC_Filters :: "(string \<times> string list) list"

text \<open>A run of a Helm action: the operations it performed on the storage in order, the lines it
  logged with their time stamps, its result and the world it left.\<close>

record ('w, 'r) helm_run =
  Run_Ops :: "'w storage_op list"
  Run_Logs :: "(string \<times> string) list"
  Run_Result :: 'r
  Run_World :: 'w

record 'w helm_api =
  hLast :: "string \<Rightarrow> 'w \<Rightarrow> gerror + Releaser"
  hGet :: "string \<Rightarrow> int64 \<Rightarrow> 'w \<Rightarrow> gerror + Releaser"
  hHistory :: "string \<Rightarrow> 'w \<Rightarrow> gerror + Releaser list"
  hUpdate :: "Releaser \<Rightarrow> 'w \<Rightarrow> gerror option \<times> 'w"
  hSetStatus :: "string \<Rightarrow> string \<Rightarrow> 'w \<Rightarrow> HelmRel \<Rightarrow> HelmRel"
  hErrNoDeployedReleases :: "string \<Rightarrow> gerror"
  hInstall :: "InstallConfig \<Rightarrow> HelmChart \<Rightarrow> values \<Rightarrow> 'w \<Rightarrow> ('w, gerror + Releaser) helm_run"
  hUpgrade :: "UpgradeConfig \<Rightarrow> string \<Rightarrow> HelmChart \<Rightarrow> values \<Rightarrow> 'w \<Rightarrow> ('w, gerror + Releaser) helm_run"
  hRollback :: "RollbackConfig \<Rightarrow> string \<Rightarrow> 'w \<Rightarrow> ('w, gerror option) helm_run"
  hTest :: "TestConfig \<Rightarrow> string \<Rightarrow> 'w \<Rightarrow> ('w, gerror + Releaser) helm_run"
  hUninstall :: "UninstallConfig \<Rightarrow> string \<Rightarrow> 'w \<Rightarrow> ('w, Releaser option \<times> gerror option) helm_run"

subsection \<open>Kubernetes\<close>

record Unst =
  U_Group :: string
  U_Version :: string
  U_Kind :: string
  U_Namespace :: string
  U_Name :: string
  U_Labels :: "strmap option"
  U_Annotations :: "strmap option"
  U_Rest :: json

datatype DiffType = DiffTypeNone | DiffTypeCreate | DiffTypeUpdate | DiffTypeExclude

text \<open>A patch is a list of operations: the kind of each and its encoding.\<close>

record Diff =
  Diff_Type :: DiffType
  Diff_DesiredObject :: Unst
  Diff_Patch :: "(string \<times> json) list"

type_synonym DiffSet = "Diff list"

record ResInfo =
  RI_Group :: string
  RI_Version :: string
  RI_Kind :: string
  RI_Namespace :: string
  RI_Name :: string
  RI_Object :: json

datatype ChangeAction = CreatedAction | ConfiguredAction

record ChangeSetEntry =
  CE_Group :: string
  CE_Version :: string
  CE_Kind :: string
  CE_Namespace :: string
  CE_Name :: string
  CE_Subject :: string
  CE_Action :: ChangeAction

record DiffOptions =
  DO_FieldOwner :: string
  DO_ExclusionSelector :: strmap
  DO_Rationalize :: bool
  DO_Graceful :: bool
  DO_IgnoreRules :: "IgnoreRule list option"

record 'w kube_api =
  kRESTConfig :: "'w \<Rightarrow> gerror option"
  kNewClient :: "'w \<Rightarrow> gerror option"
  kReadObjects :: "string \<Rightarrow> gerror + Unst list"
  kNormalize :: "Unst list \<Rightarrow> gerror + Unst list"
  kIsNamespaced :: "Unst \<Rightarrow> 'w \<Rightarrow> gerror + bool"
  kObjMetaString :: "Unst \<Rightarrow> string"
  kGetObject :: "Unst \<Rightarrow> 'w \<Rightarrow> gerror + Unst"
  kPatchReplaceFieldsManagers :: "Unst \<Rightarrow> (string \<times> string) list \<Rightarrow> string \<Rightarrow> gerror + json list"
  kCreateObject :: "Unst \<Rightarrow> string \<Rightarrow> 'w \<Rightarrow> gerror option \<times> 'w"
  kPatchObject :: "Unst \<Rightarrow> json list \<Rightarrow> string \<Rightarrow> 'w \<Rightarrow> gerror option \<times> 'w"
  kIsInvalid :: "gerror \<Rightarrow> bool"
  kDiffList :: "Unst list \<Rightarrow> DiffOptions \<Rightarrow> 'w \<Rightarrow> DiffSet \<times> gerror option"
  kHasChanges :: "DiffSet \<Rightarrow> bool"
  kGroupKindLess :: "string \<times> string \<Rightarrow> string \<times> string \<Rightarrow> bool"
  kAggregate :: "gerror list \<Rightarrow> gerror"
  kReduceFlatten :: "gerror \<Rightarrow> gerror"
  kAggregateErrors :: "gerror \<Rightarrow> gerror list option"
  kChangeSetString :: "ChangeSetEntry list \<Rightarrow> string"
  kCRDObjects :: "HelmChart \<Rightarrow> 'w \<Rightarrow> (string \<times> string) list"
  kProcessDependencies :: "HelmChart \<Rightarrow> values \<Rightarrow> 'w \<Rightarrow> gerror option \<times> 'w"
  kBuild :: "string \<Rightarrow> 'w \<Rightarrow> gerror + ResInfo list"
  kLabels :: "ResInfo \<Rightarrow> gerror + strmap"
  kSetLabels :: "strmap \<Rightarrow> ResInfo \<Rightarrow> gerror + ResInfo"
  kGetInfo :: "ResInfo \<Rightarrow> 'w \<Rightarrow> gerror option"
  kCreateRes :: "ResInfo \<Rightarrow> bool \<Rightarrow> bool \<Rightarrow> 'w \<Rightarrow> (gerror + ResInfo list) \<times> 'w"
  kNewAlreadyExists :: "string \<Rightarrow> gerror"
  kAPIExtensions :: "'w \<Rightarrow> gerror option"
  kGetCRD :: "string \<Rightarrow> 'w \<Rightarrow> gerror + ResInfo"
  kUpdateRes :: "ResInfo list \<Rightarrow> ResInfo list \<Rightarrow> bool \<Rightarrow> bool \<Rightarrow> bool \<Rightarrow> 'w \<Rightarrow> (gerror + ResInfo list) \<times> 'w"
  kWaiter :: "string \<Rightarrow> 'w \<Rightarrow> gerror option"
  kWait :: "ResInfo list \<Rightarrow> duration \<Rightarrow> 'w \<Rightarrow> gerror option \<times> 'w"
  kResetMapper :: "'w \<Rightarrow> 'w option"

subsection \<open>The environment\<close>

record flags =
  UseHelm3Defaults :: bool
  AllowDNSLookups :: bool
  defaultToRetryOnFailure :: bool
  fieldManager :: string
  disallowedFieldManagers :: "string list"
  ManagedFieldsManager :: string

text \<open>\<open>eHandleAnnotationRequest\<close> is \<^verbatim>\<open>meta.HandleAnnotationRequest\<close>: given the annotations of the
  object, the name of the request annotation, the last handled reconcile request and the last
  handled value of this request, it returns whether to handle the request and the new last
  handled value. \<open>ePatch\<close> persists the object; \<open>eCtxErr\<close> tells whether the context is done;
  \<open>eTimestamp\<close> is the time as text.\<close>

record 'w env =
  eDigest :: digest_api
  eCond :: cond_api
  eHelm :: "'w helm_api"
  eKube :: "'w kube_api"
  eFlags :: flags
  eNow :: "'w \<Rightarrow> time"
  eTimestamp :: "'w \<Rightarrow> string"
  eCtxErr :: "'w \<Rightarrow> gerror option"
  eEnqueued :: "'w \<Rightarrow> bool"
  ePatch :: "HelmRelease \<Rightarrow> 'w \<Rightarrow> gerror option \<times> 'w"
  eHandleAnnotationRequest :: "strmap \<Rightarrow> string \<Rightarrow> string \<Rightarrow> string \<Rightarrow> bool \<times> string"

subsection \<open>Requests\<close>

datatype EventType = EventTypeNormal | EventTypeWarning | EventTypeTrace

record Event =
  Ev_Metadata :: "strmap option"
  Ev_Type :: EventType
  Ev_Reason :: string
  Ev_Action :: Action
  Ev_Message :: string

text \<open>A \<^verbatim>\<open>Request\<close>, with the events recorded so far and the current world. The source object
  is only attached to events and has no field.\<close>

record 'w Request =
  Object :: HelmRelease
  Chart :: HelmChart
  Values :: "values"
  Events :: "Event list"
  World :: 'w

definition on_object :: "(HelmRelease \<Rightarrow> HelmRelease) \<Rightarrow> 'w Request \<Rightarrow> 'w Request" where
  "on_object f req = req\<lparr>Object := f (Object req)\<rparr>"

definition on_status :: "(HelmReleaseStatus \<Rightarrow> HelmReleaseStatus) \<Rightarrow> 'w Request \<Rightarrow> 'w Request" where
  "on_status f = on_object (with_status f)"

definition record_event :: "Event \<Rightarrow> 'w Request \<Rightarrow> 'w Request" where
  "record_event e req = req\<lparr>Events := Events req @ [e]\<rparr>"

definition set_world :: "'w \<Rightarrow> 'w Request \<Rightarrow> 'w Request" where
  "set_world w req = req\<lparr>World := w\<rparr>"

text \<open>\<^verbatim>\<open>obj.Status.History.Latest()\<close>: the call sorts the history of the object.\<close>

definition sort_history :: "'w Request \<Rightarrow> 'w Request" where
  "sort_history = on_status (\<lambda>st. st\<lparr>St_History := SortByVersion (St_History st)\<rparr>)"

definition on_conditions :: "(Condition list \<Rightarrow> Condition list) \<Rightarrow> 'w Request \<Rightarrow> 'w Request" where
  "on_conditions f = on_status (\<lambda>st. st\<lparr>St_Conditions := f (St_Conditions st)\<rparr>)"

definition Mark :: "'w env \<Rightarrow> string \<Rightarrow> ConditionStatus \<Rightarrow> string \<Rightarrow> string \<Rightarrow> 'w Request \<Rightarrow> 'w Request" where
  "Mark E t st reason msg req =
     on_conditions (cMark (eCond E) (eNow E (World req)) (HR_Generation (Object req)) t st reason msg) req"

definition MarkReconciling :: "'w env \<Rightarrow> string \<Rightarrow> string \<Rightarrow> 'w Request \<Rightarrow> 'w Request" where
  "MarkReconciling E reason msg req =
     on_conditions (cMarkReconciling (eCond E) (eNow E (World req)) (HR_Generation (Object req)) reason msg) req"

definition MarkStalled :: "'w env \<Rightarrow> string \<Rightarrow> string \<Rightarrow> 'w Request \<Rightarrow> 'w Request" where
  "MarkStalled E reason msg req =
     on_conditions (cMarkStalled (eCond E) (eNow E (World req)) (HR_Generation (Object req)) reason msg) req"

definition SetCondition :: "'w env \<Rightarrow> Condition \<Rightarrow> 'w Request \<Rightarrow> 'w Request" where
  "SetCondition E c req =
     on_conditions (cSet (eCond E) (eNow E (World req)) (HR_Generation (Object req)) c) req"

definition DeleteCondition :: "'w env \<Rightarrow> string \<Rightarrow> 'w Request \<Rightarrow> 'w Request" where
  "DeleteCondition E t = on_conditions (cDelete (eCond E) t)"

lemmas cond_op_defs = Mark_def MarkReconciling_def MarkStalled_def SetCondition_def DeleteCondition_def

subsection \<open>Lemmas\<close>

lemma Request_update_simps [simp]:
  "Object (on_object f req) = f (Object req)" "Chart (on_object f req) = Chart req"
  "Values (on_object f req) = Values req" "Events (on_object f req) = Events req"
  "World (on_object f req) = World req"
  "Object (record_event e req) = Object req" "Chart (record_event e req) = Chart req"
  "Values (record_event e req) = Values req" "Events (record_event e req) = Events req @ [e]"
  "World (record_event e req) = World req"
  "Object (set_world w req) = Object req" "Chart (set_world w req) = Chart req"
  "Values (set_world w req) = Values req" "Events (set_world w req) = Events req"
  "World (set_world w req) = w"
  by (simp_all add: on_object_def record_event_def set_world_def)

lemma on_status_simps [simp]:
  "Object (on_status f req) = with_status f (Object req)" "Chart (on_status f req) = Chart req"
  "Values (on_status f req) = Values req" "Events (on_status f req) = Events req"
  "World (on_status f req) = World req"
  by (simp_all add: on_status_def)

lemma sort_history_simps [simp]:
  "Object (sort_history req) = with_status (\<lambda>st. st\<lparr>St_History := SortByVersion (St_History st)\<rparr>) (Object req)"
  "Chart (sort_history req) = Chart req" "Values (sort_history req) = Values req"
  "Events (sort_history req) = Events req" "World (sort_history req) = World req"
  by (simp_all add: sort_history_def)

lemma on_conditions_simps [simp]:
  "Chart (on_conditions f req) = Chart req" "Values (on_conditions f req) = Values req"
  "Events (on_conditions f req) = Events req" "World (on_conditions f req) = World req"
  "HR_Spec (Object (on_conditions f req)) = HR_Spec (Object req)"
  "HR_Generation (Object (on_conditions f req)) = HR_Generation (Object req)"
  "HR_Name (Object (on_conditions f req)) = HR_Name (Object req)"
  "HR_Namespace (Object (on_conditions f req)) = HR_Namespace (Object req)"
  "HR_Annotations (Object (on_conditions f req)) = HR_Annotations (Object req)"
  "HR_Status (Object (on_conditions f req)) =
     (HR_Status (Object req))\<lparr>St_Conditions := f (St_Conditions (HR_Status (Object req)))\<rparr>"
  by (simp_all add: on_conditions_def)

lemma conditions_okD:
  assumes "conditions_ok C"
  shows "cond_shows (cGet C (cSet C now gen c cs) (Cond_Type c)) (Cond_Type c) (Cond_Status c) (Cond_Reason c) (Cond_Message c) gen"
    and "t \<noteq> Cond_Type c \<Longrightarrow> cGet C (cSet C now gen c cs) t = cGet C cs t"
    and "cDelete C t cs = List.filter (\<lambda>c. Cond_Type c \<noteq> t) cs"
    and "cGet C cs t = find (\<lambda>c. Cond_Type c = t) cs"
    and "cMark C now gen t st r m cs =
        cSet C now gen \<lparr>Cond_Type = t, Cond_Status = st, Cond_ObservedGeneration = 0,
          Cond_LastTransitionTime = 0, Cond_Reason = r, Cond_Message = m\<rparr> cs"
    and "cMarkReconciling C now gen r m cs =
        cMark C now gen ReconcilingCondition ConditionTrue r m (cDelete C StalledCondition cs)"
    and "cMarkStalled C now gen r m cs =
        cMark C now gen StalledCondition ConditionTrue r m (cDelete C ReconcilingCondition cs)"
    and "cIsTrue C cs t = (case cGet C cs t of None \<Rightarrow> False | Some c \<Rightarrow> Cond_Status c = ConditionTrue)"
    and "cIsReady C cs \<Longrightarrow> cIsTrue C cs ReadyCondition"
    and "cGetReason C cs t = (case cGet C cs t of None \<Rightarrow> '''' | Some c \<Rightarrow> Cond_Reason c)"
    and "cGetMessage C cs t = (case cGet C cs t of None \<Rightarrow> '''' | Some c \<Rightarrow> Cond_Message c)"
    and "distinct (map Cond_Type cs) \<Longrightarrow> distinct (map Cond_Type (cSet C now gen c cs))"
  using assms unfolding conditions_ok_def by metis+

lemma find_filter_type:
  "find (\<lambda>c. Cond_Type c = u) (List.filter (\<lambda>c. Cond_Type c \<noteq> t) cs) =
     (if u = t then None else find (\<lambda>c. Cond_Type c = u) cs)"
  by (induction cs) auto

lemma cGet_Delete:
  assumes "conditions_ok C"
  shows "cGet C (cDelete C t cs) u = (if u = t then None else cGet C cs u)"
  by (simp add: conditions_okD(3,4) [OF assms] find_filter_type)

text \<open>What a mark leaves for a later reader of the conditions.\<close>

lemma cGet_Mark_same:
  assumes "conditions_ok C"
  shows "cond_shows (cGet C (cMark C now gen t st r m cs) t) t st r m gen"
  using conditions_okD(1) [OF assms, of now gen "\<lparr>Cond_Type = t, Cond_Status = st,
      Cond_ObservedGeneration = 0, Cond_LastTransitionTime = 0, Cond_Reason = r, Cond_Message = m\<rparr>" cs]
  by (simp add: conditions_okD(5) [OF assms])

lemma cGet_Mark_other:
  assumes "conditions_ok C" and "u \<noteq> t"
  shows "cGet C (cMark C now gen t st r m cs) u = cGet C cs u"
  using conditions_okD(2) [OF assms(1), of u "\<lparr>Cond_Type = t, Cond_Status = st,
      Cond_ObservedGeneration = 0, Cond_LastTransitionTime = 0, Cond_Reason = r, Cond_Message = m\<rparr>" now gen cs]
    assms(2) by (simp add: conditions_okD(5) [OF assms(1)])

lemma cIsTrue_Mark_same:
  assumes "conditions_ok C"
  shows "cIsTrue C (cMark C now gen t st r m cs) t \<longleftrightarrow> st = ConditionTrue"
  using cGet_Mark_same [OF assms, of now gen t st r m cs] conditions_okD(8) [OF assms]
  by (auto simp: cond_shows_def split: option.splits)

lemma cGet_Stalled_after_MarkReconciling:
  assumes "conditions_ok C"
  shows "cGet C (cMarkReconciling C now gen r m cs) StalledCondition = None"
  using assms by (simp add: cGet_Delete conditions_okD(6) cGet_Mark_other condition_defs)

lemma cGet_Reconciling_after_MarkStalled:
  assumes "conditions_ok C"
  shows "cGet C (cMarkStalled C now gen r m cs) ReconcilingCondition = None"
  using assms by (simp add: cGet_Delete conditions_okD(7) cGet_Mark_other condition_defs)

lemma cIsTrue_Stalled_after_MarkStalled:
  assumes "conditions_ok C"
  shows "cIsTrue C (cMarkStalled C now gen r m cs) StalledCondition"
  using assms by (simp add: conditions_okD(7) cIsTrue_Mark_same)

lemma cIsTrue_Reconciling_after_MarkReconciling:
  assumes "conditions_ok C"
  shows "cIsTrue C (cMarkReconciling C now gen r m cs) ReconcilingCondition"
  using assms by (simp add: conditions_okD(6) cIsTrue_Mark_same)

end
