(* ===== verification/PostRender.thy ===== *)
theory PostRender
  imports Environment
begin

section \<open>Post-renderers: internal/postrender/build.go and common\_renderer.go\<close>

text \<open>
  Which post-renderers Helm is given for an object and in which order, and the digests by which
  the controller notices that post-renderers or common metadata changed. Running
  them is in the theory \<open>Rendering\<close>.
\<close>

definition NewCommonRenderer :: "CommonMetadata \<Rightarrow> Renderer" where
  "NewCommonRenderer cm = RCommon (CM_Labels cm) (CM_Annotations cm)"

definition NewOriginLabels :: "string \<Rightarrow> string \<Rightarrow> string \<Rightarrow> Renderer" where
  "NewOriginLabels grp ns name = ROriginLabels grp ns name"

definition originLabels :: "string \<Rightarrow> string \<Rightarrow> string \<Rightarrow> strmap" where
  "originLabels grp ns name = [(grp @ ''/name'', name), (grp @ ''/namespace'', ns)]"

definition BuildPostRenderers :: "HelmRelease \<Rightarrow> Renderer list" where
  "BuildPostRenderers rel =
     List.map_filter (\<lambda>r. map_option RKustomize (PR_Kustomize r))
       (case Spec_PostRenderers (HR_Spec rel) of None \<Rightarrow> [] | Some rs \<Rightarrow> rs)
     @ (case Spec_CommonMetadata (HR_Spec rel) of None \<Rightarrow> [] | Some cm \<Rightarrow> [NewCommonRenderer cm])
     @ [NewOriginLabels GroupName (HR_Namespace rel) (HR_Name rel)]"

subsection \<open>Digests\<close>

definition Kustomize_json :: "KustomizeSpec \<Rightarrow> json" where
  "Kustomize_json k = JObj
     (omitempty ''patches'' (Kust_Patches k = []) (JArr (Kust_Patches k)) @
      omitempty ''images'' (Kust_Images k = []) (JArr (Kust_Images k)))"

definition PostRenderer_json :: "PostRenderer \<Rightarrow> json" where
  "PostRenderer_json r = JObj (case PR_Kustomize r of None \<Rightarrow> []
     | Some k \<Rightarrow> [(''kustomize'', Kustomize_json k)])"

definition strmap_member :: "string \<Rightarrow> strmap option \<Rightarrow> (string \<times> json) list" where
  "strmap_member k m = (case m of None \<Rightarrow> [] | Some kvs \<Rightarrow> omitempty k (kvs = []) (JStrMap kvs))"

definition CommonMetadata_json :: "CommonMetadata \<Rightarrow> json" where
  "CommonMetadata_json cm =
     JObj (strmap_member ''annotations'' (CM_Annotations cm) @ strmap_member ''labels'' (CM_Labels cm))"

definition Digest_PostRenderers :: "digest_api \<Rightarrow> string \<Rightarrow> PostRenderer list \<Rightarrow> string" where
  "Digest_PostRenderers D algo rs = dDigest D algo (JArr (map PostRenderer_json rs))"

definition CommonMetadataDigest :: "digest_api \<Rightarrow> string \<Rightarrow> CommonMetadata \<Rightarrow> string" where
  "CommonMetadataDigest D algo cm = dDigest D algo (CommonMetadata_json cm)"

subsection \<open>Lemmas\<close>

text \<open>The origin labels are applied last, so no other renderer can change them.\<close>

lemma BuildPostRenderers_last:
  "BuildPostRenderers rel \<noteq> [] \<and>
   last (BuildPostRenderers rel) = ROriginLabels GroupName (HR_Namespace rel) (HR_Name rel)"
  by (simp add: BuildPostRenderers_def NewOriginLabels_def)

end
