(* ===== verification/LogBuffer.thy ===== *)
theory LogBuffer
  imports Prelude
begin

section \<open>The log ring buffer: internal/action/log.go\<close>

text \<open>
  Helm's log lines are kept in a ring of fixed size, with runs of equal lines folded into one,
  and end up in the events of failed actions. The ring is a list of slots beginning at the
  cursor, so that the next slot is the head and the previous one the last. The specification is
  an unbounded list of folded lines; the ring holds the last of them. Time stamps are given as
  the text that \<^verbatim>\<open>time.RFC3339Nano\<close> makes of them. The slog handler in front of the buffer is
  in the theory \<open>LogHandler\<close>.
\<close>

record logLine =
  ll_ts :: string
  ll_lastTS :: string
  ll_msg :: string
  ll_count :: int64

definition logLine_String :: "logLine option \<Rightarrow> string" where
  "logLine_String l = (case l of None \<Rightarrow> []
     | Some l \<Rightarrow>
        if ll_msg l = [] then []
        else (let msg = ll_ts l @ '': '' @ ll_msg l;
                  msg = (if ll_count l > 0 then msg @ [CHR 0x0A] @ ll_lastTS l @ '': '' @ ll_msg l else msg);
                  c = ll_count l - 1
              in if c > 0 then msg @ '' ('' @ itoa c @ '' duplicate '' @
                     (if c > 1 then ''lines'' else ''line'') @ '' omitted)''
                 else msg))"

type_synonym logRingBuffer = "logLine option list"

definition newLogRingBuffer :: "nat \<Rightarrow> logRingBuffer" where
  "newLogRingBuffer n = replicate n None"

definition new_line :: "string \<Rightarrow> string \<Rightarrow> logLine" where
  "new_line now msg = \<lparr>ll_ts = now, ll_lastTS = [], ll_msg = msg, ll_count = 0\<rparr>"

definition repeat_line :: "string \<Rightarrow> logLine \<Rightarrow> logLine" where
  "repeat_line now l = l\<lparr>ll_count := inc64 (ll_count l), ll_lastTS := now\<rparr>"

definition Appendf :: "string \<Rightarrow> string \<Rightarrow> logRingBuffer \<Rightarrow> logRingBuffer" where
  "Appendf now msg buf =
     (case last buf of
        Some prev \<Rightarrow>
          if ll_msg prev = msg then butlast buf @ [Some (repeat_line now prev)]
          else tl buf @ [Some (new_line now msg)]
      | None \<Rightarrow> tl buf @ [Some (new_line now msg)])"

definition LogBuffer_Empty :: "logRingBuffer \<Rightarrow> bool" where
  "LogBuffer_Empty buf \<longleftrightarrow> list_all (\<lambda>l. logLine_String l = []) buf"

definition LogBuffer_String :: "logRingBuffer \<Rightarrow> string" where
  "LogBuffer_String buf =
     TrimSpace (concat (map (\<lambda>l. if logLine_String l = [] then [] else logLine_String l @ [CHR 0x0A]) buf))"

definition append_all :: "(string \<times> string) list \<Rightarrow> logRingBuffer \<Rightarrow> logRingBuffer" where
  "append_all lines buf = fold (\<lambda>(now, msg). Appendf now msg) lines buf"

subsection \<open>Specification and refinement\<close>

definition log_append :: "string \<Rightarrow> string \<Rightarrow> logLine list \<Rightarrow> logLine list" where
  "log_append now msg L =
     (if L \<noteq> [] \<and> ll_msg (last L) = msg then butlast L @ [repeat_line now (last L)]
      else L @ [new_line now msg])"

text \<open>The ring of size \<open>n\<close> that holds the last lines of \<open>L\<close>.\<close>

definition ring_of :: "nat \<Rightarrow> logLine list \<Rightarrow> logRingBuffer" where
  "ring_of n L = replicate (n - length L) None @ map Some (drop (length L - n) L)"

lemma length_ring_of [simp]: "length (ring_of n L) = n"
  by (simp add: ring_of_def)

lemma ring_of_Nil: "ring_of n [] = newLogRingBuffer n"
  by (simp add: ring_of_def newLogRingBuffer_def)

lemma ring_of_snoc:
  "0 < n \<Longrightarrow> ring_of n (L @ [l]) = tl (ring_of n L) @ [Some l]"
proof (cases "length L < n")
  case True
  then have "n - length L = Suc (n - length (L @ [l]))" by simp
  with True show ?thesis by (simp add: ring_of_def)
next
  case False
  assume "0 < n"
  with False have "Suc (length L) - n = Suc (length L - n)" "length L - n < length L" by auto
  with False show ?thesis
    by (simp add: ring_of_def drop_Suc tl_drop flip: map_tl)
qed

lemma whole_dropped: "0 < n \<Longrightarrow> length L \<le> length L - n \<longleftrightarrow> L = []"
  by (cases L) auto

lemma last_ring_of:
  "0 < n \<Longrightarrow> last (ring_of n L) = (if L = [] then None else Some (last L))"
  by (auto simp: ring_of_def last_append last_map last_drop whole_dropped)

lemma butlast_ring_of:
  assumes "0 < n" "L \<noteq> []"
  shows "butlast (ring_of n L) @ [Some l] = ring_of n (butlast L @ [l])"
proof -
  have "length (butlast L @ [l]) = length L" using assms(2) by simp
  moreover have "length L - n \<le> length (butlast L)" using assms by simp
  then have "drop (length L - n) (butlast L @ [l]) = butlast (drop (length L - n) L) @ [l]"
    by (simp add: butlast_drop)
  ultimately show ?thesis
    using assms by (simp add: ring_of_def butlast_append map_butlast whole_dropped)
qed

lemma Appendf_refines:
  assumes "0 < n"
  shows "Appendf now msg (ring_of n L) = ring_of n (log_append now msg L)"
  using assms
  by (simp add: Appendf_def log_append_def last_ring_of ring_of_snoc butlast_ring_of)

lemma append_all_refines:
  assumes "0 < n"
  shows "append_all lines (ring_of n L) = ring_of n (fold (\<lambda>(now, msg). log_append now msg) lines L)"
  unfolding append_all_def
  by (induction lines arbitrary: L) (auto simp: Appendf_refines [OF assms])

lemma log_append_distinct_adj:
  assumes "distinct_adj (map ll_msg L)"
  shows "distinct_adj (map ll_msg (log_append now msg L))"
proof (cases "L \<noteq> [] \<and> ll_msg (last L) = msg")
  case True
  then obtain M l where "L = M @ [l]" "ll_msg l = msg"
    by (metis append_butlast_last_id)
  with assms show ?thesis
    by (simp add: log_append_def repeat_line_def)
next
  case False
  then show ?thesis
    using assms by (auto simp: log_append_def new_line_def distinct_adj_append_iff last_map)
qed

lemma fold_log_append_distinct_adj:
  "distinct_adj (map ll_msg L) \<Longrightarrow>
   distinct_adj (map ll_msg (fold (\<lambda>(now, msg). log_append now msg) lines L))"
  by (induction lines arbitrary: L) (auto intro: log_append_distinct_adj)

subsection \<open>Properties\<close>

text \<open>C36. After any sequence of log lines, a ring buffer of size \<open>n\<close> holds exactly the last \<open>n\<close>
  entries of the log in which runs of equal lines are folded, oldest first, and its text is
  that of these entries; no two neighbouring entries have the same message.\<close>

theorem LogBuffer_holds_last_entries:
  assumes "0 < n"
  defines "log \<equiv> \<lambda>lines. fold (\<lambda>(now, msg). log_append now msg) lines []"
  shows "append_all lines (newLogRingBuffer n) =
           replicate (n - length (log lines)) None @ map Some (drop (length (log lines) - n) (log lines)) \<and>
         distinct_adj (map ll_msg (log lines)) \<and>
         LogBuffer_String (append_all lines (newLogRingBuffer n)) =
           TrimSpace (concat (map (\<lambda>l. if ll_msg l = [] then [] else logLine_String (Some l) @ [CHR 0x0A])
             (drop (length (log lines) - n) (log lines))))"
proof -
  have r: "append_all lines (newLogRingBuffer n) = ring_of n (log lines)"
    using append_all_refines [OF assms(1), of lines "[]"] by (simp add: ring_of_Nil log_def)
  have e: "logLine_String (Some l) = [] \<longleftrightarrow> ll_msg l = []" for l
    by (simp add: logLine_String_def Let_def)
  have "concat (map (\<lambda>l. if logLine_String l = [] then [] else logLine_String l @ [CHR 0x0A]) (ring_of n L))
      = concat (map (\<lambda>l. if ll_msg l = [] then [] else logLine_String (Some l) @ [CHR 0x0A])
          (drop (length L - n) L))" for L
    by (simp add: ring_of_def o_def e) (simp add: logLine_String_def)
  then show ?thesis
    using fold_log_append_distinct_adj [of "[]" lines]
    by (simp add: r ring_of_def [symmetric] LogBuffer_String_def log_def)
qed

theorem LogBuffer_holds_last_entries_witness:
  "map (map_option ll_msg) (append_all [(''t1'', ''a''), (''t2'', ''b''), (''t3'', ''b''), (''t4'', ''c'')] (newLogRingBuffer 2))
     = [Some ''b'', Some ''c'']"
  using LogBuffer_holds_last_entries [of 2 "[(''t1'', ''a''), (''t2'', ''b''), (''t3'', ''b''), (''t4'', ''c'')]"]
  by (simp add: log_append_def new_line_def repeat_line_def)

end
