(* ===== verification/Crds.thy ===== *)
theory Crds
  imports PostRender LogBuffer
begin

section \<open>Custom resource definitions: internal/action/crds.go\<close>

text \<open>
  Applying the CRDs of a chart before an install or upgrade, according to the policy. The
  functions return the error, the lines written to the log and the next world. A record
  without attributes goes into the log buffer with an empty attribute map behind its message.
\<close>

definition log_info :: "'w env \<Rightarrow> 'w \<Rightarrow> string \<Rightarrow> string \<times> string" where
  "log_info E w msg = (eTimestamp E w, msg @ '': {}'')"

definition log_error :: "'w env \<Rightarrow> 'w \<Rightarrow> string \<Rightarrow> string \<times> string" where
  "log_error E w msg = (eTimestamp E w, ''error: '' @ msg @ '': {}'')"

fun CRDsPolicy_String :: "CRDsPolicy \<Rightarrow> string" where
  "CRDsPolicy_String CRDsUnset = []"
| "CRDsPolicy_String Skip = ''Skip''"
| "CRDsPolicy_String Create = ''Create''"
| "CRDsPolicy_String CreateReplace = ''CreateReplace''"
| "CRDsPolicy_String (CRDsOther s) = s"

definition DefaultCRDPolicy :: CRDsPolicy where "DefaultCRDPolicy = Create"

definition crdPolicyOrDefault :: "CRDsPolicy \<Rightarrow> CRDsPolicy res" where
  "crdPolicyOrDefault policy = (case policy of
       CRDsUnset \<Rightarrow> Ok DefaultCRDPolicy
     | CRDsOther s \<Rightarrow> Err (errors_New (''invalid CRD upgrade policy '' @ [CHR 0x27] @ s @ [CHR 0x27] @
         '', valid values are '' @ [CHR 0x27] @ ''Skip'' @ [CHR 0x27] @ '', '' @ [CHR 0x27] @ ''Create'' @
         [CHR 0x27] @ '' or '' @ [CHR 0x27] @ ''CreateReplace'' @ [CHR 0x27]))
     | p \<Rightarrow> Ok p)"

subsection \<open>Labels\<close>

definition mergeStrStrMaps :: "strmap \<Rightarrow> strmap \<Rightarrow> strmap" where
  "mergeStrStrMaps current desired =
     fold (\<lambda>(k, v) m. AList.update k v m) desired (fold (\<lambda>(k, v) m. AList.update k v m) current [])"

definition mergeLabels :: "'w env \<Rightarrow> ResInfo \<Rightarrow> strmap \<Rightarrow> gerror + ResInfo" where
  "mergeLabels E info labels = (case kLabels (eKube E) info of
       Inl e \<Rightarrow> Inl e
     | Inr current \<Rightarrow> kSetLabels (eKube E) (mergeStrStrMaps current labels) info)"

definition quote :: "string \<Rightarrow> string" where
  "quote s = [CHR 0x22] @ s @ [CHR 0x22]"

definition resourceString :: "ResInfo \<Rightarrow> string" where
  "resourceString info =
     RI_Kind info @ '' '' @ quote (RI_Name info) @ '' in namespace '' @ quote (RI_Namespace info)"

definition setOriginVisitor :: "'w env \<Rightarrow> string \<Rightarrow> string \<Rightarrow> string \<Rightarrow> ResInfo \<Rightarrow> gerror + ResInfo" where
  "setOriginVisitor E grp ns name info =
     (case mergeLabels E info (originLabels grp ns name) of
        Inl e \<Rightarrow> Inl (errors_New (resourceString info @ '' origin labels could not be updated: '' @ Err_Msg e))
      | Inr info' \<Rightarrow> Inr info')"

fun visit_all :: "(ResInfo \<Rightarrow> gerror + ResInfo) \<Rightarrow> ResInfo list \<Rightarrow> gerror + ResInfo list" where
  "visit_all f [] = Inr []"
| "visit_all f (r # rs) = (case f r of Inl e \<Rightarrow> Inl e
     | Inr r' \<Rightarrow> (case visit_all f rs of Inl e \<Rightarrow> Inl e | Inr rs' \<Rightarrow> Inr (r' # rs')))"

subsection \<open>Collecting the definitions\<close>

fun build_crds :: "'w env \<Rightarrow> 'w \<Rightarrow> (string \<times> string) list \<Rightarrow> gerror + ResInfo list" where
  "build_crds E w [] = Inr []"
| "build_crds E w ((name, data) # objs) = (case kBuild (eKube E) data w of
       Inl e \<Rightarrow> Inl (Errorf_w (''failed to parse CustomResourceDefinitions from '' @ name @ '': '') e [])
     | Inr res \<Rightarrow> (case build_crds E w objs of Inl e \<Rightarrow> Inl e | Inr rs \<Rightarrow> Inr (res @ rs)))"

definition is_crd :: "ResInfo \<Rightarrow> bool" where
  "is_crd info \<longleftrightarrow> RI_Group info = ''apiextensions.k8s.io'' \<and> RI_Kind info = ''CustomResourceDefinition''"

subsection \<open>The policies\<close>

text \<open>The policy \<^verbatim>\<open>Create\<close>. Server-side apply would update an existing definition, so its
  presence is checked first and treated like the error of a create.\<close>

datatype crd_step = CrdCreated "ResInfo list" | CrdSkipped | CrdFailed gerror

definition crd_create_error :: "ResInfo \<Rightarrow> gerror \<Rightarrow> crd_step" where
  "crd_create_error crd e =
     (if errors_Is e ApiAlreadyExists then CrdSkipped
      else CrdFailed (Errorf_w (''failed to create CustomResourceDefinition '' @ RI_Name crd @ '': '') e []))"

definition crd_do_create :: "'w env \<Rightarrow> bool \<Rightarrow> ResInfo \<Rightarrow> 'w \<Rightarrow> crd_step \<times> 'w" where
  "crd_do_create E ssa crd w = (case kCreateRes (eKube E) crd ssa ssa w of
       (Inl e, w') \<Rightarrow> (crd_create_error crd e, w')
     | (Inr created, w') \<Rightarrow> (CrdCreated created, w'))"

definition crd_create :: "'w env \<Rightarrow> bool \<Rightarrow> ResInfo \<Rightarrow> 'w \<Rightarrow> crd_step \<times> 'w" where
  "crd_create E ssa crd w =
     (if ssa
      then (case kGetInfo (eKube E) crd w of
              None \<Rightarrow> (crd_create_error crd (kNewAlreadyExists (eKube E) (RI_Name crd)), w)
            | Some e \<Rightarrow>
                if \<not> errors_Is e ApiNotFound
                then (CrdFailed (Errorf_w (''failed to get CustomResourceDefinition '' @ RI_Name crd @ '': '') e []), w)
                else crd_do_create E ssa crd w)
      else crd_do_create E ssa crd w)"

fun create_crds ::
  "'w env \<Rightarrow> bool \<Rightarrow> ResInfo list \<Rightarrow> 'w \<Rightarrow> (gerror + ResInfo list) \<times> (string \<times> string) list \<times> 'w" where
  "create_crds E ssa [] w = (Inr [], [], w)"
| "create_crds E ssa (crd # crds) w = (case crd_create E ssa crd w of
       (CrdFailed e, w') \<Rightarrow> (Inl e, [log_error E w' (Err_Msg e)], w')
     | (CrdSkipped, w') \<Rightarrow> (case create_crds E ssa crds w' of (r, logs, w'') \<Rightarrow>
          (r, log_info E w' (''CustomResourceDefinition '' @ RI_Name crd @ '' is already present. Skipping.'') # logs, w''))
     | (CrdCreated items, w') \<Rightarrow> (case create_crds E ssa crds w' of (r, logs, w'') \<Rightarrow>
          (case r of Inl e \<Rightarrow> Inl e | Inr rs \<Rightarrow> Inr (items @ rs), logs, w'')))"

text \<open>The policy \<^verbatim>\<open>CreateReplace\<close>: the originals are the current definitions of the chart's CRDs.\<close>

fun original_crds :: "'w env \<Rightarrow> 'w \<Rightarrow> ResInfo list \<Rightarrow> gerror + ResInfo list" where
  "original_crds E w [] = Inr []"
| "original_crds E w (r # rs) = (case kGetCRD (eKube E) (RI_Name r) w of
       Inr o' \<Rightarrow> (case original_crds E w rs of Inl e \<Rightarrow> Inl e
          | Inr os \<Rightarrow> Inr (o'\<lparr>RI_Group := ''apiextensions.k8s.io'', RI_Version := RI_Version r,
                              RI_Kind := ''CustomResourceDefinition''\<rparr> # os))
     | Inl e \<Rightarrow>
          if \<not> errors_Is e ApiNotFound
          then Inl (Errorf_w (''failed to get CustomResourceDefinition '' @ RI_Name r @ '': '') e [])
          else original_crds E w rs)"

definition replace_crds ::
  "'w env \<Rightarrow> bool \<Rightarrow> ResInfo list \<Rightarrow> 'w \<Rightarrow> (gerror + ResInfo list) \<times> (string \<times> string) list \<times> 'w" where
  "replace_crds E ssa crds w =
     (let fail = (\<lambda>e. (Inl e, [log_error E w (Err_Msg e)], w))
      in case kRESTConfig (eKube E) w of
           Some e \<Rightarrow> fail (Errorf_w ''could not create Kubernetes client REST config: '' e [])
         | None \<Rightarrow> (case kAPIExtensions (eKube E) w of
             Some e \<Rightarrow> fail (Errorf_w ''could not create Kubernetes client set for API extensions: '' e [])
           | None \<Rightarrow> (case original_crds E w crds of
               Inl e \<Rightarrow> fail e
             | Inr original \<Rightarrow> (case kUpdateRes (eKube E) original crds ssa ssa (\<not> ssa) w of
                 (Inl e, w') \<Rightarrow> (Inl (Errorf_w ''failed to update CustomResourceDefinition(s): '' e []), [], w')
               | (Inr items, w') \<Rightarrow> (Inr items, [], w')))))"

definition wait_crds ::
  "'w env \<Rightarrow> string \<Rightarrow> ResInfo list \<Rightarrow> 'w \<Rightarrow> gerror option \<times> (string \<times> string) list \<times> 'w" where
  "wait_crds E strategy items w =
     (if items = [] then (None, [], w)
      else (case kWaiter (eKube E) strategy w of
          Some e \<Rightarrow> (let e' = Errorf_w ''failed to create CustomResourceDefinition waiter: '' e []
                    in (Some e', [log_error E w (Err_Msg e')], w))
        | None \<Rightarrow> (case kWait (eKube E) items (60 * Second) w of
            (Some e, w') \<Rightarrow> (let e' = Errorf_w ''failed to wait for CustomResourceDefinition(s): '' e []
                           in (Some e', [log_error E w' (Err_Msg e')], w'))
          | (None, w') \<Rightarrow>
              (let applied = log_info E w' (''successfully applied '' @ nat_str (length items) @ '' CustomResourceDefinition(s)'')
               in case kResetMapper (eKube E) w' of
                    None \<Rightarrow> (None, [applied], w')
                  | Some w'' \<Rightarrow> (None, [applied, log_info E w' ''clearing REST mapper cache''], w'')))))"

definition applyCRDs ::
  "'w env \<Rightarrow> CRDsPolicy \<Rightarrow> HelmRelease \<Rightarrow> HelmChart \<Rightarrow> values \<Rightarrow> bool \<Rightarrow> string \<Rightarrow> 'w \<Rightarrow>
   gerror option \<times> (string \<times> string) list \<times> 'w" where
  "applyCRDs E policy obj chrt vals ssa strategy w =
     (if kCRDObjects (eKube E) chrt w = [] then (None, [], w)
      else if policy = Skip
        then (None, [log_info E w (''skipping CustomResourceDefinition apply: policy is set to '' @ CRDsPolicy_String policy)], w)
      else (case kProcessDependencies (eKube E) chrt vals w of
          (Some e, w1) \<Rightarrow> (Some (Errorf_w ''failed to process chart dependencies: '' e []), [], w1)
        | (None, w1) \<Rightarrow> (case build_crds E w1 (kCRDObjects (eKube E) chrt w1) of
            Inl e \<Rightarrow> (Some e, [log_error E w1 (Err_Msg e)], w1)
          | Inr all \<Rightarrow>
             (case visit_all (setOriginVisitor E GroupName (HR_Namespace obj) (HR_Name obj)) (List.filter is_crd all) of
                Inl e \<Rightarrow> (Some e, [], w1)
              | Inr crds \<Rightarrow>
                 (let start = log_info E w1 (''applying CustomResourceDefinition(s) with policy '' @ CRDsPolicy_String policy)
                  in case (case policy of
                         Create \<Rightarrow> create_crds E ssa crds w1
                       | CreateReplace \<Rightarrow> replace_crds E ssa crds w1
                       | _ \<Rightarrow> (let e = errors_New (''unexpected policy '' @ CRDsPolicy_String policy)
                              in (Inl e, [log_error E w1 (Err_Msg e)], w1))) of
                       (Inl e, logs, w2) \<Rightarrow> (Some e, start # logs, w2)
                     | (Inr items, logs, w2) \<Rightarrow> (case wait_crds E strategy items w2 of
                          (err, logs', w3) \<Rightarrow> (err, start # logs @ logs', w3)))))))"

subsection \<open>Lemmas\<close>

text \<open>With server-side apply, a definition that is present is never written by the policy
  \<^verbatim>\<open>Create\<close>.\<close>

lemma create_crds_present:
  assumes "\<And>n. errors_Is (kNewAlreadyExists (eKube E) n) ApiAlreadyExists"
    and "\<forall>crd \<in> set crds. kGetInfo (eKube E) crd w = None"
  shows "fst (create_crds E True crds w) = Inr [] \<and> snd (snd (create_crds E True crds w)) = w"
  using assms(2)
  by (induction crds) (simp_all add: crd_create_def crd_create_error_def assms(1) case_prod_beta)

lemma visit_all_names:
  assumes "visit_all f rs = Inr rs'" and "\<And>r r'. f r = Inr r' \<Longrightarrow> P r \<Longrightarrow> P r'" and "\<forall>r \<in> set rs. P r"
  shows "\<forall>r \<in> set rs'. P r"
  using assms(1,3)
proof (induction rs arbitrary: rs')
  case Nil
  then show ?case by simp
next
  case (Cons r rs)
  then show ?case using assms(2) by (auto split: sum.splits)
qed

end
