(* ===== verification/Annotations.thy ===== *)
theory Annotations
  imports Environment
begin

section \<open>One-off requests by annotation: api/v2/annotations.go and api/v2beta2/annotations.go\<close>

text \<open>
  The force and reset requests. The v2 API delegates to \<^verbatim>\<open>meta.HandleAnnotationRequest\<close> of the
  Flux packages, a parameter; the v2beta2 API has its own copy, \<^verbatim>\<open>handleRequest\<close>. The locale
  \<open>annotation_request\<close> states the contract of both, and \<open>handleRequest\<close> provides it.
\<close>

subsection \<open>Annotation requests\<close>

definition ReconcileRequestAnnotation :: string where
  "ReconcileRequestAnnotation = ''reconcile.fluxcd.io/requestedAt''"
definition ForceRequestAnnotation :: string where
  "ForceRequestAnnotation = ''reconcile.fluxcd.io/forceAt''"
definition ResetRequestAnnotation :: string where
  "ResetRequestAnnotation = ''reconcile.fluxcd.io/resetAt''"

text \<open>The arguments are the annotations, the annotation of the request, the last handled
  reconcile request and the last handled value of this request; the result is the decision
  and the value to remember.\<close>

definition handleRequest :: "strmap \<Rightarrow> string \<Rightarrow> string \<Rightarrow> string \<Rightarrow> bool \<times> string" where
  "handleRequest annotations annotation lastHandledReconcile lastHandled =
     (let requestAt = map_of annotations annotation;
          reconcileAt = map_of annotations ReconcileRequestAnnotation;
          lastHandledRequest = (case requestAt of None \<Rightarrow> '''' | Some _ \<Rightarrow> lastHandled);
          lastHandled' = (case requestAt of None \<Rightarrow> lastHandled | Some v \<Rightarrow> v)
      in (case (requestAt, reconcileAt) of
            (Some rq, Some rc) \<Rightarrow>
              rq = rc \<and> lastHandledReconcile \<noteq> rc \<and> lastHandledRequest \<noteq> rq
          | _ \<Rightarrow> False,
          lastHandled'))"

definition ShouldHandleResetRequest :: "'w env \<Rightarrow> HelmRelease \<Rightarrow> bool \<times> HelmRelease" where
  "ShouldHandleResetRequest E obj =
     (case eHandleAnnotationRequest E (HR_Annotations obj) ResetRequestAnnotation
             (St_LastHandledReconcileAt (HR_Status obj)) (St_LastHandledResetAt (HR_Status obj)) of
        (b, v) \<Rightarrow> (b, with_status (\<lambda>st. st\<lparr>St_LastHandledResetAt := v\<rparr>) obj))"

definition ShouldHandleForceRequest :: "'w env \<Rightarrow> HelmRelease \<Rightarrow> bool \<times> HelmRelease" where
  "ShouldHandleForceRequest E obj =
     (case eHandleAnnotationRequest E (HR_Annotations obj) ForceRequestAnnotation
             (St_LastHandledReconcileAt (HR_Status obj)) (St_LastHandledForceAt (HR_Status obj)) of
        (b, v) \<Rightarrow> (b, with_status (\<lambda>st. st\<lparr>St_LastHandledForceAt := v\<rparr>) obj))"

subsection \<open>The contract of a handler\<close>

text \<open>The contract of an annotation request handler: a handled request carries the token of the
  reconcile request, which was not handled before, and the token is remembered.\<close>

locale annotation_request =
  fixes handle :: "strmap \<Rightarrow> string \<Rightarrow> string \<Rightarrow> string \<Rightarrow> bool \<times> string"
  assumes handled: "fst (handle ann a lastReconcile before) \<Longrightarrow>
      \<exists>v. map_of ann a = Some v \<and> map_of ann ReconcileRequestAnnotation = Some v \<and>
          lastReconcile \<noteq> v \<and> before \<noteq> v"
    and remembered: "snd (handle ann a lastReconcile before) =
      (case map_of ann a of None \<Rightarrow> before | Some v \<Rightarrow> v)"
begin

lemma not_again: "\<not> fst (handle ann a lr (snd (handle ann a lr' before)))"
proof
  assume h: "fst (handle ann a lr (snd (handle ann a lr' before)))"
  from handled [OF this] obtain v where "map_of ann a = Some v" "snd (handle ann a lr' before) \<noteq> v"
    by auto
  then show False by (simp add: remembered)
qed

lemma needs_annotation: "map_of ann a = None \<Longrightarrow> \<not> fst (handle ann a lr before)"
  using handled by fastforce

end

interpretation handle_request: annotation_request handleRequest
  by unfold_locales (auto simp: handleRequest_def Let_def split: option.splits)

lemma ShouldHandle_frame [frame_simps]:
  "HR_Spec (snd (ShouldHandleForceRequest E obj)) = HR_Spec obj"
  "History (snd (ShouldHandleForceRequest E obj)) = History obj"
  "Conditions (snd (ShouldHandleForceRequest E obj)) = Conditions obj"
  "HR_Annotations (snd (ShouldHandleForceRequest E obj)) = HR_Annotations obj"
  "HR_Generation (snd (ShouldHandleForceRequest E obj)) = HR_Generation obj"
  "St_LastAttemptedReleaseAction (HR_Status (snd (ShouldHandleForceRequest E obj))) =
     St_LastAttemptedReleaseAction (HR_Status obj)"
  "GetFailureCount r (snd (ShouldHandleForceRequest E obj)) = GetFailureCount r obj"
  by (simp_all add: ShouldHandleForceRequest_def split: prod.split)
    (cases r; simp add: ShouldHandleForceRequest_def InstallRemediation_GetFailureCount_def
      UpgradeRemediation_GetFailureCount_def split: prod.split)

end
