(* ===== verification/Sample.thy ===== *)
theory Sample
  imports Annotations
begin

section \<open>An instance of the environment\<close>

text \<open>
  Concrete functions for the parameters of the model: a list of conditions, a digest library, an
  in-memory Helm over a list of releases (newest first) and a cluster in which nothing fails.
  They satisfy the predicates that state what the controller relies on, and the examples of
  the development are evaluated in them.
\<close>

subsection \<open>Digests and a release\<close>

definition sample_digest :: digest_api where
  "sample_digest =
     \<lparr>dCanonical = ''sha256'', dAvailable = (\<lambda>a. a = ''sha256''),
      dParse = (\<lambda>d. HasPrefix d ''sha256:''), dAlgorithm = takeWhile (\<lambda>c. c \<noteq> CHR '':''),
      dDigest = (\<lambda>a j. a @ '':'' @ nat_str (size j)),
      dVerified = (\<lambda>d j. takeWhile (\<lambda>c. c \<noteq> CHR '':'') d @ '':'' @ nat_str (size j) = d),
      dDigestValues = (\<lambda>a v. a @ '':'' @ nat_str (length (case v of None \<Rightarrow> [] | Some kvs \<Rightarrow> kvs))),
      dVerifyValues = (\<lambda>d v. d = ''sha256:'' @ nat_str (length (case v of None \<Rightarrow> [] | Some kvs \<Rightarrow> kvs))),
      dSha256 = (\<lambda>s. replicate 64 (CHR ''a'')),
      dEncInfo = (\<lambda>i. Some (JArr (map (\<lambda>c. JNull) (Info_Status i)))),
      dEncMetadata = (\<lambda>m. Some (JStr (Meta_Name m))),
      dEncHook = (\<lambda>h. Some (JStr (Hook_Name h)))\<rparr>"

definition sample_metadata :: HelmMetadata where
  "sample_metadata =
     \<lparr>Meta_Name = ''podinfo'', Meta_Version = ''6.0.0'', Meta_AppVersion = ''6'', Meta_Rest = JNull\<rparr>"

definition sample_release :: HelmRel where
  "sample_release =
     \<lparr>Rel_Name = ''app'', Rel_Namespace = ''ns'', Rel_Version = 1,
      Rel_Info = Some (HelmInfo_zero\<lparr>Info_Status := ''deployed''\<rparr>),
      Rel_Chart = Some sample_metadata,
      Rel_Config = Some [(''replicas'', JInt 2)], Rel_Manifest = ''kind: Pod'',
      Rel_Hooks = [\<lparr>Hook_Name = ''probe'', Hook_Events = [''test''], Hook_StartedAt = 0,
                    Hook_CompletedAt = 0, Hook_Phase = ''Succeeded'', Hook_Rest = JNull\<rparr>],
      Rel_ApplyMethod = ''ssa''\<rparr>"

subsection \<open>Conditions\<close>

definition get_condition :: "Condition list \<Rightarrow> string \<Rightarrow> Condition option" where
  "get_condition cs t = find (\<lambda>c. Cond_Type c = t) cs"

definition delete_condition :: "string \<Rightarrow> Condition list \<Rightarrow> Condition list" where
  "delete_condition t cs = List.filter (\<lambda>c. Cond_Type c \<noteq> t) cs"

definition set_condition :: "time \<Rightarrow> int64 \<Rightarrow> Condition \<Rightarrow> Condition list \<Rightarrow> Condition list" where
  "set_condition now gen c cs =
     (let c' = c\<lparr>Cond_ObservedGeneration := gen, Cond_LastTransitionTime := now\<rparr>
      in if get_condition cs (Cond_Type c) = None then cs @ [c']
         else map (\<lambda>d. if Cond_Type d = Cond_Type c then c' else d) cs)"

definition mark_condition ::
  "time \<Rightarrow> int64 \<Rightarrow> string \<Rightarrow> ConditionStatus \<Rightarrow> string \<Rightarrow> string \<Rightarrow> Condition list \<Rightarrow> Condition list" where
  "mark_condition now gen t st r m cs =
     set_condition now gen \<lparr>Cond_Type = t, Cond_Status = st, Cond_ObservedGeneration = 0,
       Cond_LastTransitionTime = 0, Cond_Reason = r, Cond_Message = m\<rparr> cs"

definition condition_is_true :: "Condition list \<Rightarrow> string \<Rightarrow> bool" where
  "condition_is_true cs t =
     (case get_condition cs t of None \<Rightarrow> False | Some c \<Rightarrow> Cond_Status c = ConditionTrue)"

definition sample_conditions :: cond_api where
  "sample_conditions =
     \<lparr>cGet = get_condition, cSet = set_condition, cDelete = delete_condition, cMark = mark_condition,
      cMarkReconciling = (\<lambda>now gen r m cs. mark_condition now gen ReconcilingCondition ConditionTrue r m
                            (delete_condition StalledCondition cs)),
      cMarkStalled = (\<lambda>now gen r m cs. mark_condition now gen StalledCondition ConditionTrue r m
                            (delete_condition ReconcilingCondition cs)),
      cIsTrue = condition_is_true, cIsReady = (\<lambda>cs. condition_is_true cs ReadyCondition),
      cGetReason = (\<lambda>cs t. case get_condition cs t of None \<Rightarrow> '''' | Some c \<Rightarrow> Cond_Reason c),
      cGetMessage = (\<lambda>cs t. case get_condition cs t of None \<Rightarrow> '''' | Some c \<Rightarrow> Cond_Message c)\<rparr>"

subsection \<open>Helm\<close>

type_synonym sample_world = "HelmRel list"

definition with_rel_status :: "string \<Rightarrow> HelmRel \<Rightarrow> HelmRel" where
  "with_rel_status st r = r\<lparr>Rel_Info := Some ((case Rel_Info r of None \<Rightarrow> HelmInfo_zero | Some i \<Rightarrow> i)
     \<lparr>Info_Status := st\<rparr>)\<rparr>"

definition next_version :: "sample_world \<Rightarrow> int64" where
  "next_version w = (case w of [] \<Rightarrow> 1 | r # _ \<Rightarrow> Rel_Version r + 1)"

definition new_release :: "string \<Rightarrow> string \<Rightarrow> HelmChart \<Rightarrow> values \<Rightarrow> string \<Rightarrow> sample_world \<Rightarrow> HelmRel" where
  "new_release name ns chart vals st w =
     \<lparr>Rel_Name = name, Rel_Namespace = ns, Rel_Version = next_version w,
      Rel_Info = Some (HelmInfo_zero\<lparr>Info_Status := st\<rparr>), Rel_Chart = Some (Ch_Metadata chart),
      Rel_Config = vals, Rel_Manifest = '''', Rel_Hooks = [], Rel_ApplyMethod = ''ssa''\<rparr>"

definition put_release :: "HelmRel \<Rightarrow> sample_world \<Rightarrow> sample_world" where
  "put_release r w = map (\<lambda>x. if Rel_Name x = Rel_Name r \<and> Rel_Version x = Rel_Version r then r else x) w"

definition sample_helm :: "sample_world helm_api" where
  "sample_helm =
     \<lparr>hLast = (\<lambda>name w. case find (\<lambda>r. Rel_Name r = name) w of
          None \<Rightarrow> Inl (sentinel_err DriverReleaseNotFound) | Some r \<Rightarrow> Inr (RelV1 r)),
      hGet = (\<lambda>name v w. case find (\<lambda>r. Rel_Name r = name \<and> Rel_Version r = v) w of
          None \<Rightarrow> Inl (sentinel_err DriverReleaseNotFound) | Some r \<Rightarrow> Inr (RelV1 r)),
      hHistory = (\<lambda>name w. Inr (map RelV1 (List.filter (\<lambda>r. Rel_Name r = name) w))),
      hUpdate = (\<lambda>rls w. case rls of RelV1 r \<Rightarrow> (None, put_release r w) | RelOther \<Rightarrow> (None, w)),
      hSetStatus = (\<lambda>st descr w r. with_rel_status st r),
      hErrNoDeployedReleases = (\<lambda>n. errors_New (n @ '' has no deployed releases'')),
      hInstall = (\<lambda>cfg chart vals w.
          let r = new_release (IC_ReleaseName cfg) (IC_Namespace cfg) chart vals ''deployed'' w
          in \<lparr>Run_Ops = [OpCreate (RelV1 (with_rel_status ''pending-install'' r)) None w,
                         OpUpdate (RelV1 r) None (r # w)],
              Run_Logs = [], Run_Result = Inr (RelV1 r), Run_World = r # w\<rparr>),
      hUpgrade = (\<lambda>cfg name chart vals w.
          let r = new_release name (UC_Namespace cfg) chart vals ''deployed'' w;
              old = map (with_rel_status ''superseded'') w
          in \<lparr>Run_Ops = OpCreate (RelV1 (with_rel_status ''pending-upgrade'' r)) None w #
                map (\<lambda>o'. OpUpdate (RelV1 o') None w) old @ [OpUpdate (RelV1 r) None (r # old)],
              Run_Logs = [], Run_Result = Inr (RelV1 r), Run_World = r # old\<rparr>),
      hRollback = (\<lambda>cfg name w.
          case find (\<lambda>r. Rel_Name r = name \<and> Rel_Version r = RC_Version cfg) w of
            None \<Rightarrow> \<lparr>Run_Ops = [], Run_Logs = [], Run_Result = Some (sentinel_err DriverReleaseNotFound), Run_World = w\<rparr>
          | Some t \<Rightarrow>
             (let r = with_rel_status ''deployed'' (t\<lparr>Rel_Version := next_version w\<rparr>);
                  old = map (with_rel_status ''superseded'') w
              in \<lparr>Run_Ops = OpCreate (RelV1 r) None (r # w) # map (\<lambda>o'. OpUpdate (RelV1 o') None w) old,
                  Run_Logs = [], Run_Result = None, Run_World = r # old\<rparr>)),
      hTest = (\<lambda>cfg name w. case find (\<lambda>r. Rel_Name r = name) w of
          None \<Rightarrow> \<lparr>Run_Ops = [], Run_Logs = [], Run_Result = Inl (sentinel_err DriverReleaseNotFound), Run_World = w\<rparr>
        | Some r \<Rightarrow> \<lparr>Run_Ops = [OpUpdate (RelV1 r) None w], Run_Logs = [], Run_Result = Inr (RelV1 r), Run_World = w\<rparr>),
      hUninstall = (\<lambda>cfg name w. case find (\<lambda>r. Rel_Name r = name) w of
          None \<Rightarrow> \<lparr>Run_Ops = [], Run_Logs = [], Run_Result = (None, Some (sentinel_err DriverReleaseNotFound)), Run_World = w\<rparr>
        | Some r \<Rightarrow> \<lparr>Run_Ops = [OpUpdate (RelV1 (with_rel_status ''uninstalled'' r)) None w],
              Run_Logs = [], Run_Result = (Some (RelV1 (with_rel_status ''uninstalled'' r)), None), Run_World = []\<rparr>)\<rparr>"

subsection \<open>The cluster and the environment\<close>

definition sample_pod :: Unst where
  "sample_pod = \<lparr>U_Group = [], U_Version = ''v1'', U_Kind = ''Pod'', U_Namespace = [], U_Name = ''web'',
     U_Labels = None, U_Annotations = None, U_Rest = JNull\<rparr>"

definition sample_hook :: Unst where
  "sample_hook = sample_pod\<lparr>U_Name := ''probe'', U_Annotations := Some [(''helm.sh/hook'', ''test'')]\<rparr>"

definition sample_kube :: "sample_world kube_api" where
  "sample_kube =
     \<lparr>kRESTConfig = (\<lambda>w. None), kNewClient = (\<lambda>w. None), kReadObjects = (\<lambda>s. Inr (if s = [] then [] else [sample_pod, sample_hook])),
      kNormalize = Inr, kIsNamespaced = (\<lambda>o' w. Inr True), kObjMetaString = U_Name,
      kGetObject = (\<lambda>o' w. Inl (sentinel_err ApiNotFound)),
      kPatchReplaceFieldsManagers = (\<lambda>o' ms m. Inr []),
      kCreateObject = (\<lambda>o' m w. (None, w)), kPatchObject = (\<lambda>o' p m w. (None, w)),
      kIsInvalid = (\<lambda>e. False), kDiffList = (\<lambda>os opts w. ([], None)), kHasChanges = (\<lambda>d. d \<noteq> []),
      kGroupKindLess = (\<lambda>a b. False), kAggregate = (\<lambda>es. errors_New ''errors''),
      kReduceFlatten = id, kAggregateErrors = (\<lambda>e. None), kChangeSetString = (\<lambda>es. []),
      kCRDObjects = (\<lambda>c w. []), kProcessDependencies = (\<lambda>c v w. (None, w)), kBuild = (\<lambda>s w. Inr []),
      kLabels = (\<lambda>r. Inr []), kSetLabels = (\<lambda>m r. Inr r), kGetInfo = (\<lambda>r w. Some (sentinel_err ApiNotFound)),
      kCreateRes = (\<lambda>r a b w. (Inr [r], w)), kNewAlreadyExists = (\<lambda>n. sentinel_err ApiAlreadyExists),
      kAPIExtensions = (\<lambda>w. None), kGetCRD = (\<lambda>n w. Inl (sentinel_err ApiNotFound)),
      kUpdateRes = (\<lambda>os rs a b c w. (Inr rs, w)), kWaiter = (\<lambda>s w. None), kWait = (\<lambda>rs d w. (None, w)),
      kResetMapper = Some\<rparr>"

definition sample_flags :: flags where
  "sample_flags = \<lparr>UseHelm3Defaults = False, AllowDNSLookups = False, defaultToRetryOnFailure = False,
     fieldManager = ''helm-controller'', disallowedFieldManagers = [], ManagedFieldsManager = ''helm-controller''\<rparr>"

definition sample_env :: "sample_world env" where
  "sample_env =
     \<lparr>eDigest = sample_digest, eCond = sample_conditions, eHelm = sample_helm, eKube = sample_kube,
      eFlags = sample_flags, eNow = (\<lambda>w. 0), eTimestamp = (\<lambda>w. ''t''), eCtxErr = (\<lambda>w. None), eEnqueued = (\<lambda>w. False),
      ePatch = (\<lambda>obj w. (None, w)), eHandleAnnotationRequest = handleRequest\<rparr>"

definition sample_spec :: HelmReleaseSpec where
  "sample_spec =
     \<lparr>Spec_Chart = None, Spec_ChartRef = None, Spec_Interval = 10 * Minute, Spec_KubeConfig = None,
      Spec_Suspend = False, Spec_ReleaseName = ''app'', Spec_TargetNamespace = [],
      Spec_StorageNamespace = [], Spec_DependsOn = [], Spec_Timeout = None, Spec_MaxHistory = None,
      Spec_ServiceAccountName = [], Spec_PersistentClient = None, Spec_DriftDetection = None,
      Spec_Install = None, Spec_Upgrade = None, Spec_Test = None, Spec_Rollback = None,
      Spec_Uninstall = None, Spec_ValuesFrom = [], Spec_Values = None, Spec_CommonMetadata = None,
      Spec_PostRenderers = None, Spec_PostRenderStrategy = PostRenderStrategyUnset,
      Spec_WaitStrategy = None, Spec_HealthCheckExprs = []\<rparr>"

definition sample_status :: HelmReleaseStatus where
  "sample_status =
     \<lparr>St_ObservedGeneration = 0, St_ObservedPostRenderersDigest = [], St_ObservedCommonMetadataDigest = [],
      St_LastAttemptedGeneration = 0, St_Conditions = [], St_HelmChart = [], St_StorageNamespace = [],
      St_History = [], St_Inventory = None, St_LastAttemptedReleaseAction = ReleaseActionNone,
      St_LastAttemptedReleaseActionDuration = None, St_Failures = 0, St_InstallFailures = 0,
      St_UpgradeFailures = 0, St_LastAttemptedRevision = [], St_LastAttemptedRevisionDigest = [],
      St_LastAttemptedValuesChecksum = [], St_LastReleaseRevision = 0, St_LastAttemptedConfigDigest = [],
      St_LastHandledResetAt = [], St_LastHandledReconcileAt = [], St_LastHandledForceAt = []\<rparr>"

definition sample_object :: HelmRelease where
  "sample_object =
     \<lparr>HR_Name = ''app'', HR_Namespace = ''ns'', HR_Generation = 1, HR_DeletionTimestamp = None,
      HR_Annotations = [], HR_Finalizers = [], HR_Spec = sample_spec, HR_Status = sample_status\<rparr>"

definition sample_request :: "sample_world Request" where
  "sample_request =
     \<lparr>Object = sample_object, Chart = \<lparr>Ch_Metadata = sample_metadata, Ch_ID = 0\<rparr>,
      Values = Some [(''replicas'', JInt 2)], Events = [], World = []\<rparr>"

subsection \<open>The instance satisfies the laws\<close>

lemma sample_digest_ok: "digest_ok sample_digest"
proof -
  have "takeWhile (\<lambda>c. c \<noteq> CHR '':'') (''sha256'' @ CHR '':'' # t) = ''sha256''" for t
    by simp
  then show ?thesis unfolding digest_ok_def sample_digest_def by simp
qed

lemma find_set_condition_same:
  "get_condition (set_condition now gen c cs) (Cond_Type c) =
     Some (c\<lparr>Cond_ObservedGeneration := gen, Cond_LastTransitionTime := now\<rparr>)"
  by (induction cs) (auto simp: set_condition_def get_condition_def Let_def split: if_splits option.splits)

lemma find_set_condition_other:
  assumes "t \<noteq> Cond_Type c"
  shows "get_condition (set_condition now gen c cs) t = get_condition cs t"
proof -
  have "find (\<lambda>d. Cond_Type d = t) (cs @ [c\<lparr>Cond_ObservedGeneration := g, Cond_LastTransitionTime := n\<rparr>])
      = find (\<lambda>d. Cond_Type d = t) cs" for g n
    using assms by (induction cs) auto
  moreover have "find (\<lambda>d. Cond_Type d = t)
        (map (\<lambda>d. if Cond_Type d = Cond_Type c then c\<lparr>Cond_ObservedGeneration := g, Cond_LastTransitionTime := n\<rparr> else d) cs)
      = find (\<lambda>d. Cond_Type d = t) cs" for g n
    using assms by (induction cs) auto
  ultimately show ?thesis by (simp add: set_condition_def get_condition_def Let_def)
qed

lemma set_condition_distinct:
  assumes "distinct (map Cond_Type cs)"
  shows "distinct (map Cond_Type (set_condition now gen c cs))"
proof (cases "get_condition cs (Cond_Type c)")
  case None
  then have "Cond_Type c \<notin> Cond_Type ` set cs" by (auto simp: get_condition_def find_None_iff)
  with assms None show ?thesis by (auto simp: set_condition_def Let_def)
next
  case (Some d)
  have "map Cond_Type (map (\<lambda>d. if Cond_Type d = Cond_Type c
      then c\<lparr>Cond_ObservedGeneration := gen, Cond_LastTransitionTime := now\<rparr> else d) cs) = map Cond_Type cs"
    by simp
  with assms Some show ?thesis by (simp only: set_condition_def Let_def option.distinct if_False)
qed

lemma sample_conditions_ok: "conditions_ok sample_conditions"
  by (simp add: conditions_ok_def sample_conditions_def find_set_condition_same
      find_set_condition_other set_condition_distinct delete_condition_def mark_condition_def condition_is_true_def cond_shows_def)
    (simp add: get_condition_def)

end
