(* ===== verification/Verify.thy ===== *)
theory Verify
  imports Sample
begin

section \<open>Verification of releases: internal/action/verify.go and reset.go\<close>

text \<open>
  How the controller decides that a release in the storage is the one it recorded, that it
  still matches chart and values, that the release target moved, and that the failure counters
  have to be reset.
\<close>

subsection \<open>The target of a release\<close>

definition ReleaseTargetChanged :: "digest_api \<Rightarrow> HelmRelease \<Rightarrow> string \<Rightarrow> string option" where
  "ReleaseTargetChanged D obj chartName =
     (case Latest (History obj) of
        None \<Rightarrow> None
      | Some cur \<Rightarrow>
          if St_StorageNamespace (HR_Status obj) = '''' then None
          else if GetStorageNamespace obj \<noteq> St_StorageNamespace (HR_Status obj)
            then Some ''storage namespace''
          else if GetReleaseNamespace obj \<noteq> Snap_Namespace cur then Some ''release namespace''
          else if ShortenName D (GetReleaseName obj) \<noteq> Snap_Name cur then Some ''release name''
          else if chartName \<noteq> Snap_ChartName cur then Some ''chart name''
          else None)"

subsection \<open>Releases in the storage\<close>

definition LastRelease :: "'w env \<Rightarrow> string \<Rightarrow> 'w \<Rightarrow> HelmRel res" where
  "LastRelease E releaseName w =
     (case hLast (eHelm E) (ShortenName (eDigest E) releaseName) w of
        Inl e \<Rightarrow> Err (if errors_Is e DriverReleaseNotFound then sentinel_err ErrReleaseNotFound else e)
      | Inr RelOther \<Rightarrow> Err errChartAPI
      | Inr (RelV1 rls) \<Rightarrow> Ok rls)"

definition VerifyReleaseObject :: "digest_api \<Rightarrow> Snapshot \<Rightarrow> HelmRel \<Rightarrow> gerror option" where
  "VerifyReleaseObject D snapshot rls =
     (if Snap_APIVersion snapshot \<noteq> CurrentSnapshotAPIVersion then None
      else if \<not> dParse D (Snap_Digest snapshot) then Some (sentinel_err ErrReleaseDigest)
      else (case Observation_Encode D ((ObserveRelease rls)\<lparr>Obs_OCIDigest := Snap_OCIDigest snapshot\<rparr>) of
              None \<Rightarrow> Some (errors_New ''json: unsupported value'')
            | Some j \<Rightarrow> if \<not> dVerified D (Snap_Digest snapshot) j
                       then Some (sentinel_err ErrReleaseNotObserved) else None))"

definition VerifySnapshot :: "'w env \<Rightarrow> Snapshot option \<Rightarrow> 'w \<Rightarrow> HelmRel res" where
  "VerifySnapshot E snapshot w = (case snapshot of
       None \<Rightarrow> Err (sentinel_err ErrReleaseNotFound)
     | Some s \<Rightarrow> (case hGet (eHelm E) (Snap_Name s) (Snap_Version s) w of
          Inl e \<Rightarrow> Err (if errors_Is e DriverReleaseNotFound then sentinel_err ErrReleaseDisappeared else e)
        | Inr RelOther \<Rightarrow> Err errChartAPI
        | Inr (RelV1 rls) \<Rightarrow> (case VerifyReleaseObject (eDigest E) s rls of
             Some e \<Rightarrow> Err e | None \<Rightarrow> Ok rls)))"

text \<open>\<^verbatim>\<open>rls.Chart.Metadata\<close> is dereferenced when chart metadata is given.\<close>

definition VerifyRelease ::
  "digest_api \<Rightarrow> HelmRel option \<Rightarrow> Snapshot option \<Rightarrow> HelmMetadata option \<Rightarrow> values \<Rightarrow> unit res" where
  "VerifyRelease D rls snapshot chrt vals = (case rls of
       None \<Rightarrow> Err (sentinel_err ErrReleaseNotFound)
     | Some r \<Rightarrow>
        bind_res
          (case chrt of None \<Rightarrow> Ok ()
           | Some c \<Rightarrow> (case Rel_Chart r of None \<Rightarrow> Panic
               | Some m \<Rightarrow> if Meta_Name m \<noteq> Meta_Name c \<or> Meta_Version m \<noteq> Meta_Version c
                          then Err (sentinel_err ErrChartChanged) else Ok ()))
          (\<lambda>_. case snapshot of None \<Rightarrow> Err (sentinel_err ErrConfigDigest)
             | Some s \<Rightarrow> if \<not> dVerifyValues D (Snap_ConfigDigest s) vals
                        then Err (sentinel_err ErrConfigDigest) else Ok ()))"

subsection \<open>Resetting the failure counters\<close>

definition MustResetFailures ::
  "'w env \<Rightarrow> HelmRelease \<Rightarrow> HelmMetadata \<Rightarrow> values \<Rightarrow> string option \<times> HelmRelease" where
  "MustResetFailures E obj chart vals =
     (case ShouldHandleResetRequest E obj of (resetRequested, obj') \<Rightarrow>
        (let st = HR_Status obj';
             d = (if St_LastAttemptedConfigDigest st = ''''
                  then ''sha1:'' @ St_LastAttemptedValuesChecksum st
                  else St_LastAttemptedConfigDigest st)
         in (if St_LastAttemptedGeneration st \<noteq> HR_Generation obj'
               then Some ''generation differs from last attempt''
             else if St_LastAttemptedRevision st \<noteq> Meta_Version chart
               then Some ''chart version differs from last attempt''
             else if (St_LastAttemptedConfigDigest st \<noteq> '''' \<or> St_LastAttemptedValuesChecksum st \<noteq> '''')
                     \<and> \<not> dVerifyValues (eDigest E) d vals
               then Some ''values differ from last attempt''
             else if resetRequested then Some ''reset requested through annotation''
             else None, obj')))"

subsection \<open>Lemmas\<close>

lemma VerifyReleaseObject_None_iff:
  assumes "digest_ok D"
  shows "VerifyReleaseObject D s r = None \<longleftrightarrow>
    Snap_APIVersion s = CurrentSnapshotAPIVersion \<longrightarrow>
      dParse D (Snap_Digest s) \<and>
      (\<exists>j. Observation_Encode D ((ObserveRelease r)\<lparr>Obs_OCIDigest := Snap_OCIDigest s\<rparr>) = Some j \<and>
           dDigest D (dAlgorithm D (Snap_Digest s)) j = Snap_Digest s)"
  using digest_okD(4) [OF assms]
  by (auto simp: VerifyReleaseObject_def split: option.splits)

text \<open>The errors of the verification are the two sentinels, or that of the JSON encoder.\<close>

lemma VerifyReleaseObject_errors:
  assumes "VerifyReleaseObject D s r = Some e"
  shows "e = sentinel_err ErrReleaseDigest \<or> e = sentinel_err ErrReleaseNotObserved \<or>
    Observation_Encode D ((ObserveRelease r)\<lparr>Obs_OCIDigest := Snap_OCIDigest s\<rparr>) = None"
  using assms by (auto simp: VerifyReleaseObject_def split: if_splits option.splits)

text \<open>What is recorded for a release: its observation with an OCI digest and an action.\<close>

lemma Verify_recorded:
  assumes D: "digest_ok D"
    and e: "Observation_Encode D ((ObserveRelease r)\<lparr>Obs_OCIDigest := d\<rparr>) \<noteq> None"
    and s: "Snap_APIVersion s = CurrentSnapshotAPIVersion"
       "Snap_Digest s = Digest_Observation D (dCanonical D) ((ObserveRelease r)\<lparr>Obs_OCIDigest := d\<rparr>)"
       "Snap_OCIDigest s = d"
  shows "VerifyReleaseObject D s r = None"
proof -
  from e obtain j where j: "Observation_Encode D ((ObserveRelease r)\<lparr>Obs_OCIDigest := d\<rparr>) = Some j"
    by auto
  then have "Snap_Digest s = dDigest D (dCanonical D) j"
    using s(2) by (simp add: Digest_Observation_def)
  with s(1,3) j digest_okD(1-3) [OF D] show ?thesis
    by (simp add: VerifyReleaseObject_None_iff [OF D])
qed

subsection \<open>Properties\<close>





text \<open>The failure counters are reset exactly when the generation, the chart version or the
  values differ from those of the last attempt, or a new reset request was made; in every case
  the reset request is taken note of and nothing else of the object changes.\<close>

theorem MustResetFailures_iff:
  "(fst (MustResetFailures E obj chart vals) \<noteq> None \<longleftrightarrow>
      St_LastAttemptedGeneration (HR_Status obj) \<noteq> HR_Generation obj \<or>
      St_LastAttemptedRevision (HR_Status obj) \<noteq> Meta_Version chart \<or>
      (St_LastAttemptedConfigDigest (HR_Status obj) \<noteq> '''' \<and>
         \<not> dVerifyValues (eDigest E) (St_LastAttemptedConfigDigest (HR_Status obj)) vals) \<or>
      (St_LastAttemptedConfigDigest (HR_Status obj) = '''' \<and>
         St_LastAttemptedValuesChecksum (HR_Status obj) \<noteq> '''' \<and>
         \<not> dVerifyValues (eDigest E) (''sha1:'' @ St_LastAttemptedValuesChecksum (HR_Status obj)) vals) \<or>
      fst (ShouldHandleResetRequest E obj)) \<and>
   snd (MustResetFailures E obj chart vals) = snd (ShouldHandleResetRequest E obj) \<and>
   (\<exists>v. snd (ShouldHandleResetRequest E obj) = with_status (\<lambda>st. st\<lparr>St_LastHandledResetAt := v\<rparr>) obj)"
  by (auto simp: MustResetFailures_def ShouldHandleResetRequest_def Let_def split: prod.splits if_splits)

theorem MustResetFailures_iff_witness:
  "fst (MustResetFailures sample_env (sample_object\<lparr>HR_Generation := 0\<rparr>)
     (sample_metadata\<lparr>Meta_Version := []\<rparr>) None) = None"
proof -
  have "\<not> fst (ShouldHandleResetRequest sample_env (sample_object\<lparr>HR_Generation := 0\<rparr>))"
    by (simp add: ShouldHandleResetRequest_def handleRequest_def sample_env_def sample_object_def)
  then show ?thesis
    using MustResetFailures_iff [of sample_env "sample_object\<lparr>HR_Generation := 0\<rparr>"
        "sample_metadata\<lparr>Meta_Version := []\<rparr>" None]
    by (simp add: sample_object_def sample_metadata_def sample_status_def)
qed

text \<open>The release target is reported as changed exactly when a release was recorded in a
  storage namespace and the storage namespace, the release namespace, the (shortened) release
  name or the chart name differs from the recorded one.\<close>

theorem ReleaseTargetChanged_iff:
  "ReleaseTargetChanged D obj chartName \<noteq> None \<longleftrightarrow>
     St_StorageNamespace (HR_Status obj) \<noteq> '''' \<and>
     (\<exists>cur. Latest (History obj) = Some cur \<and>
        \<not> (GetStorageNamespace obj = St_StorageNamespace (HR_Status obj) \<and>
           GetReleaseNamespace obj = Snap_Namespace cur \<and>
           ShortenName D (GetReleaseName obj) = Snap_Name cur \<and> chartName = Snap_ChartName cur))"
  by (auto simp: ReleaseTargetChanged_def split: option.splits)

text \<open>A release name is made to fit the 53 characters Helm allows; a name that fits is kept, so
  shortening twice is shortening once.\<close>

theorem ShortenName_fits:
  assumes "digest_ok D"
  shows "length (ShortenName D name) \<le> 53 \<and> ShortenName D (ShortenName D name) = ShortenName D name \<and>
    (length name \<le> 53 \<longrightarrow> ShortenName D name = name)"
  using digest_okD(6) [OF assms] by (simp add: ShortenName_def)

theorem ShortenName_fits_witness:
  "length (ShortenName sample_digest (replicate 60 (CHR ''x''))) \<le> 53"
  using ShortenName_fits [OF sample_digest_ok] by blast

end
