(* ===== verification/Actions.thy ===== *)
theory Actions
  imports Crds Verify
begin

section \<open>Helm actions: internal/action/install.go, upgrade.go, rollback.go, test.go, uninstall.go\<close>

text \<open>
  The settings with which the controller runs Helm's actions, and the runs themselves: resolving
  server-side apply, applying the CRDs and calling Helm. A run that fails before Helm is called
  has no storage operations. The settings are those of the Helm SDK structs the code fills in;
  wait.go, ssa.go and post\_render.go contribute the translations of single settings.
\<close>

subsection \<open>Translations of settings\<close>

fun PostRenderStrategy_String :: "PostRenderStrategy \<Rightarrow> string" where
  "PostRenderStrategy_String PostRenderStrategyUnset = []"
| "PostRenderStrategy_String PostRenderStrategyNoHooks = ''nohooks''"
| "PostRenderStrategy_String PostRenderStrategyCombined = ''combined''"
| "PostRenderStrategy_String PostRenderStrategySeparate = ''separate''"

definition toHelmPostRenderStrategy :: "flags \<Rightarrow> PostRenderStrategy \<Rightarrow> string" where
  "toHelmPostRenderStrategy F s =
     (if s = PostRenderStrategyUnset then (if UseHelm3Defaults F then ''nohooks'' else ''combined'')
      else PostRenderStrategy_String s)"

fun toHelmSSAValue :: "ServerSideApplyMode \<Rightarrow> string" where
  "toHelmSSAValue ServerSideApplyEnabled = ''true''"
| "toHelmSSAValue ServerSideApplyDisabled = ''false''"
| "toHelmSSAValue ServerSideApplyAuto = ''auto''"
| "toHelmSSAValue ServerSideApplyUnset = []"

text \<open>\<^verbatim>\<open>getWaitStrategy\<close>; the second argument is the action's \<^verbatim>\<open>GetDisableWait()\<close>.\<close>

definition getWaitStrategy :: "flags \<Rightarrow> WaitStrategyName \<Rightarrow> bool \<Rightarrow> string" where
  "getWaitStrategy F strategy disableWait =
     (if disableWait then ''hookOnly''
      else (case strategy of
          WaitStrategyPoller \<Rightarrow> ''watcher''
        | WaitStrategyLegacy \<Rightarrow> ''legacy''
        | WaitStrategyUnset \<Rightarrow> if UseHelm3Defaults F then ''legacy'' else ''watcher''))"

subsection \<open>Settings of the actions\<close>

definition newInstall :: "'w env \<Rightarrow> HelmRelease \<Rightarrow> InstallConfig" where
  "newInstall E obj =
     (let F = eFlags E; i = GetInstall obj;
          ssa = (case Inst_ServerSideApply i of None \<Rightarrow> \<not> UseHelm3Defaults F | Some b \<Rightarrow> b)
      in \<lparr>IC_ReleaseName = ShortenName (eDigest E) (GetReleaseName obj),
          IC_Namespace = GetReleaseNamespace obj,
          IC_Timeout = Install_GetTimeout i (GetTimeout obj),
          IC_TakeOwnership = \<not> Inst_DisableTakeOwnership i,
          IC_WaitStrategy = getWaitStrategy F (GetWaitStrategy obj) (Inst_DisableWait i),
          IC_WaitForJobs = \<not> Inst_DisableWaitForJobs i,
          IC_DisableHooks = Inst_DisableHooks i,
          IC_DisableOpenAPIValidation = Inst_DisableOpenAPIValidation i,
          IC_SkipSchemaValidation = Inst_DisableSchemaValidation i,
          IC_Replace = Inst_Replace i, IC_Devel = True, IC_SkipCRDs = True,
          IC_CreateNamespace = (Spec_TargetNamespace (HR_Spec obj) \<noteq> [] \<and> Inst_CreateNamespace i),
          IC_EnableDNS = AllowDNSLookups F,
          IC_PostRenderer = BuildPostRenderers obj,
          IC_PostRenderStrategy = toHelmPostRenderStrategy F (Spec_PostRenderStrategy (HR_Spec obj)),
          IC_ServerSideApply = ssa, IC_ForceConflicts = False\<rparr>)"

definition newUpgrade :: "'w env \<Rightarrow> HelmRelease \<Rightarrow> UpgradeConfig" where
  "newUpgrade E obj =
     (let F = eFlags E; u = GetUpgrade obj
      in \<lparr>UC_Namespace = GetReleaseNamespace obj,
          UC_ResetValues = \<not> Upg_PreserveValues u, UC_ReuseValues = Upg_PreserveValues u,
          UC_MaxHistory = GetMaxHistory obj,
          UC_Timeout = Upgrade_GetTimeout u (GetTimeout obj),
          UC_TakeOwnership = \<not> Upg_DisableTakeOwnership u,
          UC_WaitStrategy = getWaitStrategy F (GetWaitStrategy obj) (Upg_DisableWait u),
          UC_WaitForJobs = \<not> Upg_DisableWaitForJobs u,
          UC_DisableHooks = Upg_DisableHooks u,
          UC_DisableOpenAPIValidation = Upg_DisableOpenAPIValidation u,
          UC_SkipSchemaValidation = Upg_DisableSchemaValidation u,
          UC_CleanupOnFail = Upg_CleanupOnFail u, UC_Devel = True,
          UC_EnableDNS = AllowDNSLookups F,
          UC_PostRenderer = BuildPostRenderers obj,
          UC_PostRenderStrategy = toHelmPostRenderStrategy F (Spec_PostRenderStrategy (HR_Spec obj)),
          UC_ServerSideApply = (if Upg_ServerSideApply u = ServerSideApplyUnset then ''auto''
                                else toHelmSSAValue (Upg_ServerSideApply u)),
          UC_ForceConflicts = False, UC_ForceReplace = False\<rparr>)"

definition newRollback :: "'w env \<Rightarrow> HelmRelease \<Rightarrow> int64 \<Rightarrow> RollbackConfig" where
  "newRollback E obj version =
     (let F = eFlags E; r = GetRollback obj
      in \<lparr>RC_Version = version, RC_Timeout = Rollback_GetTimeout r (GetTimeout obj),
          RC_WaitStrategy = getWaitStrategy F (GetWaitStrategy obj) (Rb_DisableWait r),
          RC_WaitForJobs = \<not> Rb_DisableWaitForJobs r, RC_DisableHooks = Rb_DisableHooks r,
          RC_CleanupOnFail = Rb_CleanupOnFail r, RC_MaxHistory = GetMaxHistory obj,
          RC_ServerSideApply = (if Rb_ServerSideApply r = ServerSideApplyUnset then ''auto''
                                else toHelmSSAValue (Rb_ServerSideApply r)),
          RC_ForceConflicts = False, RC_ForceReplace = False\<rparr>)"

definition newUninstall :: "'w env \<Rightarrow> HelmRelease \<Rightarrow> UninstallConfig" where
  "newUninstall E obj =
     (let F = eFlags E; u = GetUninstall obj
      in \<lparr>NC_Timeout = Uninstall_GetTimeout u (GetTimeout obj), NC_DisableHooks = Uni_DisableHooks u,
          NC_KeepHistory = Uni_KeepHistory u,
          NC_WaitStrategy = getWaitStrategy F (GetWaitStrategy obj) (Uni_DisableWait u),
          NC_DeletionPropagation = GetDeletionPropagation u\<rparr>)"

definition test_filter_map :: "Filter list \<Rightarrow> (string \<times> string list) list" where
  "test_filter_map fs = fold (\<lambda>f m. let name = (if Filter_Exclude f then ''!name'' else ''name'')
      in AList.update name ((case map_of m name of None \<Rightarrow> [] | Some ns \<Rightarrow> ns) @ [Filter_Name f]) m) fs []"

definition newTest :: "HelmRelease \<Rightarrow> TestConfig" where
  "newTest obj =
     (let t = GetTest obj
      in \<lparr>TC_Namespace = GetReleaseNamespace obj, TC_Timeout = Test_GetTimeout t (GetTimeout obj),
          TC_Filters = test_filter_map (GetFilters t)\<rparr>)"

subsection \<open>The actions\<close>

definition failed_run :: "'r \<Rightarrow> (string \<times> string) list \<Rightarrow> 'w \<Rightarrow> ('w, 'r) helm_run" where
  "failed_run r logs w = \<lparr>Run_Ops = [], Run_Logs = logs, Run_Result = r, Run_World = w\<rparr>"

definition typed :: "gerror + Releaser \<Rightarrow> gerror + HelmRel" where
  "typed r = (case r of Inl e \<Rightarrow> Inl e | Inr RelOther \<Rightarrow> Inl errChartAPI | Inr (RelV1 rls) \<Rightarrow> Inr rls)"

definition finish_run ::
  "(string \<times> string) list \<Rightarrow> ('w, gerror + Releaser) helm_run \<Rightarrow> ('w, gerror + HelmRel) helm_run" where
  "finish_run logs run =
     \<lparr>Run_Ops = Run_Ops run, Run_Logs = logs @ Run_Logs run, Run_Result = typed (Run_Result run),
      Run_World = Run_World run\<rparr>"

definition Install ::
  "'w env \<Rightarrow> HelmRelease \<Rightarrow> HelmChart \<Rightarrow> values \<Rightarrow> 'w \<Rightarrow> ('w, gerror + HelmRel) helm_run" where
  "Install E obj chrt vals w =
     (let install = (newInstall E obj)\<lparr>IC_ForceConflicts := IC_ServerSideApply (newInstall E obj)\<rparr>
      in case crdPolicyOrDefault (Inst_CRDs (GetInstall obj)) of
           Ok policy \<Rightarrow>
             (case applyCRDs E policy obj chrt vals (IC_ServerSideApply install) (IC_WaitStrategy install) w of
                (Some e, logs, w') \<Rightarrow>
                  failed_run (Inl (Errorf_w ''failed to apply CustomResourceDefinitions: '' e [])) logs w'
              | (None, logs, w') \<Rightarrow> finish_run logs (hInstall (eHelm E) install chrt vals w'))
         | Err e \<Rightarrow> failed_run (Inl e) [] w
         | Panic \<Rightarrow> failed_run (Inl errChartAPI) [] w)"

text \<open>The setting \<^verbatim>\<open>auto\<close> of server-side apply follows the last release.\<close>

definition resolve_upgrade_ssa :: "'w env \<Rightarrow> HelmRelease \<Rightarrow> 'w \<Rightarrow> gerror + bool" where
  "resolve_upgrade_ssa E obj w =
     (let mode = UC_ServerSideApply (newUpgrade E obj); name = ShortenName (eDigest E) (GetReleaseName obj)
      in if mode = ''auto''
         then (case hLast (eHelm E) name w of
                 Inl e \<Rightarrow> Inl (if errors_Is e DriverReleaseNotFound then hErrNoDeployedReleases (eHelm E) name else e)
               | Inr RelOther \<Rightarrow> Inl errChartAPI
               | Inr (RelV1 r) \<Rightarrow> Inr (Rel_ApplyMethod r = ''ssa''))
         else Inr (mode = ''true''))"

definition bool_str :: "bool \<Rightarrow> string" where
  "bool_str b = (if b then ''true'' else ''false'')"

definition upgrade_settings :: "'w env \<Rightarrow> HelmRelease \<Rightarrow> bool \<Rightarrow> UpgradeConfig" where
  "upgrade_settings E obj ssa =
     (let u = newUpgrade E obj
      in u\<lparr>UC_ServerSideApply := (if UC_ServerSideApply u = ''auto'' then bool_str ssa else UC_ServerSideApply u),
           UC_ForceConflicts := ssa, UC_ForceReplace := (Upg_Force (GetUpgrade obj) \<and> \<not> ssa)\<rparr>)"

definition Upgrade ::
  "'w env \<Rightarrow> HelmRelease \<Rightarrow> HelmChart \<Rightarrow> values \<Rightarrow> 'w \<Rightarrow> ('w, gerror + HelmRel) helm_run" where
  "Upgrade E obj chrt vals w =
     (case resolve_upgrade_ssa E obj w of
        Inl e \<Rightarrow> failed_run (Inl e) [] w
      | Inr ssa \<Rightarrow>
         (let upgrade = upgrade_settings E obj ssa
          in case crdPolicyOrDefault (Upg_CRDs (GetUpgrade obj)) of
               Ok policy \<Rightarrow>
                 (case applyCRDs E policy obj chrt vals ssa (UC_WaitStrategy upgrade) w of
                    (Some e, logs, w') \<Rightarrow>
                      failed_run (Inl (Errorf_w ''failed to apply CustomResourceDefinitions: '' e [])) logs w'
                  | (None, logs, w') \<Rightarrow> finish_run logs
                      (hUpgrade (eHelm E) upgrade (ShortenName (eDigest E) (GetReleaseName obj)) chrt vals w'))
             | Err e \<Rightarrow> failed_run (Inl e) [] w
             | Panic \<Rightarrow> failed_run (Inl errChartAPI) [] w))"

text \<open>The search through the release history stops at the first match.\<close>

fun version_exists :: "int64 \<Rightarrow> Releaser list \<Rightarrow> bool res" where
  "version_exists v [] = Ok False"
| "version_exists v (RelOther # rs) = Err errChartAPI"
| "version_exists v (RelV1 r # rs) = (if v = Rel_Version r then Ok True else version_exists v rs)"

definition resolve_rollback_ssa :: "'w env \<Rightarrow> HelmRelease \<Rightarrow> string \<Rightarrow> int64 \<Rightarrow> 'w \<Rightarrow> gerror + bool" where
  "resolve_rollback_ssa E obj releaseName version w =
     (let mode = RC_ServerSideApply (newRollback E obj version)
      in if mode \<noteq> ''auto'' then Inr (mode = ''true'')
         else (case hLast (eHelm E) releaseName w of
             Inl e \<Rightarrow> Inl e
           | Inr RelOther \<Rightarrow> Inl errChartAPI
           | Inr (RelV1 cur) \<Rightarrow>
              (let previousVersion = (if version = 0 then Rel_Version cur - 1 else version)
               in case hHistory (eHelm E) releaseName w of
                    Inl e \<Rightarrow> Inl e
                  | Inr hist \<Rightarrow> (case version_exists previousVersion hist of
                      Err e \<Rightarrow> Inl e
                    | Panic \<Rightarrow> Inl errChartAPI
                    | Ok found \<Rightarrow>
                        if \<not> found then Inl (errors_New (''release has no '' @ itoa previousVersion @ '' version''))
                        else (case hGet (eHelm E) releaseName previousVersion w of
                            Inl e \<Rightarrow> Inl e
                          | Inr RelOther \<Rightarrow> Inl errChartAPI
                          | Inr (RelV1 r) \<Rightarrow> Inr (Rel_ApplyMethod r = ''ssa''))))))"

definition rollback_settings :: "'w env \<Rightarrow> HelmRelease \<Rightarrow> int64 \<Rightarrow> bool \<Rightarrow> RollbackConfig" where
  "rollback_settings E obj version ssa =
     (let r = newRollback E obj version
      in r\<lparr>RC_ServerSideApply := (if RC_ServerSideApply r = ''auto'' then bool_str ssa else RC_ServerSideApply r),
           RC_ForceConflicts := ssa, RC_ForceReplace := (Rb_Force (GetRollback obj) \<and> \<not> ssa)\<rparr>)"

definition Rollback ::
  "'w env \<Rightarrow> HelmRelease \<Rightarrow> string \<Rightarrow> int64 \<Rightarrow> 'w \<Rightarrow> ('w, gerror option) helm_run" where
  "Rollback E obj releaseName version w =
     (case resolve_rollback_ssa E obj releaseName version w of
        Inl e \<Rightarrow> failed_run (Some e) [] w
      | Inr ssa \<Rightarrow> hRollback (eHelm E) (rollback_settings E obj version ssa) releaseName w)"

definition Uninstall ::
  "'w env \<Rightarrow> HelmRelease \<Rightarrow> string \<Rightarrow> 'w \<Rightarrow> ('w, Releaser option \<times> gerror option) helm_run" where
  "Uninstall E obj releaseName w = hUninstall (eHelm E) (newUninstall E obj) releaseName w"

definition Test :: "'w env \<Rightarrow> HelmRelease \<Rightarrow> 'w \<Rightarrow> ('w, gerror + HelmRel) helm_run" where
  "Test E obj w =
     finish_run [] (hTest (eHelm E) (newTest obj) (ShortenName (eDigest E) (GetReleaseName obj)) w)"

subsection \<open>Properties\<close>

lemma settings_modes:
  "UC_ServerSideApply (newUpgrade E obj) \<in> {''auto'', ''true'', ''false''}"
  "RC_ServerSideApply (newRollback E obj v) \<in> {''auto'', ''true'', ''false''}"
  by (cases "Upg_ServerSideApply (GetUpgrade obj)"; simp add: newUpgrade_def Let_def)
    (cases "Rb_ServerSideApply (GetRollback obj)"; simp add: newRollback_def Let_def)

text \<open>The settings handed to Helm never combine contradictory options: conflicts are forced
  exactly when server-side apply is used, for upgrade and rollback a forced replacement excludes
  server-side apply, the resolved mode is what Helm is told, and an upgrade either resets or
  reuses values.\<close>

theorem action_settings_consistent:
  "(resolve_upgrade_ssa E obj w = Inr ssa \<longrightarrow>
      UC_ServerSideApply (upgrade_settings E obj ssa) = bool_str ssa \<and>
      UC_ForceConflicts (upgrade_settings E obj ssa) = ssa \<and>
      \<not> (ssa \<and> UC_ForceReplace (upgrade_settings E obj ssa)) \<and>
      UC_ResetValues (upgrade_settings E obj ssa) = (\<not> UC_ReuseValues (upgrade_settings E obj ssa))) \<and>
   (resolve_rollback_ssa E obj name v w = Inr ssa \<longrightarrow>
      RC_ServerSideApply (rollback_settings E obj v ssa) = bool_str ssa \<and>
      RC_ForceConflicts (rollback_settings E obj v ssa) = ssa \<and>
      \<not> (ssa \<and> RC_ForceReplace (rollback_settings E obj v ssa)) \<and>
      RC_Version (rollback_settings E obj v ssa) = v)"
proof -
  have "UC_ResetValues (newUpgrade E obj) = (\<not> UC_ReuseValues (newUpgrade E obj))"
    and "RC_Version (newRollback E obj v) = v"
    by (simp_all add: newUpgrade_def newRollback_def Let_def)
  then show ?thesis
    using settings_modes(1) [of E obj] settings_modes(2) [of E obj v]
    by (auto simp: upgrade_settings_def rollback_settings_def resolve_upgrade_ssa_def
        resolve_rollback_ssa_def bool_str_def Let_def)
qed

theorem action_settings_consistent_witness:
  "UC_ServerSideApply (upgrade_settings sample_env sample_object True) = ''true''"
proof -
  have "resolve_upgrade_ssa sample_env sample_object [sample_release] = Inr True"
    by (simp add: resolve_upgrade_ssa_def newUpgrade_def GetUpgrade_def GetReleaseName_def ShortenName_def
        sample_env_def sample_helm_def sample_object_def sample_spec_def UpgradeSpec_zero_def sample_release_def Let_def)
  then show ?thesis
    using action_settings_consistent [of sample_env sample_object "[sample_release]" True] by (simp add: bool_str_def)
qed

text \<open>With server-side apply, the policy to create the custom resource definitions of a chart leaves
  the cluster as it is when all of them are present: an existing definition is never updated, and
  its presence is not an error.\<close>

theorem Create_keeps_present_CRDs:
  assumes "\<And>n. errors_Is (kNewAlreadyExists (eKube E) n) ApiAlreadyExists"
    and "kProcessDependencies (eKube E) chrt vals w = (None, w)"
    and "build_crds E w (kCRDObjects (eKube E) chrt w) = Inr objs"
    and "visit_all (setOriginVisitor E GroupName (HR_Namespace obj) (HR_Name obj)) (List.filter is_crd objs) = Inr crds"
    and "\<forall>crd \<in> set crds. kGetInfo (eKube E) crd w = None"
  shows "fst (applyCRDs E Create obj chrt vals True strategy w) = None \<and>
    snd (snd (applyCRDs E Create obj chrt vals True strategy w)) = w"
proof -
  obtain logs where "create_crds E True crds w = (Inr [], logs, w)"
    using create_crds_present [OF assms(1,5)] by (metis prod.collapse)
  with assms(2-4) show ?thesis by (simp add: applyCRDs_def wait_crds_def Let_def)
qed

definition sample_crd_env :: "sample_world env" where
  "sample_crd_env = sample_env\<lparr>eKube := sample_kube\<lparr>
     kCRDObjects := (\<lambda>c w. [(''crds/app.yaml'', ''crd'')]),
     kBuild := (\<lambda>s w. Inr [\<lparr>RI_Group = ''apiextensions.k8s.io'', RI_Version = ''v1'', RI_Kind = ''CustomResourceDefinition'',
       RI_Namespace = [], RI_Name = ''apps.example.com'', RI_Object = JNull\<rparr>]),
     kGetInfo := (\<lambda>r w. None), kCreateRes := (\<lambda>r a b w. (Inr [r], []))\<rparr>\<rparr>"

theorem Create_keeps_present_CRDs_witness:
  "snd (snd (applyCRDs sample_crd_env Create sample_object (Chart sample_request) None True [] [sample_release])) = [sample_release]"
proof -
  let ?crd = "\<lparr>RI_Group = ''apiextensions.k8s.io'', RI_Version = ''v1'', RI_Kind = ''CustomResourceDefinition'',
       RI_Namespace = [], RI_Name = ''apps.example.com'', RI_Object = JNull\<rparr>"
  have "errors_Is (kNewAlreadyExists (eKube sample_crd_env) n) ApiAlreadyExists" for n
    by (simp add: sample_crd_env_def sample_kube_def)
  moreover have "visit_all (setOriginVisitor sample_crd_env GroupName (HR_Namespace sample_object) (HR_Name sample_object))
      (List.filter is_crd [?crd]) = Inr [?crd]"
    by code_simp
  moreover have "kProcessDependencies (eKube sample_crd_env) (Chart sample_request) None [sample_release] = (None, [sample_release])"
    "build_crds sample_crd_env [sample_release] (kCRDObjects (eKube sample_crd_env) (Chart sample_request) [sample_release]) = Inr [?crd]"
    "\<forall>crd \<in> set [?crd]. kGetInfo (eKube sample_crd_env) crd [sample_release] = None"
    by (simp_all add: sample_crd_env_def sample_kube_def)
  ultimately show ?thesis using Create_keeps_present_CRDs by metis
qed

end
