(* ===== verification/Inventory.thy ===== *)
theory Inventory
  imports Sample
begin

section \<open>The inventory of a release: internal/inventory/inventory.go\<close>

text \<open>
  The objects of a release manifest and the CRDs of its chart, listed in the status. Objects
  without a namespace get the namespace of the release when their kind is namespaced; the
  answer is asked once per kind. Parsing and the scope of a kind are parameters.
\<close>

definition HookAnnotation :: string where "HookAnnotation = ''helm.sh/hook''"

definition is_hook :: "Unst \<Rightarrow> bool" where
  "is_hook obj = (case U_Annotations obj of None \<Rightarrow> False | Some m \<Rightarrow> map_of m HookAnnotation \<noteq> None)"

definition resource_ref :: "'w env \<Rightarrow> Unst \<Rightarrow> ResourceRef" where
  "resource_ref E obj = \<lparr>RR_ID = kObjMetaString (eKube E) obj, RR_Version = U_Version obj\<rparr>"

type_synonym gk_cache = "((string \<times> string) \<times> bool) list"

fun setNamespaces ::
  "'w env \<Rightarrow> 'w \<Rightarrow> string \<Rightarrow> gk_cache \<Rightarrow> Unst list \<Rightarrow> Unst list \<times> string list" where
  "setNamespaces E w releaseNamespace cache [] = ([], [])"
| "setNamespaces E w releaseNamespace cache (obj # objs) =
     (if U_Namespace obj \<noteq> [] then
        (case setNamespaces E w releaseNamespace cache objs of (os, ws) \<Rightarrow> (obj # os, ws))
      else
        (let gk = (U_Group obj, U_Kind obj)
         in case (case map_of cache gk of
                    Some b \<Rightarrow> Inr (b, cache)
                  | None \<Rightarrow> (case kIsNamespaced (eKube E) obj w of
                       Inl e \<Rightarrow> Inl e | Inr b \<Rightarrow> Inr (b, (gk, b) # cache))) of
              Inl e \<Rightarrow> (case setNamespaces E w releaseNamespace cache objs of (os, ws) \<Rightarrow>
                  (obj # os, (''failed to determine if '' @ U_Kind obj @
                     '' is namespace scoped, skipping namespace: '' @ Err_Msg e) # ws))
            | Inr (b, cache') \<Rightarrow> (case setNamespaces E w releaseNamespace cache' objs of (os, ws) \<Rightarrow>
                  ((if b then obj\<lparr>U_Namespace := releaseNamespace\<rparr> else obj) # os, ws))))"

definition AddManifest ::
  "'w env \<Rightarrow> 'w \<Rightarrow> ResourceInventory \<Rightarrow> string \<Rightarrow> string \<Rightarrow> (ResourceInventory \<times> string list) res" where
  "AddManifest E w entries manifest releaseNamespace =
     (case kReadObjects (eKube E) manifest of
        Inl e \<Rightarrow> Err (Errorf_w ''failed to parse manifest: '' e [])
      | Inr objects \<Rightarrow>
         (case setNamespaces E w releaseNamespace [] (List.filter (\<lambda>o'. \<not> is_hook o') objects) of
            (os, ws) \<Rightarrow> Ok (entries @ map (resource_ref E) os, ws)))"

fun add_crd_objects :: "'w env \<Rightarrow> (string \<times> string) list \<Rightarrow> ResourceInventory \<Rightarrow> ResourceInventory res" where
  "add_crd_objects E [] entries = Ok entries"
| "add_crd_objects E ((name, data) # crds) entries = (case kReadObjects (eKube E) data of
       Inl e \<Rightarrow> Err (Errorf_w (''failed to parse CRD '' @ name @ '': '') e [])
     | Inr objects \<Rightarrow> add_crd_objects E crds (entries @ map (resource_ref E) objects))"

definition AddCRDs :: "'w env \<Rightarrow> 'w \<Rightarrow> ResourceInventory \<Rightarrow> HelmChart \<Rightarrow> ResourceInventory res" where
  "AddCRDs E w entries chart = add_crd_objects E (kCRDObjects (eKube E) chart w) entries"

subsection \<open>The cache is transparent\<close>

text \<open>What the loop computes without a cache.\<close>

definition namespace_of :: "'w env \<Rightarrow> 'w \<Rightarrow> string \<Rightarrow> Unst \<Rightarrow> Unst" where
  "namespace_of E w releaseNamespace obj =
     (if U_Namespace obj = [] \<and> kIsNamespaced (eKube E) obj w = Inr True
      then obj\<lparr>U_Namespace := releaseNamespace\<rparr> else obj)"

definition scope_by_kind :: "'w env \<Rightarrow> 'w \<Rightarrow> bool" where
  "scope_by_kind E w \<longleftrightarrow> (\<forall>a b. U_Group a = U_Group b \<and> U_Kind a = U_Kind b \<longrightarrow>
     kIsNamespaced (eKube E) a w = kIsNamespaced (eKube E) b w)"

definition cache_ok :: "'w env \<Rightarrow> 'w \<Rightarrow> gk_cache \<Rightarrow> bool" where
  "cache_ok E w cache \<longleftrightarrow> (\<forall>obj b. map_of cache (U_Group obj, U_Kind obj) = Some b \<longrightarrow>
     kIsNamespaced (eKube E) obj w = Inr b)"

lemma cache_ok_insert:
  assumes "scope_by_kind E w" "cache_ok E w cache" "kIsNamespaced (eKube E) obj w = Inr b"
  shows "cache_ok E w (((U_Group obj, U_Kind obj), b) # cache)"
  unfolding cache_ok_def
proof (intro allI impI)
  fix x :: Unst and c
  assume m: "map_of (((U_Group obj, U_Kind obj), b) # cache) (U_Group x, U_Kind x) = Some c"
  show "kIsNamespaced (eKube E) x w = Inr c"
  proof (cases "(U_Group x, U_Kind x) = (U_Group obj, U_Kind obj)")
    case True
    then have "kIsNamespaced (eKube E) x w = kIsNamespaced (eKube E) obj w"
      using assms(1) unfolding scope_by_kind_def by blast
    with True m assms(3) show ?thesis by simp
  next
    case False
    with m have "map_of cache (U_Group x, U_Kind x) = Some c" by auto
    with assms(2) show ?thesis unfolding cache_ok_def by blast
  qed
qed

lemma setNamespaces_reference:
  assumes "scope_by_kind E w" "cache_ok E w cache"
  shows "fst (setNamespaces E w ns cache objs) = map (namespace_of E w ns) objs"
  using assms(2)
proof (induction objs arbitrary: cache)
  case Nil
  show ?case by simp
next
  case (Cons obj objs)
  let ?gk = "(U_Group obj, U_Kind obj)"
  have IH: "cache_ok E w c \<Longrightarrow> fst (setNamespaces E w ns c objs) = map (namespace_of E w ns) objs" for c
    by (rule Cons.IH)
  note ok = Cons.prems
  consider "U_Namespace obj \<noteq> []"
    | b where "U_Namespace obj = []" "map_of cache ?gk = Some b"
    | e where "U_Namespace obj = []" "map_of cache ?gk = None" "kIsNamespaced (eKube E) obj w = Inl e"
    | b where "U_Namespace obj = []" "map_of cache ?gk = None" "kIsNamespaced (eKube E) obj w = Inr b"
    by (cases "map_of cache ?gk"; cases "kIsNamespaced (eKube E) obj w") blast+
  then show ?case
  proof cases
    case 1
    then show ?thesis by (simp add: namespace_of_def case_prod_beta IH [OF ok])
  next
    case (2 b)
    then have "kIsNamespaced (eKube E) obj w = Inr b" using ok unfolding cache_ok_def by blast
    with 2 show ?thesis by (simp add: namespace_of_def case_prod_beta IH [OF ok])
  next
    case 3
    then show ?thesis by (simp add: namespace_of_def case_prod_beta IH [OF ok])
  next
    case (4 b)
    then show ?thesis
      by (simp add: namespace_of_def case_prod_beta IH [OF cache_ok_insert [OF assms(1) ok]])
  qed
qed

subsection \<open>Properties\<close>



end
