(* ===== verification/ReleaseRecord.thy ===== *)
theory ReleaseRecord
  imports Actions Inventory
begin

section \<open>Recording releases and summarizing conditions: internal/reconcile/release.go\<close>

text \<open>
  What the sub-reconcilers share: the releases observed during an action and how they become
  history, the inventory observer, the summary of the conditions in the Ready condition, and
  the metadata of events.
\<close>

subsection \<open>Helpers of atomic\_release.go\<close>

definition msgWithReason :: "string \<Rightarrow> string \<Rightarrow> string" where
  "msgWithReason msg reason = (if reason \<noteq> [] then msg @ '': '' @ reason else msg)"

fun inStringSlice :: "string list \<Rightarrow> string \<Rightarrow> nat option" where
  "inStringSlice [] str = None"
| "inStringSlice (s # ss) str = (if EqualFold s str then Some 0 else map_option Suc (inStringSlice ss str))"

subsection \<open>Observed releases\<close>

type_synonym observedReleases = "(int64 \<times> Observation) list"

type_synonym mutator = "HelmRelease \<Rightarrow> Observation \<Rightarrow> Observation"

definition sortedVersions :: "observedReleases \<Rightarrow> int64 list" where
  "sortedVersions r = rev (sort (map fst r))"

definition mutateOCIDigest :: mutator where
  "mutateOCIDigest obj obs = obs\<lparr>Obs_OCIDigest := St_LastAttemptedRevisionDigest (HR_Status obj)\<rparr>"

definition mutateAction :: "ReleaseAction \<Rightarrow> mutator" where
  "mutateAction action obj obs = obs\<lparr>Obs_Action := action\<rparr>"

definition mutate_all :: "mutator list \<Rightarrow> HelmRelease \<Rightarrow> Observation \<Rightarrow> Observation" where
  "mutate_all muts obj obs = fold (\<lambda>mut. mut obj) muts obs"

definition targets_obs :: "Observation \<Rightarrow> Snapshot \<Rightarrow> bool" where
  "targets_obs obs snap = Targets (Some snap) (Obs_Name obs) (Obs_Namespace obs) (Obs_Version obs)"

definition renew_snapshot :: "digest_api \<Rightarrow> Observation \<Rightarrow> Snapshot \<Rightarrow> Snapshot" where
  "renew_snapshot D obs snap =
     SetTestHooks (ObservedToSnapshot D (obs\<lparr>Obs_OCIDigest := Snap_OCIDigest snap\<rparr>)) (GetTestHooks (Some snap))"

text \<open>The loop over the older versions returns as soon as one of them is in the history.\<close>

fun record_older :: "digest_api \<Rightarrow> observedReleases \<Rightarrow> Snapshots \<Rightarrow> int64 list \<Rightarrow> Snapshots" where
  "record_older D r h [] = h"
| "record_older D r h (ver # vers) =
     (case map_of r ver of
        None \<Rightarrow> record_older D r h vers
      | Some obs \<Rightarrow> if list_ex (targets_obs obs) h
          then update_first (targets_obs obs) (renew_snapshot D obs) h
          else record_older D r h vers)"

definition recordOnObject :: "digest_api \<Rightarrow> observedReleases \<Rightarrow> mutator list \<Rightarrow> HelmRelease \<Rightarrow> HelmRelease" where
  "recordOnObject D r muts obj =
     (case sortedVersions r of
        [] \<Rightarrow> obj
      | ver # vers \<Rightarrow> (case map_of r ver of
          None \<Rightarrow> obj
        | Some obs \<Rightarrow>
            set_history (record_older D r (ObservedToSnapshot D (mutate_all muts obj obs) # History obj) vers) obj))"

definition releaseToObservation :: "HelmRel \<Rightarrow> Snapshot \<Rightarrow> ReleaseAction \<Rightarrow> Observation" where
  "releaseToObservation rls snapshot action =
     (ObserveRelease rls)\<lparr>Obs_OCIDigest := Snap_OCIDigest snapshot, Obs_Action := action\<rparr>"

subsection \<open>Observers\<close>

text \<open>The observers of a run share the request and the map of observed releases.\<close>

type_synonym 'w obs_state = "'w Request \<times> observedReleases"

definition observeRelease :: "('w, 'w obs_state) ObserveFunc" where
  "observeRelease rls w s = (case rls of
       RelOther \<Rightarrow> s
     | RelV1 r \<Rightarrow> (let obs = ObserveRelease r in (fst s, AList.update (Obs_Version obs) obs (snd s))))"

definition emit :: "strmap option \<Rightarrow> EventType \<Rightarrow> string \<Rightarrow> Action \<Rightarrow> string \<Rightarrow> 'w Request \<Rightarrow> 'w Request" where
  "emit md typ reason action msg =
     record_event \<lparr>Ev_Metadata = md, Ev_Type = typ, Ev_Reason = reason, Ev_Action = action, Ev_Message = msg\<rparr>"

definition inventory_failed :: "Action \<Rightarrow> gerror \<Rightarrow> 'w Request \<Rightarrow> 'w Request" where
  "inventory_failed action e req =
     emit None EventTypeWarning InventoryBuildFailedReason action
       (''failed to build inventory for '' @ HR_Namespace (Object req) @ ''/'' @ HR_Name (Object req) @ '': '' @ Err_Msg e) req"

definition build_inventory :: "'w env \<Rightarrow> Action \<Rightarrow> HelmRel \<Rightarrow> 'w \<Rightarrow> 'w Request \<Rightarrow> 'w Request" where
  "build_inventory E action rls w req =
     (case kRESTConfig (eKube E) w of Some e \<Rightarrow> inventory_failed action e req | None \<Rightarrow>
     (case kNewClient (eKube E) w of Some e \<Rightarrow> inventory_failed action e req | None \<Rightarrow>
     (case AddManifest E w [] (Rel_Manifest rls) (Rel_Namespace rls) of
        Err e \<Rightarrow> inventory_failed action e req
      | Panic \<Rightarrow> req
      | Ok (entries, warnings) \<Rightarrow>
         (let req' = (if warnings = [] then req
                      else emit None EventTypeWarning NamespaceCheckSkippedReason action (Join warnings ''; '') req)
          in case AddCRDs E w entries (Chart req) of
               Err e \<Rightarrow> inventory_failed action e req'
             | Panic \<Rightarrow> req'
             | Ok entries' \<Rightarrow> on_status (\<lambda>st. st\<lparr>St_Inventory := Some entries'\<rparr>) req'))))"

definition observeInventory :: "'w env \<Rightarrow> Action \<Rightarrow> ('w, 'w obs_state) ObserveFunc" where
  "observeInventory E action rls w s = (case rls of
       RelOther \<Rightarrow> s | RelV1 r \<Rightarrow> (build_inventory E action r w (fst s), snd s))"

text \<open>An observer that only updates the object.\<close>

definition object_observer :: "(HelmRel \<Rightarrow> HelmRelease \<Rightarrow> HelmRelease) \<Rightarrow> ('w, 'w obs_state) ObserveFunc" where
  "object_observer f rls w s = (case rls of
       RelOther \<Rightarrow> s | RelV1 r \<Rightarrow> (on_object (f r) (fst s), snd s))"

subsection \<open>The Ready condition\<close>

definition sum_conds :: "HelmRelease \<Rightarrow> string list" where
  "sum_conds obj =
     (if Test_Enable (GetTest obj) \<and> \<not> Test_IgnoreFailures (GetTest obj)
      then [RemediatedCondition, TestSuccessCondition, ReleasedCondition]
      else [RemediatedCondition, ReleasedCondition])"

definition sum_less :: "string list \<Rightarrow> Condition \<Rightarrow> Condition \<Rightarrow> bool" where
  "sum_less sums a b = (case inStringSlice sums (Cond_Type a) of
       None \<Rightarrow> False
     | Some i \<Rightarrow> (case inStringSlice sums (Cond_Type b) of
          None \<Rightarrow> True
        | Some j \<Rightarrow> Cond_ObservedGeneration a \<ge> Cond_ObservedGeneration b \<and> i < j))"

definition summarize :: "'w env \<Rightarrow> 'w Request \<Rightarrow> 'w Request" where
  "summarize E req =
     (let sums = sum_conds (Object req);
          req1 = (if \<not> Test_Enable (GetTest (Object req)) then DeleteCondition E TestSuccessCondition req else req);
          conds = SliceStable (sum_less sums) (Conditions (Object req1))
      in case conds of
           [] \<Rightarrow> req1
         | c # _ \<Rightarrow>
            (let req2 = on_conditions (\<lambda>_. conds) req1;
                 status = (if Cond_Type c = RemediatedCondition then ConditionFalse else Cond_Status c);
                 req3 = (if status = ConditionTrue then DeleteCondition E StalledCondition req2 else req2)
             in SetCondition E \<lparr>Cond_Type = ReadyCondition, Cond_Status = status,
                  Cond_ObservedGeneration = HR_Generation (Object req), Cond_LastTransitionTime = 0,
                  Cond_Reason = Cond_Reason c, Cond_Message = Cond_Message c\<rparr> req3))"

definition observePostRenderers :: "'w env \<Rightarrow> 'w Request \<Rightarrow> 'w Request" where
  "observePostRenderers E req =
     (let D = eDigest E; spec = HR_Spec (Object req)
      in on_status (\<lambda>st. st\<lparr>
           St_ObservedPostRenderersDigest := (case Spec_PostRenderers spec of None \<Rightarrow> []
             | Some rs \<Rightarrow> Digest_PostRenderers D (dCanonical D) rs),
           St_ObservedCommonMetadataDigest := (case Spec_CommonMetadata spec of None \<Rightarrow> []
             | Some cm \<Rightarrow> CommonMetadataDigest D (dCanonical D) cm)\<rparr>) req)"

subsection \<open>Events\<close>

definition eventMessageWithLog :: "string \<Rightarrow> logRingBuffer \<Rightarrow> string" where
  "eventMessageWithLog msg log =
     (if \<not> LogBuffer_Empty log
      then msg @ [CHR 0x0A, CHR 0x0A] @ ''Last Helm logs:'' @ [CHR 0x0A, CHR 0x0A] @ LogBuffer_String log
      else msg)"

definition eventMetaGroupKey :: "string \<Rightarrow> string" where
  "eventMetaGroupKey key = GroupName @ ''/'' @ key"

type_synonym addMeta = "strmap option \<Rightarrow> strmap option"

text \<open>A map that \<^verbatim>\<open>add\<close> makes for itself when it is given nil does not reach the caller.\<close>

definition add_to_meta :: "string \<Rightarrow> string \<Rightarrow> addMeta" where
  "add_to_meta key value m = (case m of
       None \<Rightarrow> None
     | Some kvs \<Rightarrow> if value \<noteq> [] then Some (AList.update (eventMetaGroupKey key) value kvs) else m)"

definition addOCIDigest :: "string \<Rightarrow> addMeta" where
  "addOCIDigest digest = add_to_meta ''oci-digest'' digest"

definition addAppVersion :: "string \<Rightarrow> addMeta" where
  "addAppVersion appVersion = add_to_meta ''app-version'' appVersion"

definition eventMeta :: "string \<Rightarrow> string \<Rightarrow> addMeta list \<Rightarrow> strmap option" where
  "eventMeta revision token metas =
     (let m0 = (if revision \<noteq> [] \<or> token \<noteq> []
                then Some ((if revision \<noteq> [] then [(eventMetaGroupKey ''revision'', revision)] else []) @
                           (if token \<noteq> [] then [(eventMetaGroupKey ''token'', token)] else []))
                else None)
      in fold (\<lambda>add. add) metas m0)"

text \<open>The metadata taken from a snapshot.\<close>

definition snapshot_meta :: "Snapshot \<Rightarrow> strmap option" where
  "snapshot_meta cur = eventMeta (Snap_ChartVersion cur) (Snap_ConfigDigest cur)
     [addAppVersion (Snap_AppVersion cur), addOCIDigest (Snap_OCIDigest cur)]"

subsection \<open>Lemmas\<close>

lemma distinct_observed:
  assumes "distinct (map fst (snd s))"
  shows "distinct (map fst (snd (observeRelease rls w s)))"
  using assms by (simp add: observeRelease_def Let_def distinct_update split: Releaser.split)

text \<open>Which fields the inventory observer may change: the inventory and the events.\<close>

lemma emit_simps [simp]:
  "Object (emit md t r a m req) = Object req" "World (emit md t r a m req) = World req"
  "Chart (emit md t r a m req) = Chart req" "Values (emit md t r a m req) = Values req"
  by (simp_all add: emit_def)

lemma inventory_failed_simps [simp]:
  "Object (inventory_failed a e req) = Object req" "World (inventory_failed a e req) = World req"
  "Chart (inventory_failed a e req) = Chart req" "Values (inventory_failed a e req) = Values req"
  by (simp_all add: inventory_failed_def)

lemma build_inventory_object:
  "\<exists>inv. Object (build_inventory E a r w req) = with_status (\<lambda>st. st\<lparr>St_Inventory := inv\<rparr>) (Object req)"
proof -
  have keep: "\<exists>inv. Object req = with_status (\<lambda>st. st\<lparr>St_Inventory := inv\<rparr>) (Object req)"
    by (rule exI [of _ "St_Inventory (HR_Status (Object req))"]) (simp add: with_status_def)
  show ?thesis
    unfolding build_inventory_def Let_def
    by (auto intro: keep split: option.split res.split prod.split)
qed

end
