(* ===== verification/Diffs.thy ===== *)
theory Diffs
  imports Environment
begin

section \<open>Drift: internal/action/diff.go and internal/diff/summarize.go\<close>

text \<open>
  Comparing the manifest of a release with the cluster, applying the differences, and the
  summaries in messages. The comparison of single objects, the ordering of kinds and the
  aggregation of errors belong to libraries and are parameters.
\<close>

subsection \<open>Summaries\<close>

definition ResourceName :: "Unst \<Rightarrow> string" where
  "ResourceName obj = U_Kind obj @ ''/'' @
     (if U_Namespace obj \<noteq> [] then U_Namespace obj @ ''/'' else []) @ U_Name obj"

definition DefaultDiffTypes :: "DiffType list" where
  "DefaultDiffTypes = [DiffTypeCreate, DiffTypeUpdate, DiffTypeExclude]"

definition typeInSlice :: "DiffType \<Rightarrow> DiffType list \<Rightarrow> bool" where
  "typeInSlice t ts = list_ex (\<lambda>s. t = s) ts"

definition count_ops :: "string \<Rightarrow> (string \<times> json) list \<Rightarrow> nat" where
  "count_ops op ps = length (List.filter (\<lambda>p. fst p = op) ps)"

definition summarizeUpdate :: "Diff \<Rightarrow> nat \<times> nat \<times> nat" where
  "summarizeUpdate d =
     (count_ops ''add'' (Diff_Patch d), count_ops ''replace'' (Diff_Patch d), count_ops ''remove'' (Diff_Patch d))"

definition summary_line :: "Diff \<Rightarrow> string" where
  "summary_line d = ResourceName (Diff_DesiredObject d) @ (case Diff_Type d of
       DiffTypeNone \<Rightarrow> '' unchanged''
     | DiffTypeCreate \<Rightarrow> '' removed''
     | DiffTypeExclude \<Rightarrow> '' excluded''
     | DiffTypeUpdate \<Rightarrow> (case summarizeUpdate d of (a, c, r) \<Rightarrow>
          '' changed ('' @ nat_str a @ '' additions, '' @ nat_str c @ '' changes, '' @ nat_str r @ '' removals)''))
     @ [CHR 0x0A]"

definition SummarizeDiffSet :: "DiffSet \<Rightarrow> string" where
  "SummarizeDiffSet ds =
     TrimSpace (concat (map summary_line (List.filter (\<lambda>d. typeInSlice (Diff_Type d) DefaultDiffTypes) ds)))"

text \<open>The brief summary goes to the log; \<open>None\<close> stands for no types given.\<close>

definition count_type :: "DiffType \<Rightarrow> DiffSet \<Rightarrow> nat" where
  "count_type t ds = length (List.filter (\<lambda>d. Diff_Type d = t) ds)"

fun brief_word :: "DiffType \<Rightarrow> string" where
  "brief_word DiffTypeCreate = ''removed: ''"
| "brief_word DiffTypeUpdate = ''changed: ''"
| "brief_word DiffTypeExclude = ''excluded: ''"
| "brief_word DiffTypeNone = ''unchanged: ''"

definition SummarizeDiffSetBrief :: "DiffSet \<Rightarrow> DiffType list option \<Rightarrow> string" where
  "SummarizeDiffSetBrief ds types =
     TrimSuffix (concat (map (\<lambda>t. brief_word t @ nat_str (count_type t ds) @ '', '')
       (case types of None \<Rightarrow> DefaultDiffTypes | Some ts \<Rightarrow> ts))) '', ''"

lemma count_types_partition:
  "count_type DiffTypeCreate ds + count_type DiffTypeUpdate ds + count_type DiffTypeExclude ds + count_type DiffTypeNone ds = length ds"
proof (induction ds)
  case (Cons d ds)
  then show ?case by (cases "Diff_Type d") (simp_all add: count_type_def)
qed (simp add: count_type_def)

subsection \<open>Diff\<close>

definition setHelmMetadata :: "Unst \<Rightarrow> HelmRel \<Rightarrow> Unst" where
  "setHelmMetadata obj rls =
     obj\<lparr>U_Labels := Some (AList.update ''app.kubernetes.io/managed-by'' ''Helm''
            (case U_Labels obj of None \<Rightarrow> [] | Some m \<Rightarrow> m)),
         U_Annotations := Some (AList.update ''meta.helm.sh/release-namespace'' (Rel_Namespace rls)
            (AList.update ''meta.helm.sh/release-name'' (Rel_Name rls)
              (case U_Annotations obj of None \<Rightarrow> [] | Some m \<Rightarrow> m)))\<rparr>"

type_synonym gvk_cache = "((string \<times> string \<times> string) \<times> bool) list"

text \<open>The loop over the objects: an error is collected and the object left without namespace.\<close>

fun prepare_objects ::
  "'w env \<Rightarrow> 'w \<Rightarrow> HelmRel \<Rightarrow> gvk_cache \<Rightarrow> Unst list \<Rightarrow> Unst list \<times> gerror list" where
  "prepare_objects E w rls cache [] = ([], [])"
| "prepare_objects E w rls cache (obj # objs) =
     (let obj' = setHelmMetadata obj rls
      in if U_Namespace obj' \<noteq> [] then
           (case prepare_objects E w rls cache objs of (os, es) \<Rightarrow> (obj' # os, es))
         else
           (let gvk = (U_Group obj', U_Version obj', U_Kind obj')
            in case (case map_of cache gvk of
                       Some b \<Rightarrow> Inr (b, cache)
                     | None \<Rightarrow> (case kIsNamespaced (eKube E) obj' w of
                          Inl e \<Rightarrow> Inl e | Inr b \<Rightarrow> Inr (b, (gvk, b) # cache))) of
                 Inl e \<Rightarrow> (case prepare_objects E w rls cache objs of (os, es) \<Rightarrow>
                     (obj' # os, Errorf_w (''failed to determine if '' @ U_Kind obj' @ '' is namespace scoped: '') e [] # es))
               | Inr (b, cache') \<Rightarrow> (case prepare_objects E w rls cache' objs of (os, es) \<Rightarrow>
                     ((if b then obj'\<lparr>U_Namespace := Rel_Namespace rls\<rparr> else obj') # os, es))))"

definition replaceDisallowedFieldManagers ::
  "'w env \<Rightarrow> string \<Rightarrow> string list \<Rightarrow> Unst \<Rightarrow> 'w \<Rightarrow> gerror option \<times> 'w" where
  "replaceDisallowedFieldManagers E fieldOwner disallowed obj w =
     (case kGetObject (eKube E) obj w of
        Inl e \<Rightarrow> (if errors_Is e ApiNotFound then None else Some e, w)
      | Inr existing \<Rightarrow>
         (case kPatchReplaceFieldsManagers (eKube E) existing
                 (concat (map (\<lambda>m. [(m, ''Apply''), (m, ''Update'')]) disallowed)) fieldOwner of
            Inl e \<Rightarrow> (Some e, w)
          | Inr patches \<Rightarrow> if patches = [] then (None, w)
                           else kPatchObject (eKube E) existing patches fieldOwner w))"

fun replace_all_managers ::
  "'w env \<Rightarrow> string \<Rightarrow> string list \<Rightarrow> Unst list \<Rightarrow> 'w \<Rightarrow> gerror option \<times> 'w" where
  "replace_all_managers E owner disallowed [] w = (None, w)"
| "replace_all_managers E owner disallowed (obj # objs) w =
     (case replaceDisallowedFieldManagers E owner disallowed obj w of
        (Some e, w') \<Rightarrow> (Some (Errorf_w ''failed to clean-up disallowed field managers: '' e []), w')
      | (None, w') \<Rightarrow> replace_all_managers E owner disallowed objs w')"

definition diff_options :: "string \<Rightarrow> IgnoreRule list \<Rightarrow> DiffOptions" where
  "diff_options fieldOwner ignore =
     \<lparr>DO_FieldOwner = fieldOwner,
      DO_ExclusionSelector = [(GroupName @ ''/driftDetection'', ''disabled'')],
      DO_Rationalize = True, DO_Graceful = True,
      DO_IgnoreRules = nil_if_empty ignore\<rparr>"

definition Diff_release ::
  "'w env \<Rightarrow> HelmRel \<Rightarrow> string \<Rightarrow> string list \<Rightarrow> IgnoreRule list \<Rightarrow> 'w \<Rightarrow> (DiffSet \<times> gerror option) \<times> 'w" where
  "Diff_release E rls fieldOwner disallowed ignore w =
     (case kRESTConfig (eKube E) w of Some e \<Rightarrow> (([], Some e), w) | None \<Rightarrow>
     (case kNewClient (eKube E) w of Some e \<Rightarrow> (([], Some e), w) | None \<Rightarrow>
     (case kReadObjects (eKube E) (Rel_Manifest rls) of
        Inl e \<Rightarrow> (([], Some (Errorf_w ''failed to read objects from release manifest: '' e [])), w)
      | Inr objects \<Rightarrow>
     (case kNormalize (eKube E) objects of
        Inl e \<Rightarrow> (([], Some (Errorf_w ''failed to normalize release objects: '' e [])), w)
      | Inr objects' \<Rightarrow>
     (case prepare_objects E w rls [] objects' of (objs, errs) \<Rightarrow>
     (case (if disallowed = [] then (None, w)
            else (case kNewClient (eKube E) w of Some e \<Rightarrow> (Some e, w)
                  | None \<Rightarrow> replace_all_managers E fieldOwner disallowed objs w)) of
        (Some e, w') \<Rightarrow> (([], Some e), w')
      | (None, w') \<Rightarrow>
         (case kDiffList (eKube E) objs (diff_options fieldOwner ignore) w' of (dset, err) \<Rightarrow>
            (let errs' = errs @ (case err of None \<Rightarrow> [] | Some e \<Rightarrow> [e])
             in ((dset, if errs' = [] then None
                       else Some (kReduceFlatten (eKube E) (kAggregate (eKube E) errs'))), w')))))))))"

subsection \<open>ApplyDiff\<close>

fun string_less :: "string \<Rightarrow> string \<Rightarrow> bool" where
  "string_less s [] = False"
| "string_less [] (d # ds) = True"
| "string_less (c # cs) (d # ds) =
     ((of_char c :: nat) < of_char d \<or> c = d \<and> string_less cs ds)"

definition diff_less :: "'w env \<Rightarrow> Diff \<Rightarrow> Diff \<Rightarrow> bool" where
  "diff_less E a b =
     (let x = Diff_DesiredObject a; y = Diff_DesiredObject b
      in if (U_Group x, U_Kind x) \<noteq> (U_Group y, U_Kind y)
           then kGroupKindLess (eKube E) (U_Group x, U_Kind x) (U_Group y, U_Kind y)
         else if U_Namespace x \<noteq> U_Namespace y then string_less (U_Namespace x) (U_Namespace y)
         else string_less (U_Name x) (U_Name y))"

definition objectToChangeSetEntry :: "Unst \<Rightarrow> ChangeAction \<Rightarrow> ChangeSetEntry" where
  "objectToChangeSetEntry obj action =
     \<lparr>CE_Group = U_Group obj, CE_Version = U_Version obj, CE_Kind = U_Kind obj,
      CE_Namespace = U_Namespace obj, CE_Name = U_Name obj, CE_Subject = ResourceName obj,
      CE_Action = action\<rparr>"

definition maskSensitiveErrData :: "'w env \<Rightarrow> gerror \<Rightarrow> gerror" where
  "maskSensitiveErrData E err =
     (if kIsInvalid (eKube E) err
      then (case LastIndex (Err_Msg err) (CHR '':'') of
              Some i \<Rightarrow> errors_New (TrimSpace (drop (Suc i) (Err_Msg err)))
            | None \<Rightarrow> err)
      else err)"

fun apply_creates ::
  "'w env \<Rightarrow> string \<Rightarrow> Diff list \<Rightarrow> 'w \<Rightarrow> ChangeSetEntry list \<times> gerror list \<times> 'w" where
  "apply_creates E owner [] w = ([], [], w)"
| "apply_creates E owner (d # ds) w =
     (let obj = Diff_DesiredObject d
      in case kCreateObject (eKube E) obj owner w of
           (Some e, w') \<Rightarrow> (case apply_creates E owner ds w' of (cs, es, w'') \<Rightarrow>
              (cs, Errorf_w (ResourceName obj @ '' creation failure: '') e [] # es, w''))
         | (None, w') \<Rightarrow> (case apply_creates E owner ds w' of (cs, es, w'') \<Rightarrow>
              (objectToChangeSetEntry obj CreatedAction # cs, es, w'')))"

fun apply_patches ::
  "'w env \<Rightarrow> string \<Rightarrow> Diff list \<Rightarrow> 'w \<Rightarrow> ChangeSetEntry list \<times> gerror list \<times> 'w" where
  "apply_patches E owner [] w = ([], [], w)"
| "apply_patches E owner (d # ds) w =
     (let obj = Diff_DesiredObject d
      in case kPatchObject (eKube E) obj (map snd (Diff_Patch d)) owner w of
           (Some e, w') \<Rightarrow> (case apply_patches E owner ds w' of (cs, es, w'') \<Rightarrow>
              (cs, Errorf_w (ResourceName obj @ '' patch failure: '')
                     (if U_Kind obj = ''Secret'' then maskSensitiveErrData E e else e) [] # es, w''))
         | (None, w') \<Rightarrow> (case apply_patches E owner ds w' of (cs, es, w'') \<Rightarrow>
              (objectToChangeSetEntry obj ConfiguredAction # cs, es, w'')))"

definition ApplyDiff ::
  "'w env \<Rightarrow> DiffSet \<Rightarrow> string \<Rightarrow> 'w \<Rightarrow> (ChangeSetEntry list option \<times> gerror option) \<times> 'w" where
  "ApplyDiff E diffSet owner w =
     (case kRESTConfig (eKube E) w of Some e \<Rightarrow> ((None, Some e), w) | None \<Rightarrow>
     (case kNewClient (eKube E) w of Some e \<Rightarrow> ((None, Some e), w) | None \<Rightarrow>
     (let toCreate = SliceStable (diff_less E) (List.filter (\<lambda>d. Diff_Type d = DiffTypeCreate) diffSet);
          toPatch = SliceStable (diff_less E) (List.filter (\<lambda>d. Diff_Type d = DiffTypeUpdate) diffSet)
      in case apply_creates E owner toCreate w of (cs1, es1, w1) \<Rightarrow>
         (case apply_patches E owner toPatch w1 of (cs2, es2, w2) \<Rightarrow>
            ((Some (cs1 @ cs2), if es1 @ es2 = [] then None else Some (kAggregate (eKube E) (es1 @ es2))), w2)))))"

subsection \<open>Lemmas\<close>

lemma apply_creates_total:
  "length (fst (apply_creates E owner ds w)) + length (fst (snd (apply_creates E owner ds w))) = length ds"
  by (induction ds arbitrary: w) (auto simp: Let_def case_prod_beta split: option.split prod.split)

lemma apply_patches_total:
  "length (fst (apply_patches E owner ds w)) + length (fst (snd (apply_patches E owner ds w))) = length ds"
  by (induction ds arbitrary: w) (auto simp: Let_def case_prod_beta split: option.split prod.split)

lemma apply_creates_action:
  "\<forall>c \<in> set (fst (apply_creates E owner ds w)). CE_Action c = CreatedAction"
  by (induction ds arbitrary: w)
    (auto simp: Let_def case_prod_beta objectToChangeSetEntry_def split: option.split prod.split)

end
