(* ===== verification/ReleaseStates.thy ===== *)
theory ReleaseStates
  imports ReleaseRecord Diffs
begin

section \<open>The state of a release: internal/reconcile/state.go\<close>

text \<open>
  \<^verbatim>\<open>DetermineReleaseState\<close> compares the last release in the Helm storage with the object and the
  desired chart and values. Reading the latest snapshot sorts the history of the object, and
  detecting drift may patch field managers in the cluster, so the request is returned too.
\<close>

datatype ReleaseStatus =
    ReleaseStatusUnknown
  | ReleaseStatusAbsent
  | ReleaseStatusUnmanaged
  | ReleaseStatusOutOfSync
  | ReleaseStatusDrifted
  | ReleaseStatusLocked
  | ReleaseStatusUntested
  | ReleaseStatusInSync
  | ReleaseStatusFailed

record ReleaseState =
  RS_Status :: ReleaseStatus
  RS_Reason :: string
  RS_Diff :: DiffSet

definition mk_state :: "ReleaseStatus \<Rightarrow> string \<Rightarrow> ReleaseState" where
  "mk_state st reason = \<lparr>RS_Status = st, RS_Reason = reason, RS_Diff = []\<rparr>"

definition StatusUninstalled :: string where "StatusUninstalled = ''uninstalled''"
definition StatusUninstalling :: string where "StatusUninstalling = ''uninstalling''"
definition StatusFailed :: string where "StatusFailed = ''failed''"
definition StatusDeployed :: string where "StatusDeployed = ''deployed''"

lemmas helm_status_defs = StatusUninstalled_def StatusUninstalling_def StatusFailed_def StatusDeployed_def

definition IsPending :: "string \<Rightarrow> bool" where
  "IsPending st \<longleftrightarrow> st = ''pending-install'' \<or> st = ''pending-upgrade'' \<or> st = ''pending-rollback''"

definition isLockedStatus :: "string \<Rightarrow> bool" where
  "isLockedStatus st \<longleftrightarrow> IsPending st \<or> st = StatusUninstalling"

definition observedDigestAlgorithm :: "digest_api \<Rightarrow> string \<Rightarrow> string" where
  "observedDigestAlgorithm D observed = (if dParse D observed then dAlgorithm D observed else dCanonical D)"

definition postrenderers_digest :: "digest_api \<Rightarrow> HelmRelease \<Rightarrow> string" where
  "postrenderers_digest D obj = (case Spec_PostRenderers (HR_Spec obj) of None \<Rightarrow> []
     | Some rs \<Rightarrow> Digest_PostRenderers D
         (observedDigestAlgorithm D (St_ObservedPostRenderersDigest (HR_Status obj))) rs)"

definition common_metadata_digest :: "digest_api \<Rightarrow> HelmRelease \<Rightarrow> string" where
  "common_metadata_digest D obj = (case Spec_CommonMetadata (HR_Spec obj) of None \<Rightarrow> []
     | Some cm \<Rightarrow> CommonMetadataDigest D
         (observedDigestAlgorithm D (St_ObservedCommonMetadataDigest (HR_Status obj))) cm)"

definition failed_test_counts :: "HelmRelease \<Rightarrow> Snapshot \<Rightarrow> bool" where
  "failed_test_counts obj cur = (case GetActiveRemediation obj of None \<Rightarrow> False
     | Some rem \<Rightarrow> \<not> MustIgnoreTestFailures rem (Test_IgnoreFailures (GetTest obj)) \<and>
                   HasTestInPhase (Some cur) HookPhaseFailed)"

definition drift_state :: "'w env \<Rightarrow> HelmRel \<Rightarrow> 'w Request \<Rightarrow> ReleaseState res \<times> 'w Request" where
  "drift_state E rls req =
     (let dd = GetDriftDetection (Object req)
      in if \<not> MustDetectChanges dd then (Ok (mk_state ReleaseStatusInSync []), req)
         else (case Diff_release E rls (ManagedFieldsManager (eFlags E)) (disallowedFieldManagers (eFlags E))
                      (DD_Ignore dd) (World req) of
             ((diffSet, err), w') \<Rightarrow>
               (let req' = set_world w' req; hasChanges = kHasChanges (eKube E) diffSet
                in case err of
                     Some e \<Rightarrow> if \<not> hasChanges
                              then (Err (Errorf_w ''unable to determine cluster state: '' e []), req')
                              else (Ok ((mk_state ReleaseStatusDrifted [])\<lparr>RS_Diff := diffSet\<rparr>), req')
                   | None \<Rightarrow> if hasChanges
                            then (Ok ((mk_state ReleaseStatusDrifted [])\<lparr>RS_Diff := diffSet\<rparr>), req')
                            else (Ok (mk_state ReleaseStatusInSync []), req'))))"

text \<open>The case of a deployed release.\<close>

definition deployed_state ::
  "'w env \<Rightarrow> HelmRel \<Rightarrow> Snapshot \<Rightarrow> 'w Request \<Rightarrow> ReleaseState res \<times> 'w Request" where
  "deployed_state E rls cur req =
     (let D = eDigest E; obj = Object req
      in case VerifyRelease D (Some rls) (Some cur) (Some (Ch_Metadata (Chart req))) (Values req) of
           Panic \<Rightarrow> (Panic, req)
         | Err e \<Rightarrow>
             if e = sentinel_err ErrChartChanged \<or> e = sentinel_err ErrConfigDigest
             then (Ok (mk_state ReleaseStatusOutOfSync (Err_Msg e)), req)
             else (Err e, req)
         | Ok _ \<Rightarrow>
             if postrenderers_digest D obj \<noteq> St_ObservedPostRenderersDigest (HR_Status obj)
             then (Ok (mk_state ReleaseStatusOutOfSync ''postrenderers digest has changed''), req)
             else if common_metadata_digest D obj \<noteq> St_ObservedCommonMetadataDigest (HR_Status obj)
             then (Ok (mk_state ReleaseStatusOutOfSync ''common metadata digest has changed''), req)
             else if Test_Enable (GetTest obj) \<and> \<not> HasBeenTested (Some cur)
             then (Ok (mk_state ReleaseStatusUntested []), req)
             else if Test_Enable (GetTest obj) \<and> failed_test_counts obj cur
             then (Ok (mk_state ReleaseStatusFailed ''release has test in failed phase''), req)
             else drift_state E rls req)"

text \<open>A release that is compared with the latest snapshot.\<close>

definition recorded_state ::
  "'w env \<Rightarrow> HelmRel \<Rightarrow> HelmInfo \<Rightarrow> Snapshot \<Rightarrow> 'w Request \<Rightarrow> ReleaseState res \<times> 'w Request" where
  "recorded_state E rls info cur req =
     (case VerifyReleaseObject (eDigest E) cur rls of
        Some e \<Rightarrow>
          if IsOneOf (Some e) [ErrReleaseDigest, ErrReleaseNotObserved]
          then (Ok (mk_state ReleaseStatusUnmanaged (Err_Msg e)), req)
          else (Err (Errorf_w ''failed to verify release object: '' e []), req)
      | None \<Rightarrow>
          if Info_Status info = StatusFailed then (Ok (mk_state ReleaseStatusFailed []), req)
          else if Info_Status info = StatusUninstalled
            then (Ok (mk_state ReleaseStatusAbsent ''found uninstalled release in storage''), req)
          else if Info_Status info = StatusDeployed then deployed_state E rls cur req
          else (Err (errors_New (''unable to determine state for release with status '' @
                  [CHR 0x27] @ Info_Status info @ [CHR 0x27])), req))"

definition found_state :: "'w env \<Rightarrow> HelmRel \<Rightarrow> HelmInfo \<Rightarrow> 'w Request \<Rightarrow> ReleaseState res \<times> 'w Request" where
  "found_state E rls info req =
     (if isLockedStatus (Info_Status info)
      then (Ok (mk_state ReleaseStatusLocked
              (''release with status '' @ [CHR 0x27] @ Info_Status info @ [CHR 0x27])), req)
      else (case Latest (History (Object req)) of
          None \<Rightarrow>
            if Info_Status info = StatusUninstalled
            then (Ok (mk_state ReleaseStatusAbsent ''found uninstalled release in storage''), req)
            else (Ok (mk_state ReleaseStatusUnmanaged ''found existing release in storage''), req)
        | Some cur \<Rightarrow> recorded_state E rls info cur (sort_history req)))"

definition DetermineReleaseState :: "'w env \<Rightarrow> 'w Request \<Rightarrow> ReleaseState res \<times> 'w Request" where
  "DetermineReleaseState E req =
     (case LastRelease E (GetReleaseName (Object req)) (World req) of
        Panic \<Rightarrow> (Panic, req)
      | Err e \<Rightarrow>
          if errors_Is e ErrReleaseNotFound
          then (Ok (mk_state ReleaseStatusAbsent ''no release in storage for object''), req)
          else (Err (Errorf_w ''failed to retrieve last release from storage: '' e []), req)
      | Ok rls \<Rightarrow> (case Rel_Info rls of None \<Rightarrow> (Panic, req) | Some info \<Rightarrow> found_state E rls info req))"

text \<open>A request whose release is in sync, for examples.\<close>

definition sample_in_sync :: "sample_world Request" where
  "sample_in_sync = sample_request\<lparr>World := [sample_release],
     Object := set_history [ObservedToSnapshot sample_digest (ObserveRelease sample_release)] sample_object\<rparr>"

subsection \<open>Lemmas\<close>

lemma mk_state_simps [simp]:
  "RS_Status (mk_state st r) = st" "RS_Reason (mk_state st r) = r" "RS_Diff (mk_state st r) = []"
  by (simp_all add: mk_state_def)

lemma VerifyRelease_Ok_iff:
  "VerifyRelease D (Some rls) (Some cur) (Some m) vals = Ok u \<longleftrightarrow>
     (\<exists>rm. Rel_Chart rls = Some rm \<and> Meta_Name rm = Meta_Name m \<and> Meta_Version rm = Meta_Version m) \<and>
     dVerifyValues D (Snap_ConfigDigest cur) vals"
  by (auto simp: VerifyRelease_def split: option.splits)

text \<open>Which states the parts can return.\<close>

lemma drift_state_status:
  assumes "fst (drift_state E rls req) = Ok s"
  shows "RS_Status s \<in> {ReleaseStatusInSync, ReleaseStatusDrifted}"
  using assms by (auto simp: drift_state_def Let_def split: if_splits prod.splits option.splits)

lemma drift_state_InSync:
  assumes "fst (drift_state E rls req) = Ok s" "RS_Status s = ReleaseStatusInSync"
  shows "\<not> MustDetectChanges (GetDriftDetection (Object req)) \<or>
    (\<exists>d w'. Diff_release E rls (ManagedFieldsManager (eFlags E)) (disallowedFieldManagers (eFlags E))
        (DD_Ignore (GetDriftDetection (Object req))) (World req) = ((d, None), w') \<and> \<not> kHasChanges (eKube E) d)"
  using assms by (auto simp: drift_state_def Let_def split: if_splits prod.splits option.splits)

lemma deployed_state_Ok:
  assumes "fst (deployed_state E rls cur req) = Ok s"
    and "RS_Status s \<in> {ReleaseStatusInSync, ReleaseStatusDrifted, ReleaseStatusUntested, ReleaseStatusFailed}"
  shows "VerifyRelease (eDigest E) (Some rls) (Some cur) (Some (Ch_Metadata (Chart req))) (Values req) = Ok () \<and>
    postrenderers_digest (eDigest E) (Object req) = St_ObservedPostRenderersDigest (HR_Status (Object req)) \<and>
    common_metadata_digest (eDigest E) (Object req) = St_ObservedCommonMetadataDigest (HR_Status (Object req))"
  using assms by (auto simp: deployed_state_def Let_def split: if_splits res.splits)

lemma deployed_state_InSync:
  assumes "fst (deployed_state E rls cur req) = Ok s" and "RS_Status s = ReleaseStatusInSync"
  shows "fst (drift_state E rls req) = Ok s \<and>
    (Test_Enable (GetTest (Object req)) \<longrightarrow> HasBeenTested (Some cur) \<and> \<not> failed_test_counts (Object req) cur)"
  using assms by (auto simp: deployed_state_def Let_def split: if_splits res.splits)

lemma sort_history_getters:
  "St_ObservedPostRenderersDigest (HR_Status (Object (sort_history req))) =
     St_ObservedPostRenderersDigest (HR_Status (Object req))"
  "St_ObservedCommonMetadataDigest (HR_Status (Object (sort_history req))) =
     St_ObservedCommonMetadataDigest (HR_Status (Object req))"
  "GetTest (Object (sort_history req)) = GetTest (Object req)"
  "GetDriftDetection (Object (sort_history req)) = GetDriftDetection (Object req)"
  "postrenderers_digest D (Object (sort_history req)) = postrenderers_digest D (Object req)"
  "common_metadata_digest D (Object (sort_history req)) = common_metadata_digest D (Object req)"
  "failed_test_counts (Object (sort_history req)) cur = failed_test_counts (Object req) cur"
  by (simp_all add: postrenderers_digest_def common_metadata_digest_def failed_test_counts_def
      active_with_status split: option.split)

text \<open>The object itself is only touched by sorting its history.\<close>

lemma drift_state_object [simp]:
  "Object (snd (drift_state E rls req)) = Object req" "Chart (snd (drift_state E rls req)) = Chart req"
  "Values (snd (drift_state E rls req)) = Values req" "Events (snd (drift_state E rls req)) = Events req"
  by (auto simp: drift_state_def Let_def split: prod.split option.split)

lemma deployed_state_object [simp]:
  "Object (snd (deployed_state E rls cur req)) = Object req" "Chart (snd (deployed_state E rls cur req)) = Chart req"
  "Values (snd (deployed_state E rls cur req)) = Values req" "Events (snd (deployed_state E rls cur req)) = Events req"
  by (auto simp: deployed_state_def Let_def split: res.split)

lemma recorded_state_object [simp]:
  "Object (snd (recorded_state E rls info cur req)) = Object req" "Chart (snd (recorded_state E rls info cur req)) = Chart req"
  "Values (snd (recorded_state E rls info cur req)) = Values req" "Events (snd (recorded_state E rls info cur req)) = Events req"
  by (simp_all add: recorded_state_def split: option.split)

lemma DetermineReleaseState_object:
  "Object (snd (DetermineReleaseState E req)) \<in> {Object req, Object (sort_history req)}"
  by (simp add: DetermineReleaseState_def found_state_def del: sort_history_simps split: res.split option.split)

lemma DetermineReleaseState_frame [simp]:
  "Chart (snd (DetermineReleaseState E req)) = Chart req"
  "Values (snd (DetermineReleaseState E req)) = Values req"
  "Events (snd (DetermineReleaseState E req)) = Events req"
  by (simp_all add: DetermineReleaseState_def found_state_def split: res.split option.split)

lemma found_state_InSync:
  assumes "fst (found_state E rls info req) = Ok s" "RS_Status s = ReleaseStatusInSync"
  shows "\<not> isLockedStatus (Info_Status info) \<and> Info_Status info = StatusDeployed \<and>
    (\<exists>cur. Latest (History (Object req)) = Some cur \<and> VerifyReleaseObject (eDigest E) cur rls = None \<and>
       fst (deployed_state E rls cur (sort_history req)) = Ok s)"
proof -
  have n: "\<not> isLockedStatus (Info_Status info)" using assms by (auto simp: found_state_def)
  with assms obtain cur where c: "Latest (History (Object req)) = Some cur"
      and r: "fst (recorded_state E rls info cur (sort_history req)) = Ok s"
    by (auto simp: found_state_def split: option.splits if_splits)
  from r assms(2) have "VerifyReleaseObject (eDigest E) cur rls = None"
    by (cases "VerifyReleaseObject (eDigest E) cur rls") (auto simp: recorded_state_def split: if_splits)
  with n c r assms(2) show ?thesis by (auto simp: recorded_state_def split: if_splits)
qed

lemma DetermineReleaseState_Ok:
  assumes "fst (DetermineReleaseState E req) = Ok s"
  shows "(RS_Status s = ReleaseStatusAbsent) \<or>
    (\<exists>rls info. LastRelease E (GetReleaseName (Object req)) (World req) = Ok rls \<and> Rel_Info rls = Some info \<and>
       fst (found_state E rls info req) = Ok s)"
  using assms by (auto simp: DetermineReleaseState_def split: res.splits option.splits if_splits)

subsection \<open>Properties\<close>

text \<open>C3. When a release is found to be in sync, everything the controller promises holds: the last
  release in the storage is deployed and not locked, it is the one recorded as latest, chart name
  and version and the values agree with the desired ones, so do post-renderers and common
  metadata, tests ran when they are enabled and no failure counts, and no drift was found when
  drift is to be detected.\<close>

theorem InSync_sound:
  assumes "fst (DetermineReleaseState E req) = Ok s" and "RS_Status s = ReleaseStatusInSync"
  shows "\<exists>rls cur info m.
     LastRelease E (GetReleaseName (Object req)) (World req) = Ok rls \<and>
     Rel_Info rls = Some info \<and> Info_Status info = StatusDeployed \<and> \<not> isLockedStatus (Info_Status info) \<and>
     Latest (History (Object req)) = Some cur \<and> VerifyReleaseObject (eDigest E) cur rls = None \<and>
     Rel_Chart rls = Some m \<and> Meta_Name m = Meta_Name (Ch_Metadata (Chart req)) \<and>
     Meta_Version m = Meta_Version (Ch_Metadata (Chart req)) \<and>
     dVerifyValues (eDigest E) (Snap_ConfigDigest cur) (Values req) \<and>
     postrenderers_digest (eDigest E) (Object req) = St_ObservedPostRenderersDigest (HR_Status (Object req)) \<and>
     common_metadata_digest (eDigest E) (Object req) = St_ObservedCommonMetadataDigest (HR_Status (Object req)) \<and>
     (Test_Enable (GetTest (Object req)) \<longrightarrow>
        HasBeenTested (Some cur) \<and> \<not> failed_test_counts (Object req) cur) \<and>
     (MustDetectChanges (GetDriftDetection (Object req)) \<longrightarrow>
        (\<exists>d w'. Diff_release E rls (ManagedFieldsManager (eFlags E)) (disallowedFieldManagers (eFlags E))
           (DD_Ignore (GetDriftDetection (Object req))) (World req) = ((d, None), w') \<and> \<not> kHasChanges (eKube E) d))"
proof -
  obtain rls info where rls: "LastRelease E (GetReleaseName (Object req)) (World req) = Ok rls"
      "Rel_Info rls = Some info" and f: "fst (found_state E rls info req) = Ok s"
    using DetermineReleaseState_Ok [OF assms(1)] assms(2) by auto
  obtain cur where cur: "\<not> isLockedStatus (Info_Status info)" "Info_Status info = StatusDeployed"
      "Latest (History (Object req)) = Some cur" "VerifyReleaseObject (eDigest E) cur rls = None"
      and d: "fst (deployed_state E rls cur (sort_history req)) = Ok s"
    using found_state_InSync [OF f assms(2)] by auto
  note ok = deployed_state_Ok [OF d] deployed_state_InSync [OF d assms(2)]
  have "fst (drift_state E rls (sort_history req)) = Ok s" using ok assms(2) by simp
  note drift = drift_state_InSync [OF this assms(2)]
  obtain m where "Rel_Chart rls = Some m" "Meta_Name m = Meta_Name (Ch_Metadata (Chart req))"
      "Meta_Version m = Meta_Version (Ch_Metadata (Chart req))"
      "dVerifyValues (eDigest E) (Snap_ConfigDigest cur) (Values req)"
    using ok(1) assms(2) by (auto simp: VerifyRelease_Ok_iff)
  then show ?thesis
    using rls cur ok assms(2) drift
    by (intro exI [of _ rls] exI [of _ cur] exI [of _ info] exI [of _ m])
      (simp add: sort_history_getters del: sort_history_simps(1))
qed

theorem InSync_sound_witness:
  "\<exists>cur. Latest (History (Object sample_in_sync)) = Some cur \<and>
     VerifyReleaseObject (eDigest sample_env) cur sample_release = None \<and>
     dVerifyValues (eDigest sample_env) (Snap_ConfigDigest cur) (Values sample_in_sync)"
proof -
  have "fst (DetermineReleaseState sample_env sample_in_sync) = Ok (mk_state ReleaseStatusInSync [])"
    by code_simp
  from InSync_sound [OF this]
  have "\<exists>rls cur. LastRelease sample_env (GetReleaseName (Object sample_in_sync)) (World sample_in_sync) = Ok rls \<and>
     Latest (History (Object sample_in_sync)) = Some cur \<and> VerifyReleaseObject (eDigest sample_env) cur rls = None \<and>
     dVerifyValues (eDigest sample_env) (Snap_ConfigDigest cur) (Values sample_in_sync)"
    by auto
  moreover have "LastRelease sample_env (GetReleaseName (Object sample_in_sync)) (World sample_in_sync) = Ok sample_release"
    by code_simp
  ultimately show ?thesis by auto
qed

text \<open>A release that is not in the storage, or was uninstalled and is not recorded as anything
  else, is absent; a release whose last action was interrupted is locked whatever was recorded;
  and a release that is not the one recorded, or that was never recorded, is unmanaged, whether or
  not it matches the desired chart. In all these cases the state is determined without error.\<close>

theorem DetermineReleaseState_unrecorded:
  "(LastRelease E (GetReleaseName (Object req)) (World req) = Err (sentinel_err ErrReleaseNotFound) \<longrightarrow>
      (\<exists>s. fst (DetermineReleaseState E req) = Ok s \<and> RS_Status s = ReleaseStatusAbsent)) \<and>
   (LastRelease E (GetReleaseName (Object req)) (World req) = Ok rls \<and> Rel_Info rls = Some info \<longrightarrow>
      (isLockedStatus (Info_Status info) \<longrightarrow>
         (\<exists>s. fst (DetermineReleaseState E req) = Ok s \<and> RS_Status s = ReleaseStatusLocked)) \<and>
      (\<not> isLockedStatus (Info_Status info) \<and> History (Object req) = [] \<longrightarrow>
         (\<exists>s. fst (DetermineReleaseState E req) = Ok s \<and>
            RS_Status s = (if Info_Status info = StatusUninstalled then ReleaseStatusAbsent else ReleaseStatusUnmanaged))) \<and>
      (\<not> isLockedStatus (Info_Status info) \<and> Latest (History (Object req)) = Some cur \<and>
       VerifyReleaseObject (eDigest E) cur rls \<in>
         {Some (sentinel_err ErrReleaseDigest), Some (sentinel_err ErrReleaseNotObserved)} \<longrightarrow>
         (\<exists>s. fst (DetermineReleaseState E req) = Ok s \<and> RS_Status s = ReleaseStatusUnmanaged)))"
  by (auto simp: DetermineReleaseState_def found_state_def recorded_state_def)

theorem DetermineReleaseState_unrecorded_witness:
  "\<exists>s. fst (DetermineReleaseState sample_env (sample_in_sync\<lparr>Object := sample_object\<rparr>)) = Ok s \<and>
     RS_Status s = ReleaseStatusUnmanaged"
proof -
  let ?req = "sample_in_sync\<lparr>Object := sample_object\<rparr>"
  have "LastRelease sample_env (GetReleaseName (Object ?req)) (World ?req) = Ok sample_release"
    by code_simp
  moreover have "Rel_Info sample_release = Some (HelmInfo_zero\<lparr>Info_Status := ''deployed''\<rparr>)"
    "\<not> isLockedStatus ''deployed''" "History (Object ?req) = []"
    by (simp_all add: sample_release_def isLockedStatus_def IsPending_def helm_status_defs
        sample_object_def sample_status_def)
  ultimately show ?thesis
    using DetermineReleaseState_unrecorded [of sample_env ?req sample_release "HelmInfo_zero\<lparr>Info_Status := ''deployed''\<rparr>"]
    by (simp add: helm_status_defs)
qed

end
