(* ===== verification/Reconcilers.thy ===== *)
theory Reconcilers
  imports ReleaseStates
begin

section \<open>The sub-reconcilers of internal/reconcile\<close>

text \<open>
  Install, Upgrade, Test, Unlock, RollbackRemediation, UninstallRemediation, Uninstall and
  CorrectClusterDrift. Each runs one Helm action, observes what it writes to the storage, and
  records the outcome on the object: conditions, failure counters, history, events. A deferred
  summary runs on every way out. A nil latest snapshot whose field is read is a panic.
\<close>

subsection \<open>Common parts\<close>

definition summarized :: "'w env \<Rightarrow> 'a \<times> 'w Request \<Rightarrow> 'a \<times> 'w Request" where
  "summarized E r = (fst r, summarize E (snd r))"

definition run_buffer :: "(string \<times> string) list \<Rightarrow> logRingBuffer" where
  "run_buffer logs = append_all logs (newLogRingBuffer 10)"

definition observe_run ::
  "('w, 'w obs_state) ObserveFunc list \<Rightarrow> ('w, 'r) helm_run \<Rightarrow> 'w Request \<Rightarrow> 'w obs_state" where
  "observe_run observers run req = replay observers (Run_Ops run) (set_world (Run_World run) req, [])"

definition add_failure :: "'w Request \<Rightarrow> 'w Request" where
  "add_failure = on_status (\<lambda>st. st\<lparr>St_Failures := inc64 (St_Failures st)\<rparr>)"

definition latest :: "'w Request \<Rightarrow> Snapshot option" where
  "latest req = Latest (History (Object req))"

text \<open>\<^verbatim>\<open>"release %s with chart %s"\<close> of a snapshot.\<close>

definition release_with_chart :: "Snapshot option \<Rightarrow> string" where
  "release_with_chart cur = ''release '' @ FullReleaseName cur @ '' with chart '' @ VersionedChartName cur"

definition versioned :: "string \<Rightarrow> string \<Rightarrow> int64 \<Rightarrow> string" where
  "versioned ns name v = ns @ ''/'' @ name @ ''.v'' @ itoa v"

text \<open>Metadata from the request.\<close>

definition request_meta :: "'w env \<Rightarrow> 'w Request \<Rightarrow> strmap option" where
  "request_meta E req =
     eventMeta (Meta_Version (Ch_Metadata (Chart req))) (dDigestValues (eDigest E) (dCanonical (eDigest E)) (Values req))
       [addAppVersion (Meta_AppVersion (Ch_Metadata (Chart req))),
        addOCIDigest (St_LastAttemptedRevisionDigest (HR_Status (Object req)))]"

subsection \<open>Install and Upgrade: install.go, upgrade.go\<close>

text \<open>The two reconcilers record success and failure in the same way; \<open>verb\<close> is the action in the
  message.\<close>

definition release_failure ::
  "'w env \<Rightarrow> string \<Rightarrow> string \<Rightarrow> Action \<Rightarrow> logRingBuffer \<Rightarrow> gerror \<Rightarrow> 'w Request \<Rightarrow> 'w Request" where
  "release_failure E verb reason action buffer err req =
     (let obj = Object req; md = Ch_Metadata (Chart req);
          msg = ''Helm '' @ verb @ '' failed for release '' @ GetReleaseNamespace obj @ ''/'' @ GetReleaseName obj @
                '' with chart '' @ Meta_Name md @ ''@'' @ Meta_Version md @ '': '' @ TrimSpace (Err_Msg err);
          req1 = Mark E ReleasedCondition ConditionFalse reason msg (add_failure req)
      in emit (request_meta E req1) EventTypeWarning reason action (eventMessageWithLog msg buffer) req1)"

definition release_success ::
  "'w env \<Rightarrow> string \<Rightarrow> string \<Rightarrow> Action \<Rightarrow> ActionStrategy option \<Rightarrow> 'w Request \<Rightarrow> unit res \<times> 'w Request" where
  "release_success E verb reason action retry req =
     (let cur = latest req;
          msg = ''Helm '' @ verb @ '' succeeded for '' @ release_with_chart cur;
          req1 = Mark E ReleasedCondition ConditionTrue reason msg (sort_history req);
          req2 = (if Test_Enable (GetTest (Object req1)) \<and> \<not> HasBeenTested cur
                  then Mark E TestSuccessCondition ConditionUnknown ''AwaitingTests''
                         (''Helm '' @ release_with_chart cur @ '' is awaiting tests'') req1
                  else req1);
          req3 = (if retry \<noteq> None then on_status ClearFailures req2 else req2)
      in case cur of
           None \<Rightarrow> (Panic, req3)
         | Some c \<Rightarrow> (Ok (), emit (snapshot_meta c) EventTypeNormal reason action msg req3))"

definition start_release :: "'w env \<Rightarrow> ReleaseAction \<Rightarrow> 'w Request \<Rightarrow> 'w Request" where
  "start_release E action req =
     DeleteCondition E RemediatedCondition (DeleteCondition E TestSuccessCondition
       (on_status (\<lambda>st. st\<lparr>St_LastAttemptedReleaseAction := action\<rparr>) req))"

definition record_run ::
  "'w env \<Rightarrow> ReleaseAction \<Rightarrow> time \<Rightarrow> 'w obs_state \<Rightarrow> 'w Request" where
  "record_run E action startTime s =
     (let req = on_status (\<lambda>st. st\<lparr>St_LastAttemptedReleaseActionDuration := Some (eNow E (World (fst s)) - startTime)\<rparr>) (fst s)
      in on_object (recordOnObject (eDigest E) (snd s) [mutateOCIDigest, mutateAction action]) req)"

text \<open>What both do with the result: a failure that left nothing in the storage is returned, any other
  failure is counted, and after a success the applied post-renderers are recorded.\<close>

definition conclude_release ::
  "'w env \<Rightarrow> string \<Rightarrow> string \<Rightarrow> string \<Rightarrow> Action \<Rightarrow> Remediation \<Rightarrow> ActionStrategy option \<Rightarrow>
   ('w, gerror + HelmRel) helm_run \<Rightarrow> observedReleases \<Rightarrow> 'w Request \<Rightarrow> unit res \<times> 'w Request" where
  "conclude_release E verb okReason failReason action rem retry run observed req =
     (case Run_Result run of
        Inl err \<Rightarrow>
          (let req' = release_failure E verb failReason action (run_buffer (Run_Logs run)) err req
           in if observed = [] then (Err err, req') else (Ok (), on_object (IncrementFailureCount rem) req'))
      | Inr _ \<Rightarrow>
          (case release_success E verb okReason action retry req of
             (Ok _, req') \<Rightarrow> (Ok (), observePostRenderers E req')
           | other \<Rightarrow> other))"

definition Install_Reconcile :: "'w env \<Rightarrow> 'w Request \<Rightarrow> unit res \<times> 'w Request" where
  "Install_Reconcile E req =
     (let req1 = start_release E ReleaseActionInstall (on_status ClearHistory req);
          run = Install E (Object req1) (Chart req1) (Values req1) (World req1);
          s = observe_run [observeRelease, observeInventory E ActionHelmInstall] run req1;
          req2 = record_run E ReleaseActionInstall (eNow E (World req)) s;
          i = GetInstall (Object req)
      in summarized E (conclude_release E ''install'' InstallSucceededReason InstallFailedReason ActionHelmInstall
           (Install_GetRemediation i) (Install_GetRetry i (defaultToRetryOnFailure (eFlags E))) run (snd s) req2))"

definition Upgrade_Reconcile :: "'w env \<Rightarrow> 'w Request \<Rightarrow> unit res \<times> 'w Request" where
  "Upgrade_Reconcile E req =
     (let req1 = start_release E ReleaseActionUpgrade req;
          run = Upgrade E (Object req1) (Chart req1) (Values req1) (World req1);
          s = observe_run [observeRelease, observeInventory E ActionHelmUpgrade] run req1;
          req2 = record_run E ReleaseActionUpgrade (eNow E (World req)) s;
          u = GetUpgrade (Object req)
      in summarized E (conclude_release E ''upgrade'' UpgradeSucceededReason UpgradeFailedReason ActionHelmUpgrade
           (Upgrade_GetRemediation u) (Upgrade_GetRetry u (defaultToRetryOnFailure (eFlags E))) run (snd s) req2))"

subsection \<open>Test: test.go\<close>

definition observeTest :: "digest_api \<Rightarrow> HelmRel \<Rightarrow> HelmRelease \<Rightarrow> HelmRelease" where
  "observeTest D rls obj =
     (let h = SortByVersion (History obj); cur = Latest (History obj)
      in if \<not> Targets cur (Rel_Name rls) (Rel_Namespace rls) (Rel_Version rls) then set_history h obj
         else (case cur of
             None \<Rightarrow> set_history h obj
           | Some c \<Rightarrow> set_history (h[0 := SetTestHooks
                  (ObservedToSnapshot D (releaseToObservation rls c (GetAction (Some c))))
                  (Some (TestHooksFromRelease rls (GetFilters (GetTest obj))))]) obj))"

definition Test_failure :: "'w env \<Rightarrow> gerror \<Rightarrow> 'w Request \<Rightarrow> unit res \<times> 'w Request" where
  "Test_failure E err req =
     (let cur = latest req;
          msg = ''Helm test failed for '' @ release_with_chart cur @ '': '' @ TrimSpace (Err_Msg err);
          req1 = Mark E TestSuccessCondition ConditionFalse TestFailedReason msg (add_failure (sort_history req))
      in case cur of
           None \<Rightarrow> (Panic, req1)
         | Some c \<Rightarrow>
            (let req2 = emit (snapshot_meta c) EventTypeWarning TestFailedReason ActionHelmTest msg req1
             in (Ok (), if HasBeenTested (latest req2)
                 then (case GetActiveRemediation (Object req2) of
                         None \<Rightarrow> req2
                       | Some rem \<Rightarrow> if MustIgnoreTestFailures rem (Test_IgnoreFailures (GetTest (Object req2))) then req2
                                    else on_object (IncrementFailureCount rem) req2)
                 else req2)))"

definition Test_success :: "'w env \<Rightarrow> 'w Request \<Rightarrow> unit res \<times> 'w Request" where
  "Test_success E req =
     (let cur = latest req;
          l = length (case GetTestHooks cur of None \<Rightarrow> [] | Some hs \<Rightarrow> hs);
          hookMsg = (if l > 0 then nat_str l @ '' test '' @ (if l > 1 then ''hooks'' else ''hook'') @ '' completed successfully''
                     else ''no test hooks'');
          msg = ''Helm test succeeded for '' @ release_with_chart cur @ '': '' @ hookMsg;
          req1 = Mark E TestSuccessCondition ConditionTrue TestSucceededReason msg (sort_history req)
      in case cur of
           None \<Rightarrow> (Panic, req1)
         | Some c \<Rightarrow> (Ok (), emit (snapshot_meta c) EventTypeNormal TestSucceededReason ActionHelmTest msg req1))"

text \<open>The result of a test counts only for the release recorded as latest.\<close>

definition test_error :: "Snapshot \<Rightarrow> gerror + HelmRel \<Rightarrow> gerror option" where
  "test_error cur result = (case result of
       Inl e \<Rightarrow> Some e
     | Inr rls \<Rightarrow>
         if \<not> Observation_Targets (ObserveRelease rls) (Snap_Name cur) (Snap_Namespace cur) (Snap_Version cur)
         then Some (Errorf_w [] (sentinel_err ErrReleaseMismatch)
                ('': tested release '' @ versioned (Rel_Namespace rls) (Rel_Name rls) (Rel_Version rls) @
                 '' != current release '' @ versioned (Snap_Namespace cur) (Snap_Name cur) (Snap_Version cur)))
         else None)"

definition conclude_test :: "'w env \<Rightarrow> gerror option \<Rightarrow> 'w Request \<Rightarrow> unit res \<times> 'w Request" where
  "conclude_test E err req = (case err of
       None \<Rightarrow> Test_success E req
     | Some e \<Rightarrow> (case Test_failure E e req of
          (Ok _, req') \<Rightarrow> (if \<not> HasBeenTested (latest req') then Err e else Ok (), sort_history req')
        | other \<Rightarrow> other))"

definition Test_Reconcile :: "'w env \<Rightarrow> 'w Request \<Rightarrow> unit res \<times> 'w Request" where
  "Test_Reconcile E req0 =
     (let req = sort_history req0
      in summarized E (case latest req0 of
           None \<Rightarrow> (Err (Errorf_w [] (sentinel_err ErrNoLatest) '': required for test''), req)
         | Some cur \<Rightarrow>
            (let run = Test E (Object req) (World req)
             in conclude_test E (test_error cur (Run_Result run))
                  (fst (observe_run [object_observer (observeTest (eDigest E))] run req)))))"

subsection \<open>Unlock: unlock.go\<close>

definition targets_rel :: "HelmRel \<Rightarrow> Snapshot \<Rightarrow> bool" where
  "targets_rel rls snap = Targets (Some snap) (Rel_Name rls) (Rel_Namespace rls) (Rel_Version rls)"

definition observeUnlock :: "digest_api \<Rightarrow> HelmRel \<Rightarrow> HelmRelease \<Rightarrow> HelmRelease" where
  "observeUnlock D rls obj =
     set_history (update_first (targets_rel rls)
       (\<lambda>snap. ObservedToSnapshot D (releaseToObservation rls snap (GetAction (Some snap)))) (History obj)) obj"

definition processCurrentSnaphot :: "digest_api \<Rightarrow> HelmRelease \<Rightarrow> HelmRel \<Rightarrow> Snapshot" where
  "processCurrentSnaphot D obj rls =
     fold (\<lambda>snap cur. if targets_rel rls snap then cur\<lparr>Snap_OCIDigest := Snap_OCIDigest snap\<rparr> else cur)
       (History obj) (ObservedToSnapshot D (ObserveRelease rls))"

definition Unlock_failure :: "'w env \<Rightarrow> Snapshot \<Rightarrow> string \<Rightarrow> gerror \<Rightarrow> 'w Request \<Rightarrow> 'w Request" where
  "Unlock_failure E cur status err req =
     (let msg = ''Unlock of Helm '' @ release_with_chart (Some cur) @ '' in '' @ status @ '' state failed: '' @ TrimSpace (Err_Msg err)
      in emit (snapshot_meta cur) EventTypeWarning ''PendingRelease'' ActionUnlock msg
           (Mark E ReleasedCondition ConditionFalse ''PendingRelease'' msg (add_failure req)))"

definition Unlock_success :: "'w env \<Rightarrow> Snapshot \<Rightarrow> string \<Rightarrow> 'w Request \<Rightarrow> 'w Request" where
  "Unlock_success E cur status req =
     (let msg = ''Unlocked Helm '' @ release_with_chart (Some cur) @ '' in '' @ status @ '' state''
      in emit (snapshot_meta cur) EventTypeNormal ''PendingRelease'' ActionUnlock msg
           (Mark E ReleasedCondition ConditionFalse ''PendingRelease'' msg req))"

definition unlock_description :: "string \<Rightarrow> string" where
  "unlock_description status = ''Release unlocked from stale '' @ [CHR 0x27] @ status @ [CHR 0x27] @ '' state''"

definition Unlock_Reconcile :: "'w env \<Rightarrow> 'w Request \<Rightarrow> unit res \<times> 'w Request" where
  "Unlock_Reconcile E req =
     summarized E (case LastRelease E (GetReleaseName (Object req)) (World req) of
        Panic \<Rightarrow> (Panic, req)
      | Err e \<Rightarrow> (if errors_Is e ErrReleaseNotFound then Ok () else Err e, req)
      | Ok rls \<Rightarrow>
         (case Rel_Info rls of
            None \<Rightarrow> (Panic, req)
          | Some info \<Rightarrow>
             (let cur = processCurrentSnaphot (eDigest E) (Object req) rls; status = Info_Status info
              in if \<not> isLockedStatus status then (Ok (), req)
                 else (let rls' = hSetStatus (eHelm E) StatusFailed (unlock_description status) (World req) rls
                       in case Observer_Update [object_observer (observeUnlock (eDigest E))]
                                 (\<lambda>key. hUpdate (eHelm E)) [] (RelV1 rls') (World req) (req, []) of
                            (Some e, w', s) \<Rightarrow> (Err e, Unlock_failure E cur status e (set_world w' (fst s)))
                          | (None, w', s) \<Rightarrow> (Ok (), Unlock_success E cur status (set_world w' (fst s)))))))"

subsection \<open>RollbackRemediation: rollback\_remediation.go\<close>

definition observeRollback :: "digest_api \<Rightarrow> HelmRel \<Rightarrow> HelmRelease \<Rightarrow> HelmRelease" where
  "observeRollback D rls obj =
     (if list_ex (targets_rel rls) (History obj)
      then set_history (update_first (targets_rel rls)
             (\<lambda>snap. SetTestHooks (ObservedToSnapshot D (releaseToObservation rls snap ReleaseActionRollback))
                       (GetTestHooks (Some snap))) (History obj)) obj
      else set_history (ObservedToSnapshot D (ObserveRelease rls) # History obj) obj)"

definition rollback_meta :: "'w env \<Rightarrow> Snapshot \<Rightarrow> 'w Request \<Rightarrow> strmap option" where
  "rollback_meta E prev req =
     eventMeta (Snap_ChartVersion prev) (dDigestValues (eDigest E) (dCanonical (eDigest E)) (Values req))
       [addAppVersion (Snap_AppVersion prev), addOCIDigest (Snap_OCIDigest prev)]"

definition RollbackRemediation_failure ::
  "'w env \<Rightarrow> Snapshot \<Rightarrow> logRingBuffer \<Rightarrow> gerror \<Rightarrow> 'w Request \<Rightarrow> 'w Request" where
  "RollbackRemediation_failure E prev buffer err req =
     (let msg = ''Helm rollback to previous '' @ release_with_chart (Some prev) @ '' failed: '' @ TrimSpace (Err_Msg err)
      in emit (rollback_meta E prev req) EventTypeWarning RollbackFailedReason ActionHelmRollback (eventMessageWithLog msg buffer)
           (Mark E RemediatedCondition ConditionFalse RollbackFailedReason msg (add_failure req)))"

definition RollbackRemediation_success :: "'w env \<Rightarrow> Snapshot \<Rightarrow> 'w Request \<Rightarrow> 'w Request" where
  "RollbackRemediation_success E prev req =
     (let msg = ''Helm rollback to previous '' @ release_with_chart (Some prev) @ '' succeeded''
      in emit (rollback_meta E prev req) EventTypeNormal RollbackSucceededReason ActionHelmRollback msg
           (Mark E RemediatedCondition ConditionTrue RollbackSucceededReason msg req))"

definition conclude_rollback ::
  "'w env \<Rightarrow> Snapshot \<Rightarrow> Snapshot \<Rightarrow> ('w, gerror option) helm_run \<Rightarrow> 'w Request \<Rightarrow> unit res \<times> 'w Request" where
  "conclude_rollback E prev cur run req = (case Run_Result run of
       Some err \<Rightarrow>
         (let req' = RollbackRemediation_failure E prev (run_buffer (Run_Logs run)) err req
          in (case latest req' of
                None \<Rightarrow> Err err
              | Some newCur \<Rightarrow> if Snap_Digest newCur = Snap_Digest cur then Err err else Ok (),
              sort_history req'))
     | None \<Rightarrow> (Ok (), RollbackRemediation_success E prev req))"

definition RollbackRemediation_Reconcile :: "'w env \<Rightarrow> 'w Request \<Rightarrow> unit res \<times> 'w Request" where
  "RollbackRemediation_Reconcile E req0 =
     (let req = sort_history req0; obj = Object req0;
          ignoreTests = MustIgnoreTestFailures (Upgrade_GetRemediation (GetUpgrade obj)) (Test_IgnoreFailures (GetTest obj))
      in summarized E (case Previous (History obj) ignoreTests of
           None \<Rightarrow> (Err (Errorf_w [] (sentinel_err ErrMissingRollbackTarget) '': required to rollback''), req)
         | Some prev \<Rightarrow> (case latest req0 of
             None \<Rightarrow> (Panic, req)
           | Some cur \<Rightarrow>
               if Snap_Name prev \<noteq> Snap_Name cur \<or> Snap_Namespace prev \<noteq> Snap_Namespace cur
               then (Err (Errorf_w [] (sentinel_err ErrReleaseMismatch)
                       ('': previous release name or namespace '' @ FullReleaseName (Some prev) @
                        '' does not match current '' @ FullReleaseName (Some cur))), req)
               else (let run = Rollback E (Object req) (Snap_Name prev) (Snap_Version prev) (World req)
                     in conclude_rollback E prev cur run
                          (fst (observe_run [object_observer (observeRollback (eDigest E)),
                             observeInventory E ActionHelmRollback] run req))))))"

subsection \<open>UninstallRemediation and Uninstall: uninstall\_remediation.go, uninstall.go\<close>

definition observeUninstall :: "digest_api \<Rightarrow> ReleaseAction \<Rightarrow> HelmRel \<Rightarrow> HelmRelease \<Rightarrow> HelmRelease" where
  "observeUninstall D action rls obj =
     set_history (update_first (targets_rel rls)
       (\<lambda>snap. SetTestHooks (ObservedToSnapshot D (releaseToObservation rls snap action)) (GetTestHooks (Some snap)))
       (History obj)) obj"

text \<open>The error after comparing the uninstalled release with the latest one. The outer error is that
  of a release of another API.\<close>

definition uninstall_error ::
  "Snapshot \<Rightarrow> Releaser option \<Rightarrow> gerror option \<Rightarrow> gerror + gerror option" where
  "uninstall_error cur res err = (case res of
       None \<Rightarrow> Inr err
     | Some RelOther \<Rightarrow> Inl errChartAPI
     | Some (RelV1 rls) \<Rightarrow>
         if \<not> Observation_Targets (ObserveRelease rls) (Snap_Name cur) (Snap_Namespace cur) (Snap_Version cur)
         then Inr (Some (Errorf_w [] (sentinel_err ErrReleaseMismatch)
                ('': uninstalled release '' @ versioned (Rel_Namespace rls) (Rel_Name rls) (Rel_Version rls) @
                 '' != current release '' @ FullReleaseName (Some cur))))
         else Inr err)"

definition no_storage_update :: gerror where
  "no_storage_update = Errorf_w ''uninstall completed with error: '' (sentinel_err ErrNoStorageUpdate) []"

definition UninstallRemediation_failure ::
  "'w env \<Rightarrow> logRingBuffer \<Rightarrow> gerror \<Rightarrow> Snapshot \<Rightarrow> 'w Request \<Rightarrow> 'w Request" where
  "UninstallRemediation_failure E buffer err cur req =
     (let msg = ''Helm uninstall remediation for '' @ release_with_chart (Some cur) @ '' failed: '' @ TrimSpace (Err_Msg err)
      in emit (snapshot_meta cur) EventTypeWarning UninstallFailedReason ActionHelmUninstall (eventMessageWithLog msg buffer)
           (Mark E RemediatedCondition ConditionFalse UninstallFailedReason msg (add_failure req)))"

definition UninstallRemediation_success :: "'w env \<Rightarrow> Snapshot \<Rightarrow> 'w Request \<Rightarrow> 'w Request" where
  "UninstallRemediation_success E cur req =
     (let msg = ''Helm uninstall remediation for '' @ release_with_chart (Some cur) @ '' succeeded''
      in emit (snapshot_meta cur) EventTypeNormal UninstallSucceededReason ActionHelmUninstall msg
           (Mark E RemediatedCondition ConditionTrue UninstallSucceededReason msg req))"

definition conclude_uninstall_remediation ::
  "'w env \<Rightarrow> Snapshot \<Rightarrow> ('w, Releaser option \<times> gerror option) helm_run \<Rightarrow> 'w Request \<Rightarrow> unit res \<times> 'w Request" where
  "conclude_uninstall_remediation E cur run req =
     (case uninstall_error cur (fst (Run_Result run)) (snd (Run_Result run)) of
        Inl e \<Rightarrow> (Err e, req)
      | Inr err0 \<Rightarrow> (case latest req of
          None \<Rightarrow> (Panic, req)
        | Some now \<Rightarrow>
           (let req' = sort_history req; same = (Snap_Digest cur = Snap_Digest now)
            in case (if err0 = None \<and> same then Some no_storage_update else err0) of
                 Some e \<Rightarrow> (if same then Err e else Ok (),
                            UninstallRemediation_failure E (run_buffer (Run_Logs run)) e now req')
               | None \<Rightarrow> (Ok (), UninstallRemediation_success E now req'))))"

definition UninstallRemediation_Reconcile :: "'w env \<Rightarrow> 'w Request \<Rightarrow> unit res \<times> 'w Request" where
  "UninstallRemediation_Reconcile E req0 =
     (let req = sort_history req0
      in case latest req0 of
           None \<Rightarrow> (Err (Errorf_w [] (sentinel_err ErrNoLatest) '': required to uninstall''), req)
         | Some cur \<Rightarrow>
            (let run = Uninstall E (Object req) (Snap_Name cur) (World req)
             in conclude_uninstall_remediation E cur run
                  (fst (observe_run [object_observer (observeUninstall (eDigest E) ReleaseActionUninstallRemediation)] run req))))"

definition Uninstall_failure ::
  "'w env \<Rightarrow> logRingBuffer \<Rightarrow> gerror \<Rightarrow> Snapshot \<Rightarrow> 'w Request \<Rightarrow> 'w Request" where
  "Uninstall_failure E buffer err cur req =
     (let msg = ''Helm uninstall failed for '' @ release_with_chart (Some cur) @ '': '' @ TrimSpace (Err_Msg err)
      in emit (snapshot_meta cur) EventTypeWarning UninstallFailedReason ActionHelmUninstall (eventMessageWithLog msg buffer)
           (Mark E ReleasedCondition ConditionFalse UninstallFailedReason msg (add_failure req)))"

definition Uninstall_success :: "'w env \<Rightarrow> Snapshot \<Rightarrow> 'w Request \<Rightarrow> 'w Request" where
  "Uninstall_success E cur req =
     (let msg = ''Helm uninstall succeeded for '' @ release_with_chart (Some cur)
      in emit (snapshot_meta cur) EventTypeNormal UninstallSucceededReason ActionHelmUninstall msg
           (Mark E ReleasedCondition ConditionFalse UninstallSucceededReason msg
             (on_status (\<lambda>st. st\<lparr>St_Inventory := None\<rparr>) req)))"

definition conclude_uninstall ::
  "'w env \<Rightarrow> Snapshot \<Rightarrow> ('w, Releaser option \<times> gerror option) helm_run \<Rightarrow> 'w Request \<Rightarrow> unit res \<times> 'w Request" where
  "conclude_uninstall E cur run req =
     (let runErr = snd (Run_Result run)
      in if runErr \<noteq> None \<and> errors_Is (the runErr) DriverReleaseNotFound
         then (Ok (), Mark E ReleasedCondition ConditionFalse UninstallSucceededReason
                 (''Release '' @ FullReleaseName (Some cur) @ '' was not found, assuming it is uninstalled'') req)
         else if runErr \<noteq> None \<and> Uni_KeepHistory (GetUninstall (Object req)) \<and>
                 Contains (Err_Msg (the runErr)) ''is already deleted''
         then (Ok (), Mark E ReleasedCondition ConditionFalse UninstallSucceededReason
                 (''Release '' @ FullReleaseName (Some cur) @ '' was already uninstalled'') req)
         else (case uninstall_error cur (fst (Run_Result run)) runErr of
             Inl e \<Rightarrow> (Err e, req)
           | Inr err0 \<Rightarrow> (case latest req of
               None \<Rightarrow> (Panic, req)
             | Some now \<Rightarrow>
                (let req' = sort_history req
                 in case (if err0 = None \<and> Snap_Digest cur = Snap_Digest now \<and> Snap_Status cur \<noteq> StatusUninstalled
                          then Some no_storage_update else err0) of
                      Some e \<Rightarrow> (Err e, Uninstall_failure E (run_buffer (Run_Logs run)) e now req')
                    | None \<Rightarrow> (Ok (), Uninstall_success E now req')))))"

definition Uninstall_Reconcile :: "'w env \<Rightarrow> 'w Request \<Rightarrow> unit res \<times> 'w Request" where
  "Uninstall_Reconcile E req0 =
     (let req = sort_history req0
      in summarized E (case latest req0 of
           None \<Rightarrow> (Err (Errorf_w [] (sentinel_err ErrNoLatest) '': required to uninstall''), req)
         | Some cur \<Rightarrow>
            (let run = Uninstall E (Object req) (Snap_Name cur) (World req)
             in conclude_uninstall E cur run
                  (fst (observe_run [object_observer (observeUninstall (eDigest E) ReleaseActionUninstall)] run req)))))"

subsection \<open>CorrectClusterDrift: correct\_cluster\_drift.go\<close>

definition drift_failure_message :: "'w env \<Rightarrow> Snapshot \<Rightarrow> ChangeSetEntry list option \<Rightarrow> gerror \<Rightarrow> string" where
  "drift_failure_message E cur changeSet err =
     (let some = (case changeSet of None \<Rightarrow> False | Some es \<Rightarrow> es \<noteq> [])
      in ''Failed to '' @ (if some then ''partially '' else []) @ ''correct cluster state of release '' @
         FullReleaseName (Some cur) @ '':'' @ [CHR 0x0A] @
         (case kAggregateErrors (eKube E) err of
            Some errs \<Rightarrow> Join (map Err_Msg errs) [CHR 0x0A]
          | None \<Rightarrow> Err_Msg err) @
         (if some then [CHR 0x0A, CHR 0x0A] @ ''Successful corrections:'' @ [CHR 0x0A] @
            kChangeSetString (eKube E) (the changeSet) else []))"

definition drift_report ::
  "'w env \<Rightarrow> ChangeSetEntry list option \<Rightarrow> gerror option \<Rightarrow> 'w Request \<Rightarrow> unit res \<times> 'w Request" where
  "drift_report E changeSet err req0 =
     (let req = sort_history req0; cur = latest req0
      in case err of
           Some e \<Rightarrow> (case cur of None \<Rightarrow> (Panic, req)
             | Some c \<Rightarrow> (Ok (), emit (snapshot_meta c) EventTypeWarning ''DriftCorrectionFailed'' ActionDriftDetection
                 (drift_failure_message E c changeSet e) req))
         | None \<Rightarrow>
            if changeSet \<noteq> None \<and> the changeSet \<noteq> []
            then (case cur of None \<Rightarrow> (Panic, req)
              | Some c \<Rightarrow> (Ok (), emit (snapshot_meta c) EventTypeNormal ''DriftCorrected'' ActionDriftDetection
                  (''Cluster state of release '' @ FullReleaseName (Some c) @ '' has been corrected:'' @ [CHR 0x0A] @
                   kChangeSetString (eKube E) (the changeSet)) req))
            else (Ok (), req))"

definition CorrectClusterDrift_Reconcile :: "'w env \<Rightarrow> DiffSet \<Rightarrow> string \<Rightarrow> 'w Request \<Rightarrow> unit res \<times> 'w Request" where
  "CorrectClusterDrift_Reconcile E diff owner req =
     (if GetMode (GetDriftDetection (Object req)) \<noteq> DriftDetectionEnabled \<or> diff = [] then (Ok (), req)
      else (let req1 = Mark E ReadyCondition ConditionUnknown ProgressingReason ''correcting cluster drift'' req
            in case ApplyDiff E diff owner (World req1) of
                 ((changeSet, err), w') \<Rightarrow> drift_report E changeSet err (set_world w' req1)))"

end
