(* ===== verification/Contracts.thy ===== *)
theory Contracts
  imports Reconcilers
begin

section \<open>The contract of the sub-reconcilers: internal/reconcile/reconcile.go\<close>

text \<open>
  The interface \<^verbatim>\<open>ActionReconciler\<close>. Its implementations only write to the status of the object
  (and to the world and the event stream): what the user specified, the identity of the object,
  the chart and the values stay as they are; and they leave it to the release loop to say whether
  the object is progressing or stalled. The locale \<open>status_relation\<close> collects what a relation
  between requests needs so that every reconciler stays within it; it is interpreted twice. The
  locale \<open>action_reconciler\<close> states the contract that follows, for each of the eight reconcilers.
\<close>

datatype ReconcilerType =
    ReconcilerTypeRelease
  | ReconcilerTypeRemediate
  | ReconcilerTypeTest
  | ReconcilerTypeUnlock
  | ReconcilerTypeDriftCorrection

type_synonym ReconcilerTypeSet = "ReconcilerType list"

fun ReconcilerTypeSet_Contains :: "ReconcilerTypeSet \<Rightarrow> ReconcilerType \<Rightarrow> bool" where
  "ReconcilerTypeSet_Contains [] t = False"
| "ReconcilerTypeSet_Contains (r # rs) t = (r = t \<or> ReconcilerTypeSet_Contains rs t)"

fun ReconcilerTypeSet_Count :: "ReconcilerTypeSet \<Rightarrow> ReconcilerType \<Rightarrow> nat" where
  "ReconcilerTypeSet_Count [] t = 0"
| "ReconcilerTypeSet_Count (r # rs) t = (if r = t then 1 else 0) + ReconcilerTypeSet_Count rs t"

lemma Contains_iff [simp]: "ReconcilerTypeSet_Contains s t \<longleftrightarrow> t \<in> set s"
  by (induction s) auto

lemma Count_count_list: "ReconcilerTypeSet_Count s t = count_list s t"
  by (induction s) auto

subsection \<open>Relations the reconcilers stay within\<close>

text \<open>The conditions that tell whether the object is progressing belong to the release loop.\<close>

definition progress_types :: "string list" where
  "progress_types = [ReconcilingCondition, StalledCondition]"

lemma not_progress [simp]:
  "ReadyCondition \<notin> set progress_types" "ReleasedCondition \<notin> set progress_types"
  "TestSuccessCondition \<notin> set progress_types" "RemediatedCondition \<notin> set progress_types"
  "DriftedCondition \<notin> set progress_types"
  by (simp_all add: progress_types_def condition_defs)

lemma not_reconciling [simp]:
  "TestSuccessCondition \<noteq> ReconcilingCondition" "RemediatedCondition \<noteq> ReconcilingCondition"
  "StalledCondition \<noteq> ReconcilingCondition"
  by (simp_all add: condition_defs)

definition status_change :: "HelmRelease \<Rightarrow> HelmRelease \<Rightarrow> bool" where
  "status_change obj obj' \<longleftrightarrow> (\<exists>st. obj' = obj\<lparr>HR_Status := st\<rparr> \<and> St_Conditions st = Conditions obj)"

lemma status_change_refl [simp, intro]: "status_change obj obj"
  unfolding status_change_def by (rule exI [of _ "HR_Status obj"]) simp

lemma status_change_with_status [simp]:
  "St_Conditions (f (HR_Status obj)) = Conditions obj \<Longrightarrow> status_change obj (with_status f obj)"
  unfolding status_change_def with_status_def by blast

lemma status_change_set_history [simp]: "status_change obj (set_history h obj)"
  by (simp add: set_history_def)

lemma status_change_increment [simp]: "status_change obj (IncrementFailureCount r obj)"
  by (cases r) (simp_all add: InstallRemediation_IncrementFailureCount_def UpgradeRemediation_IncrementFailureCount_def)

lemma status_change_record [simp]: "status_change obj (recordOnObject D r ms obj)"
  by (auto simp: recordOnObject_def split: list.split option.split)

lemma status_change_observers [simp]:
  "status_change obj (observeTest D r obj)" "status_change obj (observeUnlock D r obj)"
  "status_change obj (observeRollback D r obj)" "status_change obj (observeUninstall D act r obj)"
  by (auto simp: observeTest_def observeUnlock_def observeRollback_def observeUninstall_def Let_def
      split: option.split)

lemma cleared_conditions [simp]:
  "St_Conditions (ClearHistory st) = St_Conditions st" "St_Conditions (ClearFailures st) = St_Conditions st"
  by (simp_all add: ClearHistory_def ClearFailures_def)

named_theorems within \<open>operations on a request that stay within a status relation\<close>

locale status_relation =
  fixes R :: "'w env \<Rightarrow> 'w Request \<Rightarrow> 'w Request \<Rightarrow> bool"
  assumes refl [within]: "R E a a"
    and trans: "R E a b \<Longrightarrow> R E b c \<Longrightarrow> R E a c"
    and object_step: "status_change (Object b) (f (Object b)) \<Longrightarrow> R E b (on_object f b)"
    and world_step: "R E b (set_world w b)"
    and event_step: "R E b (record_event e b)"
    and mark_step: "t \<notin> set progress_types \<Longrightarrow> R E b (Mark E t st r m b)"
    and set_step: "Cond_Type cnd \<notin> set progress_types \<Longrightarrow> R E b (SetCondition E cnd b)"
    and delete_step: "t \<noteq> ReconcilingCondition \<Longrightarrow> R E b (DeleteCondition E t b)"
    and reorder_step: "mset cs = mset (Conditions (Object b)) \<Longrightarrow> R E b (on_conditions (\<lambda>_. cs) b)"
begin

lemma basic [within]:
  "R E a b \<Longrightarrow> R E a (set_world w b)"
  "R E a b \<Longrightarrow> R E a (record_event e b)"
  "R E a b \<Longrightarrow> t \<notin> set progress_types \<Longrightarrow> R E a (Mark E t st r m b)"
  "R E a b \<Longrightarrow> Cond_Type c \<notin> set progress_types \<Longrightarrow> R E a (SetCondition E c b)"
  "R E a b \<Longrightarrow> t \<noteq> ReconcilingCondition \<Longrightarrow> R E a (DeleteCondition E t b)"
  "R E a b \<Longrightarrow> mset cs = mset (Conditions (Object b)) \<Longrightarrow> R E a (on_conditions (\<lambda>_. cs) b)"
  "R E a b \<Longrightarrow> status_change (Object b) (f (Object b)) \<Longrightarrow> R E a (on_object f b)"
  by (erule trans, rule world_step event_step mark_step set_step delete_step reorder_step object_step; assumption?)+

lemma status [within]:
  "R E a b \<Longrightarrow> St_Conditions (f (HR_Status (Object b))) = Conditions (Object b) \<Longrightarrow> R E a (on_status f b)"
  unfolding on_status_def by (rule basic) simp_all

lemma sort [within]: "R E a b \<Longrightarrow> R E a (sort_history b)"
  unfolding sort_history_def by (rule status) simp_all

lemma emitted [within]: "R E a b \<Longrightarrow> R E a (emit md t r ac m b)"
  unfolding emit_def by (rule basic)

lemma failure_added [within]: "R E a b \<Longrightarrow> R E a (add_failure b)"
  unfolding add_failure_def by (rule status) simp_all

lemma summary [within]:
  assumes "R E a b"
  shows "R E a (summarize E b)"
proof -
  define b' where "b' = (if \<not> Test_Enable (GetTest (Object b)) then DeleteCondition E TestSuccessCondition b else b)"
  with assms have "R E a b'" by (auto intro: within)
  moreover have "mset (c # cs) = mset (Conditions (Object b'))"
    if "SliceStable lt (Conditions (Object b')) = c # cs" for lt c cs
    by (metis that mset_SliceStable)
  ultimately show ?thesis unfolding summarize_def Let_def b'_def [symmetric] by (auto intro!: within split: list.split)
qed

lemma postrender [within]: "R E a b \<Longrightarrow> R E a (observePostRenderers E b)"
  unfolding observePostRenderers_def Let_def by (rule status) simp_all

lemma inventory [within]: "R E a b \<Longrightarrow> R E a (build_inventory E ac r w b)"
  unfolding build_inventory_def inventory_failed_def Let_def
  by (auto intro!: within split: option.split res.split prod.split)

lemma summarized_snd [within]: "R E a (snd r) \<Longrightarrow> R E a (snd (summarized E r))"
  unfolding summarized_def by (simp add: summary)

definition observer_within :: "'w env \<Rightarrow> ('w, 'w obs_state) ObserveFunc \<Rightarrow> bool" where
  "observer_within E obs \<longleftrightarrow> (\<forall>a rls w s. R E a (fst s) \<longrightarrow> R E a (fst (obs rls w s)))"

lemma observers_within [simp]:
  "observer_within E observeRelease" "observer_within E (observeInventory E ac)"
  by (auto simp: observer_within_def observeRelease_def observeInventory_def Let_def
      intro!: within split: Releaser.split)

lemma object_observers_within [simp]:
  "observer_within E (object_observer (observeTest D))" "observer_within E (object_observer (observeUnlock D))"
  "observer_within E (object_observer (observeRollback D))" "observer_within E (object_observer (observeUninstall D act))"
  by (auto simp: observer_within_def object_observer_def intro!: within split: Releaser.split)

lemma observed:
  assumes "\<forall>obs \<in> set observers. observer_within E obs" and "R E a b"
  shows "R E a (fst (observe_run observers run b))"
  unfolding observe_run_def
  by (rule replay_invariant [where P = "\<lambda>s. R E a (fst s)"])
    (use assms in \<open>auto simp: observer_within_def intro: within\<close>)

lemma release_failure_within [within]: "R E a b \<Longrightarrow> R E a (release_failure E v r ac buf e b)"
  unfolding release_failure_def Let_def by (intro within) simp_all

lemma release_success_within [within]: "R E a b \<Longrightarrow> R E a (snd (release_success E v r ac rt b))"
  unfolding release_success_def Let_def by (auto intro!: within split: option.split)

lemma start_release_within [within]: "R E a b \<Longrightarrow> R E a (start_release E ac b)"
  unfolding start_release_def by (intro within) simp_all

lemma record_run_within [within]: "R E a (fst s) \<Longrightarrow> R E a (record_run E ac t s)"
  unfolding record_run_def Let_def by (intro within) simp_all

lemma conclude_within [within]:
  "R E a b \<Longrightarrow> R E a (snd (conclude_release E v ok fl ac rem rt run obs b))"
  using release_success_within [of E a b v ok ac rt]
  by (cases "release_success E v ok ac rt b")
    (auto simp: conclude_release_def Let_def intro!: within split: sum.split res.split)

lemma Install_within: "R E req (snd (Install_Reconcile E req))"
  by (auto simp: Install_Reconcile_def Let_def intro!: within observed)

lemma Upgrade_within: "R E req (snd (Upgrade_Reconcile E req))"
  by (auto simp: Upgrade_Reconcile_def Let_def intro!: within observed)

lemma Test_failure_within [within]: "R E a b \<Longrightarrow> R E a (snd (Test_failure E e b))"
  unfolding Test_failure_def Let_def by (auto intro!: within split: option.split)

lemma Test_success_within [within]: "R E a b \<Longrightarrow> R E a (snd (Test_success E b))"
  unfolding Test_success_def Let_def by (auto intro!: within split: option.split)

lemma conclude_test_within [within]: "R E a b \<Longrightarrow> R E a (snd (conclude_test E err b))"
proof (cases err)
  case None
  assume "R E a b"
  with None show ?thesis by (simp add: conclude_test_def within)
next
  case (Some e)
  assume "R E a b"
  then have "R E a (snd (Test_failure E e b))" by (rule Test_failure_within)
  with Some show ?thesis
    by (cases "Test_failure E e b") (auto simp: conclude_test_def intro!: within split: res.split)
qed

lemma Test_within: "R E req (snd (Test_Reconcile E req))"
  by    (auto simp: Test_Reconcile_def Let_def intro!: within observed split: option.split)

lemma Unlock_within: "R E req (snd (Unlock_Reconcile E req))"
proof -
  have obs: "R E req s'" if "Observer_Update [object_observer (observeUnlock (eDigest E))] u k r w (req, []) = (e, w', s', o')"
    for u k r w e w' s' o'
    using that refl [of E req]
    by (auto simp: Observer_Update_def notify_def object_observer_def on_object_def [symmetric]
        intro!: within split: prod.splits option.splits Releaser.splits)
  show ?thesis
    unfolding Unlock_Reconcile_def Unlock_failure_def Unlock_success_def Let_def
    by (auto intro!: within dest: obs split: res.split option.split prod.split)
qed

lemma conclude_rollback_within [within]: "R E a b \<Longrightarrow> R E a (snd (conclude_rollback E p c run b))"
  unfolding conclude_rollback_def RollbackRemediation_failure_def RollbackRemediation_success_def Let_def
  by (auto intro!: within split: option.split)

lemma RollbackRemediation_within: "R E req (snd (RollbackRemediation_Reconcile E req))"
  by    (auto simp: RollbackRemediation_Reconcile_def Let_def intro!: within observed split: option.split)

lemma conclude_uninstall_remediation_within [within]:
  "R E a b \<Longrightarrow> R E a (snd (conclude_uninstall_remediation E c run b))"
  unfolding conclude_uninstall_remediation_def UninstallRemediation_failure_def UninstallRemediation_success_def Let_def
  by (auto intro!: within split: option.split sum.split)

lemma UninstallRemediation_within: "R E req (snd (UninstallRemediation_Reconcile E req))"
  by    (auto simp: UninstallRemediation_Reconcile_def Let_def intro!: within observed split: option.split)

lemma conclude_uninstall_within [within]: "R E a b \<Longrightarrow> R E a (snd (conclude_uninstall E c run b))"
  unfolding conclude_uninstall_def Uninstall_failure_def Uninstall_success_def Let_def
  by (auto intro!: within split: option.split sum.split)

lemma Uninstall_within: "R E req (snd (Uninstall_Reconcile E req))"
  by    (auto simp: Uninstall_Reconcile_def Let_def intro!: within observed split: option.split)

lemma drift_report_within [within]: "R E a b \<Longrightarrow> R E a (snd (drift_report E cs err b))"
  unfolding drift_report_def Let_def by (auto intro!: within split: option.split)

lemma CorrectClusterDrift_within: "R E req (snd (CorrectClusterDrift_Reconcile E diff owner req))"
  by (auto simp: CorrectClusterDrift_Reconcile_def Let_def intro!: within split: prod.split)

end

subsection \<open>What stays as it is\<close>

definition keeps :: "'w Request \<Rightarrow> 'w Request \<Rightarrow> bool" where
  "keeps a b \<longleftrightarrow> (\<exists>st. Object b = (Object a)\<lparr>HR_Status := st\<rparr>) \<and> Chart b = Chart a \<and> Values b = Values a \<and>
     (\<exists>es. Events b = Events a @ es)"

lemma keepsD:
  assumes "keeps a b"
  shows "HR_Spec (Object b) = HR_Spec (Object a)" "HR_Name (Object b) = HR_Name (Object a)"
    "HR_Namespace (Object b) = HR_Namespace (Object a)" "HR_Generation (Object b) = HR_Generation (Object a)"
    "HR_DeletionTimestamp (Object b) = HR_DeletionTimestamp (Object a)"
    "HR_Annotations (Object b) = HR_Annotations (Object a)" "HR_Finalizers (Object b) = HR_Finalizers (Object a)"
    "Chart b = Chart a" "Values b = Values a"
  using assms by (auto simp: keeps_def)

lemma status_self: "\<exists>st. obj = obj\<lparr>HR_Status := st\<rparr>" for obj :: HelmRelease
  by (rule exI [of _ "HR_Status obj"]) simp

lemma keeps_refl [simp, intro]: "keeps a a"
  by (simp add: keeps_def status_self)

lemma keeps_trans: "keeps a b \<Longrightarrow> keeps b c \<Longrightarrow> keeps a c"
  unfolding keeps_def by fastforce

lemma keeps_conditions: "keeps a (on_conditions f a)"
  unfolding keeps_def on_conditions_def on_status_def on_object_def with_status_def by auto

interpretation keep: status_relation "\<lambda>E. keeps"
proof unfold_locales
  fix b :: "'w Request" and f
  assume "status_change (Object b) (f (Object b))"
  then show "keeps b (on_object f b)" unfolding keeps_def status_change_def by auto
qed (auto simp: cond_op_defs keeps_conditions intro: keeps_trans, auto simp: keeps_def status_self)

definition has_condition :: "string \<Rightarrow> 'w Request \<Rightarrow> bool" where
  "has_condition t req \<longleftrightarrow> t \<in> Cond_Type ` set (Conditions (Object req))"

lemma has_condition_cGet: "conditions_ok C \<Longrightarrow> has_condition t req \<longleftrightarrow> cGet C (Conditions (Object req)) t \<noteq> None"
  by (auto simp: has_condition_def conditions_okD(4) find_None_iff)

text \<open>No word on progress: reconciling stays as it is, and stalled is not introduced.\<close>

definition quiet :: "'w env \<Rightarrow> 'w Request \<Rightarrow> 'w Request \<Rightarrow> bool" where
  "quiet E a b \<longleftrightarrow> (conditions_ok (eCond E) \<longrightarrow>
     (has_condition ReconcilingCondition b \<longleftrightarrow> has_condition ReconcilingCondition a) \<and>
     (has_condition StalledCondition b \<longrightarrow> has_condition StalledCondition a))"

lemma has_condition_ops:
  assumes "conditions_ok (eCond E)"
  shows "u \<noteq> t \<Longrightarrow> has_condition u (Mark E t st r m b) \<longleftrightarrow> has_condition u b"
    and "u \<noteq> Cond_Type c \<Longrightarrow> has_condition u (SetCondition E c b) \<longleftrightarrow> has_condition u b"
    and "has_condition u (DeleteCondition E t b) \<longleftrightarrow> u \<noteq> t \<and> has_condition u b"
  using assms
  by (simp_all add: has_condition_cGet [OF assms] cond_op_defs cGet_Mark_other conditions_okD(2) cGet_Delete)

interpretation quiet: status_relation quiet
proof unfold_locales
  fix E :: "'w env" and b :: "'w Request" and cs
  assume "mset cs = mset (Conditions (Object b))"
  then have "set cs = set (Conditions (Object b))" by (rule mset_eq_setD)
  then show "quiet E b (on_conditions (\<lambda>_. cs) b)" by (simp add: quiet_def has_condition_def)
qed (auto simp: quiet_def has_condition_ops progress_types_def,
     auto simp: has_condition_def status_change_def)

subsection \<open>The contract\<close>

locale action_reconciler =
  fixes reconcile :: "'w env \<Rightarrow> 'w Request \<Rightarrow> unit res \<times> 'w Request"
  assumes keeps_request: "keeps req (snd (reconcile E req))"
    and quiet_request: "quiet E req (snd (reconcile E req))"
begin

lemma spec_kept: "HR_Spec (Object (snd (reconcile E req))) = HR_Spec (Object req)"
  by (rule keepsD [OF keeps_request])

lemma events_grow: "\<exists>es. Events (snd (reconcile E req)) = Events req @ es"
  using keeps_request unfolding keeps_def by blast

lemma never_stalls:
  "conditions_ok (eCond E) \<Longrightarrow> has_condition StalledCondition (snd (reconcile E req)) \<Longrightarrow>
     has_condition StalledCondition req"
  using quiet_request unfolding quiet_def by blast

end

interpretation install_reconciler: action_reconciler Install_Reconcile
  by unfold_locales (rule keep.Install_within quiet.Install_within)+

interpretation upgrade_reconciler: action_reconciler Upgrade_Reconcile
  by unfold_locales (rule keep.Upgrade_within quiet.Upgrade_within)+

interpretation test_reconciler: action_reconciler Test_Reconcile
  by unfold_locales (rule keep.Test_within quiet.Test_within)+

interpretation unlock_reconciler: action_reconciler Unlock_Reconcile
  by unfold_locales (rule keep.Unlock_within quiet.Unlock_within)+

interpretation rollback_reconciler: action_reconciler RollbackRemediation_Reconcile
  by unfold_locales (rule keep.RollbackRemediation_within quiet.RollbackRemediation_within)+

interpretation uninstall_remediation_reconciler: action_reconciler UninstallRemediation_Reconcile
  by unfold_locales (rule keep.UninstallRemediation_within quiet.UninstallRemediation_within)+

interpretation uninstall_reconciler: action_reconciler Uninstall_Reconcile
  by unfold_locales (rule keep.Uninstall_within quiet.Uninstall_within)+

interpretation drift_reconciler: action_reconciler "\<lambda>E. CorrectClusterDrift_Reconcile E diff owner"
  by unfold_locales (rule keep.CorrectClusterDrift_within quiet.CorrectClusterDrift_within)+

end
