(* ===== verification/AtomicRelease.thy ===== *)
theory AtomicRelease
  imports Contracts
begin

section \<open>The release loop: internal/reconcile/atomic\_release.go\<close>

text \<open>
  \<^verbatim>\<open>AtomicRelease\<close> determines the state of the release, decides on the next action, runs it, and
  goes on until nothing is left to do, an action would run a second time, or a remediation was
  run. One pass through the loop is \<open>iteration\<close>; the loop \<open>AtomicRelease_Reconcile\<close> is a total
  function, because every pass that goes on has run an action of a new type. The relation
  \<open>atomic_run\<close> describes the same executions together with the actions they ran. Patching the
  object persists it and is an effect on the world.
\<close>

subsection \<open>The actions\<close>

datatype ActionReconciler =
    AInstall
  | AUpgrade
  | ATest
  | AUnlock
  | ARollbackRemediation
  | AUninstallRemediation
  | AUninstall
  | ACorrectClusterDrift DiffSet string

fun Action_Name :: "ActionReconciler \<Rightarrow> string" where
  "Action_Name AInstall = ''install''"
| "Action_Name AUpgrade = ''upgrade''"
| "Action_Name ATest = ''test''"
| "Action_Name AUnlock = ''unlock''"
| "Action_Name ARollbackRemediation = ''rollback''"
| "Action_Name AUninstallRemediation = ''uninstall''"
| "Action_Name AUninstall = ''uninstall''"
| "Action_Name (ACorrectClusterDrift d m) = ''correct cluster drift''"

fun Action_Type :: "ActionReconciler \<Rightarrow> ReconcilerType" where
  "Action_Type AInstall = ReconcilerTypeRelease"
| "Action_Type AUpgrade = ReconcilerTypeRelease"
| "Action_Type ATest = ReconcilerTypeTest"
| "Action_Type AUnlock = ReconcilerTypeUnlock"
| "Action_Type ARollbackRemediation = ReconcilerTypeRemediate"
| "Action_Type AUninstallRemediation = ReconcilerTypeRemediate"
| "Action_Type AUninstall = ReconcilerTypeRelease"
| "Action_Type (ACorrectClusterDrift d m) = ReconcilerTypeDriftCorrection"

fun Action_Reconcile :: "ActionReconciler \<Rightarrow> 'w env \<Rightarrow> 'w Request \<Rightarrow> unit res \<times> 'w Request" where
  "Action_Reconcile AInstall = Install_Reconcile"
| "Action_Reconcile AUpgrade = Upgrade_Reconcile"
| "Action_Reconcile ATest = Test_Reconcile"
| "Action_Reconcile AUnlock = Unlock_Reconcile"
| "Action_Reconcile ARollbackRemediation = RollbackRemediation_Reconcile"
| "Action_Reconcile AUninstallRemediation = UninstallRemediation_Reconcile"
| "Action_Reconcile AUninstall = Uninstall_Reconcile"
| "Action_Reconcile (ACorrectClusterDrift d m) = (\<lambda>E. CorrectClusterDrift_Reconcile E d m)"

fun timeoutForAction :: "ActionReconciler \<Rightarrow> HelmRelease \<Rightarrow> duration" where
  "timeoutForAction AInstall obj = Install_GetTimeout (GetInstall obj) (GetTimeout obj)"
| "timeoutForAction AUpgrade obj = Upgrade_GetTimeout (GetUpgrade obj) (GetTimeout obj)"
| "timeoutForAction ATest obj = Test_GetTimeout (GetTest obj) (GetTimeout obj)"
| "timeoutForAction ARollbackRemediation obj = Rollback_GetTimeout (GetRollback obj) (GetTimeout obj)"
| "timeoutForAction AUninstallRemediation obj = Uninstall_GetTimeout (GetUninstall obj) (GetTimeout obj)"
| "timeoutForAction other obj = GetTimeout obj"

subsection \<open>The strategy\<close>

definition MustContinue :: "ReconcilerType \<Rightarrow> ReconcilerTypeSet \<Rightarrow> bool" where
  "MustContinue current previous \<longleftrightarrow> \<not> ReconcilerTypeSet_Contains previous current"

definition MustStop :: "ReconcilerType \<Rightarrow> ReconcilerTypeSet \<Rightarrow> bool" where
  "MustStop current previous = (case current of ReconcilerTypeRemediate \<Rightarrow> True | _ \<Rightarrow> False)"

subsection \<open>The next action\<close>

definition replaceCondition ::
  "'w env \<Rightarrow> string \<Rightarrow> string \<Rightarrow> string \<Rightarrow> string \<Rightarrow> ConditionStatus \<Rightarrow> 'w Request \<Rightarrow> 'w Request" where
  "replaceCondition E target replacement reason msg status req =
     (case cGet (eCond E) (Conditions (Object req)) target of
        None \<Rightarrow> req
      | Some c \<Rightarrow> DeleteCondition E target
          (SetCondition E (c\<lparr>Cond_Status := status, Cond_Type := replacement, Cond_Reason := reason, Cond_Message := msg\<rparr>)
            (DeleteCondition E replacement req)))"

definition action_success_message :: "string \<Rightarrow> 'w Request \<Rightarrow> string" where
  "action_success_message verb req = ''Helm '' @ verb @ '' succeeded for '' @ release_with_chart (latest req)"

text \<open>A rollback that turns out to match the desired configuration counts as an upgrade.\<close>

definition replace_remediated :: "'w env \<Rightarrow> 'w Request \<Rightarrow> 'w Request" where
  "replace_remediated E req =
     (if cIsTrue (eCond E) (Conditions (Object req)) RemediatedCondition
      then replaceCondition E RemediatedCondition ReleasedCondition UpgradeSucceededReason
             (action_success_message ''upgrade'' req) ConditionTrue (sort_history req)
      else req)"

definition retry_flag :: "'w env \<Rightarrow> bool" where
  "retry_flag E = defaultToRetryOnFailure (eFlags E)"

text \<open>The reason and the verb with which Released is restored for a release in sync.\<close>

definition restore_reason :: "'w env \<Rightarrow> 'w Request \<Rightarrow> (string \<times> string) option" where
  "restore_reason E req =
     (let r = cGetReason (eCond E) (Conditions (Object req)) ReleasedCondition;
          byAction = (\<lambda>a. case a of
              ReleaseActionInstall \<Rightarrow> Some (InstallSucceededReason, ''install'')
            | ReleaseActionUpgrade \<Rightarrow> Some (UpgradeSucceededReason, ''upgrade'')
            | _ \<Rightarrow> None)
      in if r = InstallFailedReason then Some (InstallSucceededReason, ''install'')
         else if r = UpgradeFailedReason then Some (UpgradeSucceededReason, ''upgrade'')
         else (let a = St_LastAttemptedReleaseAction (HR_Status (Object req))
               in if a = ReleaseActionNone
                  then (case latest req of None \<Rightarrow> None | Some cur \<Rightarrow> byAction (Snap_Action cur))
                  else byAction a))"

definition restore_released :: "'w env \<Rightarrow> 'w Request \<Rightarrow> 'w Request" where
  "restore_released E req =
     (if \<not> cIsReady (eCond E) (Conditions (Object req)) \<or> \<not> cIsTrue (eCond E) (Conditions (Object req)) ReleasedCondition
      then (case restore_reason E req of
              None \<Rightarrow> req
            | Some (reason, verb) \<Rightarrow> summarize E
                (Mark E ReleasedCondition ConditionTrue reason (action_success_message verb req) (sort_history req)))
      else req)"

definition truncate_history :: "(Snapshots \<Rightarrow> Snapshots) \<Rightarrow> 'w Request \<Rightarrow> 'w Request" where
  "truncate_history f = on_status (\<lambda>st. st\<lparr>St_History := f (St_History st)\<rparr>)"

definition ignore_test_failures :: "HelmRelease \<Rightarrow> bool" where
  "ignore_test_failures obj = (case GetActiveRemediation obj of
       None \<Rightarrow> Test_IgnoreFailures (GetTest obj)
     | Some rem \<Rightarrow> MustIgnoreTestFailures rem (Test_IgnoreFailures (GetTest obj)))"

definition action_in_sync :: "'w env \<Rightarrow> bool \<Rightarrow> 'w Request \<Rightarrow> ActionReconciler option res \<times> 'w Request" where
  "action_in_sync E forceRequested req =
     (let req1 = (if GetActiveRetry (Object req) (retry_flag E) \<noteq> None
                  then truncate_history TruncateIgnoringPreviousSnapshots req
                  else truncate_history (\<lambda>h. Truncate h (ignore_test_failures (Object req))) req)
      in if forceRequested then (Ok (Some AUpgrade), req1)
         else (let req2 = restore_released E (replace_remediated E req1)
               in (Ok None, if MustDetectChanges (GetDriftDetection (Object req2))
                     then Mark E DriftedCondition ConditionFalse NoDriftDetectedReason
                            ''No drift detected against the cluster state'' req2
                     else req2)))"

definition action_drifted :: "'w env \<Rightarrow> DiffSet \<Rightarrow> 'w Request \<Rightarrow> ActionReconciler option res \<times> 'w Request" where
  "action_drifted E diff req =
     (let msg = ''Cluster state of release '' @ FullReleaseName (latest req) @ '' has drifted from the desired state:'' @
                [CHR 0x0A] @ SummarizeDiffSet diff;
          req1 = Mark E DriftedCondition ConditionTrue DriftDetectedReason msg
                   (emit None EventTypeWarning DriftDetectedReason ActionDriftDetection msg (sort_history req))
      in (Ok (if GetMode (GetDriftDetection (Object req)) = DriftDetectionEnabled
              then Some (ACorrectClusterDrift diff (ManagedFieldsManager (eFlags E))) else None), req1))"

text \<open>The remediation of a failed release, once it is known to be due.\<close>

definition remediate_action :: "'w env \<Rightarrow> Remediation \<Rightarrow> 'w Request \<Rightarrow> ActionReconciler option res \<times> 'w Request" where
  "remediate_action E rem req =
     (let ig = MustIgnoreTestFailures rem (Test_IgnoreFailures (GetTest (Object req)));
          req1 = truncate_history (\<lambda>h. Truncate h ig) req
      in case GetStrategy rem of
           RollbackRemediationStrategy \<Rightarrow>
             (let req2 = sort_history req1
              in case VerifySnapshot E (Previous (History (Object req1)) ig) (World req1) of
                   Ok _ \<Rightarrow> (Ok (Some ARollbackRemediation), req2)
                 | Panic \<Rightarrow> (Panic, req2)
                 | Err e \<Rightarrow>
                     if errors_Is e ErrReleaseNotFound
                     then (Err (Errorf_w [] (sentinel_err ErrMissingRollbackTarget) '': cannot remediate failed release''), req2)
                     else if IsOneOf (Some e) [ErrReleaseDisappeared, ErrReleaseNotObserved, ErrReleaseDigest]
                     then (Ok (Some AUpgrade), req2)
                     else (Err (Errorf_w ''cannot verify previous release to roll back to: '' e []), req2))
         | UninstallRemediationStrategy \<Rightarrow> (Ok (Some AUninstallRemediation), req1)
         | OtherRemediationStrategy s \<Rightarrow>
             (Err (Errorf_w [] (sentinel_err ErrUnknownRemediationStrategy) ('': '' @ s)), req1))"

definition action_failed :: "'w env \<Rightarrow> bool \<Rightarrow> 'w Request \<Rightarrow> ActionReconciler option res \<times> 'w Request" where
  "action_failed E forceRequested req =
     (if GetActiveRetry (Object req) (retry_flag E) \<noteq> None
      then (Ok (Some AUpgrade), truncate_history TruncateIgnoringPreviousSnapshots req)
      else (case GetActiveRemediation (Object req) of
          None \<Rightarrow> (Ok (Some AUpgrade), req)
        | Some rem \<Rightarrow>
            if GetFailureCount rem (Object req) \<le> 0 then (Ok (Some AUpgrade), req)
            else if forceRequested then (Ok (Some AUpgrade), req)
            else if RetriesExhausted rem (Object req) \<and> \<not> MustRemediateLastFailure rem
            then (Err (Errorf_w [] (sentinel_err ErrExceededMaxRetries) '': cannot remediate failed release''), req)
            else remediate_action E rem req))"

definition actionForState :: "'w env \<Rightarrow> ReleaseState \<Rightarrow> 'w Request \<Rightarrow> ActionReconciler option res \<times> 'w Request" where
  "actionForState E state req0 =
     (let force = ShouldHandleForceRequest E (Object req0);
          forceRequested = fst force; req = on_object (\<lambda>_. snd force) req0
      in case RS_Status state of
           ReleaseStatusInSync \<Rightarrow> action_in_sync E forceRequested req
         | ReleaseStatusLocked \<Rightarrow> (Ok (Some AUnlock), req)
         | ReleaseStatusAbsent \<Rightarrow>
             if RetriesExhausted (Install_GetRemediation (GetInstall (Object req))) (Object req) \<and> \<not> forceRequested
             then (Err (Errorf_w [] (sentinel_err ErrExceededMaxRetries) '': cannot install release''), req)
             else (Ok (Some AInstall), req)
         | ReleaseStatusUnmanaged \<Rightarrow> (Ok (Some AUpgrade), on_status ClearHistory req)
         | ReleaseStatusOutOfSync \<Rightarrow>
             if RetriesExhausted (Upgrade_GetRemediation (GetUpgrade (Object req))) (Object req) \<and> \<not> forceRequested
             then (Err (Errorf_w [] (sentinel_err ErrExceededMaxRetries) '': cannot upgrade release''), req)
             else (Ok (Some AUpgrade), req)
         | ReleaseStatusDrifted \<Rightarrow> action_drifted E (RS_Diff state) req
         | ReleaseStatusUntested \<Rightarrow> (Ok (Some ATest), replace_remediated E req)
         | ReleaseStatusFailed \<Rightarrow> action_failed E forceRequested req
         | ReleaseStatusUnknown \<Rightarrow> (Err (Errorf_w [] (sentinel_err ErrUnknownReleaseStatus) '': Unknown''), req))"

subsection \<open>One pass through the loop\<close>

text \<open>A pass ends the loop, with the action it ran if any, or goes on after running an action.\<close>

datatype 'w iter =
    Finish "ActionReconciler list" "unit res" "'w Request"
  | Proceed ActionReconciler ReconcilerTypeSet "'w Request"

definition patch :: "'w env \<Rightarrow> 'w Request \<Rightarrow> gerror option \<times> 'w Request" where
  "patch E req = (case ePatch E (Object req) (World req) of (err, w') \<Rightarrow> (err, set_world w' req))"

definition canceled :: "'w env \<Rightarrow> gerror \<Rightarrow> 'w Request \<Rightarrow> unit res \<times> 'w Request" where
  "canceled E e req =
     (Err (Errorf_w ''atomic release canceled: '' e []),
      if errors_Is e ContextCanceled \<or> errors_Is e DeadlineExceeded then snd (patch E req) else req)"

definition retry_later :: "'w env \<Rightarrow> ActionStrategy \<Rightarrow> 'w Request \<Rightarrow> unit res \<times> 'w Request" where
  "retry_later E retry req =
     (Err (sentinel_err ErrRetryAfterInterval),
      MarkReconciling E ProgressingWithRetryReason (''retrying after '' @ Duration_String (GetRetryInterval retry)) req)"

definition requeue :: "'w env \<Rightarrow> 'w Request \<Rightarrow> unit res \<times> 'w Request" where
  "requeue E req =
     (Err (sentinel_err ErrMustRequeue),
      MarkReconciling E ProgressingWithRetryReason (cGetMessage (eCond E) (Conditions (Object req)) ReadyCondition) req)"

text \<open>Marking the object as stalled reads the failure count of the active remediation, which must not
  be nil.\<close>

definition stall_retries :: "'w env \<Rightarrow> gerror \<Rightarrow> 'w Request \<Rightarrow> unit res \<times> 'w Request" where
  "stall_retries E e req = (case GetActiveRemediation (Object req) of
       None \<Rightarrow> (Panic, req)
     | Some rem \<Rightarrow> (Err e, MarkStalled E ''RetriesExceeded''
         (''Failed to '' @ ReleaseAction_String (St_LastAttemptedReleaseAction (HR_Status (Object req))) @ '' after '' @
          itoa (GetFailureCount rem (Object req)) @ '' attempt(s)'') req))"

definition no_action_possible :: "'w env \<Rightarrow> gerror \<Rightarrow> 'w Request \<Rightarrow> unit res \<times> 'w Request" where
  "no_action_possible E e req =
     (if errors_Is e ErrExceededMaxRetries then stall_retries E e req
      else if errors_Is e ErrMissingRollbackTarget
      then (Err e, MarkStalled E ''MissingRollbackTarget'' (''Failed to perform remediation: '' @ Err_Msg e) req)
      else (Err e, req))"

definition completed :: "'w env \<Rightarrow> 'w Request \<Rightarrow> unit res \<times> 'w Request" where
  "completed E req = (Ok (), observePostRenderers E (summarize E (DeleteCondition E ReconcilingCondition req)))"

definition stopped_before :: "'w env \<Rightarrow> 'w Request \<Rightarrow> unit res \<times> 'w Request" where
  "stopped_before E req = (case GetActiveRetry (Object req) (retry_flag E) of
       Some retry \<Rightarrow> retry_later E retry req
     | None \<Rightarrow> (case GetActiveRemediation (Object req) of
         None \<Rightarrow> requeue E req
       | Some rem \<Rightarrow> if \<not> RetriesExhausted rem (Object req) then requeue E req
                    else (Ok (), DeleteCondition E ReconcilingCondition req)))"

definition action_error :: "'w env \<Rightarrow> gerror \<Rightarrow> 'w Request \<Rightarrow> unit res \<times> 'w Request" where
  "action_error E e req = (case GetActiveRetry (Object req) (retry_flag E) of
       Some retry \<Rightarrow> retry_later E retry req
     | None \<Rightarrow> (Err e, if cIsReady (eCond E) (Conditions (Object req))
                      then Mark E ReadyCondition ConditionFalse ''ReconcileError'' (Err_Msg e) req else req))"

definition stopped_after :: "'w env \<Rightarrow> 'w Request \<Rightarrow> unit res \<times> 'w Request" where
  "stopped_after E req = (case GetActiveRetry (Object req) (retry_flag E) of
       Some retry \<Rightarrow> retry_later E retry req
     | None \<Rightarrow> (case GetActiveRemediation (Object req) of
         None \<Rightarrow> requeue E req
       | Some rem \<Rightarrow> if \<not> RetriesExhausted rem (Object req) \<or> IsUninstallAfterUpgrade rem then requeue E req
                    else stall_retries E (sentinel_err ErrExceededMaxRetries) req))"

text \<open>Whether a rollback is not started because the object was enqueued again; \<open>None\<close> is the panic of
  a nil remediation.\<close>

definition rollback_deferred :: "'w env \<Rightarrow> ActionReconciler \<Rightarrow> 'w Request \<Rightarrow> bool option" where
  "rollback_deferred E next req =
     (if Action_Type next \<noteq> ReconcilerTypeRemediate then Some False
      else (case GetActiveRemediation (Object req) of
          None \<Rightarrow> None
        | Some rem \<Rightarrow> Some (GetStrategy rem = RollbackRemediationStrategy \<and> eEnqueued E (World req))))"

definition announce :: "'w env \<Rightarrow> ActionReconciler \<Rightarrow> 'w Request \<Rightarrow> 'w Request" where
  "announce E next req =
     (let msg = ''Running '' @ [CHR 0x27] @ Action_Name next @ [CHR 0x27] @ '' action with timeout of '' @
                Duration_String (timeoutForAction next (Object req));
          req1 = MarkReconciling E ProgressingReason msg req
      in if Action_Type next = ReconcilerTypeRelease
         then Mark E ReadyCondition ConditionUnknown ProgressingReason msg req1 else req1)"

definition finish :: "ActionReconciler list \<Rightarrow> unit res \<times> 'w Request \<Rightarrow> 'w iter" where
  "finish acts r = Finish acts (fst r) (snd r)"

definition run_action :: "'w env \<Rightarrow> ReconcilerTypeSet \<Rightarrow> ActionReconciler \<Rightarrow> 'w Request \<Rightarrow> 'w iter" where
  "run_action E previous next req =
     (case patch E (announce E next req) of
        (Some e, req1) \<Rightarrow> Finish [] (Err e) req1
      | (None, req1) \<Rightarrow> (case Action_Reconcile next E req1 of
          (Err e, req2) \<Rightarrow> finish [next] (action_error E e req2)
        | (Panic, req2) \<Rightarrow> Finish [next] Panic req2
        | (Ok _, req2) \<Rightarrow>
            if MustStop (Action_Type next) previous then finish [next] (stopped_after E req2)
            else (case patch E req2 of
                (Some e, req3) \<Rightarrow> Finish [next] (Err e) req3
              | (None, req3) \<Rightarrow> Proceed next (previous @ [Action_Type next]) req3)))"

definition attempt :: "'w env \<Rightarrow> ReconcilerTypeSet \<Rightarrow> ActionReconciler \<Rightarrow> 'w Request \<Rightarrow> 'w iter" where
  "attempt E previous next req =
     (if \<not> MustContinue (Action_Type next) previous then finish [] (stopped_before E req)
      else (case rollback_deferred E next req of
          None \<Rightarrow> Finish [] Panic req
        | Some True \<Rightarrow> finish [] (requeue E req)
        | Some False \<Rightarrow> run_action E previous next req))"

definition iteration :: "'w env \<Rightarrow> ReconcilerTypeSet \<Rightarrow> 'w Request \<Rightarrow> 'w iter" where
  "iteration E previous req =
     (case eCtxErr E (World req) of
        Some e \<Rightarrow> finish [] (canceled E e req)
      | None \<Rightarrow> (case DetermineReleaseState E req of
          (Panic, req1) \<Rightarrow> Finish [] Panic req1
        | (Err e, req1) \<Rightarrow> Finish [] (Err (Errorf_w ''cannot determine release state: '' e []))
             (Mark E ReadyCondition ConditionFalse ''StateError'' (''Could not determine release state: '' @ Err_Msg e) req1)
        | (Ok state, req1) \<Rightarrow> (case actionForState E state req1 of
            (Panic, req2) \<Rightarrow> Finish [] Panic req2
          | (Err e, req2) \<Rightarrow> finish [] (no_action_possible E e req2)
          | (Ok None, req2) \<Rightarrow> finish [] (completed E req2)
          | (Ok (Some next), req2) \<Rightarrow> attempt E previous next req2)))"

subsection \<open>The loop terminates\<close>

lemma run_action_Proceed:
  "run_action E previous next req = Proceed a p r \<Longrightarrow> a = next \<and> p = previous @ [Action_Type next]"
  unfolding run_action_def finish_def
  by (auto split: prod.splits option.splits res.splits if_splits)

lemma attempt_Proceed:
  assumes "attempt E previous next req = Proceed a p r"
  shows "a = next \<and> p = previous @ [Action_Type next] \<and> Action_Type next \<notin> set previous"
proof -
  from assms have c: "MustContinue (Action_Type next) previous"
    by (auto simp: attempt_def finish_def split: if_splits)
  with assms have "run_action E previous next req = Proceed a p r"
    by (auto simp: attempt_def finish_def split: option.splits bool.splits)
  from run_action_Proceed [OF this] c show ?thesis by (simp add: MustContinue_def)
qed

lemma iteration_attempt:
  assumes "iteration E previous req = Proceed a p r"
  obtains nxt req' where "attempt E previous nxt req' = Proceed a p r"
  using assms unfolding iteration_def finish_def
  by (auto split: option.splits prod.splits res.splits)

lemma iteration_Proceed:
  assumes "iteration E previous req = Proceed a p r"
  shows "p = previous @ [Action_Type a] \<and> Action_Type a \<notin> set previous"
  using assms by (auto elim!: iteration_attempt dest: attempt_Proceed)

lemma finite_ReconcilerType [simp]: "finite (A :: ReconcilerType set)"
proof (rule finite_subset)
  show "A \<subseteq> {ReconcilerTypeRelease, ReconcilerTypeRemediate, ReconcilerTypeTest,
      ReconcilerTypeUnlock, ReconcilerTypeDriftCorrection}"
    using ReconcilerType.exhaust by blast
qed simp

function AtomicRelease_loop :: "'w env \<Rightarrow> ReconcilerTypeSet \<Rightarrow> 'w Request \<Rightarrow> unit res \<times> 'w Request" where
  "AtomicRelease_loop E previous req = (case iteration E previous req of
       Finish acts result req' \<Rightarrow> (result, req')
     | Proceed act previous' req' \<Rightarrow> AtomicRelease_loop E previous' req')"
  by pat_completeness auto

termination
proof (relation "measure (\<lambda>(E, previous, req). card (- set previous))", goal_cases)
  case 1
  show ?case by simp
next
  case (2 E previous req act previous' req')
  from iteration_Proceed [OF 2] have "- set previous' \<subset> - set previous" by auto
  then show ?case by (simp add: psubset_card_mono)
qed

declare AtomicRelease_loop.simps [simp del]

definition AtomicRelease_Reconcile :: "'w env \<Rightarrow> 'w Request \<Rightarrow> unit res \<times> 'w Request" where
  "AtomicRelease_Reconcile E req = AtomicRelease_loop E [] req"

subsection \<open>Executions with the actions they ran\<close>

inductive atomic_run ::
  "'w env \<Rightarrow> ReconcilerTypeSet \<Rightarrow> 'w Request \<Rightarrow> ActionReconciler list \<Rightarrow> unit res \<Rightarrow> 'w Request \<Rightarrow> bool"
  for E :: "'w env" where
  run_finish: "iteration E previous req = Finish acts result req' \<Longrightarrow> atomic_run E previous req acts result req'"
| run_proceed: "iteration E previous req = Proceed act previous' req' \<Longrightarrow>
    atomic_run E previous' req' acts result req'' \<Longrightarrow> atomic_run E previous req (act # acts) result req''"

inductive_cases atomic_runE: "atomic_run E previous req acts result req'"

lemma atomic_run_loop: "atomic_run E previous req acts result req' \<Longrightarrow> AtomicRelease_loop E previous req = (result, req')"
  by (induction rule: atomic_run.induct) (subst AtomicRelease_loop.simps, simp)+

lemma loop_atomic_run:
  "\<exists>acts. atomic_run E previous req acts (fst (AtomicRelease_loop E previous req)) (snd (AtomicRelease_loop E previous req))"
proof (induction E previous req rule: AtomicRelease_loop.induct)
  case (1 E previous req)
  show ?case
  proof (cases "iteration E previous req")
    case (Finish acts result req')
    then show ?thesis by (subst (1 2) AtomicRelease_loop.simps) (auto intro: run_finish)
  next
    case (Proceed act previous' req')
    with 1 obtain acts where "atomic_run E previous' req' acts (fst (AtomicRelease_loop E previous' req'))
        (snd (AtomicRelease_loop E previous' req'))" by blast
    from run_proceed [OF Proceed this] show ?thesis
      by (subst (1 2) AtomicRelease_loop.simps) (auto simp: Proceed)
  qed
qed

end
