(* ===== verification/ReleaseLoop.thy ===== *)
theory ReleaseLoop
  imports AtomicRelease
begin

section \<open>Properties of the release loop\<close>

text \<open>
  What an execution of \<^verbatim>\<open>AtomicRelease.Reconcile\<close> does as a whole: which actions it may run and in
  which combination, what it leaves of the object, and which conditions it reports. The proofs
  are rule inductions over \<open>atomic_run\<close>; what one action may do comes from the interpretations
  of \<open>action_reconciler\<close>.
\<close>

subsection \<open>One pass\<close>

context status_relation
begin

lemma Action_within: "R E req (snd (Action_Reconcile n E req))"
  by (cases n) (simp_all add: Install_within Upgrade_within Test_within Unlock_within RollbackRemediation_within
      UninstallRemediation_within Uninstall_within CorrectClusterDrift_within)

lemma drift_within: "R E a b \<Longrightarrow> R E a (snd (drift_state E rls b))"
  unfolding drift_state_def Let_def by (auto intro!: within split: option.split prod.split)

lemma deployed_within: "R E a b \<Longrightarrow> R E a (snd (deployed_state E rls cur b))"
  unfolding deployed_state_def Let_def by (simp add: drift_within split: res.split)

lemma recorded_within: "R E a b \<Longrightarrow> R E a (snd (recorded_state E rls info cur b))"
  unfolding recorded_state_def by (simp add: deployed_within split: option.split)

lemma state_within [within]: "R E a b \<Longrightarrow> R E a (snd (DetermineReleaseState E b))"
  unfolding DetermineReleaseState_def found_state_def
  by (simp add: recorded_within sort split: res.split option.split)

lemma replace_within [within]: "R E a b \<Longrightarrow> R E a (replace_remediated E b)"
  unfolding replace_remediated_def replaceCondition_def
  by (auto intro!: within simp: condition_defs progress_types_def split: option.split)

lemma restore_within [within]: "R E a b \<Longrightarrow> R E a (restore_released E b)"
  unfolding restore_released_def by (auto intro!: within split: option.split)

lemma truncate_within [within]: "R E a b \<Longrightarrow> R E a (truncate_history f b)"
  unfolding truncate_history_def by (rule status) simp_all

lemma force_within [within]: "R E a b \<Longrightarrow> R E a (on_object (\<lambda>_. snd (ShouldHandleForceRequest E (Object b))) b)"
  by (rule basic) (auto simp: ShouldHandleForceRequest_def split: prod.split)

lemma failed_within [within]: "R E a b \<Longrightarrow> R E a (snd (action_failed E f b))"
  unfolding action_failed_def remediate_action_def Let_def
  by (auto intro!: within split: option.split RemediationStrategy.split res.split)

lemma action_within [within]: "R E a b \<Longrightarrow> R E a (snd (actionForState E s b))"
  unfolding actionForState_def action_in_sync_def action_drifted_def Let_def
  by (auto intro!: within split: ReleaseStatus.split)

lemma decided:
  assumes "DetermineReleaseState E req = (r, req1)" "actionForState E state req1 = (d, req2)"
  shows "R E req req2"
  using action_within [OF state_within [OF refl [of E req]], of state] assms by simp

end

lemma run_action_Finish:
  assumes "run_action E previous next req = Finish acts result req'"
  shows "(acts = [] \<or> acts = [next]) \<and> (\<exists>e. result = Err e) \<or> result = Panic \<and> acts = [next]"
  using assms
  by (auto simp: run_action_def finish_def action_error_def stopped_after_def stall_retries_def retry_later_def requeue_def
      split: prod.splits option.splits res.splits if_splits)

lemma run_action_not_remediate:
  "run_action E previous next req = Proceed a p r \<Longrightarrow> Action_Type next \<noteq> ReconcilerTypeRemediate"
  unfolding run_action_def finish_def MustStop_def
  by (auto split: prod.splits option.splits res.splits if_splits)

lemma attempt_run_action:
  assumes "attempt E previous next req = it"
  obtains (run) "run_action E previous next req = it" "Action_Type next \<notin> set previous"
    | (stop) result req' where "it = Finish [] result req'"
  using assms unfolding attempt_def finish_def MustContinue_def
  by (force split: if_splits option.splits bool.splits)

lemma iteration_cases:
  assumes "iteration E previous req = it"
  obtains (attempt) nxt req1 req2 state where "DetermineReleaseState E req = (Ok state, req1)"
      "actionForState E state req1 = (Ok (Some nxt), req2)" "attempt E previous nxt req2 = it"
    | (stop) result req' where "it = Finish [] result req'"
proof (cases "\<exists>state req1 nxt req2. DetermineReleaseState E req = (Ok state, req1) \<and>
    actionForState E state req1 = (Ok (Some nxt), req2) \<and> eCtxErr E (World req) = None")
  case True
  then show ?thesis using assms that(1) unfolding iteration_def by auto
next
  case False
  then have "\<exists>result req'. it = Finish [] result req'"
    using assms unfolding iteration_def finish_def
    by (fastforce split: option.splits prod.splits res.splits)
  then show ?thesis using that(2) by blast
qed

lemma iteration_Finish_acts:
  assumes "iteration E previous req = Finish acts result req'"
  shows "acts = [] \<or> (\<exists>a. acts = [a] \<and> Action_Type a \<notin> set previous \<and> result \<noteq> Ok ())"
  using assms
proof (cases rule: iteration_cases)
  case (attempt nxt req1 req2 state)
  from attempt(3) show ?thesis
    by (cases rule: attempt_run_action) (auto dest: run_action_Finish)
qed auto

lemma iteration_Proceed_type:
  assumes "iteration E previous req = Proceed a p r"
  shows "Action_Type a \<noteq> ReconcilerTypeRemediate"
  using assms
proof (cases rule: iteration_cases)
  case (attempt nxt req1 req2 state)
  from attempt(3) show ?thesis
    by (cases rule: attempt_run_action) (auto dest: run_action_not_remediate run_action_Proceed)
qed auto

subsection \<open>Which actions run\<close>

lemma atomic_run_types:
  assumes "atomic_run E previous req acts result req'" "distinct previous"
  shows "distinct (previous @ map Action_Type acts)"
    and "ReconcilerTypeRemediate \<notin> set (map Action_Type (butlast acts))"
    and "ReconcilerTypeRemediate \<in> set (map Action_Type acts) \<Longrightarrow> result \<noteq> Ok ()"
  using assms
proof (induction rule: atomic_run.induct)
  case (run_finish previous req acts result req')
  {
    case 1
    with iteration_Finish_acts [OF run_finish] show ?case by auto
  next
    case 2
    with iteration_Finish_acts [OF run_finish] show ?case by auto
  next
    case 3
    with iteration_Finish_acts [OF run_finish] show ?case by auto
  }
next
  case (run_proceed previous req act previous' req' acts result req'')
  note step = iteration_Proceed [OF run_proceed.hyps(1)] iteration_Proceed_type [OF run_proceed.hyps(1)]
  {
    case 1
    with run_proceed.IH(1) step show ?case by simp
  next
    case 2
    with run_proceed.IH(2) step show ?case by simp
  next
    case 3
    with run_proceed.IH(3) step show ?case by simp
  }
qed

lemma ReconcilerType_card:
  assumes "distinct (ts :: ReconcilerType list)"
  shows "length ts \<le> 5"
proof -
  let ?all = "{ReconcilerTypeRelease, ReconcilerTypeRemediate, ReconcilerTypeTest,
      ReconcilerTypeUnlock, ReconcilerTypeDriftCorrection}"
  have "set ts \<subseteq> ?all" using ReconcilerType.exhaust by blast
  then have "card (set ts) \<le> card ?all" by (intro card_mono) simp_all
  with assms show ?thesis by (simp add: distinct_card)
qed

text \<open>C1. Every reconciliation terminates with a result, runs at most five actions, no two of the same
  type, and a remediation only as the last of them.\<close>

theorem AtomicRelease_actions:
  "\<exists>acts. atomic_run E [] req acts (fst (AtomicRelease_Reconcile E req)) (snd (AtomicRelease_Reconcile E req)) \<and>
     distinct (map Action_Type acts) \<and> length acts \<le> 5 \<and>
     ReconcilerTypeRemediate \<notin> set (map Action_Type (butlast acts))"
proof -
  obtain acts where run: "atomic_run E [] req acts (fst (AtomicRelease_Reconcile E req)) (snd (AtomicRelease_Reconcile E req))"
    unfolding AtomicRelease_Reconcile_def using loop_atomic_run by blast
  from atomic_run_types(1,2) [OF run] have "distinct (map Action_Type acts)"
    "ReconcilerTypeRemediate \<notin> set (map Action_Type (butlast acts))" by simp_all
  with run ReconcilerType_card [of "map Action_Type acts"] show ?thesis by auto
qed

subsection \<open>What the loop leaves alone\<close>

lemma keeps_conds [within]: "keeps a b \<Longrightarrow> keeps a (on_conditions f b)"
  using keeps_trans keeps_conditions by blast

lemma keeps_progress [within]:
  "keeps a b \<Longrightarrow> keeps a (MarkReconciling E r m b)" "keeps a b \<Longrightarrow> keeps a (MarkStalled E r m b)"
  "keeps a b \<Longrightarrow> keeps a (DeleteCondition E t b)"
  unfolding cond_op_defs by (rule keeps_conds, assumption)+

lemma keeps_announce [within]: "keeps a b \<Longrightarrow> keeps a (announce E n b)"
  unfolding announce_def Let_def by (auto intro!: within)

lemma keeps_patch [within]: "keeps a b \<Longrightarrow> keeps a (snd (patch E b))"
  unfolding patch_def by (auto intro!: within split: prod.split)

lemma keeps_exits [within]:
  "keeps a b \<Longrightarrow> keeps a (snd (canceled E e b))" "keeps a b \<Longrightarrow> keeps a (snd (no_action_possible E e b))"
  "keeps a b \<Longrightarrow> keeps a (snd (completed E b))" "keeps a b \<Longrightarrow> keeps a (snd (stopped_before E b))"
  "keeps a b \<Longrightarrow> keeps a (snd (action_error E e b))" "keeps a b \<Longrightarrow> keeps a (snd (stopped_after E b))"
  unfolding canceled_def no_action_possible_def stall_retries_def completed_def stopped_before_def
    retry_later_def requeue_def action_error_def stopped_after_def
  by (auto intro!: within split: option.split)

fun iter_request :: "'w iter \<Rightarrow> 'w Request" where
  "iter_request (Finish acts result req) = req"
| "iter_request (Proceed a p req) = req"

lemma iter_request_finish [simp]: "iter_request (finish acts r) = snd r"
  by (simp add: finish_def)

text \<open>The request a pass leaves, in terms of the request it decided on.\<close>

lemma run_action_request:
  assumes announced: "P (snd (patch E (announce E next req)))"
    and run: "\<And>b. P b \<Longrightarrow> P (snd (Action_Reconcile next E b))"
    and patched: "\<And>b. P b \<Longrightarrow> P (snd (patch E b))"
    and exits: "\<And>b e. P b \<Longrightarrow> P (snd (action_error E e b))" "\<And>b. P b \<Longrightarrow> P (snd (stopped_after E b))"
  shows "P (iter_request (run_action E previous next req))"
proof -
  obtain e1 b1 where p1: "patch E (announce E next req) = (e1, b1)" by fastforce
  obtain r2 b2 where p2: "Action_Reconcile next E b1 = (r2, b2)" by fastforce
  obtain e3 b3 where p3: "patch E b2 = (e3, b3)" by fastforce
  have "P b1" using announced p1 by simp
  with run p2 have "P b2" by (metis snd_conv)
  with patched p3 have "P b3" by (metis snd_conv)
  with \<open>P b1\<close> \<open>P b2\<close> exits show ?thesis
    by (simp add: run_action_def p1 p2 p3 split: option.split res.split)
qed

context status_relation
begin

lemma iteration_request:
  assumes start: "P req" and chosen: "\<And>b. R E req b \<Longrightarrow> P b"
    and marked: "\<And>b st r m. P b \<Longrightarrow> P (Mark E ReadyCondition st r m b)"
    and patched: "\<And>b. P b \<Longrightarrow> P (snd (patch E b))"
    and run: "\<And>b n. P b \<Longrightarrow> P (snd (Action_Reconcile n E b))"
    and announced: "\<And>b n. P b \<Longrightarrow> P (announce E n b)"
    and exits: "\<And>b e. P b \<Longrightarrow> P (snd (action_error E e b))" "\<And>b. P b \<Longrightarrow> P (snd (stopped_after E b))"
      "\<And>b. P b \<Longrightarrow> P (snd (stopped_before E b))" "\<And>b. P b \<Longrightarrow> P (snd (requeue E b))"
      "\<And>b. P b \<Longrightarrow> P (snd (completed E b))" "\<And>b e. P b \<Longrightarrow> P (snd (no_action_possible E e b))"
      "\<And>b e. P b \<Longrightarrow> P (snd (canceled E e b))"
  shows "P (iter_request (iteration E previous req))"
proof -
  obtain r1 b1 where s1: "DetermineReleaseState E req = (r1, b1)" by fastforce
  have b1: "P b1"
    using chosen state_within [OF refl, of E req] s1 by simp
  have b2: "P b2" if "actionForState E state b1 = (d, b2)" for state d b2
    using chosen [OF decided [OF s1 that]] .
  have attempt: "P (iter_request (attempt E previous n b))" if "P b" for n b
    using that run_action_request [of P E n b previous, OF _ run patched exits(1,2)] announced patched exits
    by (simp add: attempt_def split: option.split bool.split)
  show ?thesis
    using start b1 b2 attempt marked exits
    by (auto simp: iteration_def s1 split: option.split res.split prod.split)
qed

end

lemma atomic_run_invariant:
  assumes "atomic_run E previous req acts result req'"
    and "\<And>previous b. P b \<Longrightarrow> P (iter_request (iteration E previous b))" and "P req"
  shows "P req'"
  using assms
proof (induction rule: atomic_run.induct)
  case (run_finish previous req acts result req')
  from run_finish.prems(1) [OF run_finish.prems(2), of previous] run_finish.hyps show ?case by simp
next
  case (run_proceed previous req act previous' req' acts result req'')
  from run_proceed.prems(1) [OF run_proceed.prems(2), of previous] run_proceed.hyps(1) have "P req'" by simp
  with run_proceed.IH run_proceed.prems(1) show ?case by simp
qed

lemma keeps_iteration: "keeps req (iter_request (iteration E previous req))"
  by (rule keep.iteration_request [where P = "keeps req"])
    (auto intro: within keeps_trans [OF _ keep.Action_within] simp: requeue_def)

lemma atomic_run_keeps: "atomic_run E previous req acts result req' \<Longrightarrow> keeps req req'"
  by (erule atomic_run_invariant [where P = "keeps req"]) (auto intro: keeps_trans keeps_iteration)


subsection \<open>Reconciling and stalled\<close>

definition calm :: "'w Request \<Rightarrow> bool" where
  "calm req \<longleftrightarrow> \<not> (has_condition ReconcilingCondition req \<and> has_condition StalledCondition req)"

lemma calm_quiet: "conditions_ok (eCond E) \<Longrightarrow> calm a \<Longrightarrow> quiet E a b \<Longrightarrow> calm b"
  unfolding calm_def quiet_def by blast

lemma calm_progress:
  assumes "conditions_ok (eCond E)"
  shows "calm (MarkReconciling E r m b)" "calm (MarkStalled E r m b)" "calm (DeleteCondition E ReconcilingCondition b)"
  by (simp_all add: calm_def has_condition_cGet [OF assms] cond_op_defs cGet_Stalled_after_MarkReconciling [OF assms]
      cGet_Reconciling_after_MarkStalled [OF assms] cGet_Delete [OF assms])

lemma calm_ops:
  assumes "conditions_ok (eCond E)" "calm b"
  shows "calm (set_world w b)" "calm (Mark E ReadyCondition st r m b)" "calm (summarize E b)"
    "calm (observePostRenderers E b)" "calm (snd (Action_Reconcile n E b))"
  by (rule calm_quiet [OF assms], auto intro!: quiet.basic quiet.summary quiet.postrender quiet.refl quiet.Action_within)+

lemma calm_iteration:
  assumes "conditions_ok (eCond E)" "calm req"
  shows "calm (iter_request (iteration E previous req))"
  using assms(2)
  by (rule quiet.iteration_request)
    (auto simp: announce_def patch_def canceled_def no_action_possible_def stall_retries_def completed_def stopped_before_def
      retry_later_def requeue_def action_error_def stopped_after_def Let_def
      intro: calm_quiet [OF assms] calm_ops [OF assms(1)] calm_progress [OF assms(1)] split: option.split prod.split)

lemma atomic_run_calm:
  assumes "atomic_run E previous req acts result req'" "conditions_ok (eCond E)" "calm req"
  shows "calm req'"
  using assms(1) calm_iteration [OF assms(2)] assms(3) by (rule atomic_run_invariant)

lemma completed_not_reconciling:
  assumes "conditions_ok (eCond E)"
  shows "\<not> has_condition ReconcilingCondition (snd (completed E b))"
proof -
  have "quiet E (DeleteCondition E ReconcilingCondition b) (snd (completed E b))"
    unfolding completed_def by (auto intro!: quiet.postrender quiet.summary quiet.refl)
  with assms show ?thesis by (simp add: quiet_def has_condition_ops)
qed

lemma iteration_Ok:
  assumes "iteration E previous req = Finish acts (Ok u) req'"
  shows "\<exists>b. (Ok u, req') = completed E b \<or> req' = DeleteCondition E ReconcilingCondition b"
  using assms
proof (cases rule: iteration_cases)
  case (attempt nxt req1 req2 state)
  from attempt(3) have "finish [] (stopped_before E req2) = Finish acts (Ok u) req'"
    by (auto simp: attempt_def finish_def requeue_def split: if_splits option.splits bool.splits dest: run_action_Finish)
  then show ?thesis
    by (auto simp: stopped_before_def finish_def retry_later_def requeue_def split: option.splits if_splits)
next
  case (stop result' req'')
  then show ?thesis
    using assms
    by (auto simp: iteration_def finish_def attempt_def canceled_def no_action_possible_def stall_retries_def requeue_def
        completed_def stopped_before_def retry_later_def
        split: option.splits res.splits prod.splits if_splits bool.splits dest: run_action_Finish)
qed

lemma atomic_run_Ok:
  assumes "atomic_run E previous req acts result req'" "conditions_ok (eCond E)" "result = Ok ()"
  shows "\<not> has_condition ReconcilingCondition req'"
  using assms
proof (induction rule: atomic_run.induct)
  case (run_finish previous req acts result req')
  with iteration_Ok [of E previous req acts "()" req'] obtain b
    where "(Ok (), req') = completed E b \<or> req' = DeleteCondition E ReconcilingCondition b" by auto
  then show ?case
    using run_finish.prems completed_not_reconciling [of E b] by (auto simp: has_condition_ops) (metis snd_conv)
qed simp

text \<open>C4. An object is never reported as reconciling and as stalled at once: when it is not so before a
  reconciliation it is not so afterwards; and when a reconciliation ends without error, the
  object is no longer reported as reconciling.\<close>

theorem AtomicRelease_progress:
  assumes "conditions_ok (eCond E)"
    and "\<not> (has_condition ReconcilingCondition req \<and> has_condition StalledCondition req)"
  shows "\<not> (has_condition ReconcilingCondition (snd (AtomicRelease_Reconcile E req)) \<and>
            has_condition StalledCondition (snd (AtomicRelease_Reconcile E req))) \<and>
    (fst (AtomicRelease_Reconcile E req) = Ok () \<longrightarrow>
       \<not> has_condition ReconcilingCondition (snd (AtomicRelease_Reconcile E req)))"
proof -
  obtain acts where run: "atomic_run E [] req acts (fst (AtomicRelease_Reconcile E req)) (snd (AtomicRelease_Reconcile E req))"
    unfolding AtomicRelease_Reconcile_def using loop_atomic_run by blast
  from atomic_run_calm [OF run assms(1)] atomic_run_Ok [OF run assms(1)] assms(2) show ?thesis
    by (simp add: calm_def)
qed

theorem AtomicRelease_progress_witness:
  "fst (AtomicRelease_Reconcile sample_env sample_in_sync) = Ok () \<and>
   \<not> has_condition ReconcilingCondition (snd (AtomicRelease_Reconcile sample_env sample_in_sync))"
proof -
  have "fst (AtomicRelease_Reconcile sample_env sample_in_sync) = Ok ()" by code_simp
  moreover have "conditions_ok (eCond sample_env)" by (simp add: sample_env_def sample_conditions_ok)
  moreover have "\<not> has_condition StalledCondition sample_in_sync"
    by (simp add: has_condition_def sample_in_sync_def sample_object_def sample_status_def set_history_def)
  ultimately show ?thesis using AtomicRelease_progress [of sample_env sample_in_sync] by blast
qed

subsection \<open>Remediation\<close>

definition sample_failed_release :: HelmRel where
  "sample_failed_release = with_rel_status ''failed'' sample_release"

text \<open>A failed installation with one retry, for examples.\<close>

definition sample_failed :: "sample_world Request" where
  "sample_failed = sample_request\<lparr>World := [sample_failed_release],
     Object := sample_object\<lparr>
       HR_Status := sample_status\<lparr>
         St_History := [ObservedToSnapshot sample_digest (ObserveRelease sample_failed_release)],
         St_LastAttemptedReleaseAction := ReleaseActionInstall, St_InstallFailures := 1\<rparr>,
       HR_Spec := sample_spec\<lparr>Spec_Install := Some (InstallSpec_zero\<lparr>
         Inst_Remediation := Some (InstallRemediation_zero\<lparr>IRem_Retries := 1\<rparr>)\<rparr>)\<rparr>\<rparr>\<rparr>"

fun iter_acts :: "'w iter \<Rightarrow> ActionReconciler list option" where
  "iter_acts (Finish acts result req) = Some acts"
| "iter_acts (Proceed a p req) = None"

text \<open>C23. A reconciliation that remediated never ends in success: the loop returns an error that makes
  the controller come back, or says that it gave up.\<close>

theorem remediation_ends_with_error:
  assumes "atomic_run E [] req acts result req'"
    and "ReconcilerTypeRemediate \<in> set (map Action_Type acts)"
  shows "result \<noteq> Ok () \<and> AtomicRelease_Reconcile E req = (result, req')"
  using atomic_run_types(3) [OF assms(1) _ assms(2)] atomic_run_loop [OF assms(1)]
  by (simp add: AtomicRelease_Reconcile_def)

theorem remediation_ends_with_error_witness:
  "fst (AtomicRelease_Reconcile sample_env sample_failed) \<noteq> Ok ()"
proof -
  have "iter_acts (iteration sample_env [] sample_failed) = Some [AUninstallRemediation]"
    by code_simp
  then obtain result req' where "iteration sample_env [] sample_failed = Finish [AUninstallRemediation] result req'"
    by (auto elim: iter_acts.elims)
  from run_finish [OF this] have "atomic_run sample_env [] sample_failed [AUninstallRemediation] result req'" .
  from remediation_ends_with_error [OF this] show ?thesis by simp
qed

end
