(* ===== verification/ChartTemplate.thy ===== *)
theory ChartTemplate
  imports Contracts
begin

section \<open>The chart of a release: internal/reconcile/helmchart\_template.go and internal/acl\<close>

text \<open>
  The reconciler that keeps the HelmChart or OCIRepository declared by the chart template of a
  HelmRelease: it builds the object, applies it to the cluster and records the reference in the
  status, or deletes what the status refers to when the reference changed, the template is gone
  or the HelmRelease is deleted. The Kubernetes client and the server-side apply are functions of
  \<open>source_api\<close>. A nil reference is \<open>None\<close>, and dereferencing it is \<open>Panic\<close>.
\<close>

subsection \<open>Access policy: internal/acl/acl.go\<close>

definition access_denied :: "HelmChartReference \<Rightarrow> gerror" where
  "access_denied r = AccessDeniedError (''cross-namespace references are not allowed: cannot access '' @
     HelmChartReference_String (Some r))"

definition AllowsAccessTo :: "bool \<Rightarrow> HelmRelease \<Rightarrow> HelmChartReference option \<Rightarrow> unit res" where
  "AllowsAccessTo AllowCrossNamespaceRef obj ref =
     (if AllowCrossNamespaceRef then Ok ()
      else (case ref of None \<Rightarrow> Panic
         | Some r \<Rightarrow> if HR_Namespace obj \<noteq> Ref_Namespace r then Err (access_denied r) else Ok ()))"

subsection \<open>Words: internal/strings/title.go\<close>

text \<open>\<open>title\<close> is \<^verbatim>\<open>cases.Title\<close>, which does not belong to the program.\<close>

fun fields_from :: "string \<Rightarrow> string \<Rightarrow> string list" where
  "fields_from [] w = (if w = [] then [] else [rev w])"
| "fields_from (c # cs) w =
     (if is_space c then (if w = [] then fields_from cs [] else rev w # fields_from cs [])
      else fields_from cs (c # w))"

definition Fields :: "string \<Rightarrow> string list" where
  "Fields s = fields_from s []"

definition Normalize :: "(string \<Rightarrow> string) \<Rightarrow> string \<Rightarrow> string" where
  "Normalize title s = (case Fields s of [] \<Rightarrow> Join [] '' '' | w # ws \<Rightarrow> Join (title w # ws) '' '')"

subsection \<open>Sources\<close>

record Artifact =
  Art_URL :: string
  Art_Revision :: string
  Art_Digest :: string

text \<open>The objects of the source-controller, as far as the program reads them; reading the observed
  generation of an object may fail.\<close>

record SourceObject =
  So_Kind :: string
  So_Namespace :: string
  So_Name :: string
  So_Generation :: int64
  So_ObservedGeneration :: "gerror + int64"
  So_Conditions :: "Condition list"
  So_Artifact :: "Artifact option"

datatype SourceKind = KHelmChart | KOCIRepository | KExternalArtifact

record HelmChartObject =
  HCO_Name :: string
  HCO_Namespace :: string
  HCO_Labels :: "strmap option"
  HCO_Annotations :: "strmap option"
  HCO_Chart :: string
  HCO_Version :: string
  HCO_Interval :: duration
  HCO_ReconcileStrategy :: string
  HCO_ValuesFiles :: "string list"
  HCO_IgnoreMissingValuesFiles :: bool
  HCO_SourceRef_Kind :: string
  HCO_SourceRef_Name :: string
  HCO_Verify :: "(string \<times> json) option"

record OCIRepositoryObject =
  ORO_Name :: string
  ORO_Namespace :: string
  ORO_Labels :: "strmap option"
  ORO_Annotations :: "strmap option"
  ORO_Spec :: OCIRepositorySpec

datatype ChartObject = NewHelmChart HelmChartObject | NewOCIRepository OCIRepositoryObject

fun chart_namespace :: "ChartObject \<Rightarrow> string" where
  "chart_namespace (NewHelmChart hc) = HCO_Namespace hc"
| "chart_namespace (NewOCIRepository r) = ORO_Namespace r"

text \<open>\<open>sGet\<close> reads through the cache, \<open>sAPIGet\<close> from the API server; \<open>sToUnstructured\<close> and \<open>sGVK\<close> are given the object to apply, \<open>None\<close> for a nil interface;
  \<open>sApply\<close> returns the action and the subject of the change set entry.\<close>

record 'w source_api =
  sGet :: "SourceKind \<Rightarrow> string \<times> string \<Rightarrow> 'w \<Rightarrow> gerror + SourceObject"
  sAPIGet :: "SourceKind \<Rightarrow> string \<times> string \<Rightarrow> 'w \<Rightarrow> gerror + SourceObject"
  sDelete :: "SourceKind \<Rightarrow> SourceObject \<Rightarrow> 'w \<Rightarrow> gerror option \<times> 'w"
  sToUnstructured :: "ChartObject option \<Rightarrow> json res"
  sGVK :: "ChartObject option \<Rightarrow> gerror + json"
  sSetGVK :: "json \<Rightarrow> json \<Rightarrow> json"
  sSetOwnerLabels :: "string \<Rightarrow> string \<Rightarrow> json \<Rightarrow> json"
  sApply :: "json \<Rightarrow> 'w \<Rightarrow> (gerror + string \<times> string) \<times> 'w"
  sTitle :: "string \<Rightarrow> string"

subsection \<open>Objects built from the template\<close>

definition ChartLayerMediaType :: string where
  "ChartLayerMediaType = ''application/vnd.cncf.helm.chart.content.v1.tar+gzip''"

definition buildHelmChartFromTemplate :: "HelmRelease \<Rightarrow> HelmChartReference \<Rightarrow> HelmChartObject res" where
  "buildHelmChartFromTemplate obj ref = (case Spec_Chart (HR_Spec obj) of None \<Rightarrow> Panic
     | Some template \<Rightarrow> Ok
        \<lparr>HCO_Name = Ref_Name ref, HCO_Namespace = Ref_Namespace ref,
         HCO_Labels = Option.bind (Tpl_ObjectMeta template) TplMeta_Labels,
         HCO_Annotations = Option.bind (Tpl_ObjectMeta template) TplMeta_Annotations,
         HCO_Chart = TplSpec_Chart (Tpl_Spec template), HCO_Version = GetVersion (Tpl_Spec template),
         HCO_Interval = GetTemplateInterval obj,
         HCO_ReconcileStrategy = GetReconcileStrategy (Tpl_Spec template),
         HCO_ValuesFiles = TplSpec_ValuesFiles (Tpl_Spec template),
         HCO_IgnoreMissingValuesFiles = TplSpec_IgnoreMissingValuesFiles (Tpl_Spec template),
         HCO_SourceRef_Kind = (case TplSpec_SourceRef (Tpl_Spec template) of None \<Rightarrow> '''' | Some r \<Rightarrow> COR_Kind r),
         HCO_SourceRef_Name = (case TplSpec_SourceRef (Tpl_Spec template) of None \<Rightarrow> '''' | Some r \<Rightarrow> COR_Name r),
         HCO_Verify = OCI_Verify (TplSpec_OCI (Tpl_Spec template))\<rparr>)"

definition buildOCIRepositoryFromTemplate :: "HelmRelease \<Rightarrow> HelmChartReference \<Rightarrow> OCIRepositoryObject res" where
  "buildOCIRepositoryFromTemplate obj ref = (case Spec_Chart (HR_Spec obj) of None \<Rightarrow> Panic
     | Some template \<Rightarrow>
        (let spec = (TplSpec_OCI (Tpl_Spec template))\<lparr>OCI_Interval := Some (GetTemplateInterval obj)\<rparr>;
             spec' = (if OCI_LayerSelector spec = None
                      then spec\<lparr>OCI_LayerSelector := Some (ChartLayerMediaType, ''copy'')\<rparr> else spec)
         in Ok \<lparr>ORO_Name = Ref_Name ref, ORO_Namespace = Ref_Namespace ref,
                ORO_Labels = Option.bind (Tpl_ObjectMeta template) TplMeta_Labels,
                ORO_Annotations = Option.bind (Tpl_ObjectMeta template) TplMeta_Annotations,
                ORO_Spec = spec'\<rparr>))"

definition mustCleanDeployedChart :: "HelmRelease \<Rightarrow> bool" where
  "mustCleanDeployedChart obj \<longleftrightarrow> HasChartRef obj \<and> \<not> HasChartTemplate obj \<and> HasChart (HR_Status obj)"

text \<open>The object to apply for the kind of the reference, with the words that tell its source.\<close>

definition new_chart :: "HelmRelease \<Rightarrow> HelmChartReference \<Rightarrow> (ChartObject option \<times> string) res" where
  "new_chart obj ref =
     (if Ref_Kind ref = HelmChartKind
      then bind_res (buildHelmChartFromTemplate obj ref) (\<lambda>hc.
             Ok (Some (NewHelmChart hc), '' with SourceRef '' @ CHR 0x27 # HCO_SourceRef_Kind hc @ ''/'' @
               HCO_Namespace hc @ ''/'' @ HCO_SourceRef_Name hc @ [CHR 0x27]))
      else if Ref_Kind ref = OCIRepositoryKind
      then bind_res (buildOCIRepositoryFromTemplate obj ref) (\<lambda>r. Ok (Some (NewOCIRepository r), ''''))
      else Ok (None, ''''))"

text \<open>The unstructured object handed to the server-side apply.\<close>

definition owned_object :: "'w source_api \<Rightarrow> HelmRelease \<Rightarrow> HelmChartReference \<Rightarrow> ChartObject option \<Rightarrow> json res" where
  "owned_object S obj ref chart = (case sToUnstructured S chart of
       Panic \<Rightarrow> Panic
     | Err e \<Rightarrow> Err (Errorf_w (''failed to convert '' @ Ref_Kind ref @ '' to unstructured: '') e '''')
     | Ok u \<Rightarrow> (case sGVK S chart of
         Inl e \<Rightarrow> Err (Errorf_w (''unable to get GVK for '' @ Ref_Kind ref @ '': '') e '''')
       | Inr gvk \<Rightarrow> Ok (sSetOwnerLabels S (HR_Name obj) (HR_Namespace obj) (sSetGVK S gvk u))))"

subsection \<open>Reconciling\<close>

definition HelmChartTemplate_reconcileDelete ::
  "bool \<Rightarrow> 'w source_api \<Rightarrow> 'w Request \<Rightarrow> unit res \<times> 'w Request" where
  "HelmChartTemplate_reconcileDelete allow S req =
     (let obj = Object req; ref = Status_GetHelmChartReference (HR_Status obj)
      in if Spec_Suspend (HR_Spec obj) \<or> \<not> HasChart (HR_Status obj) then (Ok (), req)
         else (case AllowsAccessTo allow obj ref of
             Panic \<Rightarrow> (Panic, req) | Err e \<Rightarrow> (Err e, req)
           | Ok _ \<Rightarrow> (case ref of None \<Rightarrow> (Panic, req)
             | Some r \<Rightarrow>
                (let kind = (if Ref_Kind r = OCIRepositoryKind then KOCIRepository else KHelmChart);
                     quoted = CHR 0x27 # HelmChartReference_String ref @ [CHR 0x27]
                 in (case sGet S kind (GetObjectKey r) (World req) of
                     Inl e \<Rightarrow> if errors_Is e ApiNotFound then (Ok (), on_status (SetChart None) req)
                              else (Err (Errorf_w (''failed to get '' @ quoted @ '': '') e ''''), req)
                   | Inr chart \<Rightarrow> (case sDelete S kind chart (World req) of (err, w') \<Rightarrow>
                       (case IgnoreNotFound err of
                           Some e \<Rightarrow> (Err (Errorf_w (''failed to delete '' @ quoted @ '': '') e ''''), set_world w' req)
                         | None \<Rightarrow> (Ok (), on_status (SetChart None)
                             (emit None EventTypeTrace (Ref_Kind r @ ''Deleted'') ActionReconcile
                                (''deleted '' @ quoted) (set_world w' req))))))))))"

definition apply_chart :: "'w source_api \<Rightarrow> HelmChartReference \<Rightarrow> 'w Request \<Rightarrow> unit res \<times> 'w Request" where
  "apply_chart S ref req = (case new_chart (Object req) ref of
       Panic \<Rightarrow> (Panic, req) | Err e \<Rightarrow> (Err e, req)
     | Ok (chart, withSourceRef) \<Rightarrow> (case owned_object S (Object req) ref chart of
         Panic \<Rightarrow> (Panic, req) | Err e \<Rightarrow> (Err e, req)
       | Ok u \<Rightarrow> (case sApply S u (World req) of
           (Inl e, w') \<Rightarrow>
             (let err = Errorf_w ''failed to run server-side apply: '' e ''''
              in (Err err, emit None EventTypeTrace (Ref_Kind ref @ ''SyncErr'') ActionReconcile (Err_Msg err) (set_world w' req)))
         | (Inr (action, subject), w') \<Rightarrow>
             if action \<in> {''created'', ''configured''}
             then (Ok (), on_status (SetChart (Some ref))
                (emit None EventTypeTrace (Ref_Kind ref @ sTitle S action) ActionReconcile
                   (Normalize (sTitle S) (action @ '' '' @ subject @ withSourceRef)) (set_world w' req)))
             else if action = ''unchanged'' then (Ok (), on_status (SetChart (Some ref)) (set_world w' req))
             else (Err (errors_New (''unexpected action '' @ CHR 0x27 # action @ CHR 0x27 # '' for '' @ subject)), set_world w' req))))"

definition template_chart :: "bool \<Rightarrow> 'w source_api \<Rightarrow> 'w Request \<Rightarrow> unit res \<times> 'w Request" where
  "template_chart allow S req =
     (let obj = Object req; ref = GetHelmChartTemplateReference obj
      in if mustCleanDeployedChart obj then HelmChartTemplate_reconcileDelete allow S req
         else if HasChartRef obj then (Ok (), req)
         else (case AllowsAccessTo allow obj ref of
             Panic \<Rightarrow> (Panic, req) | Err e \<Rightarrow> (Err e, req)
           | Ok _ \<Rightarrow> (case ref of None \<Rightarrow> (Panic, req) | Some r \<Rightarrow> apply_chart S r req)))"

definition HelmChartTemplate_Reconcile :: "bool \<Rightarrow> 'w source_api \<Rightarrow> 'w Request \<Rightarrow> unit res \<times> 'w Request" where
  "HelmChartTemplate_Reconcile allow S req =
     (let obj = Object req; ref = GetHelmChartTemplateReference obj; st = HR_Status obj;
          deleted = (HR_DeletionTimestamp obj \<noteq> None)
      in if HasChart st \<and> \<not> Matches (Status_GetHelmChartReference st) ref \<or> deleted
         then (case HelmChartTemplate_reconcileDelete allow S req of
             (Ok u, req') \<Rightarrow> if deleted then (Ok u, req') else template_chart allow S req'
           | (r, req') \<Rightarrow> (r, req'))
         else template_chart allow S req)"

subsection \<open>What the reconciler leaves alone\<close>

definition chart_change :: "'w Request \<Rightarrow> 'w Request \<Rightarrow> bool" where
  "chart_change a b \<longleftrightarrow> (\<exists>v. Object b = with_status (\<lambda>st. st\<lparr>St_HelmChart := v\<rparr>) (Object a)) \<and>
     Chart b = Chart a \<and> Values b = Values a \<and> (\<exists>es. Events b = Events a @ es)"

lemma chart_change_refl [simp, intro]: "chart_change a a"
  unfolding chart_change_def with_status_def by (auto intro: exI [of _ "St_HelmChart (HR_Status (Object a))"])

lemma chart_change_trans:
  assumes "chart_change a b" "chart_change b c"
  shows "chart_change a c"
proof -
  from assms obtain v v' where "Object b = with_status (\<lambda>st. st\<lparr>St_HelmChart := v\<rparr>) (Object a)"
    "Object c = with_status (\<lambda>st. st\<lparr>St_HelmChart := v'\<rparr>) (Object b)"
    unfolding chart_change_def by blast
  then have "Object c = with_status (\<lambda>st. st\<lparr>St_HelmChart := v'\<rparr>) (Object a)" by (simp add: with_status_def)
  with assms show ?thesis unfolding chart_change_def by fastforce
qed

lemma chart_change_steps:
  "chart_change a b \<Longrightarrow> chart_change a (set_world w b)"
  "chart_change a b \<Longrightarrow> chart_change a (emit md t r ac m b)"
  "chart_change a b \<Longrightarrow> chart_change a (on_status (SetChart ref) b)"
  by (rule chart_change_trans, assumption, auto simp: chart_change_def emit_def SetChart_def with_status_def
      intro: exI [of _ "St_HelmChart (HR_Status (Object b))"])+

lemma chart_changeD:
  assumes "chart_change a b"
  shows "HR_Spec (Object b) = HR_Spec (Object a)" "HR_Name (Object b) = HR_Name (Object a)"
    "HR_Namespace (Object b) = HR_Namespace (Object a)" "HR_DeletionTimestamp (Object b) = HR_DeletionTimestamp (Object a)"
    "HR_Finalizers (Object b) = HR_Finalizers (Object a)" "History (Object b) = History (Object a)"
    "HR_Generation (Object b) = HR_Generation (Object a)" "Conditions (Object b) = Conditions (Object a)"
    "St_StorageNamespace (HR_Status (Object b)) = St_StorageNamespace (HR_Status (Object a))"
  using assms by (auto simp: chart_change_def)

lemma reconcileDelete_change: "chart_change req (snd (HelmChartTemplate_reconcileDelete allow S req))"
  unfolding HelmChartTemplate_reconcileDelete_def Let_def
  by (auto intro!: chart_change_steps split: res.split option.split sum.split prod.split)

lemma apply_chart_change: "chart_change req (snd (apply_chart S ref req))"
  unfolding apply_chart_def Let_def
  by (auto intro!: chart_change_steps split: res.split option.split sum.split prod.split)

lemma template_chart_change: "chart_change req (snd (template_chart allow S req))"
  unfolding template_chart_def Let_def
  by (auto simp: reconcileDelete_change apply_chart_change split: res.split option.split)

lemma HelmChartTemplate_change: "chart_change req (snd (HelmChartTemplate_Reconcile allow S req))"
  unfolding HelmChartTemplate_Reconcile_def Let_def
  using reconcileDelete_change [of req allow S]
  by (auto simp: template_chart_change intro: chart_change_trans [OF _ template_chart_change] split: res.split prod.split)

lemma template_reference_change:
  "chart_change a b \<Longrightarrow> GetHelmChartTemplateReference (Object b) = GetHelmChartTemplateReference (Object a)"
  by (simp add: GetHelmChartTemplateReference_def chart_changeD Let_def split: option.split)

subsection \<open>Access to one namespace\<close>

text \<open>A read by key returns the object of that key; two clients agree on a namespace.\<close>

definition source_ok :: "'w source_api \<Rightarrow> bool" where
  "source_ok S \<longleftrightarrow> (\<forall>k key w src. sGet S k key w = Inr src \<or> sAPIGet S k key w = Inr src \<longrightarrow>
     (So_Namespace src, So_Name src) = key)"

definition agree_in :: "string \<Rightarrow> 'w source_api \<Rightarrow> 'w source_api \<Rightarrow> bool" where
  "agree_in ns S T \<longleftrightarrow>
     (\<forall>k key w. fst key = ns \<longrightarrow> sGet T k key w = sGet S k key w) \<and>
     (\<forall>k src w. So_Namespace src = ns \<longrightarrow> sDelete T k src w = sDelete S k src w) \<and>
     (\<forall>c. chart_namespace c = ns \<longrightarrow> sToUnstructured T (Some c) = sToUnstructured S (Some c) \<and> sGVK T (Some c) = sGVK S (Some c)) \<and>
     sToUnstructured T None = sToUnstructured S None \<and> sGVK T None = sGVK S None \<and>
     sSetGVK T = sSetGVK S \<and> sSetOwnerLabels T = sSetOwnerLabels S \<and> sApply T = sApply S \<and> sTitle T = sTitle S"

lemma AllowsAccessTo_Ok:
  "AllowsAccessTo False obj ref = Ok u \<Longrightarrow> \<exists>r. ref = Some r \<and> Ref_Namespace r = HR_Namespace obj"
  by (auto simp: AllowsAccessTo_def split: option.splits if_splits)

lemma reconcileDelete_agree:
  assumes "source_ok S" "agree_in (HR_Namespace (Object req)) S T"
  shows "HelmChartTemplate_reconcileDelete False T req = HelmChartTemplate_reconcileDelete False S req"
proof (cases "AllowsAccessTo False (Object req) (Status_GetHelmChartReference (HR_Status (Object req)))")
  case (Ok u)
  then obtain r where r: "Status_GetHelmChartReference (HR_Status (Object req)) = Some r"
    "Ref_Namespace r = HR_Namespace (Object req)" using AllowsAccessTo_Ok by blast
  have key: "fst (GetObjectKey r) = HR_Namespace (Object req)" by (simp add: GetObjectKey_def r)
  then have get: "sGet T k (GetObjectKey r) w = sGet S k (GetObjectKey r) w" for k w
    using assms(2) unfolding agree_in_def by blast
  have del: "sDelete T k src w = sDelete S k src w" if "sGet S k' (GetObjectKey r) w' = Inr src" for k k' src w w'
  proof -
    from that assms(1) have "(So_Namespace src, So_Name src) = GetObjectKey r" unfolding source_ok_def by blast
    then have "So_Namespace src = HR_Namespace (Object req)" using key by (metis fst_conv)
    then show ?thesis using assms(2) by (simp add: agree_in_def)
  qed
  show ?thesis
    unfolding HelmChartTemplate_reconcileDelete_def Let_def r
    by (auto simp: get del split: sum.split res.split)
qed (simp_all add: HelmChartTemplate_reconcileDelete_def Let_def)

lemma new_chart_namespace:
  "new_chart obj ref = Ok (Some c, m) \<Longrightarrow> chart_namespace c = Ref_Namespace ref"
  by (auto simp: new_chart_def buildHelmChartFromTemplate_def buildOCIRepositoryFromTemplate_def Let_def
      split: if_splits option.splits)

lemma apply_chart_agree:
  assumes "agree_in (HR_Namespace (Object req)) S T" "Ref_Namespace ref = HR_Namespace (Object req)"
  shows "apply_chart T ref req = apply_chart S ref req"
proof -
  have "owned_object T (Object req) ref chart = owned_object S (Object req) ref chart"
    if "new_chart (Object req) ref = Ok (chart, m)" for chart m
    using new_chart_namespace [of "Object req" ref] that assms
    by (cases chart) (auto simp: owned_object_def agree_in_def split: res.split sum.split)
  moreover have "sApply T = sApply S" "sTitle T = sTitle S" using assms by (simp_all add: agree_in_def)
  ultimately show ?thesis by (simp add: apply_chart_def split: res.split prod.split sum.split)
qed

lemma template_chart_agree:
  assumes "source_ok S" "agree_in (HR_Namespace (Object req)) S T"
  shows "template_chart False T req = template_chart False S req"
  unfolding template_chart_def Let_def
  by (auto simp: reconcileDelete_agree [OF assms] apply_chart_agree [OF assms(2)] dest: AllowsAccessTo_Ok
      split: res.split option.split)

text \<open>C16. Unless references across namespaces are allowed, the chart reconciler is confined to the
  namespace of the HelmRelease: with a client that behaves differently in all other namespaces it
  does the same and leaves the same cluster, so it neither reads nor writes any object there.\<close>

theorem chart_reconciler_confined:
  assumes "source_ok S" and "agree_in (HR_Namespace (Object req)) S T"
  shows "HelmChartTemplate_Reconcile False T req = HelmChartTemplate_Reconcile False S req"
proof -
  obtain r req' where d: "HelmChartTemplate_reconcileDelete False S req = (r, req')" by fastforce
  with reconcileDelete_change [of req False S] have "HR_Namespace (Object req') = HR_Namespace (Object req)"
    by (simp add: chart_changeD)
  with assms show ?thesis
    unfolding HelmChartTemplate_Reconcile_def Let_def
    by (simp add: reconcileDelete_agree [OF assms] template_chart_agree d split: res.split)
qed

text \<open>A client over a cluster that holds the charts of one namespace.\<close>

definition sample_source_object :: "string \<times> string \<Rightarrow> SourceObject" where
  "sample_source_object key = \<lparr>So_Kind = HelmChartKind, So_Namespace = fst key, So_Name = snd key, So_Generation = 1,
     So_ObservedGeneration = Inr 1, So_Conditions = [],
     So_Artifact = Some \<lparr>Art_URL = ''http://charts/podinfo.tgz'', Art_Revision = ''6.0.0'', Art_Digest = ''sha256:1''\<rparr>\<rparr>"

definition sample_source :: "'w source_api" where
  "sample_source = \<lparr>sGet = (\<lambda>k key w. if fst key = ''ns'' then Inr (sample_source_object key) else Inl (sentinel_err ApiNotFound)),
     sAPIGet = (\<lambda>k key w. if fst key = ''ns'' then Inr (sample_source_object key) else Inl (sentinel_err ApiNotFound)),
     sDelete = (\<lambda>k src w. (None, w)), sToUnstructured = (\<lambda>c. case c of None \<Rightarrow> Panic | Some c \<Rightarrow> Ok (JStr (chart_namespace c))),
     sGVK = (\<lambda>c. Inr JNull), sSetGVK = (\<lambda>gvk u. u), sSetOwnerLabels = (\<lambda>name ns u. u),
     sApply = (\<lambda>u w. (Inr (''created'', ''HelmChart/ns/ns-app''), w)), sTitle = (\<lambda>s. s)\<rparr>"

lemma sample_source_ok: "source_ok sample_source"
  by (simp add: source_ok_def sample_source_def sample_source_object_def)

definition sample_template :: HelmChartTemplate where
  "sample_template = \<lparr>Tpl_Kind = '''', Tpl_ObjectMeta = None,
     Tpl_Spec = \<lparr>TplSpec_OCI = \<lparr>OCI_Interval = None, OCI_LayerSelector = None, OCI_Verify = None, OCI_Rest = JNull\<rparr>,
       TplSpec_Chart = ''podinfo'', TplSpec_Version = ''6.x'',
       TplSpec_SourceRef = Some \<lparr>COR_APIVersion = '''', COR_Kind = ''HelmRepository'', COR_Name = ''podinfo'', COR_Namespace = ''''\<rparr>,
       TplSpec_ReconcileStrategy = '''', TplSpec_ValuesFiles = [], TplSpec_IgnoreMissingValuesFiles = False\<rparr>\<rparr>"

definition templated_request :: "sample_world Request" where
  "templated_request = on_object (\<lambda>obj. obj\<lparr>HR_Spec := (HR_Spec obj)\<lparr>Spec_Chart := Some sample_template\<rparr>\<rparr>) sample_request"

theorem chart_reconciler_confined_witness:
  "HelmChartTemplate_Reconcile False
     (sample_source\<lparr>sGet := (\<lambda>k key w. if fst key = ''ns'' then Inr (sample_source_object key) else Inl (errors_New ''down''))\<rparr>)
     templated_request = HelmChartTemplate_Reconcile False sample_source templated_request"
  by (rule chart_reconciler_confined [OF sample_source_ok])
    (simp add: agree_in_def sample_source_def templated_request_def sample_request_def sample_object_def)

subsection \<open>The chart follows the template\<close>

lemma apply_chart_Ok:
  assumes "apply_chart S ref req = (Ok (), req')"
  obtains chart m u action subject where "new_chart (Object req) ref = Ok (chart, m)"
    "owned_object S (Object req) ref chart = Ok u"
    "sApply S u (World req) = (Inr (action, subject), World req')"
    "HR_Status (Object req') = SetChart (Some ref) (HR_Status (Object req))"
  using assms by (auto simp: apply_chart_def emit_def Let_def split: res.splits prod.splits sum.splits if_splits)

lemma template_chart_Ok:
  assumes "template_chart allow S req = (Ok (), req')" "\<not> HasChartRef (Object req)"
  obtains ref where "GetHelmChartTemplateReference (Object req) = Some ref" "apply_chart S ref req = (Ok (), req')"
  using assms by (auto simp: template_chart_def mustCleanDeployedChart_def Let_def split: res.splits option.splits)

text \<open>C17. When the chart reconciler succeeds on a HelmRelease with a chart template, the object built from
  the template was applied to the cluster last, and the status refers to it; the status then
  matches the template, so nothing is deleted by the next reconciliation.\<close>

theorem chart_follows_template:
  assumes "HelmChartTemplate_Reconcile allow S req = (Ok (), req')"
    and "HR_DeletionTimestamp (Object req) = None" and "\<not> HasChartRef (Object req)"
    and "GetHelmChartTemplateReference (Object req) = Some ref"
    and "CHR ''/'' \<notin> set (Ref_Kind ref)" "CHR ''/'' \<notin> set (Ref_Namespace ref)" "CHR ''/'' \<notin> set (Ref_Name ref)"
  shows "(\<exists>chart m u w entry. new_chart (Object req) ref = Ok (chart, m) \<and> owned_object S (Object req) ref chart = Ok u \<and>
      sApply S u w = (Inr entry, World req')) \<and>
    Matches (Status_GetHelmChartReference (HR_Status (Object req'))) (GetHelmChartTemplateReference (Object req'))"
proof -
  obtain r reqd where d: "HelmChartTemplate_reconcileDelete allow S req = (r, reqd)" by fastforce
  define mid where "mid = (if HasChart (HR_Status (Object req)) \<and>
    \<not> Matches (Status_GetHelmChartReference (HR_Status (Object req))) (Some ref) then reqd else req)"
  have mid: "chart_change req mid" using reconcileDelete_change [of req allow S] d by (simp add: mid_def)
  have "template_chart allow S mid = (Ok (), req')"
    using assms(1,2,4) d by (auto simp: HelmChartTemplate_Reconcile_def mid_def Let_def split: if_splits res.splits)
  moreover have "\<not> HasChartRef (Object mid)" using assms(3) chart_changeD [OF mid] by (simp add: HasChartRef_def)
  ultimately have "apply_chart S ref mid = (Ok (), req')"
    using template_chart_Ok template_reference_change [OF mid] assms(4) by (metis option.inject)
  then obtain chart m u action subject where a: "new_chart (Object mid) ref = Ok (chart, m)"
    "owned_object S (Object mid) ref chart = Ok u" "sApply S u (World mid) = (Inr (action, subject), World req')"
    "HR_Status (Object req') = SetChart (Some ref) (HR_Status (Object mid))" by (rule apply_chart_Ok)
  note mids = chart_changeD(1-3) [OF mid]
  have "GetTemplateInterval (Object mid) = GetTemplateInterval (Object req)"
    by (simp only: GetTemplateInterval_def mids)
  then have same: "new_chart (Object mid) ref = new_chart (Object req) ref"
    "owned_object S (Object mid) ref c = owned_object S (Object req) ref c" for c
    by (simp_all only: new_chart_def owned_object_def buildHelmChartFromTemplate_def
        buildOCIRepositoryFromTemplate_def mids)
  from a same have "\<exists>chart m u w entry. new_chart (Object req) ref = Ok (chart, m) \<and>
      owned_object S (Object req) ref chart = Ok u \<and> sApply S u w = (Inr entry, World req')"
    by fastforce
  moreover
  have "GetHelmChartTemplateReference (Object req') = Some ref"
    using template_reference_change [OF HelmChartTemplate_change [of req allow S]] assms(1,4) by simp
  with a(4) SetChart_read_back [OF assms(5-7)]
  have "Matches (Status_GetHelmChartReference (HR_Status (Object req'))) (GetHelmChartTemplateReference (Object req'))"
    by (simp add: Matches_def)
  ultimately show ?thesis by blast
qed

theorem chart_follows_template_witness:
  "let req' = snd (HelmChartTemplate_Reconcile False sample_source templated_request)
   in Matches (Status_GetHelmChartReference (HR_Status (Object req'))) (GetHelmChartTemplateReference (Object req')) \<and>
      GetHelmChartTemplateReference (Object templated_request) =
        Some \<lparr>Ref_Kind = HelmChartKind, Ref_Name = ''ns-app'', Ref_Namespace = ''ns''\<rparr>"
proof -
  let ?ref = "\<lparr>Ref_Kind = HelmChartKind, Ref_Name = ''ns-app'', Ref_Namespace = ''ns''\<rparr>"
  have obj: "HR_DeletionTimestamp (Object templated_request) = None" "\<not> HasChartRef (Object templated_request)"
    "\<not> HasChart (HR_Status (Object templated_request))" "HR_Namespace (Object templated_request) = ''ns''"
    by (simp_all add: templated_request_def sample_request_def sample_object_def sample_spec_def sample_status_def
        HasChartRef_def HasChart_def)
  have ref: "GetHelmChartTemplateReference (Object templated_request) = Some ?ref"
    by (simp add: templated_request_def sample_request_def sample_object_def sample_spec_def sample_template_def
        GetHelmChartTemplateReference_def)
  have "fst (apply_chart sample_source ?ref templated_request) = Ok ()"
    by (simp add: apply_chart_def new_chart_def buildHelmChartFromTemplate_def owned_object_def sample_source_def
        templated_request_def sample_request_def sample_object_def sample_spec_def)
  then have "fst (HelmChartTemplate_Reconcile False sample_source templated_request) = Ok ()"
    by (simp add: HelmChartTemplate_Reconcile_def template_chart_def mustCleanDeployedChart_def AllowsAccessTo_def obj ref)
  then have "HelmChartTemplate_Reconcile False sample_source templated_request =
      (Ok (), snd (HelmChartTemplate_Reconcile False sample_source templated_request))"
    by (metis prod.collapse)
  from chart_follows_template [OF this obj(1,2) ref] ref show ?thesis
    by (simp add: HelmChartKind_def Let_def)
qed

subsection \<open>Deletion and malformed references\<close>

lemma reconcileDelete_Ok:
  assumes "HelmChartTemplate_reconcileDelete allow S req = (Ok (), req')" "\<not> Spec_Suspend (HR_Spec (Object req))"
  shows "\<not> HasChart (HR_Status (Object req'))"
  using assms
  by (auto simp: HelmChartTemplate_reconcileDelete_def Let_def SetChart_def HasChart_def HelmChartReference_String_def
      TrimPrefix_def HelmChartKind_def emit_def split: if_splits res.splits option.splits sum.splits prod.splits)

lemma template_deleted:
  assumes "HelmChartTemplate_Reconcile allow S req = (Ok (), req')" "\<not> Spec_Suspend (HR_Spec (Object req))"
    and "HR_DeletionTimestamp (Object req) \<noteq> None"
  shows "\<not> HasChart (HR_Status (Object req'))"
  using assms reconcileDelete_Ok
  by (auto simp: HelmChartTemplate_Reconcile_def Let_def split: res.splits prod.splits)

text \<open>A reference in the status that does not have two or three parts is read as nil, and
  dereferenced.\<close>

lemma malformed_reference_panics:
  assumes "HasChart (HR_Status (Object req))" "Status_GetHelmChartReference (HR_Status (Object req)) = None"
    and "\<not> Spec_Suspend (HR_Spec (Object req))"
  shows "fst (HelmChartTemplate_Reconcile allow S req) = Panic"
  using assms
  by (simp add: HelmChartTemplate_Reconcile_def HelmChartTemplate_reconcileDelete_def Matches_def AllowsAccessTo_def Let_def)

end
