(* ===== verification/ClusterAccess.thy ===== *)
theory ClusterAccess
  imports Environment
begin

section \<open>Access to clusters: internal/kube and internal/action/config.go\<close>

text \<open>
  How the controller gets at a cluster: the REST configuration with impersonation, the getter that
  hands clients to Helm and may cache them, the round tripper that retries requests refused during
  a change of the etcd leader, and the factory of Helm configurations. The objects of client-go
  (discovery clients, REST mappers, client configurations) are told apart by numbers; creating one
  is a function of \<open>discovery_api\<close>. The caches of the getter are guarded by a mutex each, so calls
  take effect one after the other.
\<close>

subsection \<open>Impersonation: internal/kube/impersonate.go\<close>

text \<open>\<open>Cfg_QPS\<close> holds the bits of a float that is only copied, \<open>Cfg_Wrappers\<close> the number of retrying
  round trippers around the transport, \<open>Cfg_Rest\<close> everything else (host, credentials).\<close>

record RestConfig =
  Cfg_Impersonate :: string
  Cfg_Burst :: int64
  Cfg_QPS :: int64
  Cfg_Wrappers :: nat
  Cfg_Rest :: json

definition userNameFormat :: "string \<Rightarrow> string \<Rightarrow> string" where
  "userNameFormat ns name = ''system:serviceaccount:'' @ ns @ '':'' @ name"

definition SetImpersonationConfig ::
  "string \<Rightarrow> RestConfig \<Rightarrow> string \<Rightarrow> string \<Rightarrow> string \<times> RestConfig" where
  "SetImpersonationConfig DefaultServiceAccountName cfg ns serviceAccount =
     (let name = (if serviceAccount \<noteq> '''' then serviceAccount else DefaultServiceAccountName)
      in if name \<noteq> '''' \<and> ns \<noteq> ''''
         then (userNameFormat ns name, cfg\<lparr>Cfg_Impersonate := userNameFormat ns name\<rparr>)
         else ('''', cfg))"

subsection \<open>Kubeconfigs in secrets: internal/kube/config.go\<close>

record Secret =
  Sec_Namespace :: string
  Sec_Name :: string
  Sec_Data :: "string \<Rightarrow> string option"

definition DefaultKubeConfigSecretKey :: string where "DefaultKubeConfigSecretKey = ''value''"

definition DefaultKubeConfigSecretKeyExt :: string where
  "DefaultKubeConfigSecretKeyExt = DefaultKubeConfigSecretKey @ ''.yaml''"

text \<open>\<open>parse\<close> is \<^verbatim>\<open>client.KubeConfigFromBytes\<close>, \<open>sanitize\<close> is \<^verbatim>\<open>client.KubeConfig\<close>.\<close>

definition ConfigFromSecret ::
  "(string \<Rightarrow> gerror + RestConfig) \<Rightarrow> (RestConfig \<Rightarrow> RestConfig) \<Rightarrow> Secret option \<Rightarrow> string \<Rightarrow> gerror + RestConfig" where
  "ConfigFromSecret parse sanitize secret key = (case secret of
       None \<Rightarrow> Inl (errors_New ''KubeConfig secret is nil'')
     | Some secret \<Rightarrow>
        (let secretName = Sec_Namespace secret @ ''/'' @ Sec_Name secret;
             load = (\<lambda>kubeConfig. case parse kubeConfig of
                 Inl e \<Rightarrow> Inl (Errorf_w (''failed to load KubeConfig from secret '' @ CHR 0x27 # secretName @ CHR 0x27 # '': '') e '''')
               | Inr cfg \<Rightarrow> Inr (sanitize cfg))
         in if key \<noteq> ''''
            then (case Sec_Data secret key of
                None \<Rightarrow> Inl (errors_New (''KubeConfig secret '' @ CHR 0x27 # secretName @ CHR 0x27 # '' does not contain a ''
                              @ CHR 0x27 # key @ CHR 0x27 # '' key with data''))
              | Some kubeConfig \<Rightarrow> load kubeConfig)
            else (case Sec_Data secret DefaultKubeConfigSecretKey of
                Some kubeConfig \<Rightarrow> load kubeConfig
              | None \<Rightarrow> (case Sec_Data secret DefaultKubeConfigSecretKeyExt of
                  Some kubeConfig \<Rightarrow> load kubeConfig
                | None \<Rightarrow> Inl (errors_New (''KubeConfig secret '' @ CHR 0x27 # secretName @ CHR 0x27 # '' does not contain a ''
                      @ CHR 0x27 # DefaultKubeConfigSecretKey @ CHR 0x27 # '' or '' @ CHR 0x27 # DefaultKubeConfigSecretKeyExt
                      @ CHR 0x27 # '' key with data''))))))"

subsection \<open>The getter: internal/kube/client.go\<close>

type_synonym object_id = nat

record MemoryRESTClientGetter =
  G_namespace :: string
  G_impersonate :: string
  G_persistent :: bool
  G_cfg :: "RestConfig option"
  G_restMapper :: "object_id option"
  G_discoveryClient :: "object_id option"
  G_clientCfg :: "object_id option"

type_synonym GetterOption = "MemoryRESTClientGetter \<Rightarrow> MemoryRESTClientGetter"

record ClientOptions =
  Opt_QPS :: int64
  Opt_Burst :: int64

definition WithNamespace :: "string \<Rightarrow> GetterOption" where
  "WithNamespace ns g = g\<lparr>G_namespace := ns\<rparr>"

text \<open>An option that writes to the REST configuration needs one; \<^verbatim>\<open>NewMemoryRESTClientGetter\<close>
  applies the options to a getter that has it.\<close>

definition WithImpersonate :: "string \<Rightarrow> string \<Rightarrow> string \<Rightarrow> GetterOption" where
  "WithImpersonate DefaultServiceAccountName serviceAccount ns g = (case G_cfg g of
       None \<Rightarrow> g
     | Some cfg \<Rightarrow>
        (case SetImpersonationConfig DefaultServiceAccountName cfg ns serviceAccount of (username, cfg') \<Rightarrow>
           if username \<noteq> '''' then g\<lparr>G_cfg := Some cfg', G_impersonate := username\<rparr> else g\<lparr>G_cfg := Some cfg'\<rparr>))"

definition WithClientOptions :: "ClientOptions \<Rightarrow> GetterOption" where
  "WithClientOptions opts g =
     g\<lparr>G_cfg := map_option (\<lambda>cfg. cfg\<lparr>Cfg_Burst := Opt_Burst opts, Cfg_QPS := Opt_QPS opts\<rparr>) (G_cfg g)\<rparr>"

definition WithPersistent :: "bool \<Rightarrow> GetterOption" where
  "WithPersistent persist g = g\<lparr>G_persistent := persist\<rparr>"

definition setDefaults :: "MemoryRESTClientGetter \<Rightarrow> MemoryRESTClientGetter" where
  "setDefaults g = (if G_namespace g = '''' then g\<lparr>G_namespace := ''default''\<rparr> else g)"

definition NewMemoryRESTClientGetter :: "RestConfig \<Rightarrow> GetterOption list \<Rightarrow> MemoryRESTClientGetter" where
  "NewMemoryRESTClientGetter cfg opts =
     (let g = fold (\<lambda>opt. opt) opts
            \<lparr>G_namespace = '''', G_impersonate = '''', G_persistent = False, G_cfg = Some cfg,
             G_restMapper = None, G_discoveryClient = None, G_clientCfg = None\<rparr>;
          g' = setDefaults g
      in g'\<lparr>G_cfg := map_option (\<lambda>c. c\<lparr>Cfg_Wrappers := Cfg_Wrappers c + 1\<rparr>) (G_cfg g')\<rparr>)"

definition NewInClusterMemoryRESTClientGetter ::
  "gerror + RestConfig \<Rightarrow> GetterOption list \<Rightarrow> gerror + MemoryRESTClientGetter" where
  "NewInClusterMemoryRESTClientGetter config opts = (case config of
       Inl e \<Rightarrow> Inl (Errorf_w ''failed to get config for in-cluster REST client: '' e '''')
     | Inr cfg \<Rightarrow> Inr (NewMemoryRESTClientGetter cfg opts))"

definition ToRESTConfig :: "MemoryRESTClientGetter \<Rightarrow> gerror + RestConfig" where
  "ToRESTConfig g = (case G_cfg g of
       None \<Rightarrow> Inl (errors_New ''MemoryRESTClientGetter has no REST config'') | Some cfg \<Rightarrow> Inr cfg)"

text \<open>Constructors of client-go.\<close>

record 'w discovery_api =
  nDiscoveryClient :: "RestConfig \<Rightarrow> 'w \<Rightarrow> (gerror + object_id) \<times> 'w"
  nMemCacheClient :: "object_id \<Rightarrow> 'w \<Rightarrow> object_id \<times> 'w"
  nRESTMapper :: "object_id \<Rightarrow> 'w \<Rightarrow> object_id \<times> 'w"
  nClientConfig :: "string \<Rightarrow> string \<Rightarrow> 'w \<Rightarrow> object_id \<times> 'w"

type_synonym 'w getter_call = "MemoryRESTClientGetter \<Rightarrow> 'w \<Rightarrow> (gerror + object_id) \<times> MemoryRESTClientGetter \<times> 'w"

definition toDiscoveryClient :: "'w discovery_api \<Rightarrow> 'w getter_call" where
  "toDiscoveryClient A g w = (case ToRESTConfig g of
       Inl e \<Rightarrow> (Inl e, g, w)
     | Inr cfg \<Rightarrow> (case nDiscoveryClient A cfg w of
         (Inl e, w') \<Rightarrow> (Inl e, g, w')
       | (Inr d, w') \<Rightarrow> (case nMemCacheClient A d w' of (m, w'') \<Rightarrow> (Inr m, g, w''))))"

definition toPersistentDiscoveryClient :: "'w discovery_api \<Rightarrow> 'w getter_call" where
  "toPersistentDiscoveryClient A g w = (case G_discoveryClient g of
       Some d \<Rightarrow> (Inr d, g, w)
     | None \<Rightarrow> (case toDiscoveryClient A g w of
         (Inl e, g', w') \<Rightarrow> (Inl e, g', w')
       | (Inr d, g', w') \<Rightarrow> (Inr d, g'\<lparr>G_discoveryClient := Some d\<rparr>, w')))"

definition ToDiscoveryClient :: "'w discovery_api \<Rightarrow> 'w getter_call" where
  "ToDiscoveryClient A g w =
     (if G_persistent g then toPersistentDiscoveryClient A g w else toDiscoveryClient A g w)"

definition toRESTMapper :: "'w discovery_api \<Rightarrow> 'w getter_call" where
  "toRESTMapper A g w = (case ToDiscoveryClient A g w of
       (Inl e, g', w') \<Rightarrow> (Inl e, g', w')
     | (Inr d, g', w') \<Rightarrow> (case nRESTMapper A d w' of (m, w'') \<Rightarrow> (Inr m, g', w'')))"

definition toPersistentRESTMapper :: "'w discovery_api \<Rightarrow> 'w getter_call" where
  "toPersistentRESTMapper A g w = (case G_restMapper g of
       Some m \<Rightarrow> (Inr m, g, w)
     | None \<Rightarrow> (case toRESTMapper A g w of
         (Inl e, g', w') \<Rightarrow> (Inl e, g', w')
       | (Inr m, g', w') \<Rightarrow> (Inr m, g'\<lparr>G_restMapper := Some m\<rparr>, w')))"

definition ToRESTMapper :: "'w discovery_api \<Rightarrow> 'w getter_call" where
  "ToRESTMapper A g w = (if G_persistent g then toPersistentRESTMapper A g w else toRESTMapper A g w)"

definition toRawKubeConfigLoader :: "'w discovery_api \<Rightarrow> 'w getter_call" where
  "toRawKubeConfigLoader A g w =
     (case nClientConfig A (G_namespace g) (G_impersonate g) w of (c, w') \<Rightarrow> (Inr c, g, w'))"

definition toPersistentRawKubeConfigLoader :: "'w discovery_api \<Rightarrow> 'w getter_call" where
  "toPersistentRawKubeConfigLoader A g w = (case G_clientCfg g of
       Some c \<Rightarrow> (Inr c, g, w)
     | None \<Rightarrow> (case toRawKubeConfigLoader A g w of
         (Inl e, g', w') \<Rightarrow> (Inl e, g', w')
       | (Inr c, g', w') \<Rightarrow> (Inr c, g'\<lparr>G_clientCfg := Some c\<rparr>, w')))"

definition ToRawKubeConfigLoader :: "'w discovery_api \<Rightarrow> 'w getter_call" where
  "ToRawKubeConfigLoader A g w =
     (if G_persistent g then toPersistentRawKubeConfigLoader A g w else toRawKubeConfigLoader A g w)"

subsection \<open>Retrying requests: internal/kube/roundtripper.go\<close>

text \<open>\<open>Resp_Body\<close> is what reading the body gives. The wrapped round tripper returns a response or an
  error; \<open>decode\<close> is the JSON decoder for \<^verbatim>\<open>kubernetesError\<close>.\<close>

record Response =
  Resp_StatusCode :: int64
  Resp_ContentType :: string
  Resp_Body :: "gerror + string"

record kubernetesError =
  KE_Message :: string
  KE_Code :: int64

definition HasSuffix :: "string \<Rightarrow> string \<Rightarrow> bool" where
  "HasSuffix s p = HasPrefix (rev s) (rev p)"

function roundTrip ::
  "(string \<Rightarrow> gerror + kubernetesError) \<Rightarrow> ('q \<Rightarrow> 'w \<Rightarrow> (gerror + Response) \<times> 'w) \<Rightarrow> 'q \<Rightarrow> int64 \<Rightarrow>
     Response option \<Rightarrow> 'w \<Rightarrow> (Response option \<times> gerror option) \<times> 'w" where
  "roundTrip decode wrapped req retry prevResp w =
     (if retry < 0 then ((prevResp, None), w)
      else (case wrapped req w of
          (Inl rtErr, w') \<Rightarrow> ((None, Some rtErr), w')
        | (Inr resp, w') \<Rightarrow>
           if Resp_StatusCode resp < 500 then ((Some resp, None), w')
           else if Resp_ContentType resp \<noteq> ''application/json'' then ((Some resp, None), w')
           else (case Resp_Body resp of
               Inl e \<Rightarrow> ((Some resp, Some e), w')
             | Inr b \<Rightarrow> (case decode b of
                 Inl e \<Rightarrow> ((Some resp, Some e), w')
               | Inr ke \<Rightarrow>
                  if KE_Code ke < 500 then ((Some resp, None), w')
                  else if HasSuffix (KE_Message ke) ''etcdserver: leader changed''
                  then roundTrip decode wrapped req (retry - 1) (Some resp) w'
                  else if HasSuffix (KE_Message ke) ''raft proposal dropped''
                  then roundTrip decode wrapped req (retry - 1) (Some resp) w'
                  else ((Some resp, None), w')))))"
  by pat_completeness auto
termination
  by (relation "measure (\<lambda>(decode, wrapped, req, retry, prevResp, w). nat (retry + 1))") auto

declare roundTrip.simps [simp del]

definition RoundTrip ::
  "(string \<Rightarrow> gerror + kubernetesError) \<Rightarrow> ('q \<Rightarrow> 'w \<Rightarrow> (gerror + Response) \<times> 'w) \<Rightarrow> 'q \<Rightarrow> 'w \<Rightarrow>
     (Response option \<times> gerror option) \<times> 'w" where
  "RoundTrip decode wrapped req w = roundTrip decode wrapped req 1 None w"

subsection \<open>Helm configurations: internal/action/config.go\<close>

text \<open>A storage driver is determined by its kind, its namespace and the client it works with. A
  constructor of resource managers is determined by the getter and the status readers of the
  specification (\<open>None\<close> when there are none).\<close>

datatype HelmDriver =
    SecretsDriver "MemoryRESTClientGetter option" string
  | ConfigMapsDriver "MemoryRESTClientGetter option" string
  | MemoryDriver string
  | CustomDriver nat

definition SecretsDriverName :: string where "SecretsDriverName = ''Secret''"
definition ConfigMapsDriverName :: string where "ConfigMapsDriverName = ''ConfigMap''"
definition MemoryDriverName :: string where "MemoryDriverName = ''Memory''"
definition DefaultStorageDriver :: string where "DefaultStorageDriver = SecretsDriverName"

datatype StatusReader = SpecReader "json list" | BuiltinReader string

record ResourceManagers =
  RM_Getter :: MemoryRESTClientGetter
  RM_Spec :: "json list option"

text \<open>The status readers of a resource manager: those of the specification come first.\<close>

definition resource_manager_readers :: "ResourceManagers \<Rightarrow> StatusReader list \<Rightarrow> StatusReader list" where
  "resource_manager_readers rm sr = (case RM_Spec rm of None \<Rightarrow> [] | Some exprs \<Rightarrow> [SpecReader exprs]) @ sr"

record KubeClient =
  Client_Getter :: "MemoryRESTClientGetter option"
  Client_newResourceManager :: "ResourceManagers option"
  Client_waitContext :: bool
  Client_Logger :: "nat option"

definition NewClient :: "MemoryRESTClientGetter option \<Rightarrow> KubeClient" where
  "NewClient getter = \<lparr>Client_Getter = getter, Client_newResourceManager = None, Client_waitContext = False,
     Client_Logger = None\<rparr>"

record ConfigFactory =
  CF_Getter :: "MemoryRESTClientGetter option"
  CF_KubeClient :: "KubeClient option"
  CF_Driver :: "HelmDriver option"
  CF_StorageLog :: "nat option"
  CF_NewResourceManager :: "ResourceManagers option"
  CF_WaitContext :: bool

type_synonym ConfigFactoryOption = "ConfigFactory \<Rightarrow> gerror + ConfigFactory"

fun apply_options :: "ConfigFactoryOption list \<Rightarrow> ConfigFactory \<Rightarrow> gerror + ConfigFactory" where
  "apply_options [] f = Inr f"
| "apply_options (opt # opts) f = (case opt f of Inl e \<Rightarrow> Inl e | Inr f' \<Rightarrow> apply_options opts f')"

definition Valid :: "ConfigFactory option \<Rightarrow> gerror option" where
  "Valid c = (case c of
       None \<Rightarrow> Some (errors_New ''ConfigFactory is nil'')
     | Some c \<Rightarrow>
        if CF_Driver c = None then Some (errors_New ''no Helm storage driver configured'')
        else if CF_KubeClient c = None \<or> CF_Getter c = None
        then Some (errors_New ''no Kubernetes client and/or getter configured'')
        else None)"

definition NewConfigFactory ::
  "MemoryRESTClientGetter option \<Rightarrow> ConfigFactoryOption list \<Rightarrow> gerror + ConfigFactory" where
  "NewConfigFactory getter opts =
     (case apply_options opts
         \<lparr>CF_Getter = getter, CF_KubeClient = Some (NewClient getter), CF_Driver = None,
          CF_StorageLog = None, CF_NewResourceManager = None, CF_WaitContext = False\<rparr> of
       Inl e \<Rightarrow> Inl e
     | Inr factory \<Rightarrow> (case Valid (Some factory) of Some e \<Rightarrow> Inl e | None \<Rightarrow> Inr factory))"

text \<open>\<open>clientSet\<close> tells whether a client set can be made with the client of the factory.\<close>

definition WithStorage :: "(KubeClient option \<Rightarrow> gerror option) \<Rightarrow> string \<Rightarrow> string \<Rightarrow> ConfigFactoryOption" where
  "WithStorage clientSet driver0 ns f =
     (let driver = (if driver0 = '''' then DefaultStorageDriver else driver0)
      in if ns = '''' then Inl (errors_New (''no namespace provided for '' @ CHR 0x27 # driver @ CHR 0x27 # '' storage driver''))
         else if driver \<in> {SecretsDriverName, ConfigMapsDriverName, ''''}
         then (case clientSet (CF_KubeClient f) of
             Some e \<Rightarrow> Inl (Errorf_w (''could not get client set for '' @ CHR 0x27 # driver @ CHR 0x27 # '' storage driver: '') e '''')
           | None \<Rightarrow> Inr (f\<lparr>CF_Driver :=
               (if driver = SecretsDriverName then Some (SecretsDriver (Option.bind (CF_KubeClient f) Client_Getter) ns)
                else if driver = ConfigMapsDriverName then Some (ConfigMapsDriver (Option.bind (CF_KubeClient f) Client_Getter) ns)
                else CF_Driver f)\<rparr>))
         else if driver = MemoryDriverName then Inr (f\<lparr>CF_Driver := Some (MemoryDriver ns)\<rparr>)
         else Inl (errors_New (''unsupported Helm storage driver '' @ CHR 0x27 # driver @ [CHR 0x27])))"

definition WithDriver :: "HelmDriver \<Rightarrow> ConfigFactoryOption" where
  "WithDriver driver f = Inr (f\<lparr>CF_Driver := Some driver\<rparr>)"

definition WithStorageLog :: "nat \<Rightarrow> ConfigFactoryOption" where
  "WithStorageLog log f = Inr (f\<lparr>CF_StorageLog := Some log\<rparr>)"

definition WithResourceManager :: "ResourceManagers option \<Rightarrow> ConfigFactoryOption" where
  "WithResourceManager mgr f = Inr (f\<lparr>CF_NewResourceManager := mgr\<rparr>)"

definition WithWaitContext :: "ConfigFactoryOption" where
  "WithWaitContext f = Inr (f\<lparr>CF_WaitContext := True\<rparr>)"

text \<open>The storage of a configuration: the driver, wrapped in an observing driver when there are
  observers, and the logger.\<close>

record 'o HelmStorage =
  Stg_Driver :: "HelmDriver option"
  Stg_Observers :: "'o list"
  Stg_Log :: "nat option"

definition NewStorage :: "ConfigFactory \<Rightarrow> 'o list \<Rightarrow> 'o HelmStorage" where
  "NewStorage c observers =
     \<lparr>Stg_Driver = CF_Driver c, Stg_Observers = observers, Stg_Log = CF_StorageLog c\<rparr>"

record 'o Configuration =
  Conf_RESTClientGetter :: "MemoryRESTClientGetter option"
  Conf_Releases :: "'o HelmStorage"
  Conf_KubeClient :: KubeClient
  Conf_Logger :: "nat option"
  Conf_HookOutput :: bool

definition Build :: "ConfigFactory \<Rightarrow> nat option \<Rightarrow> 'o list \<Rightarrow> 'o Configuration" where
  "Build c log observers =
     (let client = (NewClient (CF_Getter c))\<lparr>Client_newResourceManager := CF_NewResourceManager c,
                      Client_waitContext := CF_WaitContext c, Client_Logger := log\<rparr>
      in \<lparr>Conf_RESTClientGetter = CF_Getter c, Conf_Releases = NewStorage c observers,
          Conf_KubeClient = client, Conf_Logger = log, Conf_HookOutput = True\<rparr>)"


subsection \<open>What the getter promises\<close>

text \<open>A value that is created on the first call and kept: the three caches of a persistent getter.\<close>

locale kept_value =
  fixes kept :: "MemoryRESTClientGetter \<Rightarrow> object_id option"
    and fetch :: "MemoryRESTClientGetter \<Rightarrow> 'w \<Rightarrow> (gerror + object_id) \<times> MemoryRESTClientGetter \<times> 'w"
  assumes hit: "G_persistent g \<Longrightarrow> kept g = Some x \<Longrightarrow> fetch g w = (Inr x, g, w)"
    and stored: "G_persistent g \<Longrightarrow> fetch g w = (Inr x, g', w') \<Longrightarrow> kept g' = Some x"
    and persistent: "fetch g w = (r, g', w') \<Longrightarrow> G_persistent g' = G_persistent g"
begin

lemma fetched_twice:
  assumes "G_persistent g" "fetch g w = (Inr x, g', w')"
  shows "fetch g' w'' = (Inr x, g', w'')"
  using assms hit stored persistent by blast

end

lemma toDiscoveryClient_getter: "fst (snd (toDiscoveryClient A g w)) = g"
  by (auto simp: toDiscoveryClient_def split: sum.split prod.split)

text \<open>One call on the getter, and what it does to the caches: it fills them and never changes
  what is in them.\<close>

datatype getter_method = MDiscovery | MMapper | MLoader

fun getter_call :: "'w discovery_api \<Rightarrow> getter_method \<Rightarrow> 'w getter_call" where
  "getter_call A MDiscovery = ToDiscoveryClient A"
| "getter_call A MMapper = ToRESTMapper A"
| "getter_call A MLoader = ToRawKubeConfigLoader A"

fun getter_kept :: "getter_method \<Rightarrow> MemoryRESTClientGetter \<Rightarrow> object_id option" where
  "getter_kept MDiscovery = G_discoveryClient"
| "getter_kept MMapper = G_restMapper"
| "getter_kept MLoader = G_clientCfg"

fun getter_calls :: "'w discovery_api \<Rightarrow> getter_method list \<Rightarrow> MemoryRESTClientGetter \<Rightarrow> 'w \<Rightarrow> MemoryRESTClientGetter \<times> 'w" where
  "getter_calls A [] g w = (g, w)"
| "getter_calls A (m # ms) g w = (case getter_call A m g w of (_, g', w') \<Rightarrow> getter_calls A ms g' w')"

lemmas getter_defs = ToDiscoveryClient_def ToRESTMapper_def ToRawKubeConfigLoader_def
  toPersistentDiscoveryClient_def toPersistentRESTMapper_def toPersistentRawKubeConfigLoader_def
  toRESTMapper_def toRawKubeConfigLoader_def toDiscoveryClient_def

interpretation discovery: kept_value G_discoveryClient "ToDiscoveryClient A" for A
  by unfold_locales (auto simp: getter_defs split: option.splits sum.splits prod.splits if_splits)

interpretation mapper: kept_value G_restMapper "ToRESTMapper A" for A
  by unfold_locales (auto simp: getter_defs split: option.splits sum.splits prod.splits if_splits)

interpretation loader: kept_value G_clientCfg "ToRawKubeConfigLoader A" for A
  by unfold_locales (auto simp: getter_defs split: option.splits sum.splits prod.splits if_splits)

lemma getter_call_keeps:
  assumes "getter_call A m g w = (r, g', w')" "G_persistent g" "getter_kept n g = Some x"
  shows "getter_kept n g' = Some x \<and> G_persistent g'"
  using assms
  by (cases m; cases n) (auto simp: getter_defs split: option.splits sum.splits prod.splits if_splits)

lemma getter_calls_keep:
  assumes "G_persistent g" "getter_kept n g = Some x"
  shows "getter_kept n (fst (getter_calls A ms g w)) = Some x \<and> G_persistent (fst (getter_calls A ms g w))"
  using assms
proof (induction ms arbitrary: g w)
  case Nil
  then show ?case by simp
next
  case (Cons m ms)
  obtain r g' w' where c: "getter_call A m g w = (r, g', w')" by (metis prod_cases3)
  from getter_call_keeps [OF c Cons.prems] Cons.IH show ?case by (simp add: c)
qed

lemma getter_call_kept:
  assumes "G_persistent g"
  shows "getter_kept m g = Some x \<Longrightarrow> getter_call A m g w = (Inr x, g, w)"
    and "getter_call A m g w = (Inr x, g', w') \<Longrightarrow> getter_kept m g' = Some x \<and> G_persistent g'"
  using assms
  by (cases m; auto dest: discovery.hit mapper.hit loader.hit discovery.stored mapper.stored loader.stored
      discovery.persistent mapper.persistent loader.persistent)+

text \<open>A persistent getter hands out one discovery client, one REST mapper and one client
  configuration: once a method has returned an object, it returns the same object again, without
  touching anything, however the getter is used in between.\<close>

theorem persistent_getter_shares:
  assumes "G_persistent g" and "getter_call A m g w = (Inr x, g1, w1)"
    and "getter_calls A ms g1 w1 = (g2, w2)"
  shows "getter_call A m g2 w3 = (Inr x, g2, w3)"
proof -
  from getter_call_kept(2) [OF assms(1,2)] have "getter_kept m g1 = Some x" "G_persistent g1" by simp_all
  from getter_calls_keep [OF this(2,1), of A ms w1] assms(3)
  have "getter_kept m g2 = Some x" "G_persistent g2" by simp_all
  from getter_call_kept(1) [OF this(2,1)] show ?thesis .
qed

definition sample_discovery :: "nat discovery_api" where
  "sample_discovery = \<lparr>nDiscoveryClient = (\<lambda>cfg w. (Inr w, w + 1)), nMemCacheClient = (\<lambda>d w. (w, w + 1)),
     nRESTMapper = (\<lambda>d w. (w, w + 1)), nClientConfig = (\<lambda>ns i w. (w, w + 1))\<rparr>"

definition sample_getter :: MemoryRESTClientGetter where
  "sample_getter = NewMemoryRESTClientGetter
     \<lparr>Cfg_Impersonate = '''', Cfg_Burst = 0, Cfg_QPS = 0, Cfg_Wrappers = 0, Cfg_Rest = JNull\<rparr> [WithPersistent True]"

theorem persistent_getter_shares_witness:
  "let r = getter_call sample_discovery MMapper sample_getter 0;
       s = getter_calls sample_discovery [MLoader, MDiscovery] (fst (snd r)) (snd (snd r))
   in fst r = Inr 2 \<and> getter_call sample_discovery MMapper (fst s) 9 = (Inr 2, fst s, 9)"
proof -
  let ?r = "getter_call sample_discovery MMapper sample_getter 0"
  let ?s = "getter_calls sample_discovery [MLoader, MDiscovery] (fst (snd ?r)) (snd (snd ?r))"
  have "G_persistent sample_getter" "fst ?r = Inr 2"
    by (simp_all add: sample_getter_def sample_discovery_def NewMemoryRESTClientGetter_def WithPersistent_def
        setDefaults_def Let_def getter_defs ToRESTConfig_def)
  moreover from this(2) have "?r = (Inr 2, fst (snd ?r), snd (snd ?r))" by (metis prod.collapse)
  moreover have "?s = (fst ?s, snd ?s)" by simp
  ultimately have "getter_call sample_discovery MMapper (fst ?s) 9 = (Inr 2, fst ?s, 9)"
    using persistent_getter_shares [of sample_getter sample_discovery MMapper 0 2 "fst (snd ?r)" "snd (snd ?r)"
        "[MLoader, MDiscovery]" "fst ?s" "snd ?s" 9] by blast
  with \<open>fst ?r = Inr 2\<close> show ?thesis by (simp only: Let_def)
qed

subsection \<open>One retry\<close>

text \<open>The reference: a response that reports a change of the etcd leader, and sending at most twice.\<close>

definition leader_changed :: "(string \<Rightarrow> gerror + kubernetesError) \<Rightarrow> Response \<Rightarrow> bool" where
  "leader_changed decode resp \<longleftrightarrow> Resp_StatusCode resp \<ge> 500 \<and> Resp_ContentType resp = ''application/json'' \<and>
     (\<exists>b ke. Resp_Body resp = Inr b \<and> decode b = Inr ke \<and> KE_Code ke \<ge> 500 \<and>
        (HasSuffix (KE_Message ke) ''etcdserver: leader changed'' \<or> HasSuffix (KE_Message ke) ''raft proposal dropped''))"

definition body_error :: "(string \<Rightarrow> gerror + kubernetesError) \<Rightarrow> Response \<Rightarrow> gerror option" where
  "body_error decode resp =
     (if Resp_StatusCode resp < 500 \<or> Resp_ContentType resp \<noteq> ''application/json'' then None
      else (case Resp_Body resp of Inl e \<Rightarrow> Some e
         | Inr b \<Rightarrow> (case decode b of Inl e \<Rightarrow> Some e | Inr ke \<Rightarrow> None)))"

definition answer :: "(string \<Rightarrow> gerror + kubernetesError) \<Rightarrow> gerror + Response \<Rightarrow> Response option \<times> gerror option" where
  "answer decode r = (case r of Inl e \<Rightarrow> (None, Some e) | Inr resp \<Rightarrow> (Some resp, body_error decode resp))"

lemma leader_changed_no_error: "leader_changed decode resp \<Longrightarrow> body_error decode resp = None"
  by (auto simp: leader_changed_def body_error_def)

lemma roundTrip_step:
  assumes "retry \<ge> 0"
  shows "roundTrip decode wrapped req retry prev w =
    (case wrapped req w of (r, w') \<Rightarrow>
       (case r of Inl e \<Rightarrow> (answer decode r, w')
        | Inr resp \<Rightarrow> if leader_changed decode resp then roundTrip decode wrapped req (retry - 1) (Some resp) w'
                     else (answer decode r, w')))"
  using assms
  by (subst roundTrip.simps)
    (auto simp: answer_def body_error_def leader_changed_def split: prod.splits sum.splits if_splits)

text \<open>The retrying round tripper equals sending the request once and, exactly when the response
  reports a change of the etcd leader, once more; the second answer is final whatever it is.\<close>

theorem RoundTrip_retries_once:
  "RoundTrip decode wrapped req w =
     (case wrapped req w of (r, w') \<Rightarrow>
        (case r of Inl e \<Rightarrow> (answer decode r, w')
         | Inr resp \<Rightarrow> if leader_changed decode resp
                      then (case wrapped req w' of (r', w'') \<Rightarrow> (answer decode r', w''))
                      else (answer decode r, w')))"
proof -
  have final: "roundTrip decode wrapped req (-1) (Some resp) w'' = ((Some resp, None), w'')" for resp w''
    by (subst roundTrip.simps) simp
  have "roundTrip decode wrapped req 0 prev w' = (case wrapped req w' of (r', w'') \<Rightarrow> (answer decode r', w''))"
    for prev w'
    by (subst roundTrip_step)
      (auto simp: final answer_def leader_changed_no_error split: prod.splits sum.splits)
  then show ?thesis
    unfolding RoundTrip_def by (subst roundTrip_step) (auto split: prod.splits sum.splits)
qed

subsection \<open>The factory\<close>

text \<open>The configuration that the release reconcilers get stores releases as secrets of the given
  namespace, with the client of the getter.\<close>

lemma NewConfigFactory_storage:
  assumes "NewConfigFactory (Some g) [WithStorage clientSet DefaultStorageDriver ns, WithStorageLog l,
      WithResourceManager mgr, WithWaitContext] = Inr f"
  shows "ns \<noteq> '''' \<and> CF_Driver f = Some (SecretsDriver (Some g) ns) \<and> CF_Getter f = Some g \<and>
    CF_NewResourceManager f = mgr \<and> CF_WaitContext f"
  using assms
  by (auto simp: NewConfigFactory_def WithStorage_def WithStorageLog_def WithResourceManager_def
      WithWaitContext_def NewClient_def DefaultStorageDriver_def SecretsDriverName_def Let_def
      split: option.splits sum.splits if_splits)

end
