(* ===== verification/Sources.thy ===== *)
theory Sources
  imports ChartTemplate ClusterAccess
begin

section \<open>Sources of charts: internal/controller/helmrelease\_controller.go and internal/loader\<close>

text \<open>
  The part of the controller that resolves the source of the chart of a HelmRelease (by the
  reference of the specification or the one recorded in the status), checks that it is ready,
  loads the chart from its artifact and writes the digest of the artifact into the version of
  the chart. The semantic version library and the HTTP client are parameters.
\<close>

subsection \<open>The reconciler\<close>

text \<open>The configuration of \<^verbatim>\<open>HelmReleaseReconciler\<close>, with the two global variables
  \<^verbatim>\<open>acl.AllowCrossNamespaceRef\<close> and \<^verbatim>\<open>kube.DefaultServiceAccountName\<close>; its clients are
  functions of the environment.\<close>

record HelmReleaseReconciler =
  AllowCrossNamespaceRef :: bool
  DefaultServiceAccountName :: string
  DefaultKubeConfigServiceAccount :: string
  ClientOpts :: ClientOptions
  DependencyRequeueInterval :: duration
  ArtifactFetchRetries :: int64
  ArtifactFetchTimeout :: duration
  AdditiveCELDependencyCheck :: bool
  AllowExternalArtifact :: bool
  DefaultToRetryOnFailure :: bool
  DirectSourceFetch :: bool
  DisableChartDigestTracking :: bool

definition isValidChartRef :: "HelmRelease \<Rightarrow> bool" where
  "isValidChartRef obj \<longleftrightarrow>
     HasChartRef obj \<and> \<not> HasChartTemplate obj \<or> \<not> HasChartRef obj \<and> HasChartTemplate obj"

subsection \<open>Resolving the source\<close>

type_synonym Source = "SourceKind \<times> SourceObject"

definition getSourceClient ::
  "HelmReleaseReconciler \<Rightarrow> 'w source_api \<Rightarrow> SourceKind \<Rightarrow> string \<times> string \<Rightarrow> 'w \<Rightarrow> gerror + SourceObject" where
  "getSourceClient R S = (if DirectSourceFetch R then sAPIGet S else sGet S)"

definition fetch_source ::
  "HelmReleaseReconciler \<Rightarrow> 'w source_api \<Rightarrow> SourceKind \<Rightarrow> HelmChartReference \<Rightarrow> 'w \<Rightarrow> Source res" where
  "fetch_source R S kind ref w = (case getSourceClient R S kind (GetObjectKey ref) w of
       Inl e \<Rightarrow> Err e | Inr src \<Rightarrow> Ok (kind, src))"

definition getSourceFromOCIRef ::
  "HelmReleaseReconciler \<Rightarrow> 'w source_api \<Rightarrow> HelmRelease \<Rightarrow> 'w \<Rightarrow> Source res" where
  "getSourceFromOCIRef R S obj w =
     (let ref = Spec_GetHelmChartReference obj
      in bind_res (AllowsAccessTo (AllowCrossNamespaceRef R) obj ref) (\<lambda>_.
           case ref of None \<Rightarrow> Panic | Some r \<Rightarrow> fetch_source R S KOCIRepository r w))"

definition getSourceFromExternalArtifact ::
  "HelmReleaseReconciler \<Rightarrow> 'w source_api \<Rightarrow> HelmRelease \<Rightarrow> 'w \<Rightarrow> Source res" where
  "getSourceFromExternalArtifact R S obj w =
     (let ref = Spec_GetHelmChartReference obj
      in bind_res (AllowsAccessTo (AllowCrossNamespaceRef R) obj ref) (\<lambda>_.
           case ref of None \<Rightarrow> Panic
           | Some r \<Rightarrow>
              if map_option CSR_Kind (Spec_ChartRef (HR_Spec obj)) = Some ExternalArtifactKind \<and> \<not> AllowExternalArtifact R
              then Err (AccessDeniedError (''can'' @ CHR 0x27 # ''t access '' @ CHR 0x27 # HelmChartReference_String ref @
                     CHR 0x27 # '', ExternalArtifact feature gate is disabled''))
              else fetch_source R S KExternalArtifact r w))"

definition resolve_source ::
  "HelmReleaseReconciler \<Rightarrow> 'w source_api \<Rightarrow> HelmRelease \<Rightarrow> 'w \<Rightarrow> HelmChartReference option \<Rightarrow> Source res" where
  "resolve_source R S obj w ref = (case ref of
       None \<Rightarrow> Err (errors_New ''no Helm chart reference found'')
     | Some r \<Rightarrow> bind_res (AllowsAccessTo (AllowCrossNamespaceRef R) obj ref) (\<lambda>_.
         if Ref_Kind r = OCIRepositoryKind then fetch_source R S KOCIRepository r w
         else fetch_source R S KHelmChart r w))"

definition getSource :: "HelmReleaseReconciler \<Rightarrow> 'w source_api \<Rightarrow> HelmRelease \<Rightarrow> 'w \<Rightarrow> Source res" where
  "getSource R S obj w = (case Spec_ChartRef (HR_Spec obj) of
       Some chartRef \<Rightarrow>
         if CSR_Kind chartRef = OCIRepositoryKind then getSourceFromOCIRef R S obj w
         else if CSR_Kind chartRef = ExternalArtifactKind then getSourceFromExternalArtifact R S obj w
         else resolve_source R S obj w (Spec_GetHelmChartReference obj)
     | None \<Rightarrow> resolve_source R S obj w (Status_GetHelmChartReference (HR_Status obj)))"

text \<open>The object attached to the event when access to the source was denied: kind, API version,
  namespace and name.\<close>

definition sourceRefObject :: "HelmRelease \<Rightarrow> (string \<times> string \<times> string \<times> string) option" where
  "sourceRefObject obj = (case Spec_ChartRef (HR_Spec obj) of None \<Rightarrow> None
     | Some ref \<Rightarrow> Some
         (if CSR_Kind ref = '''' then HelmChartKind else CSR_Kind ref,
          if CSR_APIVersion ref = '''' then ''source.toolkit.fluxcd.io/v1'' else CSR_APIVersion ref,
          if CSR_Namespace ref = '''' then HR_Namespace obj else CSR_Namespace ref,
          CSR_Name ref))"

subsection \<open>Readiness\<close>

definition not_ready_message :: "string \<Rightarrow> SourceObject \<Rightarrow> string \<Rightarrow> string" where
  "not_ready_message kind src msg =
     kind @ '' '' @ CHR 0x27 # So_Namespace src @ ''/'' @ So_Name src @ CHR 0x27 # '' is not ready: '' @ msg"

definition IsFalse :: "cond_api \<Rightarrow> Condition list \<Rightarrow> string \<Rightarrow> bool" where
  "IsFalse C cs t = (case cGet C cs t of None \<Rightarrow> False | Some c \<Rightarrow> Cond_Status c = ConditionFalse)"

text \<open>The result is \<open>None\<close> for a ready object and otherwise the message that tells why it is not.\<close>

definition isReady :: "cond_api \<Rightarrow> SourceObject \<Rightarrow> Artifact option \<Rightarrow> string option" where
  "isReady C src artifact = (case So_ObservedGeneration src of
       Inl e \<Rightarrow> Some (Err_Msg e)
     | Inr observedGen \<Rightarrow>
        if So_Generation src \<noteq> observedGen
        then Some (not_ready_message (So_Kind src) src
               (if IsFalse C (So_Conditions src) ReadyCondition then cGetMessage C (So_Conditions src) ReadyCondition
                else ''latest generation of object has not been reconciled''))
        else if cIsTrue C (So_Conditions src) StalledCondition
        then Some (not_ready_message (So_Kind src) src (cGetMessage C (So_Conditions src) StalledCondition))
        else if artifact = None
        then Some (not_ready_message (So_Kind src) src ''does not have an artifact'')
        else None)"

text \<open>HelmChart and OCIRepository have conditions; the fall-back for other types is not reached.\<close>

definition isSourceReady :: "cond_api \<Rightarrow> Source \<Rightarrow> string option" where
  "isSourceReady C source = (case source of (kind, src) \<Rightarrow>
     if kind = KExternalArtifact
     then (if So_Artifact src = None then Some (not_ready_message ExternalArtifactKind src ''does not have an artifact'')
           else None)
     else isReady C src (So_Artifact src))"

subsection \<open>Loading the chart: internal/loader/artifact\_url.go\<close>

text \<open>\<open>getenv\<close> reads an environment variable, \<open>fetch\<close> downloads and verifies the artifact with the given
  retries, timeout and host name, \<open>load\<close> reads a chart archive.\<close>

record 'w loader_api =
  lGetenv :: "string \<Rightarrow> string"
  lFetchBytes :: "int64 \<Rightarrow> duration option \<Rightarrow> string \<Rightarrow> string \<Rightarrow> string \<Rightarrow> 'w \<Rightarrow> gerror + string"
  lLoadArchive :: "string \<Rightarrow> gerror + HelmChart"

definition SecureLoadChartFromURL ::
  "'w loader_api \<Rightarrow> string \<Rightarrow> string \<Rightarrow> int64 \<Rightarrow> duration \<Rightarrow> 'w \<Rightarrow> gerror + HelmChart" where
  "SecureLoadChartFromURL L URL digest retries timeout w =
     (let sourceLocalhost = lGetenv L (if Contains URL ''//source-watcher'' then ''SOURCE_WATCHER_LOCALHOST''
                                       else ''SOURCE_CONTROLLER_LOCALHOST'')
      in (case lFetchBytes L retries (if timeout > 0 then Some timeout else None) sourceLocalhost URL digest w of
          Inl e \<Rightarrow>
            if errors_Is e ErrFileNotFound
            then Inl (Errorf_w (''failed to download chart from '' @ CHR 0x27 # URL @ CHR 0x27 # '': '') (sentinel_err ErrFileNotFound) '''')
            else if errors_Is e ErrDigestMismatch
            then Inl (Errorf_w (''failed to download chart from '' @ CHR 0x27 # URL @ CHR 0x27 # '': '') e '''')
            else Inl e
        | Inr buf \<Rightarrow> lLoadArchive L buf))"

subsection \<open>The revision of the source in the version of the chart\<close>

text \<open>\<open>vCore\<close> is a version without its metadata; the other functions are those of the semver package.\<close>

record 'v semver_api =
  vNew :: "string \<Rightarrow> gerror + 'v"
  vEqual :: "'v \<Rightarrow> 'v \<Rightarrow> bool"
  vSetMetadata :: "'v \<Rightarrow> string \<Rightarrow> gerror + 'v"
  vString :: "'v \<Rightarrow> string"
  vCore :: "'v \<Rightarrow> string"

definition isSourceWithRevisionDigest :: "Source \<Rightarrow> bool" where
  "isSourceWithRevisionDigest source = (case source of (kind, src) \<Rightarrow>
     kind = KOCIRepository \<or>
     kind = KExternalArtifact \<and> (case So_Artifact src of None \<Rightarrow> False | Some a \<Rightarrow> Contains (Art_Revision a) '':''))"

definition parseSemverFromTag :: "'v semver_api \<Rightarrow> string \<Rightarrow> 'v option" where
  "parseSemverFromTag V tag =
     (let candidate = (if Contains tag ''@'' then ReplaceAll (hd (Split tag (CHR ''@''))) (CHR ''_'') (CHR ''+'') else tag)
      in (case vNew V candidate of Inl e \<Rightarrow> None | Inr ver \<Rightarrow> Some ver))"

definition extractDigestSubString :: "string \<Rightarrow> gerror + string" where
  "extractDigestSubString revision = (case Split revision (CHR '':'') of
       [alg, sha] \<Rightarrow> if length sha < 12 then Inl (errors_New (''invalid artifact revision '' @ revision)) else Inr (take 12 sha)
     | _ \<Rightarrow> Inl (errors_New (''invalid artifact revision '' @ revision)))"

definition extractDigest :: "string \<Rightarrow> string" where
  "extractDigest revision =
     (if Contains revision ''@''
      then (case Split revision (CHR ''@'') of [tag, digest] \<Rightarrow> digest | _ \<Rightarrow> '''')
      else revision)"

text \<open>The digest part of a revision and the digest to record; the version of the chart is the
  second argument.\<close>

definition revision_digest :: "'v semver_api \<Rightarrow> 'v \<Rightarrow> string \<Rightarrow> string \<Rightarrow> gerror + string \<times> string" where
  "revision_digest V ver chartVersion revision = (case parseSemverFromTag V revision of
       Some tagVer \<Rightarrow> (case Split revision (CHR ''@'') of
           [tag, digest] \<Rightarrow>
             if vEqual V tagVer ver
             then (case extractDigestSubString digest of Inl e \<Rightarrow> Inl e | Inr sha \<Rightarrow> Inr (sha, digest))
             else Inl (errors_New (''artifact revision '' @ tag @ '' does not match chart version '' @ chartVersion))
         | parts \<Rightarrow> Inl (errors_New (''artifact revision '' @ hd parts @ '' does not match chart version '' @ chartVersion)))
     | None \<Rightarrow> (case extractDigestSubString revision of Inl e \<Rightarrow> Inl e | Inr sha \<Rightarrow> Inr (sha, revision)))"

text \<open>The result is the digest and the chart with its version mutated.\<close>

definition mutateChartWithSourceRevision ::
  "HelmReleaseReconciler \<Rightarrow> 'v semver_api \<Rightarrow> HelmChart \<Rightarrow> Source \<Rightarrow> (string \<times> HelmChart) res" where
  "mutateChartWithSourceRevision R V chart source =
     (if \<not> isSourceWithRevisionDigest source then Ok ('''', chart)
      else (case vNew V (Meta_Version (Ch_Metadata chart)) of
          Inl e \<Rightarrow> Err (errors_New (''invalid chart version '' @ Meta_Version (Ch_Metadata chart)))
        | Inr ver \<Rightarrow> (case So_Artifact (snd source) of
            None \<Rightarrow> Panic
          | Some artifact \<Rightarrow>
             (case revision_digest V ver (Meta_Version (Ch_Metadata chart)) (Art_Revision artifact) of
                Inl e \<Rightarrow> Err e
              | Inr (sha, revDigest) \<Rightarrow> (case vSetMetadata V ver sha of
                  Inl e \<Rightarrow> Err e
                | Inr ver' \<Rightarrow> Ok (revDigest,
                    if DisableChartDigestTracking R then chart
                    else chart\<lparr>Ch_Metadata := (Ch_Metadata chart)\<lparr>Meta_Version := vString V ver'\<rparr>\<rparr>))))))"

subsection \<open>What the version and the recorded digest tell\<close>

text \<open>Setting metadata on a version appends it to what is printed; an instance.\<close>

definition semver_ok :: "'v semver_api \<Rightarrow> bool" where
  "semver_ok V \<longleftrightarrow> (\<forall>v m v'. vSetMetadata V v m = Inr v' \<longrightarrow> vString V v' = vCore V v @ ''+'' @ m)"

definition sample_semver :: "string semver_api" where
  "sample_semver = \<lparr>vNew = (\<lambda>s. if s \<noteq> '''' \<and> hd s \<in> {CHR ''0'', CHR ''6''} then Inr (takeWhile (\<lambda>c. c \<noteq> CHR ''+'') s)
       else Inl (errors_New ''Invalid Semantic Version'')),
     vEqual = (\<lambda>a b. a = b), vSetMetadata = (\<lambda>v m. Inr (v @ CHR ''+'' # m)), vString = (\<lambda>v. v), vCore = (\<lambda>v. v)\<rparr>"

lemma sample_semver_ok: "semver_ok sample_semver"
  by (simp add: semver_ok_def sample_semver_def)

lemma Contains_char: "Contains s [c] \<longleftrightarrow> c \<in> set s"
  by (induction s) auto

lemma extractDigestSubString_Inr:
  assumes "extractDigestSubString r = Inr sha"
  obtains alg hex where "Split r (CHR '':'') = [alg, hex]" "length hex \<ge> 12" "sha = take 12 hex"
  using assms by (auto simp: extractDigestSubString_def split: list.splits if_splits)

lemma revision_digest_Inr:
  assumes "revision_digest V ver cv revision = Inr (sha, d)"
    and "CHR ''@'' \<notin> set revision \<or> parseSemverFromTag V revision \<noteq> None"
  shows "d = extractDigest revision \<and> extractDigestSubString d = Inr sha"
proof (cases "parseSemverFromTag V revision")
  case None
  with assms have "CHR ''@'' \<notin> set revision" "d = revision" "extractDigestSubString revision = Inr sha"
    by (auto simp: revision_digest_def split: sum.splits)
  then show ?thesis by (simp add: extractDigest_def Contains_char)
next
  case (Some tagVer)
  then obtain tag where split: "Split revision (CHR ''@'') = [tag, d]" and "extractDigestSubString d = Inr sha"
    using assms(1) by (auto simp: revision_digest_def split: list.splits if_splits sum.splits)
  moreover have "CHR ''@'' \<in> set revision"
  proof (rule ccontr)
    assume "CHR ''@'' \<notin> set revision"
    from Split_no_sep [OF this] split show False by simp
  qed
  ultimately show ?thesis by (simp add: extractDigest_def Contains_char)
qed


definition oci_source :: "string \<Rightarrow> Source" where
  "oci_source revision = (KOCIRepository, (sample_source_object (''ns'', ''podinfo''))\<lparr>So_Artifact :=
     Some \<lparr>Art_URL = '''', Art_Revision = revision, Art_Digest = ''''\<rparr>\<rparr>)"

definition sample_reconciler :: HelmReleaseReconciler where
  "sample_reconciler = \<lparr>AllowCrossNamespaceRef = False, DefaultServiceAccountName = '''', DefaultKubeConfigServiceAccount = '''',
     ClientOpts = \<lparr>Opt_QPS = 50, Opt_Burst = 300\<rparr>, DependencyRequeueInterval = 30 * Second, ArtifactFetchRetries = 9,
     ArtifactFetchTimeout = 0, AdditiveCELDependencyCheck = False, AllowExternalArtifact = False,
     DefaultToRetryOnFailure = False, DirectSourceFetch = False, DisableChartDigestTracking = False\<rparr>"


text \<open>A tag that is not a semantic version: the whole revision is recorded, and events of the source
  are compared with its digest.\<close>

lemma other_tag_not_recognized:
  "case mutateChartWithSourceRevision sample_reconciler sample_semver (Chart sample_request)
       (oci_source ''latest@sha256:0123456789abcdef'') of
     Ok (d, chart') \<Rightarrow> d = ''latest@sha256:0123456789abcdef'' \<and> d \<noteq> extractDigest ''latest@sha256:0123456789abcdef''
   | _ \<Rightarrow> False"
  by code_simp

end
