(* ===== verification/Controller.thy ===== *)
theory Controller
  imports ReleaseLoop Sources
begin

section \<open>The controller: internal/controller/helmrelease\_controller.go\<close>

text \<open>
  The reconciler that the controller runtime calls with the name of a HelmRelease: it fetches the
  object, handles its deletion, adds the finalizer, reconciles the chart of the template, checks
  the dependencies, resolves the source, the values and the chart, uninstalls a release whose
  target changed, runs the release loop and translates its result; a deferred function persists
  the object in every case. Each step of \<^verbatim>\<open>reconcileRelease\<close> is a definition that calls the next.
  An outcome is the pair that Go returns, or \<open>None\<close> when the code panics.
\<close>

subsection \<open>The environment of the controller\<close>

record ('w, 'v) ctrl_env =
  xEnv :: "'w env"
  xHelm :: "ConfigFactory \<Rightarrow> 'w helm_api"
  xKube :: "ConfigFactory \<Rightarrow> 'w kube_api"
  xSources :: "'w source_api"
  xLoader :: "'w loader_api"
  xSemver :: "'v semver_api"
  xDiscovery :: "'w discovery_api"
  xGetHelmRelease :: "string \<times> string \<Rightarrow> 'w \<Rightarrow> gerror + HelmRelease"
  xAPIGetHelmRelease :: "string \<times> string \<Rightarrow> 'w \<Rightarrow> gerror + HelmRelease"
  xPatchObserved :: "HelmRelease \<Rightarrow> 'w \<Rightarrow> gerror option \<times> 'w"
  xFilterNotFound :: "gerror \<Rightarrow> gerror option"
  xPoll :: "('w \<Rightarrow> gerror + bool) \<Rightarrow> 'w \<Rightarrow> 'w"
  xStatusReader :: "json list \<Rightarrow> gerror option"
  xToUnstructured :: "HelmRelease \<Rightarrow> gerror + json"
  xNewExpression :: "string \<Rightarrow> gerror option"
  xEvaluateBoolean :: "string \<Rightarrow> json \<Rightarrow> json \<Rightarrow> gerror + bool"
  xChartValues :: "string \<Rightarrow> values \<Rightarrow> ValuesReference list \<Rightarrow> 'w \<Rightarrow> gerror + values"
  xClusterConfig :: "'w \<Rightarrow> gerror + RestConfig"
  xAuthRESTConfig :: "string \<Rightarrow> KubeConfigReference \<Rightarrow> HelmRelease \<Rightarrow> 'w \<Rightarrow> gerror + RestConfig"
  xGetSecret :: "string \<times> string \<Rightarrow> 'w \<Rightarrow> gerror + Secret"
  xKubeConfigFromBytes :: "string \<Rightarrow> gerror + RestConfig"
  xKubeConfig :: "RestConfig \<Rightarrow> RestConfig"
  xNewClient :: "RestConfig \<Rightarrow> 'w \<Rightarrow> gerror option"
  xClientSet :: "KubeClient option \<Rightarrow> gerror option"
  xGetServiceAccount :: "string \<times> string \<Rightarrow> 'w \<Rightarrow> gerror option"
  xDeleteTokens :: "string \<Rightarrow> string \<Rightarrow> 'w \<Rightarrow> 'w"
  xTrigger :: "'w \<Rightarrow> string"
  xJitter :: "duration \<Rightarrow> duration"

record Result =
  Requeue :: bool
  RequeueAfter :: duration

definition Result_zero :: Result where "Result_zero = \<lparr>Requeue = False, RequeueAfter = 0\<rparr>"

definition Result_requeue :: Result where "Result_requeue = \<lparr>Requeue = True, RequeueAfter = 0\<rparr>"

definition IsZero :: "Result \<Rightarrow> bool" where "IsZero r \<longleftrightarrow> r = Result_zero"

type_synonym outcome = "(Result \<times> gerror option) option"

definition HelmReleaseFinalizer :: string where "HelmReleaseFinalizer = ''finalizers.fluxcd.io''"
definition InvalidCELExpressionReason :: string where "InvalidCELExpressionReason = ''InvalidCELExpression''"
definition AccessDeniedReason :: string where "AccessDeniedReason = ''AccessDenied''"
definition HealthCheckCanceledReason :: string where "HealthCheckCanceledReason = ''HealthCheckCanceled''"

definition terminalErrorMessage :: string where
  "terminalErrorMessage = ''Reconciliation failed terminally due to configuration error''"

text \<open>The environment in which the release reconcilers run with a configuration.\<close>

definition env_for :: "('w, 'v) ctrl_env \<Rightarrow> HelmReleaseReconciler \<Rightarrow> ConfigFactory \<Rightarrow> 'w env" where
  "env_for X R cfg = (xEnv X)\<lparr>eHelm := xHelm X cfg, eKube := xKube X cfg,
     eFlags := (eFlags (xEnv X))\<lparr>defaultToRetryOnFailure := DefaultToRetryOnFailure R\<rparr>\<rparr>"

definition HasAnyReason :: "cond_api \<Rightarrow> Condition list \<Rightarrow> string \<Rightarrow> string list \<Rightarrow> bool" where
  "HasAnyReason C cs t reasons = (case cGet C cs t of None \<Rightarrow> False | Some c \<Rightarrow> Cond_Reason c \<in> set reasons)"

definition ready_false :: "('w, 'v) ctrl_env \<Rightarrow> string \<Rightarrow> string \<Rightarrow> 'w Request \<Rightarrow> 'w Request" where
  "ready_false X = Mark (xEnv X) ReadyCondition ConditionFalse"

text \<open>Removing a stale \<open>Ready=False\<close> of an earlier step.\<close>

definition ready_unknown :: "('w, 'v) ctrl_env \<Rightarrow> string list \<Rightarrow> 'w Request \<Rightarrow> 'w Request" where
  "ready_unknown X reasons req =
     (if HasAnyReason (eCond (xEnv X)) (Conditions (Object req)) ReadyCondition reasons
      then Mark (xEnv X) ReadyCondition ConditionUnknown ProgressingReason ''reconciliation in progress'' req
      else req)"

subsection \<open>Clients\<close>

definition getter_options :: "HelmReleaseReconciler \<Rightarrow> HelmRelease \<Rightarrow> GetterOption list" where
  "getter_options R obj =
     [WithNamespace (GetReleaseNamespace obj), WithClientOptions (ClientOpts R),
      WithImpersonate (DefaultServiceAccountName R) (Spec_ServiceAccountName (HR_Spec obj)) (HR_Namespace obj),
      WithPersistent (UsePersistentClient obj)]"

definition buildRESTClientGetter ::
  "('w, 'v) ctrl_env \<Rightarrow> HelmReleaseReconciler \<Rightarrow> HelmRelease \<Rightarrow> 'w \<Rightarrow> gerror + MemoryRESTClientGetter" where
  "buildRESTClientGetter X R obj w =
     (let opts = getter_options R obj;
          made = (\<lambda>restConfig. case restConfig of Inl e \<Rightarrow> Inl e | Inr cfg \<Rightarrow> Inr (NewMemoryRESTClientGetter cfg opts))
      in (case Spec_KubeConfig (HR_Spec obj) of
          None \<Rightarrow> (case xClusterConfig X w of
              Inl e \<Rightarrow> Inl (Errorf_w ''could not get in-cluster REST config: '' e '''')
            | Inr cfg \<Rightarrow> Inr (NewMemoryRESTClientGetter cfg opts))
        | Some kc \<Rightarrow> (case (KC_ConfigMapRef kc, KC_SecretRef kc) of
              (Some _, None) \<Rightarrow> made (xAuthRESTConfig X (DefaultKubeConfigServiceAccount R) kc obj w)
            | (None, Some (name, key)) \<Rightarrow>
                (case xGetSecret X (HR_Namespace obj, name) w of
                   Inl e \<Rightarrow> Inl (Errorf_w (''could not get KubeConfig secret '' @ CHR 0x27 # HR_Namespace obj @ ''/'' @ name @
                              CHR 0x27 # '': '') e '''')
                 | Inr secret \<Rightarrow> made (ConfigFromSecret (xKubeConfigFromBytes X) (xKubeConfig X) (Some secret) key))
            | _ \<Rightarrow> Inl (errors_New ''exactly one of .spec.kubeConfig.configMapRef or spec.kubeConfig.secretRef must be set''))))"

definition newResourceManager ::
  "('w, 'v) ctrl_env \<Rightarrow> MemoryRESTClientGetter \<Rightarrow> json list option \<Rightarrow> 'w \<Rightarrow>
     (gerror + ResourceManagers) \<times> MemoryRESTClientGetter \<times> 'w" where
  "newResourceManager X getter exprs w = (case ToRESTConfig getter of
       Inl e \<Rightarrow> (Inl e, getter, w)
     | Inr restConfig \<Rightarrow> (case xNewClient X restConfig w of
         Some e \<Rightarrow> (Inl e, getter, w)
       | None \<Rightarrow> (case ToRESTMapper (xDiscovery X) getter w of
           (Inl e, getter', w') \<Rightarrow> (Inl e, getter', w')
         | (Inr restMapper, getter', w') \<Rightarrow> (Inr \<lparr>RM_Getter = getter', RM_Spec = exprs\<rparr>, getter', w'))))"

subsection \<open>Dependencies\<close>

definition evalReadyExpr :: "('w, 'v) ctrl_env \<Rightarrow> string \<Rightarrow> json \<Rightarrow> HelmRelease \<Rightarrow> gerror + bool" where
  "evalReadyExpr X expr selfMap dep = (case xNewExpression X expr of
       Some e \<Rightarrow> Inl (TerminalError (Errorf_w (''failed to evaluate dependency '' @ HR_Name dep @ '': '') e ''''))
     | None \<Rightarrow> (case xToUnstructured X dep of
         Inl e \<Rightarrow> Inl (Errorf_w ''failed to convert dep object to map: '' e '''')
       | Inr depMap \<Rightarrow> xEvaluateBoolean X expr selfMap depMap))"

definition dependency_key :: "HelmRelease \<Rightarrow> DependencyReference \<Rightarrow> string \<times> string" where
  "dependency_key obj d = (if Dep_Namespace d = '''' then HR_Namespace obj else Dep_Namespace d, Dep_Name d)"

definition quoted_key :: "string \<times> string \<Rightarrow> string" where
  "quoted_key key = CHR 0x27 # fst key @ ''/'' @ snd key @ [CHR 0x27]"

definition checkDependency ::
  "('w, 'v) ctrl_env \<Rightarrow> HelmReleaseReconciler \<Rightarrow> HelmRelease \<Rightarrow> json \<Rightarrow> 'w \<Rightarrow> DependencyReference \<Rightarrow> gerror option" where
  "checkDependency X R obj objMap w depRef =
     (let depName = dependency_key obj depRef
      in (case xAPIGetHelmRelease X depName w of
          Inl e \<Rightarrow> Some (Errorf_w (''unable to get '' @ quoted_key depName @ '' dependency: '') e '''')
        | Inr dep \<Rightarrow>
           (let builtin = (if HR_Generation dep \<noteq> St_ObservedGeneration (HR_Status dep) \<or>
                              \<not> cIsTrue (eCond (xEnv X)) (Conditions dep) ReadyCondition
                           then Some (errors_New (''dependency '' @ quoted_key depName @ '' is not ready'')) else None)
            in if Dep_ReadyExpr depRef \<noteq> ''''
               then (case evalReadyExpr X (Dep_ReadyExpr depRef) objMap dep of
                   Inl e \<Rightarrow> Some e
                 | Inr False \<Rightarrow> Some (errors_New (''dependency '' @ quoted_key depName @ '' is not ready according to readyExpr eval''))
                 | Inr True \<Rightarrow> if \<not> AdditiveCELDependencyCheck R then None else builtin)
               else builtin)))"

fun check_each :: "('d \<Rightarrow> gerror option) \<Rightarrow> 'd list \<Rightarrow> gerror option" where
  "check_each check [] = None"
| "check_each check (d # ds) = (case check d of Some e \<Rightarrow> Some e | None \<Rightarrow> check_each check ds)"

definition checkDependencies ::
  "('w, 'v) ctrl_env \<Rightarrow> HelmReleaseReconciler \<Rightarrow> HelmRelease \<Rightarrow> 'w \<Rightarrow> gerror option" where
  "checkDependencies X R obj w = (case xToUnstructured X obj of
       Inl e \<Rightarrow> Some (Errorf_w ''failed to convert HelmRelease to unstructured: '' e '''')
     | Inr objMap \<Rightarrow> check_each (checkDependency X R obj objMap w) (Spec_DependsOn (HR_Spec obj)))"

subsection \<open>Uninstalling\<close>

text \<open>The configuration for the storage namespace in the status; the resource manager is built
  afterwards and added to it.\<close>

definition reconcileUninstall ::
  "('w, 'v) ctrl_env \<Rightarrow> HelmReleaseReconciler \<Rightarrow> MemoryRESTClientGetter \<Rightarrow> 'w Request \<Rightarrow> unit res \<times> 'w Request" where
  "reconcileUninstall X R getter req =
     (case NewConfigFactory (Some getter)
         [WithStorage (xClientSet X) DefaultStorageDriver (St_StorageNamespace (HR_Status (Object req))),
          WithStorageLog 0, WithWaitContext] of
       Inl e \<Rightarrow> (Err e, ready_false X ''ConfigFactoryErr'' (Err_Msg e) req)
     | Inr cfg \<Rightarrow> (case newResourceManager X getter None (World req) of
         (Inl e, getter', w') \<Rightarrow>
           (Err e, ready_false X UninstallFailedReason
              (''failed to build resource manager to uninstall release: '' @ Err_Msg e) (set_world w' req))
       | (Inr rm, getter', w') \<Rightarrow>
           Uninstall_Reconcile (env_for X R (cfg\<lparr>CF_NewResourceManager := Some rm\<rparr>)) (set_world w' req)))"

subsection \<open>Reconciling the release, from its last step to its first\<close>

definition returning :: "Result \<Rightarrow> gerror option \<Rightarrow> 'w Request \<Rightarrow> outcome \<times> 'w Request" where
  "returning result err req = (Some (result, err), req)"

text \<open>The result of the release loop.\<close>

definition release_result ::
  "('w, 'v) ctrl_env \<Rightarrow> HelmReleaseReconciler \<Rightarrow> unit res \<times> 'w Request \<Rightarrow> outcome \<times> 'w Request" where
  "release_result X R out = (case out of
       (Panic, req) \<Rightarrow> (None, req)
     | (Ok _, req) \<Rightarrow> returning \<lparr>Requeue = False, RequeueAfter = xJitter X (GetRequeueAfter (Object req))\<rparr> None req
     | (Err e, req) \<Rightarrow>
        if eEnqueued (xEnv X) (World req)
        then returning Result_requeue None
          (emit None EventTypeNormal HealthCheckCanceledReason ActionHealthCheck
             (''Health checks canceled due to new reconciliation triggered by '' @ xTrigger X (World req))
             (ready_false X HealthCheckCanceledReason (''New reconciliation triggered by '' @ xTrigger X (World req)) req))
        else if errors_Is e ErrRetryAfterInterval
        then (case GetActiveRetry (Object req) (DefaultToRetryOnFailure R) of
            None \<Rightarrow> (None, req)
          | Some retry \<Rightarrow> returning \<lparr>Requeue = False, RequeueAfter = xJitter X (GetRetryInterval retry)\<rparr> None req)
        else if errors_Is e ErrMustRequeue then returning Result_requeue None req
        else if IsOneOf (Some e) [ErrExceededMaxRetries, ErrMissingRollbackTarget]
        then returning Result_zero (Some (TerminalError e)) req
        else returning Result_zero (Some e) req)"

text \<open>What is noted in the status before an attempt.\<close>

definition set_attempted :: "'w env \<Rightarrow> HelmChart \<Rightarrow> values \<Rightarrow> string \<Rightarrow> HelmRelease \<Rightarrow> HelmRelease" where
  "set_attempted E chart vals ociDigest obj = with_status (\<lambda>st. st
     \<lparr>St_LastAttemptedGeneration := HR_Generation obj,
      St_LastAttemptedRevision := Meta_Version (Ch_Metadata chart),
      St_LastAttemptedRevisionDigest := ociDigest,
      St_LastAttemptedConfigDigest := dDigestValues (eDigest E) (dCanonical (eDigest E)) vals,
      St_LastAttemptedValuesChecksum := '''',
      St_LastReleaseRevision := 0\<rparr>) obj"

definition note_attempt ::
  "('w, 'v) ctrl_env \<Rightarrow> HelmChart \<Rightarrow> values \<Rightarrow> string \<Rightarrow> HelmRelease \<Rightarrow> HelmRelease" where
  "note_attempt X chart vals ociDigest obj =
     (let obj1 = with_status (\<lambda>st. st\<lparr>St_StorageNamespace := GetStorageNamespace obj\<rparr>) obj
      in (case MustResetFailures (xEnv X) obj1 (Ch_Metadata chart) vals of (reason, obj2) \<Rightarrow>
           set_attempted (xEnv X) chart vals ociDigest
             (if reason \<noteq> None then with_status ClearFailures obj2 else obj2)))"

definition perform_release ::
  "('w, 'v) ctrl_env \<Rightarrow> HelmReleaseReconciler \<Rightarrow> MemoryRESTClientGetter \<Rightarrow> ResourceManagers \<Rightarrow> HelmChart \<Rightarrow> values \<Rightarrow>
     string \<Rightarrow> 'w Request \<Rightarrow> outcome \<times> 'w Request" where
  "perform_release X R getter rm chart vals ociDigest req =
     (let req1 = on_object (note_attempt X chart vals ociDigest) req
      in (case NewConfigFactory (Some getter)
            [WithStorage (xClientSet X) DefaultStorageDriver (St_StorageNamespace (HR_Status (Object req1))),
             WithStorageLog 0, WithResourceManager (Some rm), WithWaitContext] of
          Inl e \<Rightarrow> returning Result_zero (Some e) (ready_false X ''FactoryError'' (Err_Msg e) req1)
        | Inr cfg \<Rightarrow>
           release_result X R (AtomicRelease_Reconcile (env_for X R cfg)
             ((ready_unknown X [''FactoryError''] req1)\<lparr>Chart := chart, Values := vals\<rparr>))))"

text \<open>A release whose target changed is uninstalled and forgotten first. \<^verbatim>\<open>ReleaseTargetChanged\<close> sorts
  the history.\<close>

definition target_must_change :: "('w, 'v) ctrl_env \<Rightarrow> HelmChart \<Rightarrow> HelmRelease \<Rightarrow> bool" where
  "target_must_change X chart obj = (case ReleaseTargetChanged (eDigest (xEnv X)) obj (Meta_Name (Ch_Metadata chart)) of
       None \<Rightarrow> False
     | Some reason \<Rightarrow> reason \<noteq> ''chart name'' \<or>
         GetChartNameChangeStrategy (GetUpgrade obj) = ChartNameChangeStrategyReinstall)"

definition forget_release :: "HelmReleaseStatus \<Rightarrow> HelmReleaseStatus" where
  "forget_release st = (ClearFailures (ClearHistory st))\<lparr>St_StorageNamespace := ''''\<rparr>"

definition reconcile_target ::
  "('w, 'v) ctrl_env \<Rightarrow> HelmReleaseReconciler \<Rightarrow> MemoryRESTClientGetter \<Rightarrow> ResourceManagers \<Rightarrow> HelmChart \<Rightarrow> values \<Rightarrow>
     string \<Rightarrow> 'w Request \<Rightarrow> outcome \<times> 'w Request" where
  "reconcile_target X R getter rm chart vals ociDigest req0 =
     (let req = sort_history req0
      in if target_must_change X chart (Object req)
         then (case reconcileUninstall X R getter req of
             (Panic, req') \<Rightarrow> (None, req')
           | (Err e, req') \<Rightarrow> if errors_Is e ErrNoLatest then returning Result_requeue None (on_status forget_release req')
                              else returning Result_zero (Some e) req'
           | (Ok _, req') \<Rightarrow> returning Result_requeue None (on_status forget_release req'))
         else perform_release X R getter rm chart vals ociDigest req)"

definition reconcile_clients ::
  "('w, 'v) ctrl_env \<Rightarrow> HelmReleaseReconciler \<Rightarrow> HelmChart \<Rightarrow> values \<Rightarrow> string \<Rightarrow> 'w Request \<Rightarrow> outcome \<times> 'w Request" where
  "reconcile_clients X R chart vals ociDigest req =
     (case buildRESTClientGetter X R (Object req) (World req) of
        Inl e \<Rightarrow> returning Result_zero (Some e) (ready_false X ''RESTClientError'' (Err_Msg e) req)
      | Inr getter \<Rightarrow>
         (case newResourceManager X getter (Some (Spec_HealthCheckExprs (HR_Spec (Object req)))) (World req) of
            (Inl e, getter', w') \<Rightarrow>
              returning Result_zero (Some e) (ready_false X ''ResourceManagerError'' (Err_Msg e) (set_world w' req))
          | (Inr rm, getter', w') \<Rightarrow>
              reconcile_target X R getter' rm chart vals ociDigest
                (ready_unknown X [''RESTClientError''] (set_world w' req))))"

definition reconcile_chart ::
  "('w, 'v) ctrl_env \<Rightarrow> HelmReleaseReconciler \<Rightarrow> Source \<Rightarrow> HelmChart \<Rightarrow> values \<Rightarrow> 'w Request \<Rightarrow> outcome \<times> 'w Request" where
  "reconcile_chart X R source loadedChart vals req =
     (case mutateChartWithSourceRevision R (xSemver X) loadedChart source of
        Panic \<Rightarrow> (None, req)
      | Err e \<Rightarrow> returning Result_zero (Some e) (ready_false X ''ChartMutateError'' (Err_Msg e) req)
      | Ok (ociDigest, chart) \<Rightarrow> reconcile_clients X R chart vals ociDigest req)"

definition reconcile_load ::
  "('w, 'v) ctrl_env \<Rightarrow> HelmReleaseReconciler \<Rightarrow> Source \<Rightarrow> values \<Rightarrow> 'w Request \<Rightarrow> outcome \<times> 'w Request" where
  "reconcile_load X R source vals req = (case So_Artifact (snd source) of
       None \<Rightarrow> (None, req)
     | Some artifact \<Rightarrow>
        (case SecureLoadChartFromURL (xLoader X) (Art_URL artifact) (Art_Digest artifact) (ArtifactFetchRetries R)
            (ArtifactFetchTimeout R) (World req) of
           Inr loadedChart \<Rightarrow> reconcile_chart X R source loadedChart vals (ready_unknown X [ArtifactFailedReason] req)
         | Inl e \<Rightarrow>
            if errors_Is e ErrFileNotFound \<or> errors_Is e ErrDigestMismatch
            then (let cause = (if errors_Is e ErrDigestMismatch then ''artifact digest changed'' else ''artifact not found'');
                      msg = ''Source not ready: '' @ cause @ ''. Retrying in '' @ Duration_String (DependencyRequeueInterval R)
                  in returning \<lparr>Requeue = False, RequeueAfter = DependencyRequeueInterval R\<rparr>
                       (Some (sentinel_err ErrWaitForDependency)) (ready_false X ArtifactFailedReason msg req))
            else returning Result_zero (Some e)
              (emit None EventTypeWarning ArtifactFailedReason ActionResolveSource (Err_Msg e)
                 (ready_false X ArtifactFailedReason (''Could not load chart: '' @ Err_Msg e) req))))"

definition reconcile_values ::
  "('w, 'v) ctrl_env \<Rightarrow> HelmReleaseReconciler \<Rightarrow> Source \<Rightarrow> 'w Request \<Rightarrow> outcome \<times> 'w Request" where
  "reconcile_values X R source req =
     (case xChartValues X (HR_Namespace (Object req)) (GetValues (Object req)) (Spec_ValuesFrom (HR_Spec (Object req))) (World req) of
        Inl e \<Rightarrow> returning Result_zero (Some e)
          (emit None EventTypeWarning ''ValuesError'' ActionResolveValues (Err_Msg e)
             (ready_false X ''ValuesError'' (Err_Msg e) req))
      | Inr vals \<Rightarrow> reconcile_load X R source vals (ready_unknown X [''ValuesError''] req))"

definition reconcile_source ::
  "('w, 'v) ctrl_env \<Rightarrow> HelmReleaseReconciler \<Rightarrow> 'w Request \<Rightarrow> outcome \<times> 'w Request" where
  "reconcile_source X R req = (case getSource R (xSources X) (Object req) (World req) of
       Panic \<Rightarrow> (None, req)
     | Err e \<Rightarrow>
        if errors_Is e AccessDenied
        then returning Result_zero (Some (TerminalError e))
          (emit None EventTypeWarning AccessDeniedReason ActionResolveSource (Err_Msg e)
             (DeleteCondition (xEnv X) ReconcilingCondition
                (ready_false X AccessDeniedReason (Err_Msg e) (MarkStalled (xEnv X) AccessDeniedReason (Err_Msg e) req))))
        else returning Result_zero (Some e)
          (ready_false X ArtifactFailedReason (''could not get Source object: '' @ Err_Msg e) req)
     | Ok source \<Rightarrow>
        (let req1 = ready_unknown X [AccessDeniedReason, ArtifactFailedReason] req
         in (case isSourceReady (eCond (xEnv X)) source of
             Some msg \<Rightarrow> returning \<lparr>Requeue = False, RequeueAfter = xJitter X (DependencyRequeueInterval R)\<rparr>
               (Some (sentinel_err ErrWaitForChart)) (ready_false X ''SourceNotReady'' msg req1)
           | None \<Rightarrow> reconcile_values X R source (ready_unknown X [''SourceNotReady''] req1))))"

definition reconcile_dependencies ::
  "('w, 'v) ctrl_env \<Rightarrow> HelmReleaseReconciler \<Rightarrow> 'w Request \<Rightarrow> outcome \<times> 'w Request" where
  "reconcile_dependencies X R req =
     (case (if Spec_DependsOn (HR_Spec (Object req)) \<noteq> [] then checkDependencies X R (Object req) (World req) else None) of
        Some e \<Rightarrow>
          if errors_Is e TerminalErr
          then (let errMsg = terminalErrorMessage @ '': '' @ Err_Msg e
                in returning Result_zero (Some e)
                  (emit None EventTypeWarning InvalidCELExpressionReason ActionCheckDependencies (Err_Msg e)
                     (MarkStalled (xEnv X) InvalidCELExpressionReason errMsg
                        (ready_false X InvalidCELExpressionReason errMsg req))))
          else returning \<lparr>Requeue = False, RequeueAfter = DependencyRequeueInterval R\<rparr> (Some (sentinel_err ErrWaitForDependency))
            (emit None EventTypeNormal DependencyNotReadyReason ActionCheckDependencies (Err_Msg e)
               (ready_false X DependencyNotReadyReason (Err_Msg e) req))
      | None \<Rightarrow> reconcile_source X R (ready_unknown X [DependencyNotReadyReason] req))"

definition reconcileRelease ::
  "('w, 'v) ctrl_env \<Rightarrow> HelmReleaseReconciler \<Rightarrow> 'w Request \<Rightarrow> outcome \<times> 'w Request" where
  "reconcileRelease X R req =
     (let req1 = MarkReconciling (xEnv X) ProgressingReason ''Fulfilling prerequisites'' req
      in (case ePatch (xEnv X) (Object req1) (World req1) of
          (Some e, w') \<Rightarrow> returning Result_zero (Some e) (set_world w' req1)
        | (None, w') \<Rightarrow> reconcile_dependencies X R (set_world w' req1)))"

subsection \<open>Deletion\<close>

text \<open>The service account that is impersonated is the part of the user name after the last colon.\<close>

definition impersonated_account :: "string \<Rightarrow> string" where
  "impersonated_account user = (case LastIndex user (CHR '':'') of None \<Rightarrow> user | Some i \<Rightarrow> drop (i + 1) user)"

text \<open>Whether the uninstallation goes ahead (\<open>Ok True\<close>), is skipped (\<open>Ok False\<close>) or fails.\<close>

definition confirm_account ::
  "('w, 'v) ctrl_env \<Rightarrow> MemoryRESTClientGetter \<Rightarrow> 'w Request \<Rightarrow> bool res \<times> 'w Request" where
  "confirm_account X getter req =
     (if Spec_KubeConfig (HR_Spec (Object req)) \<noteq> None then (Ok True, req)
      else (case ToRESTConfig getter of
          Inl e \<Rightarrow> (Err e, req)
        | Inr cfg \<Rightarrow>
           if Cfg_Impersonate cfg = '''' then (Ok True, req)
           else (let serviceAccount = impersonated_account (Cfg_Impersonate cfg)
                 in (case xGetServiceAccount X (HR_Namespace (Object req), serviceAccount) (World req) of
                     None \<Rightarrow> (Ok True, req)
                   | Some e \<Rightarrow>
                      if IgnoreNotFound (Some e) = None then (Ok False, req)
                      else (Err e, ready_false X UninstallFailedReason
                              (''failed to confirm ServiceAccount '' @ CHR 0x27 # serviceAccount @ CHR 0x27 #
                                 '' can be used to uninstall release: '' @ Err_Msg e) req)))))"

definition forget_deleted :: "HelmReleaseStatus \<Rightarrow> HelmReleaseStatus" where
  "forget_deleted st = (ClearHistory st)\<lparr>St_StorageNamespace := ''''\<rparr>"

definition reconcileReleaseDeletion ::
  "('w, 'v) ctrl_env \<Rightarrow> HelmReleaseReconciler \<Rightarrow> 'w Request \<Rightarrow> unit res \<times> 'w Request" where
  "reconcileReleaseDeletion X R req =
     (if HR_DeletionTimestamp (Object req) = None
      then (Err (errors_New ''refusing to uninstall Helm release: deletion timestamp is not set''), req)
      else if St_StorageNamespace (HR_Status (Object req)) = '''' then (Ok (), req)
      else (case buildRESTClientGetter X R (Object req) (World req) of
          Inl e \<Rightarrow>
            if errors_Is e ApiNotFound then (Ok (), req)
            else (Err e, ready_false X UninstallFailedReason
                    (''failed to build REST client getter to uninstall release: '' @ Err_Msg e) req)
        | Inr getter \<Rightarrow> (case confirm_account X getter req of
            (Panic, req1) \<Rightarrow> (Panic, req1)
          | (Err e, req1) \<Rightarrow> (Err e, req1)
          | (Ok False, req1) \<Rightarrow> (Ok (), req1)
          | (Ok True, req1) \<Rightarrow> (case reconcileUninstall X R getter req1 of
              (Panic, req2) \<Rightarrow> (Panic, req2)
            | (Err e, req2) \<Rightarrow> if errors_Is e ErrNoLatest then (Ok (), on_status forget_deleted req2) else (Err e, req2)
            | (Ok _, req2) \<Rightarrow> (Ok (), on_status forget_deleted req2)))))"

definition reconcileChartTemplate ::
  "('w, 'v) ctrl_env \<Rightarrow> HelmReleaseReconciler \<Rightarrow> 'w Request \<Rightarrow> unit res \<times> 'w Request" where
  "reconcileChartTemplate X R req = HelmChartTemplate_Reconcile (AllowCrossNamespaceRef R) (xSources X) req"

definition RemoveFinalizer :: "string \<Rightarrow> HelmRelease \<Rightarrow> HelmRelease" where
  "RemoveFinalizer f obj = obj\<lparr>HR_Finalizers := List.filter (\<lambda>g. g \<noteq> f) (HR_Finalizers obj)\<rparr>"

definition release_object ::
  "('w, 'v) ctrl_env \<Rightarrow> 'w Request \<Rightarrow> outcome \<times> 'w Request" where
  "release_object X req =
     (if HR_DeletionTimestamp (Object req) \<noteq> None
      then (let req1 = on_object (RemoveFinalizer HelmReleaseFinalizer) req
            in returning Result_zero None
                 (set_world (xDeleteTokens X (HR_Name (Object req1)) (HR_Namespace (Object req1)) (World req1)) req1))
      else returning Result_requeue None req)"

definition reconcileDelete ::
  "('w, 'v) ctrl_env \<Rightarrow> HelmReleaseReconciler \<Rightarrow> 'w Request \<Rightarrow> outcome \<times> 'w Request" where
  "reconcileDelete X R req =
     (if Spec_Suspend (HR_Spec (Object req)) then release_object X req
      else (case reconcileReleaseDeletion X R req of
          (Panic, req1) \<Rightarrow> (None, req1)
        | (Err e, req1) \<Rightarrow> returning Result_zero (Some e) req1
        | (Ok _, req1) \<Rightarrow> (case reconcileChartTemplate X R req1 of
            (Panic, req2) \<Rightarrow> (None, req2)
          | (Err e, req2) \<Rightarrow> returning Result_zero (Some e) req2
          | (Ok _, req2) \<Rightarrow> release_object X req2)))"

subsection \<open>The reconciler\<close>

definition reconcile_object ::
  "('w, 'v) ctrl_env \<Rightarrow> HelmReleaseReconciler \<Rightarrow> 'w Request \<Rightarrow> outcome \<times> 'w Request" where
  "reconcile_object X R req =
     (let obj = Object req
      in if HR_DeletionTimestamp obj \<noteq> None then reconcileDelete X R req
         else if HelmReleaseFinalizer \<notin> set (HR_Finalizers obj)
         then returning Result_requeue None (on_object (\<lambda>obj. obj\<lparr>HR_Finalizers := HR_Finalizers obj @ [HelmReleaseFinalizer]\<rparr>) req)
         else if Spec_Suspend (HR_Spec obj) then returning Result_zero None req
         else (case xStatusReader X (Spec_HealthCheckExprs (HR_Spec obj)) of
             Some e \<Rightarrow>
               (let errMsg = terminalErrorMessage @ '': '' @ Err_Msg e
                in returning Result_zero (Some (TerminalError e))
                  (emit None EventTypeWarning InvalidCELExpressionReason ActionHealthCheck (Err_Msg e)
                     (on_status (\<lambda>st. st\<lparr>St_ObservedGeneration := HR_Generation obj\<rparr>)
                        (MarkStalled (xEnv X) InvalidCELExpressionReason errMsg
                           (ready_false X InvalidCELExpressionReason errMsg req)))))
           | None \<Rightarrow> (case reconcileChartTemplate X R req of
               (Panic, req1) \<Rightarrow> (None, req1)
             | (Err e, req1) \<Rightarrow> returning Result_zero (Some e) req1
             | (Ok _, req1) \<Rightarrow> reconcileRelease X R req1)))"

definition waitForHistoryCacheSync :: "('w, 'v) ctrl_env \<Rightarrow> HelmRelease \<Rightarrow> 'w \<Rightarrow> gerror + bool" where
  "waitForHistoryCacheSync X obj w = (case xGetHelmRelease X (HR_Namespace obj, HR_Name obj) w of
       Inl e \<Rightarrow> if errors_Is e ApiNotFound then Inr True else Inl e
     | Inr newObj \<Rightarrow> Inr (History obj = History newObj))"

text \<open>Whether the patch at the end records the generation as observed; aggregating the error of the
  reconciliation with that of the patch.\<close>

definition observes_generation :: "Result \<Rightarrow> gerror option \<Rightarrow> bool" where
  "observes_generation result retErr = (case retErr of
       Some e \<Rightarrow> errors_Is e TerminalErr
     | None \<Rightarrow> IsZero result \<or> \<not> Requeue result)"

definition reduce_errors :: "('w, 'v) ctrl_env \<Rightarrow> gerror option \<Rightarrow> gerror option \<Rightarrow> gerror option" where
  "reduce_errors X a b = (case a of None \<Rightarrow> b
     | Some e \<Rightarrow> (case b of None \<Rightarrow> a | Some e' \<Rightarrow> Some (kAggregate (eKube (xEnv X)) [e, e'])))"

definition deferred_patch ::
  "('w, 'v) ctrl_env \<Rightarrow> outcome \<times> 'w Request \<Rightarrow> outcome \<times> 'w Request" where
  "deferred_patch X out = (case out of (ret, req) \<Rightarrow>
     (let (result, retErr) = (case ret of None \<Rightarrow> (Result_zero, None) | Some p \<Rightarrow> p);
          req1 = (case map_of (HR_Annotations (Object req)) ReconcileRequestAnnotation of
                    Some v \<Rightarrow> on_status (\<lambda>st. st\<lparr>St_LastHandledReconcileAt := v\<rparr>) req | None \<Rightarrow> req);
          retErr1 = Ignore retErr [ErrWaitForDependency, ErrWaitForChart];
          (patchErr, w') = (if observes_generation result retErr then xPatchObserved X (Object req1) (World req1)
                            else ePatch (xEnv X) (Object req1) (World req1));
          retErr2 = (case patchErr of None \<Rightarrow> retErr1
                     | Some e \<Rightarrow> reduce_errors X retErr1
                         (if HR_DeletionTimestamp (Object req1) \<noteq> None then xFilterNotFound X e else Some e))
      in (map_option (\<lambda>_. (result, retErr2)) ret, set_world (xPoll X (waitForHistoryCacheSync X (Object req1)) w') req1)))"

text \<open>The request that the reconciler works on; it has no chart and no values yet.\<close>

definition new_request :: "HelmRelease \<Rightarrow> 'w \<Rightarrow> 'w Request" where
  "new_request obj w =
     \<lparr>Object = obj,
      Chart = \<lparr>Ch_Metadata = \<lparr>Meta_Name = '''', Meta_Version = '''', Meta_AppVersion = '''', Meta_Rest = JNull\<rparr>, Ch_ID = 0\<rparr>,
      Values = None, Events = [], World = w\<rparr>"

text \<open>The result: what the controller runtime is told and the request, if the object was found and valid.\<close>

definition HelmReleaseReconciler_Reconcile ::
  "('w, 'v) ctrl_env \<Rightarrow> HelmReleaseReconciler \<Rightarrow> string \<times> string \<Rightarrow> 'w \<Rightarrow> outcome \<times> 'w Request option" where
  "HelmReleaseReconciler_Reconcile X R key w = (case xGetHelmRelease X key w of
       Inl e \<Rightarrow> (Some (Result_zero, IgnoreNotFound (Some e)), None)
     | Inr obj \<Rightarrow>
        if \<not> isValidChartRef obj
        then (Some (Result_zero, Some (TerminalError (errors_New ''invalid Chart reference''))), None)
        else (case deferred_patch X (reconcile_object X R (new_request obj w)) of (out, req) \<Rightarrow> (out, Some req)))"

end
