(* ===== verification/ControllerProps.thy ===== *)
theory ControllerProps
  imports Controller
begin

section \<open>Properties of the controller\<close>

text \<open>
  What a reconciliation by the controller keeps and promises. The locale \<open>reconcile_invariant\<close>
  collects what a predicate on requests needs so that every step of the controller preserves it;
  it is interpreted for the object apart from its status and for the well-formedness of the
  conditions.
\<close>

subsection \<open>Invariants of a reconciliation\<close>

named_theorems steps \<open>operations on a request that preserve an invariant\<close>

locale reconcile_invariant =
  fixes X :: "('w, 'v) ctrl_env" and R :: HelmReleaseReconciler and P :: "'w Request \<Rightarrow> bool"
  assumes mark [steps]: "P b \<Longrightarrow> P (Mark (xEnv X) t st r m b)"
    and reconciling [steps]: "P b \<Longrightarrow> P (MarkReconciling (xEnv X) r m b)"
    and stalled [steps]: "P b \<Longrightarrow> P (MarkStalled (xEnv X) r m b)"
    and deleted [steps]: "P b \<Longrightarrow> P (DeleteCondition (xEnv X) t b)"
    and world [steps]: "P b \<Longrightarrow> P (set_world w b)"
    and event [steps]: "P b \<Longrightarrow> P (record_event e b)"
    and object: "P b \<Longrightarrow> status_change (Object b) (f (Object b)) \<Longrightarrow> P (on_object f b)"
    and loaded [steps]: "P b \<Longrightarrow> P (b\<lparr>Chart := c, Values := v\<rparr>)"
    and uninstalled: "P b \<Longrightarrow> P (snd (Uninstall_Reconcile (env_for X R cfg) b))"
    and released: "P b \<Longrightarrow> P (snd (AtomicRelease_Reconcile (env_for X R cfg) b))"
begin

lemma emitted [steps]: "P b \<Longrightarrow> P (emit md t r ac m b)"
  unfolding emit_def by (rule steps)

lemma ready [steps]: "P b \<Longrightarrow> P (ready_false X r m b)" "P b \<Longrightarrow> P (ready_unknown X rs b)"
  unfolding ready_false_def ready_unknown_def by (auto intro: steps)

lemma status [steps]: "P b \<Longrightarrow> (\<And>st. St_Conditions (f st) = St_Conditions st) \<Longrightarrow> P (on_status f b)"
  unfolding on_status_def by (rule object) simp_all

lemma sorted [steps]: "P b \<Longrightarrow> P (sort_history b)"
  unfolding sort_history_def by (rule status) simp_all

lemma forgotten [steps]: "P b \<Longrightarrow> P (on_status forget_release b)" "P b \<Longrightarrow> P (on_status forget_deleted b)"
  by (rule status, assumption, simp add: forget_release_def forget_deleted_def)+

lemma events: "P b \<Longrightarrow> P (fold record_event es b)"
  by (induction es arbitrary: b) (auto intro: event)

lemma charted:
  assumes "P b" "chart_change b b'"
  shows "P b'"
proof -
  from assms(2) obtain v es where v: "Object b' = with_status (\<lambda>st. st\<lparr>St_HelmChart := v\<rparr>) (Object b)"
    "Chart b' = Chart b" "Values b' = Values b" "Events b' = Events b @ es"
    unfolding chart_change_def by blast
  have "P (set_world (World b') (on_status (\<lambda>st. st\<lparr>St_HelmChart := v\<rparr>) b))"
    by (rule world, rule status, rule assms(1)) simp
  then have "P (fold record_event es (set_world (World b') (on_status (\<lambda>st. st\<lparr>St_HelmChart := v\<rparr>) b)))"
    by (rule events)
  moreover have "fold record_event es c = c\<lparr>Events := Events c @ es\<rparr>" for c :: "'w Request"
    by (induction es arbitrary: c) (simp_all add: record_event_def)
  ultimately have "P ((set_world (World b') (on_status (\<lambda>st. st\<lparr>St_HelmChart := v\<rparr>) b))\<lparr>Events := Events b @ es\<rparr>)" by simp
  also have "(set_world (World b') (on_status (\<lambda>st. st\<lparr>St_HelmChart := v\<rparr>) b))\<lparr>Events := Events b @ es\<rparr> = b'"
    using v by (intro Request.equality) simp_all
  finally show ?thesis .
qed

lemma attempted: "P b \<Longrightarrow> P (on_object (note_attempt X chart vals d) b)"
  by (rule object, assumption)
    (auto simp: note_attempt_def set_attempted_def MustResetFailures_def ShouldHandleResetRequest_def Let_def
      status_change_def with_status_def ClearFailures_def split: prod.split)

lemma uninstall_kept: "P b \<Longrightarrow> P (snd (reconcileUninstall X R getter b))"
  unfolding reconcileUninstall_def by (auto intro: steps uninstalled split: sum.split prod.split)

lemma result_kept: "P (snd out) \<Longrightarrow> P (snd (release_result X R out))"
  unfolding release_result_def returning_def
  by (auto intro!: steps split: prod.split res.split option.split)

lemma perform_kept: "P b \<Longrightarrow> P (snd (perform_release X R getter rm chart vals d b))"
  unfolding perform_release_def Let_def
  by (auto intro!: steps attempted result_kept released simp: returning_def split: sum.split)

lemma target_kept: "P b \<Longrightarrow> P (snd (reconcile_target X R getter rm chart vals d b))"
  using uninstall_kept [OF sorted, of b getter]
  unfolding reconcile_target_def Let_def
  by (auto intro!: steps perform_kept simp: returning_def split: prod.split res.split)

lemma clients_kept: "P b \<Longrightarrow> P (snd (reconcile_clients X R chart vals d b))"
  unfolding reconcile_clients_def
  by (auto intro!: steps target_kept simp: returning_def split: sum.split prod.split)

lemma load_kept: "P b \<Longrightarrow> P (snd (reconcile_load X R source vals b))"
  unfolding reconcile_load_def reconcile_chart_def Let_def
  by (auto intro!: steps clients_kept simp: returning_def split: sum.split prod.split res.split option.split)

lemma source_kept: "P b \<Longrightarrow> P (snd (reconcile_source X R b))"
  unfolding reconcile_source_def reconcile_values_def Let_def
  by (auto intro!: steps load_kept simp: returning_def split: sum.split res.split option.split)

lemma release_kept: "P b \<Longrightarrow> P (snd (reconcileRelease X R b))"
  unfolding reconcileRelease_def reconcile_dependencies_def Let_def
  by (auto intro!: steps source_kept simp: returning_def split: prod.split option.split)

lemma template_kept: "P b \<Longrightarrow> P (snd (reconcileChartTemplate X R b))"
  unfolding reconcileChartTemplate_def by (rule charted [OF _ HelmChartTemplate_change])

lemma account_kept: "P b \<Longrightarrow> P (snd (confirm_account X getter b))"
  unfolding confirm_account_def Let_def by (auto intro!: steps split: sum.split option.split)

lemma deletion_kept:
  assumes "P b"
  shows "P (snd (reconcileReleaseDeletion X R b))"
proof -
  have "P (snd (reconcileUninstall X R getter (snd (confirm_account X getter b))))" for getter
    by (intro uninstall_kept account_kept assms)
  with assms account_kept [OF assms] show ?thesis
    unfolding reconcileReleaseDeletion_def
    by (auto intro!: steps split: sum.split prod.split res.split bool.split) (metis snd_conv)+
qed

end

subsection \<open>The object apart from its status\<close>

definition kept_object :: "HelmRelease \<Rightarrow> 'w Request \<Rightarrow> bool" where
  "kept_object obj b \<longleftrightarrow> (\<exists>st. Object b = obj\<lparr>HR_Status := st\<rparr>)"

lemma kept_object_self [simp]: "kept_object (Object b) b"
  unfolding kept_object_def by (rule exI [of _ "HR_Status (Object b)"]) simp

lemma kept_object_keeps: "kept_object obj b \<Longrightarrow> keeps b c \<Longrightarrow> kept_object obj c"
  unfolding kept_object_def keeps_def by auto

lemma AtomicRelease_keeps: "keeps req (snd (AtomicRelease_Reconcile E req))"
  unfolding AtomicRelease_Reconcile_def using loop_atomic_run atomic_run_keeps by blast

lemma keeps_operations:
  "keeps b (Mark E t st r m b)" "keeps b (MarkReconciling E r m b)" "keeps b (MarkStalled E r m b)"
  "keeps b (DeleteCondition E t b)" "keeps b (set_world w b)" "keeps b (record_event e b)"
  "keeps b (snd (Uninstall_Reconcile E b))" "keeps b (snd (AtomicRelease_Reconcile E b))"
  by (simp_all add: cond_op_defs keeps_conditions keep.world_step keep.event_step keep.Uninstall_within AtomicRelease_keeps)

interpretation object_kept: reconcile_invariant X R "kept_object obj" for X R obj
proof unfold_locales
  fix b :: "'a Request" and f
  assume "kept_object obj b" "status_change (Object b) (f (Object b))"
  then show "kept_object obj (on_object f b)" unfolding kept_object_def status_change_def by auto
next
  fix b :: "'a Request" and c v
  assume "kept_object obj b"
  then show "kept_object obj (b\<lparr>Chart := c, Values := v\<rparr>)" by (simp add: kept_object_def)
qed (erule kept_object_keeps, rule keeps_operations)+

lemma kept_objectD:
  assumes "kept_object obj b"
  shows "HR_Finalizers (Object b) = HR_Finalizers obj" "HR_DeletionTimestamp (Object b) = HR_DeletionTimestamp obj"
    "HR_Spec (Object b) = HR_Spec obj" "HR_Generation (Object b) = HR_Generation obj" "HR_Name (Object b) = HR_Name obj"
    "HR_Namespace (Object b) = HR_Namespace obj" "HR_Annotations (Object b) = HR_Annotations obj"
  using assms by (auto simp: kept_object_def)

subsection \<open>Conditions are a map\<close>

text \<open>The conditions of an object are a list map keyed by their type.\<close>

definition well_typed :: "'w Request \<Rightarrow> bool" where
  "well_typed b \<longleftrightarrow> distinct (map Cond_Type (Conditions (Object b)))"

definition typed_change :: "'w env \<Rightarrow> 'w Request \<Rightarrow> 'w Request \<Rightarrow> bool" where
  "typed_change E a b \<longleftrightarrow> (conditions_ok (eCond E) \<longrightarrow> well_typed a \<longrightarrow> well_typed b)"

lemma typed_ops:
  assumes "conditions_ok (eCond E)" "well_typed b"
  shows "well_typed (Mark E t st r m b)" "well_typed (SetCondition E c b)" "well_typed (DeleteCondition E t b)"
    "well_typed (MarkReconciling E r m b)" "well_typed (MarkStalled E r m b)" "well_typed (set_world w b)"
  using assms(2)
  by (simp_all add: well_typed_def cond_op_defs conditions_okD(3,5-7) [OF assms(1)] conditions_okD(12) [OF assms(1)]
      distinct_map_filter)

lemma typed_reorder:
  assumes "mset cs = mset (Conditions (Object b))"
  shows "well_typed (on_conditions (\<lambda>_. cs) b) \<longleftrightarrow> well_typed b"
proof -
  have "mset (map Cond_Type cs) = mset (map Cond_Type (Conditions (Object b)))" using assms by (metis mset_map)
  then show ?thesis by (simp add: well_typed_def mset_eq_imp_distinct_iff)
qed

interpretation typed: status_relation typed_change
  by unfold_locales
    (auto simp: typed_change_def typed_ops typed_reorder, auto simp: well_typed_def status_change_def)

lemma typed_iteration:
  assumes "conditions_ok (eCond E)" "well_typed req"
  shows "well_typed (iter_request (iteration E previous req))"
proof -
  have step: "well_typed b \<Longrightarrow> typed_change E b c \<Longrightarrow> well_typed c" for b c :: "'a Request"
    using assms(1) by (simp add: typed_change_def)
  note more = typed_ops [OF assms(1)] step [OF _ typed.Action_within] step [OF _ typed.summary [OF typed.refl]]
    step [OF _ typed.postrender [OF typed.refl]]
  show ?thesis
    using assms(2)
    by (rule typed.iteration_request)
      (auto simp: announce_def patch_def canceled_def no_action_possible_def stall_retries_def completed_def
        stopped_before_def retry_later_def requeue_def action_error_def stopped_after_def Let_def
        intro!: more intro: step [OF assms(2)] split: option.split prod.split)
qed

lemma AtomicRelease_typed:
  assumes "conditions_ok (eCond E)" "well_typed req"
  shows "well_typed (snd (AtomicRelease_Reconcile E req))"
proof -
  obtain acts where "atomic_run E [] req acts (fst (AtomicRelease_Reconcile E req)) (snd (AtomicRelease_Reconcile E req))"
    unfolding AtomicRelease_Reconcile_def using loop_atomic_run by blast
  then show ?thesis using typed_iteration [OF assms(1)] assms(2) by (rule atomic_run_invariant)
qed

lemma eCond_env_for [simp]: "eCond (env_for X R cfg) = eCond (xEnv X)"
  by (simp add: env_for_def)

interpretation conditions_typed:
  reconcile_invariant X R "\<lambda>b. conditions_ok (eCond (xEnv X)) \<longrightarrow> well_typed b" for X R
proof unfold_locales
  fix b :: "'a Request" and cfg
  assume "conditions_ok (eCond (xEnv X)) \<longrightarrow> well_typed b"
  moreover have "typed_change (env_for X R cfg) b (snd (Uninstall_Reconcile (env_for X R cfg) b))"
    by (rule typed.Uninstall_within)
  ultimately show "conditions_ok (eCond (xEnv X)) \<longrightarrow> well_typed (snd (Uninstall_Reconcile (env_for X R cfg) b))"
    by (simp add: typed_change_def)
qed (auto simp: typed_ops AtomicRelease_typed, auto simp: well_typed_def status_change_def)

subsection \<open>An instance of the environment of the controller\<close>

definition sample_loader :: "'w loader_api" where
  "sample_loader = \<lparr>lGetenv = (\<lambda>v. ''''), lFetchBytes = (\<lambda>n t h u d w. Inr u),
     lLoadArchive = (\<lambda>b. Inr \<lparr>Ch_Metadata = sample_metadata, Ch_ID = 1\<rparr>)\<rparr>"

definition sample_rest_config :: RestConfig where
  "sample_rest_config = \<lparr>Cfg_Impersonate = '''', Cfg_Burst = 0, Cfg_QPS = 0, Cfg_Wrappers = 0, Cfg_Rest = JNull\<rparr>"

definition sample_dependency :: HelmRelease where
  "sample_dependency = sample_object\<lparr>HR_Name := ''db'', HR_Status := sample_status
     \<lparr>St_ObservedGeneration := 1, St_Conditions := mark_condition 0 1 ReadyCondition ConditionTrue ''InstallSucceeded'' ''ok'' []\<rparr>\<rparr>"

definition sample_ctrl :: "(sample_world, string) ctrl_env" where
  "sample_ctrl =
     \<lparr>xEnv = sample_env, xHelm = (\<lambda>cfg. sample_helm), xKube = (\<lambda>cfg. sample_kube), xSources = sample_source,
      xLoader = sample_loader, xSemver = sample_semver,
      xDiscovery = \<lparr>nDiscoveryClient = (\<lambda>cfg w. (Inr 0, w)), nMemCacheClient = (\<lambda>d w. (1, w)), nRESTMapper = (\<lambda>d w. (2, w)),
        nClientConfig = (\<lambda>ns i w. (3, w))\<rparr>,
      xGetHelmRelease = (\<lambda>key w. Inr sample_object),
      xAPIGetHelmRelease = (\<lambda>key w. if snd key = ''db'' then Inr sample_dependency else Inl (sentinel_err ApiNotFound)),
      xPatchObserved = (\<lambda>obj w. (None, w)), xFilterNotFound = (\<lambda>e. if errors_Is e ApiNotFound then None else Some e),
      xPoll = (\<lambda>c w. w), xStatusReader = (\<lambda>es. None), xToUnstructured = (\<lambda>obj. Inr (JStr (HR_Name obj))),
      xNewExpression = (\<lambda>e. None), xEvaluateBoolean = (\<lambda>e s d. Inr True), xChartValues = (\<lambda>ns vs refs w. Inr vs),
      xClusterConfig = (\<lambda>w. Inr sample_rest_config), xAuthRESTConfig = (\<lambda>sa kc obj w. Inr sample_rest_config),
      xGetSecret = (\<lambda>key w. Inl (sentinel_err ApiNotFound)), xKubeConfigFromBytes = (\<lambda>b. Inr sample_rest_config),
      xKubeConfig = (\<lambda>c. c), xNewClient = (\<lambda>c w. None), xClientSet = (\<lambda>c. None), xGetServiceAccount = (\<lambda>key w. None),
      xDeleteTokens = (\<lambda>n ns w. w), xTrigger = (\<lambda>w. ''HelmRelease/ns/app''), xJitter = (\<lambda>d. d)\<rparr>"

lemma sample_ctrl_conditions: "conditions_ok (eCond (xEnv sample_ctrl))"
  by (simp add: sample_ctrl_def sample_env_def sample_conditions_ok)

subsection \<open>The conditions stay well-formed\<close>

lemma reconcileDelete_typed:
  assumes "conditions_ok (eCond (xEnv X))" "well_typed req"
  shows "well_typed (snd (reconcileDelete X R req))"
proof -
  have rel: "well_typed (snd (release_object X b))" if "well_typed b" for b
    using that by (auto simp: release_object_def returning_def well_typed_def RemoveFinalizer_def Let_def)
  obtain r1 b1 where d: "reconcileReleaseDeletion X R req = (r1, b1)" by fastforce
  obtain r2 b2 where t: "reconcileChartTemplate X R b1 = (r2, b2)" by fastforce
  have "well_typed b1" using conditions_typed.deletion_kept [of X req R] assms d by simp
  moreover from this have "well_typed b2" using conditions_typed.template_kept [of X b1 R] assms t by simp
  ultimately show ?thesis
    using rel assms(2) by (auto simp: reconcileDelete_def d t returning_def split: res.split)
qed

lemma reconcile_object_typed:
  assumes "conditions_ok (eCond (xEnv X))" "well_typed req"
  shows "well_typed (snd (reconcile_object X R req))"
proof -
  obtain r b where t: "reconcileChartTemplate X R req = (r, b)" by fastforce
  have "well_typed b" using conditions_typed.template_kept [of X req R] assms t by simp
  moreover from this have "well_typed (snd (reconcileRelease X R b))"
    using conditions_typed.release_kept [of X b R] assms(1) by simp
  moreover have "well_typed (on_object (\<lambda>obj. obj\<lparr>HR_Finalizers := fs obj\<rparr>) req)" for fs
    using assms(2) by (simp add: well_typed_def)
  moreover have "well_typed (emit md ty rs ac ms (on_status (\<lambda>st. st\<lparr>St_ObservedGeneration := g\<rparr>) c)) \<longleftrightarrow> well_typed c"
    for md ty rs ac ms g and c :: "'a Request"
    by (simp add: well_typed_def emit_def)
  ultimately show ?thesis
    using reconcileDelete_typed [OF assms, of R] assms(2)
    by (auto simp: reconcile_object_def t returning_def ready_false_def Let_def typed_ops [OF assms(1)]
        split: option.split res.split)
qed

text \<open>C13. The conditions of the object form a map: when their types are distinct before a reconciliation
  by the controller, they are distinct in the object that is persisted at its end, whatever path
  the reconciliation takes.\<close>

theorem Reconcile_keeps_conditions_a_map:
  assumes "conditions_ok (eCond (xEnv X))" and "distinct (map Cond_Type (Conditions (Object req)))"
  shows "distinct (map Cond_Type (Conditions (Object (snd (deferred_patch X (reconcile_object X R req))))))"
  using reconcile_object_typed [of X req R] assms
  by (auto simp: deferred_patch_def well_typed_def Let_def split: prod.split option.split)

definition finalized_request :: "sample_world Request" where
  "finalized_request = on_object (\<lambda>obj. obj\<lparr>HR_Finalizers := [HelmReleaseFinalizer]\<rparr>) templated_request"

theorem Reconcile_keeps_conditions_a_map_witness:
  "distinct (map Cond_Type (Conditions (Object
     (snd (deferred_patch sample_ctrl (reconcile_object sample_ctrl sample_reconciler finalized_request))))))"
  by (rule Reconcile_keeps_conditions_a_map [OF sample_ctrl_conditions])
    (simp add: finalized_request_def templated_request_def sample_request_def sample_object_def sample_status_def)

subsection \<open>The finalizer\<close>

text \<open>How the uninstallation of a deleted HelmRelease is settled: nothing was ever installed, the
  credentials for the target cluster or the service account are gone, or the release was
  uninstalled (or there was none).\<close>

definition uninstall_settled :: "('w, 'v) ctrl_env \<Rightarrow> HelmReleaseReconciler \<Rightarrow> 'w Request \<Rightarrow> bool" where
  "uninstall_settled X R req \<longleftrightarrow>
     St_StorageNamespace (HR_Status (Object req)) = '''' \<or>
     (case buildRESTClientGetter X R (Object req) (World req) of
        Inl e \<Rightarrow> errors_Is e ApiNotFound
      | Inr getter \<Rightarrow>
          (case fst (confirm_account X getter req) of
             Ok False \<Rightarrow> True
           | Ok True \<Rightarrow> (case fst (reconcileUninstall X R getter req) of
               Ok _ \<Rightarrow> True | Err e \<Rightarrow> errors_Is e ErrNoLatest | Panic \<Rightarrow> False)
           | _ \<Rightarrow> False))"

lemma confirm_account_Ok: "confirm_account X getter req = (Ok v, req') \<Longrightarrow> req' = req"
  by (auto simp: confirm_account_def Let_def split: if_splits sum.splits option.splits)

lemma reconcileReleaseDeletion_Ok:
  assumes "reconcileReleaseDeletion X R req = (Ok (), req')"
  shows "HR_DeletionTimestamp (Object req) \<noteq> None \<and> uninstall_settled X R req"
  using assms
  by (auto simp: reconcileReleaseDeletion_def uninstall_settled_def dest!: confirm_account_Ok
      split: if_splits sum.splits prod.splits res.splits bool.splits)

lemma reconcile_object_finalizers:
  assumes "HR_DeletionTimestamp (Object req) = None"
  shows "set (HR_Finalizers (Object req)) \<subseteq> set (HR_Finalizers (Object (snd (reconcile_object X R req))))"
proof -
  obtain r b where t: "reconcileChartTemplate X R req = (r, b)" by fastforce
  have b: "kept_object (Object req) b" using object_kept.template_kept [of "Object req" req X R] t by simp
  have "HR_Finalizers (Object (snd (reconcileRelease X R b))) = HR_Finalizers (Object req)"
    using kept_objectD(1) [OF object_kept.release_kept [OF b]] .
  with kept_objectD(1) [OF b] assms show ?thesis
    by (auto simp: reconcile_object_def t returning_def ready_false_def emit_def cond_op_defs on_conditions_def Let_def
        split: option.split res.split)
qed

lemma finalizer_removal:
  assumes "HelmReleaseFinalizer \<in> set (HR_Finalizers (Object req))"
    and "HelmReleaseFinalizer \<notin> set (HR_Finalizers (Object (snd (reconcile_object X R req))))"
  shows "HR_DeletionTimestamp (Object req) \<noteq> None \<and>
    (Spec_Suspend (HR_Spec (Object req)) \<or>
     uninstall_settled X R req \<and> \<not> HasChart (HR_Status (Object (snd (reconcile_object X R req)))))"
proof -
  from reconcile_object_finalizers [of req X R] assms have del: "HR_DeletionTimestamp (Object req) \<noteq> None" by auto
  then have body: "reconcile_object X R req = reconcileDelete X R req" by (simp add: reconcile_object_def Let_def)
  obtain r1 b1 where d: "reconcileReleaseDeletion X R req = (r1, b1)" by fastforce
  obtain r2 b2 where t: "reconcileChartTemplate X R b1 = (r2, b2)" by fastforce
  have b1: "kept_object (Object req) b1" using object_kept.deletion_kept [of "Object req" req X R] d by simp
  have b2: "kept_object (Object req) b2" using object_kept.template_kept [OF b1, of X R] t by simp
  show ?thesis
  proof (cases "Spec_Suspend (HR_Spec (Object req))")
    case False
    have "r1 = Ok ()" "r2 = Ok ()"
      using assms False kept_objectD(1) [OF b1] kept_objectD(1) [OF b2]
      by (auto simp: body reconcileDelete_def d t returning_def split: res.splits)
    then have "\<not> HasChart (HR_Status (Object b2))"
      using template_deleted [of _ _ b1 b2] t False del kept_objectD(2,3) [OF b1]
      by (simp add: reconcileChartTemplate_def)
    moreover have "HR_Status (Object (snd (release_object X b2))) = HR_Status (Object b2)"
      by (simp add: release_object_def returning_def RemoveFinalizer_def Let_def)
    ultimately show ?thesis
      using del reconcileReleaseDeletion_Ok [of X R req b1] d \<open>r1 = Ok ()\<close> \<open>r2 = Ok ()\<close> False
      by (simp add: body reconcileDelete_def t)
  qed (use del in simp)
qed

text \<open>C10. The finalizer is only removed from a HelmRelease that is being deleted, and then either the
  object is suspended, or its uninstallation is settled and the chart made from its template is
  gone; an error on the way keeps the finalizer, so that the deletion is retried.\<close>

theorem finalizer_removed_after_cleanup:
  assumes "HelmReleaseFinalizer \<in> set (HR_Finalizers (Object req))"
    and "HelmReleaseFinalizer \<notin> set (HR_Finalizers (Object (snd (reconcile_object X R req))))"
  shows "HR_DeletionTimestamp (Object req) \<noteq> None \<and>
    (Spec_Suspend (HR_Spec (Object req)) \<or>
     uninstall_settled X R req \<and> \<not> HasChart (HR_Status (Object (snd (reconcile_object X R req)))))"
  using assms by (rule finalizer_removal)

definition deleted_request :: "sample_world Request" where
  "deleted_request = on_object (\<lambda>obj. obj\<lparr>HR_DeletionTimestamp := Some 0\<rparr>) finalized_request"

theorem finalizer_removed_after_cleanup_witness:
  "HelmReleaseFinalizer \<notin> set (HR_Finalizers (Object (snd (reconcile_object sample_ctrl sample_reconciler deleted_request)))) \<and>
   uninstall_settled sample_ctrl sample_reconciler deleted_request"
proof -
  have req: "Spec_Suspend (HR_Spec (Object deleted_request)) = False" "HR_DeletionTimestamp (Object deleted_request) = Some 0"
    "HR_Finalizers (Object deleted_request) = [HelmReleaseFinalizer]" "\<not> HasChart (HR_Status (Object deleted_request))"
    "St_StorageNamespace (HR_Status (Object deleted_request)) = ''''"
    by (simp_all add: deleted_request_def finalized_request_def templated_request_def sample_request_def sample_object_def
        sample_spec_def sample_status_def HasChart_def)
  have "HR_Finalizers (Object (snd (reconcile_object sample_ctrl sample_reconciler deleted_request))) = []"
    by (simp add: reconcile_object_def reconcileDelete_def reconcileReleaseDeletion_def req reconcileChartTemplate_def
        HelmChartTemplate_Reconcile_def HelmChartTemplate_reconcileDelete_def release_object_def RemoveFinalizer_def
        returning_def Let_def)
  with finalizer_removed_after_cleanup [of deleted_request sample_ctrl sample_reconciler] req show ?thesis by simp
qed

subsection \<open>Dependencies\<close>

text \<open>The reference: what it means for a dependency to be met.\<close>

definition dependency_met ::
  "('w, 'v) ctrl_env \<Rightarrow> HelmReleaseReconciler \<Rightarrow> HelmRelease \<Rightarrow> json \<Rightarrow> 'w \<Rightarrow> DependencyReference \<Rightarrow> bool" where
  "dependency_met X R obj objMap w d \<longleftrightarrow>
     (\<exists>dep. xAPIGetHelmRelease X (dependency_key obj d) w = Inr dep \<and>
        (Dep_ReadyExpr d = '''' \<or> evalReadyExpr X (Dep_ReadyExpr d) objMap dep = Inr True) \<and>
        (Dep_ReadyExpr d \<noteq> '''' \<and> \<not> AdditiveCELDependencyCheck R \<or>
         St_ObservedGeneration (HR_Status dep) = HR_Generation dep \<and>
         cIsTrue (eCond (xEnv X)) (Conditions dep) ReadyCondition))"

lemma check_each_None: "check_each check ds = None \<longleftrightarrow> list_all (\<lambda>d. check d = None) ds"
  by (induction ds) (auto split: option.splits)

lemma checkDependency_None: "checkDependency X R obj objMap w d = None \<longleftrightarrow> dependency_met X R obj objMap w d"
  by (auto simp: checkDependency_def dependency_met_def Let_def split: sum.splits if_splits bool.splits)

text \<open>The check of the dependencies passes exactly when every dependency exists, satisfies its
  expression if it has one, and, unless the expression replaces the built-in check, is ready at
  its current generation.\<close>

theorem checkDependencies_iff:
  assumes "xToUnstructured X obj = Inr objMap"
  shows "checkDependencies X R obj w = None \<longleftrightarrow>
    list_all (dependency_met X R obj objMap w) (Spec_DependsOn (HR_Spec obj))"
  using assms by (simp add: checkDependencies_def check_each_None checkDependency_None)

theorem checkDependencies_iff_witness:
  "let obj = sample_object\<lparr>HR_Spec := sample_spec\<lparr>Spec_DependsOn :=
       [\<lparr>Dep_Name = ''db'', Dep_Namespace = '''', Dep_ReadyExpr = ''''\<rparr>]\<rparr>\<rparr>
   in checkDependencies sample_ctrl sample_reconciler obj [] = None"
  unfolding Let_def
  by (subst checkDependencies_iff [where objMap = "JStr ''app''"])
    (simp_all add: sample_ctrl_def dependency_met_def dependency_key_def sample_dependency_def sample_object_def sample_env_def
      sample_conditions_def condition_is_true_def mark_condition_def set_condition_def get_condition_def)

subsection \<open>Attempts are remembered\<close>

text \<open>C14. What is noted before an attempt is recognized by the next reconciliation: with the same
  generation, chart and values and no new reset request the failures are not reset, so the
  number of retries is bounded; with another chart version they are.\<close>

theorem attempt_remembered:
  assumes "digest_ok (eDigest (xEnv X))" and "annotation_request (eHandleAnnotationRequest (xEnv X))"
  shows "fst (MustResetFailures (xEnv X) (note_attempt X chart vals ociDigest obj) (Ch_Metadata chart) vals) = None \<and>
    (Meta_Version metadata \<noteq> Meta_Version (Ch_Metadata chart) \<longrightarrow>
       fst (MustResetFailures (xEnv X) (note_attempt X chart vals ociDigest obj) metadata vals) \<noteq> None)"
proof -
  let ?obj1 = "with_status (\<lambda>st. st\<lparr>St_StorageNamespace := GetStorageNamespace obj\<rparr>) obj"
  let ?obj = "note_attempt X chart vals ociDigest obj"
  have st: "HR_Generation ?obj = HR_Generation obj" "HR_Annotations ?obj = HR_Annotations obj"
    "St_LastAttemptedGeneration (HR_Status ?obj) = HR_Generation obj"
    "St_LastAttemptedRevision (HR_Status ?obj) = Meta_Version (Ch_Metadata chart)"
    "St_LastAttemptedValuesChecksum (HR_Status ?obj) = ''''"
    "St_LastAttemptedConfigDigest (HR_Status ?obj) = dDigestValues (eDigest (xEnv X)) (dCanonical (eDigest (xEnv X))) vals"
    "St_LastHandledReconcileAt (HR_Status ?obj) = St_LastHandledReconcileAt (HR_Status obj)"
    "St_LastHandledResetAt (HR_Status ?obj) = St_LastHandledResetAt (HR_Status (snd (ShouldHandleResetRequest (xEnv X) ?obj1)))"
    by (auto simp: note_attempt_def set_attempted_def MustResetFailures_def ShouldHandleResetRequest_def ClearFailures_def
        Let_def split: prod.split)
  have "dVerifyValues (eDigest (xEnv X)) (dDigestValues (eDigest (xEnv X)) (dCanonical (eDigest (xEnv X))) vals) vals"
    using assms(1) by (simp add: digest_ok_def)
  moreover have "\<not> fst (ShouldHandleResetRequest (xEnv X) ?obj)"
    using annotation_request.not_again [OF assms(2), of "HR_Annotations obj"] st(2,8)
    by (simp add: ShouldHandleResetRequest_def case_prod_beta)
  ultimately show ?thesis
    using st by (auto simp: MustResetFailures_def ShouldHandleResetRequest_def Let_def split: prod.splits)
qed

theorem attempt_remembered_witness:
  "fst (MustResetFailures sample_env (note_attempt sample_ctrl (Chart sample_request) None '''' sample_object)
     sample_metadata None) = None"
proof -
  have "digest_ok (eDigest (xEnv sample_ctrl))" "annotation_request (eHandleAnnotationRequest (xEnv sample_ctrl))"
    by (simp_all add: sample_ctrl_def sample_env_def sample_digest_ok handle_request.annotation_request_axioms)
  from attempt_remembered [OF this, of "Chart sample_request" None "''''" sample_object sample_metadata]
  show ?thesis by (simp add: sample_ctrl_def sample_request_def)
qed

subsection \<open>Nothing is released before the prerequisites are met\<close>

definition conditions_only :: "HelmRelease \<Rightarrow> 'w Request \<Rightarrow> bool" where
  "conditions_only obj b \<longleftrightarrow> (\<exists>cs. Object b = SetConditions cs obj)"

lemma conditions_only_steps [steps]:
  "conditions_only obj b \<Longrightarrow> conditions_only obj (on_conditions f b)"
  "conditions_only obj b \<Longrightarrow> conditions_only obj (set_world w b)"
  "conditions_only obj b \<Longrightarrow> conditions_only obj (record_event e b)"
  by (auto simp: conditions_only_def SetConditions_def on_conditions_def with_status_def)

lemma conditions_only_ops [steps]:
  "conditions_only obj b \<Longrightarrow> conditions_only obj (Mark E t st r m b)"
  "conditions_only obj b \<Longrightarrow> conditions_only obj (MarkReconciling E r m b)"
  "conditions_only obj b \<Longrightarrow> conditions_only obj (MarkStalled E r m b)"
  "conditions_only obj b \<Longrightarrow> conditions_only obj (DeleteCondition E t b)"
  "conditions_only obj b \<Longrightarrow> conditions_only obj (emit md ty r ac m b)"
  "conditions_only obj b \<Longrightarrow> conditions_only obj (ready_false X r m b)"
  "conditions_only obj b \<Longrightarrow> conditions_only obj (ready_unknown X rs b)"
  by (auto simp: cond_op_defs emit_def ready_false_def ready_unknown_def intro: conditions_only_steps)

lemma conditions_only_self: "conditions_only (Object b) b"
  unfolding conditions_only_def SetConditions_def with_status_def
  by (rule exI [of _ "Conditions (Object b)"]) simp

lemma ready_unknown_world [simp]: "World (ready_unknown X rs b) = World b"
  by (simp add: ready_unknown_def cond_op_defs)

lemma source_reads:
  "Spec_GetHelmChartReference (with_status f obj) = Spec_GetHelmChartReference obj"
  "AllowsAccessTo allow (with_status f obj) ref = AllowsAccessTo allow obj ref"
  by (simp_all add: Spec_GetHelmChartReference_def AllowsAccessTo_def split: option.split)

lemma source_resolution_reads:
  "resolve_source R S (with_status f obj) w ref = resolve_source R S obj w ref"
  "getSourceFromOCIRef R S (with_status f obj) w = getSourceFromOCIRef R S obj w"
  "getSourceFromExternalArtifact R S (with_status f obj) w = getSourceFromExternalArtifact R S obj w"
  unfolding resolve_source_def getSourceFromOCIRef_def getSourceFromExternalArtifact_def source_reads with_status_simps
  by (rule refl)+

lemma conditions_only_reads:
  assumes "conditions_only obj b"
  shows "getSource R S (Object b) w = getSource R S obj w" "HR_Namespace (Object b) = HR_Namespace obj"
    "GetValues (Object b) = GetValues obj" "HR_Spec (Object b) = HR_Spec obj"
proof -
  from assms obtain cs where "Object b = SetConditions cs obj" unfolding conditions_only_def by blast
  then show "HR_Namespace (Object b) = HR_Namespace obj" "HR_Spec (Object b) = HR_Spec obj"
    "GetValues (Object b) = GetValues obj" "getSource R S (Object b) w = getSource R S obj w"
    by (simp_all add: SetConditions_def GetValues_def getSource_def source_resolution_reads source_reads
        Status_GetHelmChartReference_def split: option.split)
qed

text \<open>Everything a release needs: a ready source the object may use, the values, and the chart.\<close>

definition prerequisites_met :: "('w, 'v) ctrl_env \<Rightarrow> HelmReleaseReconciler \<Rightarrow> HelmRelease \<Rightarrow> 'w \<Rightarrow> bool" where
  "prerequisites_met X R obj w \<longleftrightarrow>
     (\<exists>source artifact vals chart. getSource R (xSources X) obj w = Ok source \<and>
        isSourceReady (eCond (xEnv X)) source = None \<and> So_Artifact (snd source) = Some artifact \<and>
        xChartValues X (HR_Namespace obj) (GetValues obj) (Spec_ValuesFrom (HR_Spec obj)) w = Inr vals \<and>
        SecureLoadChartFromURL (xLoader X) (Art_URL artifact) (Art_Digest artifact) (ArtifactFetchRetries R)
          (ArtifactFetchTimeout R) w = Inr chart)"

lemma load_failed:
  assumes "conditions_only obj b" "So_Artifact (snd source) = Some artifact"
    and "SecureLoadChartFromURL (xLoader X) (Art_URL artifact) (Art_Digest artifact) (ArtifactFetchRetries R)
      (ArtifactFetchTimeout R) (World b) = Inl e"
  shows "conditions_only obj (snd (reconcile_load X R source vals b))"
  using assms by (auto simp: reconcile_load_def returning_def Let_def intro!: steps)

lemma reconcile_source_prerequisites:
  assumes "conditions_only obj b" "\<not> conditions_only obj (snd (reconcile_source X R b))"
  shows "prerequisites_met X R obj (World b)"
proof -
  note reads = conditions_only_reads [OF assms(1)]
  obtain source where src: "getSource R (xSources X) obj (World b) = Ok source"
    using assms by (cases "getSource R (xSources X) obj (World b)")
      (auto simp: reconcile_source_def reads returning_def intro: steps split: if_splits)
  define b1 where "b1 = ready_unknown X [''SourceNotReady''] (ready_unknown X [AccessDeniedReason, ArtifactFailedReason] b)"
  have b1: "conditions_only obj b1" "World b1 = World b" unfolding b1_def using assms(1) by (auto intro: steps)
  have ready: "isSourceReady (eCond (xEnv X)) source = None"
    using assms src by (auto simp: reconcile_source_def reads returning_def Let_def intro!: steps split: option.splits)
  then have not: "\<not> conditions_only obj (snd (reconcile_values X R source b1))"
    using assms src by (simp add: reconcile_source_def reads b1_def Let_def)
  then obtain vals where vals: "xChartValues X (HR_Namespace obj) (GetValues obj) (Spec_ValuesFrom (HR_Spec obj)) (World b) = Inr vals"
    using b1 by (cases "xChartValues X (HR_Namespace obj) (GetValues obj) (Spec_ValuesFrom (HR_Spec obj)) (World b)")
      (auto simp: reconcile_values_def conditions_only_reads [OF b1(1)] returning_def intro!: steps)
  define b2 where "b2 = ready_unknown X [''ValuesError''] b1"
  have b2: "conditions_only obj b2" "World b2 = World b" unfolding b2_def using b1 by (auto intro: steps)
  from not vals have not2: "\<not> conditions_only obj (snd (reconcile_load X R source vals b2))"
    by (simp add: reconcile_values_def conditions_only_reads [OF b1(1)] b1(2) b2_def)
  then obtain artifact where art: "So_Artifact (snd source) = Some artifact"
    using b2 by (cases "So_Artifact (snd source)") (auto simp: reconcile_load_def)
  from not2 art obtain chart where "SecureLoadChartFromURL (xLoader X) (Art_URL artifact) (Art_Digest artifact)
      (ArtifactFetchRetries R) (ArtifactFetchTimeout R) (World b) = Inr chart"
    unfolding b2(2) [symmetric] by (cases "SecureLoadChartFromURL (xLoader X) (Art_URL artifact) (Art_Digest artifact)
      (ArtifactFetchRetries R) (ArtifactFetchTimeout R) (World b2)")
      (auto dest: load_failed [OF b2(1) art])
  with src ready vals art show ?thesis unfolding prerequisites_met_def by blast
qed

text \<open>C12. A reconciliation changes nothing of the status but the conditions unless every prerequisite is
  met: the object was persisted as reconciling, the dependencies are met, the source can be
  accessed and is ready, and the values and the chart could be loaded.\<close>

theorem release_needs_prerequisites:
  assumes "\<not> conditions_only (Object req) (snd (reconcileRelease X R req))"
  shows "let req1 = MarkReconciling (xEnv X) ProgressingReason ''Fulfilling prerequisites'' req
    in \<exists>w. ePatch (xEnv X) (Object req1) (World req1) = (None, w) \<and>
       (Spec_DependsOn (HR_Spec (Object req)) = [] \<or> checkDependencies X R (Object req1) w = None) \<and>
       prerequisites_met X R (Object req) w"
proof -
  define req1 where "req1 = MarkReconciling (xEnv X) ProgressingReason ''Fulfilling prerequisites'' req"
  have c1: "conditions_only (Object req) req1" unfolding req1_def by (intro steps conditions_only_self)
  obtain e w where p: "ePatch (xEnv X) (Object req1) (World req1) = (e, w)" by fastforce
  have e: "e = None"
    using assms c1 p by (cases e) (auto simp: reconcileRelease_def req1_def [symmetric] returning_def intro: steps)
  have spec: "HR_Spec (Object req1) = HR_Spec (Object req)" using conditions_only_reads(4) [OF c1] .
  have deps: "Spec_DependsOn (HR_Spec (Object req)) = [] \<or> checkDependencies X R (Object req1) w = None"
    using assms c1
    by (auto simp: reconcileRelease_def req1_def [symmetric] p e reconcile_dependencies_def spec returning_def Let_def
        intro!: steps split: option.splits if_splits)
  then have "\<not> conditions_only (Object req)
      (snd (reconcile_source X R (ready_unknown X [DependencyNotReadyReason] (set_world w req1))))"
    using assms
    by (cases "Spec_DependsOn (HR_Spec (Object req)) = []")
      (simp_all add: reconcileRelease_def req1_def [symmetric] p e reconcile_dependencies_def spec)
  from reconcile_source_prerequisites [OF _ this] c1 have "prerequisites_met X R (Object req) w"
    by (auto intro: steps)
  with p e deps show ?thesis unfolding req1_def by auto
qed

definition disconnected_ctrl :: "(sample_world, string) ctrl_env" where
  "disconnected_ctrl = sample_ctrl\<lparr>xClientSet := (\<lambda>c. Some (errors_New ''connection refused''))\<rparr>"

definition charted_request :: "sample_world Request" where
  "charted_request = on_status (\<lambda>st. st\<lparr>St_HelmChart := ''ns/ns-app''\<rparr>) finalized_request"

theorem release_needs_prerequisites_witness:
  "prerequisites_met disconnected_ctrl sample_reconciler (Object charted_request) (World charted_request)"
proof -
  have "St_LastAttemptedGeneration (HR_Status (Object (snd (reconcileRelease disconnected_ctrl sample_reconciler charted_request)))) = 1"
    by code_simp
  moreover have "St_LastAttemptedGeneration (HR_Status (Object charted_request)) = 0"
    by (simp add: charted_request_def finalized_request_def templated_request_def sample_request_def sample_object_def sample_status_def)
  ultimately have "\<not> conditions_only (Object charted_request) (snd (reconcileRelease disconnected_ctrl sample_reconciler charted_request))"
    by (auto simp: conditions_only_def SetConditions_def)
  from release_needs_prerequisites [OF this] show ?thesis
    by (auto simp: disconnected_ctrl_def sample_ctrl_def sample_env_def cond_op_defs)
qed

subsection \<open>Access to other namespaces is denied for good\<close>

lemma getSource_cross_namespace:
  assumes "\<not> AllowCrossNamespaceRef R" "Spec_GetHelmChartReference obj = Some ref"
    "Ref_Namespace ref \<noteq> HR_Namespace obj"
  shows "getSource R S obj w = Err (access_denied ref)"
  using assms
  by (auto simp: getSource_def getSourceFromOCIRef_def getSourceFromExternalArtifact_def resolve_source_def AllowsAccessTo_def
      Spec_GetHelmChartReference_def Let_def split: option.splits)

lemma conditions_after_denial:
  assumes "conditions_ok (eCond E)"
    and "req' = DeleteCondition E ReconcilingCondition (Mark E ReadyCondition ConditionFalse r m (MarkStalled E r m req))"
  shows "cond_shows (cGet (eCond E) (Conditions (Object req')) StalledCondition) StalledCondition ConditionTrue r m (HR_Generation (Object req))"
    and "cond_shows (cGet (eCond E) (Conditions (Object req')) ReadyCondition) ReadyCondition ConditionFalse r m (HR_Generation (Object req))"
    and "cGet (eCond E) (Conditions (Object req')) ReconcilingCondition = None"
proof -
  have ne: "StalledCondition \<noteq> ReconcilingCondition" "ReadyCondition \<noteq> ReconcilingCondition" "StalledCondition \<noteq> ReadyCondition"
    by (simp_all add: condition_defs)
  show "cond_shows (cGet (eCond E) (Conditions (Object req')) StalledCondition) StalledCondition ConditionTrue r m (HR_Generation (Object req))"
    "cond_shows (cGet (eCond E) (Conditions (Object req')) ReadyCondition) ReadyCondition ConditionFalse r m (HR_Generation (Object req))"
    "cGet (eCond E) (Conditions (Object req')) ReconcilingCondition = None"
    using cGet_Mark_same [OF assms(1)]
    by (simp_all add: assms(2) cond_op_defs cGet_Delete [OF assms(1)] cGet_Mark_other [OF assms(1)] ne
        conditions_okD(7) [OF assms(1)])
qed


definition foreign_request :: "sample_world Request" where
  "foreign_request = on_object (\<lambda>obj. obj\<lparr>HR_Spec := (HR_Spec obj)\<lparr>Spec_ChartRef := Some
     \<lparr>CSR_APIVersion = '''', CSR_Kind = ''OCIRepository'', CSR_Name = ''podinfo'', CSR_Namespace = ''other''\<rparr>\<rparr>\<rparr>) sample_request"


end
