(* ===== verification/Decisions.thy ===== *)
theory Decisions
  imports ReleaseLoop
begin

section \<open>What the loop decides\<close>

text \<open>
  Which action \<^verbatim>\<open>actionForState\<close> may choose in which state, what a force request changes, and
  what happens when the retries are exhausted.
\<close>

subsection \<open>The force request and the counters\<close>

lemma force_object:
  "\<exists>v. snd (ShouldHandleForceRequest E obj) = with_status (\<lambda>st. st\<lparr>St_LastHandledForceAt := v\<rparr>) obj"
  by (simp add: ShouldHandleForceRequest_def split: prod.split) blast

lemma count_with_status:
  assumes "St_InstallFailures (f (HR_Status obj)) = St_InstallFailures (HR_Status obj)"
    and "St_UpgradeFailures (f (HR_Status obj)) = St_UpgradeFailures (HR_Status obj)"
  shows "GetFailureCount rem (with_status f obj) = GetFailureCount rem obj"
    and "RetriesExhausted rem (with_status f obj) = RetriesExhausted rem obj"
  using assms
  by (cases rem; simp add: InstallRemediation_GetFailureCount_def UpgradeRemediation_GetFailureCount_def
      InstallRemediation_RetriesExhausted_def UpgradeRemediation_RetriesExhausted_def)+

text \<open>What the decision reads of the object is the same after the force request was handled and
  after the history was sorted.\<close>

lemma decision_reads:
  assumes "obj' = snd (ShouldHandleForceRequest E obj) \<or> obj' = with_status (\<lambda>st. st\<lparr>St_History := h\<rparr>) obj"
  shows "GetActiveRemediation obj' = GetActiveRemediation obj" "GetActiveRetry obj' d = GetActiveRetry obj d"
    "GetFailureCount rem obj' = GetFailureCount rem obj" "RetriesExhausted rem obj' = RetriesExhausted rem obj"
    "GetTest obj' = GetTest obj" "GetInstall obj' = GetInstall obj" "GetUpgrade obj' = GetUpgrade obj"
    "GetDriftDetection obj' = GetDriftDetection obj"
    "St_LastAttemptedReleaseAction (HR_Status obj') = St_LastAttemptedReleaseAction (HR_Status obj)"
proof -
  obtain f where f: "obj' = with_status f obj"
      "St_LastAttemptedReleaseAction (f (HR_Status obj)) = St_LastAttemptedReleaseAction (HR_Status obj)"
      "St_InstallFailures (f (HR_Status obj)) = St_InstallFailures (HR_Status obj)"
      "St_UpgradeFailures (f (HR_Status obj)) = St_UpgradeFailures (HR_Status obj)"
    using assms force_object [of E obj] by auto
  then show "GetActiveRemediation obj' = GetActiveRemediation obj" "GetActiveRetry obj' d = GetActiveRetry obj d"
    "GetFailureCount rem obj' = GetFailureCount rem obj" "RetriesExhausted rem obj' = RetriesExhausted rem obj"
    "GetTest obj' = GetTest obj" "GetInstall obj' = GetInstall obj" "GetUpgrade obj' = GetUpgrade obj"
    "GetDriftDetection obj' = GetDriftDetection obj"
    "St_LastAttemptedReleaseAction (HR_Status obj') = St_LastAttemptedReleaseAction (HR_Status obj)"
    by (simp_all add: active_with_status count_with_status)
qed

lemmas forced_reads = decision_reads [OF disjI1 [OF refl]]
lemmas sorted_reads = decision_reads [OF disjI2 [OF refl], folded set_history_def]

lemma force_history [simp]: "History (snd (ShouldHandleForceRequest E obj)) = History obj"
  using force_object [of E obj] by auto

subsection \<open>Actions and states\<close>

text \<open>When a remediation is due for a failed release.\<close>

definition remediation_due :: "'w env \<Rightarrow> HelmRelease \<Rightarrow> Remediation \<Rightarrow> bool" where
  "remediation_due E obj rem \<longleftrightarrow>
     GetActiveRetry obj (retry_flag E) = None \<and> GetActiveRemediation obj = Some rem \<and>
     GetFailureCount rem obj > 0 \<and> \<not> fst (ShouldHandleForceRequest E obj) \<and>
     (\<not> RetriesExhausted rem obj \<or> MustRemediateLastFailure rem)"

text \<open>The release a rollback would go back to, when it is still in the storage as recorded.\<close>

definition rollback_target :: "'w env \<Rightarrow> Remediation \<Rightarrow> 'w Request \<Rightarrow> HelmRel res" where
  "rollback_target E rem req =
     (let ig = MustIgnoreTestFailures rem (Test_IgnoreFailures (GetTest (Object req)))
      in VerifySnapshot E (Previous (Truncate (History (Object req)) ig) ig) (World req))"

fun action_fits :: "'w env \<Rightarrow> ReleaseState \<Rightarrow> 'w Request \<Rightarrow> ActionReconciler \<Rightarrow> bool" where
  "action_fits E s req AInstall \<longleftrightarrow> RS_Status s = ReleaseStatusAbsent"
| "action_fits E s req AUpgrade \<longleftrightarrow>
     RS_Status s \<in> {ReleaseStatusInSync, ReleaseStatusUnmanaged, ReleaseStatusOutOfSync, ReleaseStatusFailed} \<and>
     (RS_Status s = ReleaseStatusInSync \<longrightarrow> fst (ShouldHandleForceRequest E (Object req)))"
| "action_fits E s req ATest \<longleftrightarrow> RS_Status s = ReleaseStatusUntested"
| "action_fits E s req AUnlock \<longleftrightarrow> RS_Status s = ReleaseStatusLocked"
| "action_fits E s req ARollbackRemediation \<longleftrightarrow> RS_Status s = ReleaseStatusFailed \<and>
     (\<exists>rem rls. remediation_due E (Object req) rem \<and> GetStrategy rem = RollbackRemediationStrategy \<and>
        rollback_target E rem req = Ok rls)"
| "action_fits E s req AUninstallRemediation \<longleftrightarrow> RS_Status s = ReleaseStatusFailed \<and>
     (\<exists>rem. remediation_due E (Object req) rem \<and> GetStrategy rem = UninstallRemediationStrategy)"
| "action_fits E s req AUninstall \<longleftrightarrow> False"
| "action_fits E s req (ACorrectClusterDrift d m) \<longleftrightarrow> RS_Status s = ReleaseStatusDrifted \<and> d = RS_Diff s \<and>
     GetMode (GetDriftDetection (Object req)) = DriftDetectionEnabled \<and> m = ManagedFieldsManager (eFlags E)"

lemma remediate_action_fits:
  assumes "fst (remediate_action E rem req) = Ok (Some a)"
  shows "a = AUpgrade \<or>
    (a = ARollbackRemediation \<and> GetStrategy rem = RollbackRemediationStrategy \<and> (\<exists>rls. rollback_target E rem req = Ok rls)) \<or>
    (a = AUninstallRemediation \<and> GetStrategy rem = UninstallRemediationStrategy)"
  using assms
  by (auto simp: remediate_action_def rollback_target_def truncate_history_def Let_def
      split: RemediationStrategy.splits res.splits if_splits)

lemma action_failed_fits:
  assumes "fst (action_failed E f req) = Ok (Some a)"
  shows "a = AUpgrade \<or>
    (\<exists>rem. GetActiveRetry (Object req) (retry_flag E) = None \<and> GetActiveRemediation (Object req) = Some rem \<and>
      GetFailureCount rem (Object req) > 0 \<and> \<not> f \<and> (\<not> RetriesExhausted rem (Object req) \<or> MustRemediateLastFailure rem) \<and>
      fst (remediate_action E rem req) = Ok (Some a))"
  using assms by (auto simp: action_failed_def split: if_splits option.splits)

text \<open>C2. Every action the loop chooses fits the state it was chosen for. In particular a release that is
  in sync is upgraded only on request; a remediation is chosen only for a failed release with
  counted failures, no pending force request and either retries left or the last failure to be
  remediated, and by the strategy configured; a rollback only to an earlier release that is still
  in the storage unmodified; cluster state is corrected only when drift detection is enabled; and
  the loop never uninstalls on its own account.\<close>

theorem actionForState_fits:
  assumes "fst (actionForState E s req) = Ok (Some a)"
  shows "action_fits E s req a"
proof (cases "RS_Status s")
  case ReleaseStatusFailed
  let ?req = "on_object (\<lambda>_. snd (ShouldHandleForceRequest E (Object req))) req"
  from assms ReleaseStatusFailed
  have "fst (action_failed E (fst (ShouldHandleForceRequest E (Object req))) ?req) = Ok (Some a)"
    by (simp add: actionForState_def Let_def)
  from action_failed_fits [OF this] show ?thesis
  proof
    assume "a = AUpgrade"
    with ReleaseStatusFailed show ?thesis by simp
  next
    assume "\<exists>rem. GetActiveRetry (Object ?req) (retry_flag E) = None \<and> GetActiveRemediation (Object ?req) = Some rem \<and>
      GetFailureCount rem (Object ?req) > 0 \<and> \<not> fst (ShouldHandleForceRequest E (Object req)) \<and>
      (\<not> RetriesExhausted rem (Object ?req) \<or> MustRemediateLastFailure rem) \<and>
      fst (remediate_action E rem ?req) = Ok (Some a)"
    then obtain rem where due: "remediation_due E (Object req) rem" and r: "fst (remediate_action E rem ?req) = Ok (Some a)"
      by (auto simp: remediation_due_def forced_reads)
    have "rollback_target E rem ?req = rollback_target E rem req"
      by (simp add: rollback_target_def forced_reads)
    with remediate_action_fits [OF r] due ReleaseStatusFailed show ?thesis
      by (elim disjE conjE exE; simp; blast)
  qed
qed (use assms in \<open>auto simp: actionForState_def action_in_sync_def action_drifted_def forced_reads Let_def split: if_splits\<close>)

theorem actionForState_fits_witness:
  "\<exists>rem. remediation_due sample_env (Object sample_failed) rem \<and> GetStrategy rem = UninstallRemediationStrategy"
proof -
  have "fst (actionForState sample_env (mk_state ReleaseStatusFailed []) sample_failed) = Ok (Some AUninstallRemediation)"
    by code_simp
  from actionForState_fits [OF this] show ?thesis by simp
qed

text \<open>A force request always gets a release action: it is handled in every state in which the release
  is not already being acted on, whatever the retries and the remediation configured.\<close>

theorem force_request_releases:
  assumes "fst (ShouldHandleForceRequest E (Object req))"
  shows "(RS_Status s = ReleaseStatusAbsent \<longrightarrow> fst (actionForState E s req) = Ok (Some AInstall)) \<and>
    (RS_Status s \<in> {ReleaseStatusInSync, ReleaseStatusUnmanaged, ReleaseStatusOutOfSync, ReleaseStatusFailed} \<longrightarrow>
       fst (actionForState E s req) = Ok (Some AUpgrade))"
  using assms
  by (auto simp: actionForState_def action_in_sync_def action_failed_def Let_def split: option.split)

theorem force_request_releases_witness:
  "let req = sample_failed\<lparr>Object := (Object sample_failed)\<lparr>HR_Annotations :=
       [(ForceRequestAnnotation, ''now''), (ReconcileRequestAnnotation, ''now'')]\<rparr>\<rparr>
   in fst (actionForState sample_env (mk_state ReleaseStatusFailed []) req) = Ok (Some AUpgrade)"
proof -
  let ?req = "sample_failed\<lparr>Object := (Object sample_failed)\<lparr>HR_Annotations :=
       [(ForceRequestAnnotation, ''now''), (ReconcileRequestAnnotation, ''now'')]\<rparr>\<rparr>"
  have "fst (ShouldHandleForceRequest sample_env (Object ?req))" by code_simp
  from force_request_releases [OF this, of "mk_state ReleaseStatusFailed []"] show ?thesis by simp
qed

subsection \<open>Exhausted retries\<close>

definition out_of_retries :: "'w env \<Rightarrow> ReleaseStatus \<Rightarrow> HelmRelease \<Rightarrow> bool" where
  "out_of_retries E st obj \<longleftrightarrow> \<not> fst (ShouldHandleForceRequest E obj) \<and>
     (case st of
        ReleaseStatusAbsent \<Rightarrow> RetriesExhausted (Install_GetRemediation (GetInstall obj)) obj
      | ReleaseStatusOutOfSync \<Rightarrow> RetriesExhausted (Upgrade_GetRemediation (GetUpgrade obj)) obj
      | ReleaseStatusFailed \<Rightarrow> GetActiveRetry obj (retry_flag E) = None \<and>
          (case GetActiveRemediation obj of None \<Rightarrow> False
           | Some rem \<Rightarrow> GetFailureCount rem obj > 0 \<and> RetriesExhausted rem obj \<and> \<not> MustRemediateLastFailure rem)
      | _ \<Rightarrow> False)"

lemma actionForState_out_of_retries:
  assumes "out_of_retries E (RS_Status s) (Object req)"
  shows "\<exists>e. actionForState E s req = (Err e, on_object (\<lambda>_. snd (ShouldHandleForceRequest E (Object req))) req) \<and>
    errors_Is e ErrExceededMaxRetries"
  using assms
  by (auto simp: out_of_retries_def actionForState_def action_failed_def forced_reads Let_def
      split: ReleaseStatus.splits option.splits)

lemma out_of_retries_sorted:
  assumes "obj' \<in> {obj, set_history h obj}"
  shows "out_of_retries E st obj' \<longleftrightarrow> out_of_retries E st obj"
proof -
  have "fst (ShouldHandleForceRequest E (set_history h obj)) = fst (ShouldHandleForceRequest E obj)"
    by (simp add: ShouldHandleForceRequest_def set_history_def split: prod.split)
  with assms show ?thesis
    by (auto simp: out_of_retries_def sorted_reads split: ReleaseStatus.split option.split)
qed

lemma loop_Finish: "iteration E [] req = finish acts r \<Longrightarrow> AtomicRelease_Reconcile E req = r"
  unfolding AtomicRelease_Reconcile_def by (subst AtomicRelease_loop.simps) (simp add: finish_def)

lemma out_of_retries_loop:
  assumes "eCtxErr E (World req) = None" "DetermineReleaseState E req = (Ok s, req1)"
    and "out_of_retries E (RS_Status s) (Object req)"
  shows "\<exists>e req2. AtomicRelease_Reconcile E req = stall_retries E e req2 \<and> errors_Is e ErrExceededMaxRetries \<and>
    GetActiveRemediation (Object req2) = GetActiveRemediation (Object req)"
proof -
  have obj: "Object req1 \<in> {Object req, set_history (SortByVersion (History (Object req))) (Object req)}"
    using DetermineReleaseState_object [of E req] assms(2) by (auto simp: set_history_def with_status_def)
  then have "out_of_retries E (RS_Status s) (Object req1)"
    using out_of_retries_sorted assms(3) by blast
  from actionForState_out_of_retries [OF this] obtain e where
    a: "actionForState E s req1 = (Err e, on_object (\<lambda>_. snd (ShouldHandleForceRequest E (Object req1))) req1)"
    and e: "errors_Is e ErrExceededMaxRetries" by blast
  have "GetActiveRemediation (snd (ShouldHandleForceRequest E (Object req1))) = GetActiveRemediation (Object req)"
    using obj by (auto simp: forced_reads sorted_reads)
  then show ?thesis
    using loop_Finish [of E req "[]"] assms(1,2) a e
    by (intro exI [of _ e] exI [of _ "on_object (\<lambda>_. snd (ShouldHandleForceRequest E (Object req1))) req1"])
      (simp add: iteration_def no_action_possible_def)
qed


text \<open>A failed installation without retries, for examples.\<close>

definition sample_exhausted :: "sample_world Request" where
  "sample_exhausted = sample_request\<lparr>Object := with_status (\<lambda>st. st\<lparr>
     St_LastAttemptedReleaseAction := ReleaseActionInstall, St_InstallFailures := 1\<rparr>) sample_object\<rparr>"

lemma sample_absent:
  assumes "GetReleaseName (Object req) = ''app''" "World req = []"
  shows "DetermineReleaseState sample_env req = (Ok (mk_state ReleaseStatusAbsent ''no release in storage for object''), req)"
  using assms by (simp add: DetermineReleaseState_def LastRelease_def sample_env_def sample_helm_def)

lemma sample_name: "GetReleaseName sample_object = ''app''"
  by (simp add: sample_object_def sample_spec_def GetReleaseName_def)


text \<open>C40. The same situation with no active remediation, that is when the last attempted action was
  neither an installation nor an upgrade: the controller dereferences a nil remediation and
  panics.\<close>

theorem retries_exhausted_without_remediation_panics:
  assumes "eCtxErr E (World req) = None" and "DetermineReleaseState E req = (Ok s, req1)"
    and "out_of_retries E (RS_Status s) (Object req)"
    and "GetActiveRemediation (Object req) = None"
  shows "fst (AtomicRelease_Reconcile E req) = Panic"
  using out_of_retries_loop [OF assms(1-3)] assms(4) by (auto simp: stall_retries_def)

theorem retries_exhausted_without_remediation_panics_witness:
  "let req = sample_request\<lparr>Object := with_status (\<lambda>st. st\<lparr>St_InstallFailures := 1\<rparr>) sample_object\<rparr>
   in fst (AtomicRelease_Reconcile sample_env req) = Panic"
proof -
  let ?req = "sample_request\<lparr>Object := with_status (\<lambda>st. st\<lparr>St_InstallFailures := 1\<rparr>) sample_object\<rparr>"
  have "eCtxErr sample_env (World ?req) = None" by (simp add: sample_env_def)
  moreover have "DetermineReleaseState sample_env ?req =
      (Ok (mk_state ReleaseStatusAbsent ''no release in storage for object''), ?req)"
    by (rule sample_absent) (simp_all add: sample_name sample_request_def)
  moreover have "out_of_retries sample_env ReleaseStatusAbsent (Object ?req)" by code_simp
  moreover have "GetActiveRemediation (Object ?req) = None" by code_simp
  ultimately show ?thesis
    using retries_exhausted_without_remediation_panics [of sample_env ?req] by simp
qed

end
