(* ===== verification/Outcomes.thy ===== *)
theory Outcomes
  imports Contracts
begin

section \<open>What the release actions record\<close>

text \<open>
  The history, the failure counters and the result after \<^verbatim>\<open>Install.Reconcile\<close> and
  \<^verbatim>\<open>Upgrade.Reconcile\<close>, in terms of what the run of the Helm action persisted in its storage
  and of the error it returned.
\<close>

subsection \<open>The status without conditions and inventory\<close>

definition core :: "'w Request \<Rightarrow> HelmReleaseStatus" where
  "core req = (HR_Status (Object req))\<lparr>St_Conditions := [], St_Inventory := None\<rparr>"

lemma core_selectors:
  "History (Object req) = St_History (core req)"
  "St_InstallFailures (HR_Status (Object req)) = St_InstallFailures (core req)"
  "St_UpgradeFailures (HR_Status (Object req)) = St_UpgradeFailures (core req)"
  "St_Failures (HR_Status (Object req)) = St_Failures (core req)"
  "St_LastAttemptedReleaseAction (HR_Status (Object req)) = St_LastAttemptedReleaseAction (core req)"
  "St_LastAttemptedRevisionDigest (HR_Status (Object req)) = St_LastAttemptedRevisionDigest (core req)"
  by (simp_all add: core_def)

lemma core_simps [simp]:
  "core (Mark E t st r m b) = core b" "core (SetCondition E c b) = core b" "core (DeleteCondition E t b) = core b"
  "core (on_conditions f b) = core b" "core (set_world w b) = core b" "core (emit md ty r ac m b) = core b"
  by (simp_all add: core_def cond_op_defs emit_def)

lemma core_summarize [simp]: "core (summarize E b) = core b"
  by (simp add: summarize_def Let_def split: list.split)

lemma core_on_status: "core (on_status f b) = (f (HR_Status (Object b)))\<lparr>St_Conditions := [], St_Inventory := None\<rparr>"
  by (simp add: core_def)

lemma core_build_inventory [simp]: "core (build_inventory E a r w b) = core b"
  using build_inventory_object [of E a r w b] by (auto simp: core_def)

subsection \<open>What a run persists\<close>

definition persisted_releases :: "'w storage_op list \<Rightarrow> HelmRel list" where
  "persisted_releases ops =
     concat (map (\<lambda>(rls, w). case rls of RelV1 r \<Rightarrow> [r] | RelOther \<Rightarrow> []) (concat (map persisted ops)))"

text \<open>The state of the newest release a run persisted.\<close>

definition newest :: "HelmRel list \<Rightarrow> HelmRel option" where
  "newest rs = (if rs = [] then None
     else find (\<lambda>r. Rel_Version r = Max (set (map Rel_Version rs))) (rev rs))"

definition observe_all :: "HelmRel list \<Rightarrow> observedReleases \<Rightarrow> observedReleases" where
  "observe_all rs m = fold (\<lambda>r. AList.update (Rel_Version r) (ObserveRelease r)) rs m"

lemma observe_all_simps [simp]:
  "observe_all [] m = m" "observe_all (r # rs) m = observe_all rs (AList.update (Rel_Version r) (ObserveRelease r) m)"
  "observe_all (rs @ rs') m = observe_all rs' (observe_all rs m)"
  by (simp_all add: observe_all_def)

lemma observe_run_core:
  "core (fst (observe_run [observeRelease, observeInventory E a] run b)) = core b"
  unfolding observe_run_def
  by (rule replay_invariant [where P = "\<lambda>s. core (fst s) = core b"])
    (auto simp: observeRelease_def observeInventory_def Let_def split: Releaser.split)

lemma observe_run_observed:
  "snd (observe_run [observeRelease, observeInventory E a] run b) = observe_all (persisted_releases (Run_Ops run)) []"
proof -
  have "snd (fold (\<lambda>(rls, w). notify [observeRelease, observeInventory E a] rls w) ps s) =
      observe_all (concat (map (\<lambda>(rls, w). case rls of RelV1 r \<Rightarrow> [r] | RelOther \<Rightarrow> []) ps)) (snd s)" for ps s
    by (induction ps arbitrary: s)
      (auto simp: notify_def observeRelease_def observeInventory_def Let_def split: Releaser.split)
  then show ?thesis
    by (simp add: observe_run_def replay_persisted persisted_releases_def)
qed

lemma observe_all_lookup:
  "map_of (observe_all rs m) v = (case find (\<lambda>r. Rel_Version r = v) (rev rs) of
     None \<Rightarrow> map_of m v | Some r \<Rightarrow> Some (ObserveRelease r))"
proof (induction rs rule: rev_induct)
  case Nil
  show ?case by simp
next
  case (snoc r rs)
  then show ?case by (simp add: update_conv')
qed

lemma observe_all_keys: "set (map fst (observe_all rs [])) = Rel_Version ` set rs"
  by (induction rs rule: rev_induct) (auto simp: dom_update)

lemma observe_all_distinct: "distinct (map fst (observe_all rs []))"
  by (induction rs rule: rev_induct) (simp_all add: distinct_update)

lemma sortedVersions_observed:
  "sortedVersions (observe_all rs []) = [] \<longleftrightarrow> rs = []"
  "rs \<noteq> [] \<Longrightarrow> \<exists>vs. sortedVersions (observe_all rs []) = Max (set (map Rel_Version rs)) # vs \<and>
     (\<forall>v \<in> set vs. v < Max (set (map Rel_Version rs))) \<and> set vs \<subseteq> Rel_Version ` set rs"
proof -
  let ?ks = "map fst (observe_all rs [])"
  have keys: "set ?ks = Rel_Version ` set rs" by (rule observe_all_keys)
  show "sortedVersions (observe_all rs []) = [] \<longleftrightarrow> rs = []"
    using keys by (metis image_is_empty rev_is_Nil_conv set_empty set_sort sortedVersions_def)
  assume "rs \<noteq> []"
  then have "sortedVersions (observe_all rs []) \<noteq> []"
    using keys by (metis image_is_empty rev_is_Nil_conv set_empty set_sort sortedVersions_def)
  then obtain v vs where vs: "sortedVersions (observe_all rs []) = v # vs" by (cases "sortedVersions (observe_all rs [])") auto
  have "set (v # vs) = set (map Rel_Version rs)"
    unfolding vs [symmetric] using keys by (simp add: sortedVersions_def)
  moreover have "distinct (v # vs)"
    unfolding vs [symmetric] using observe_all_distinct by (simp add: sortedVersions_def)
  moreover have "sorted_wrt (\<ge>) (v # vs)"
    unfolding vs [symmetric] sortedVersions_def by (simp add: sorted_wrt_rev)
  ultimately have d: "sorted_wrt (\<ge>) (v # vs)" "distinct (v # vs)" "set (v # vs) = set (map Rel_Version rs)"
    by blast+
  then have "v = Max (set (map Rel_Version rs))"
    by (metis Max_eqI List.finite_set list.set_intros(1) sorted_wrt.simps(2) set_ConsD order_refl)
  with vs d show "\<exists>vs. sortedVersions (observe_all rs []) = Max (set (map Rel_Version rs)) # vs \<and>
      (\<forall>v \<in> set vs. v < Max (set (map Rel_Version rs))) \<and> set vs \<subseteq> Rel_Version ` set rs"
    by (auto intro!: exI [of _ vs] simp: order_less_le)
qed

lemma newest_Nil [simp]: "newest [] = None"
  by (simp add: newest_def)

lemma newest_None [simp]: "newest rs = None \<longleftrightarrow> rs = []"
proof -
  have "\<exists>r \<in> set rs. Rel_Version r = Max (set (map Rel_Version rs))" if "rs \<noteq> []"
    using that Max_in [of "set (map Rel_Version rs)"] by (auto simp del: Max_in)
  then show ?thesis by (auto simp: newest_def find_None_iff)
qed

lemma newest_Some:
  assumes "newest rs = Some r"
  shows "r \<in> set rs" "Rel_Version r = Max (set (map Rel_Version rs))" "\<forall>r' \<in> set rs. Rel_Version r' \<le> Rel_Version r"
proof -
  from assms show "r \<in> set rs" "Rel_Version r = Max (set (map Rel_Version rs))"
    by (auto simp: newest_def find_Some_iff split: if_splits) (metis length_rev nth_mem set_rev)
  then show "\<forall>r' \<in> set rs. Rel_Version r' \<le> Rel_Version r" by simp
qed

subsection \<open>Recording\<close>

text \<open>The snapshot of a release that an action made.\<close>

definition release_snapshot :: "'w env \<Rightarrow> ReleaseAction \<Rightarrow> 'w Request \<Rightarrow> HelmRel \<Rightarrow> Snapshot" where
  "release_snapshot E action req r = ObservedToSnapshot (eDigest E)
     ((ObserveRelease r)\<lparr>Obs_OCIDigest := St_LastAttemptedRevisionDigest (HR_Status (Object req)), Obs_Action := action\<rparr>)"

lemma release_snapshot_simps [simp]:
  "Snap_Version (release_snapshot E action req r) = Rel_Version r"
  "Snap_Name (release_snapshot E action req r) = Rel_Name r"
  "Snap_Namespace (release_snapshot E action req r) = Rel_Namespace r"
  by (simp_all add: release_snapshot_def)

lemma record_core:
  "core (on_object (recordOnObject (eDigest E) (observe_all rs []) [mutateOCIDigest, mutateAction action]) b) =
     (case newest rs of None \<Rightarrow> core b
      | Some r \<Rightarrow> (core b)\<lparr>St_History := record_older (eDigest E) (observe_all rs [])
          (release_snapshot E action b r # History (Object b)) (tl (sortedVersions (observe_all rs [])))\<rparr>)"
proof (cases "newest rs")
  case None
  moreover from None have "rs = []" by simp
  ultimately show ?thesis using sortedVersions_observed(1) [of rs] by (simp add: recordOnObject_def core_def)
next
  case (Some r)
  then have "rs \<noteq> []" by auto
  from sortedVersions_observed(2) [OF this] obtain vs where
    v: "sortedVersions (observe_all rs []) = Max (set (map Rel_Version rs)) # vs" by blast
  moreover have "map_of (observe_all rs []) (Max (set (map Rel_Version rs))) = Some (ObserveRelease r)"
    using Some \<open>rs \<noteq> []\<close> by (simp add: observe_all_lookup newest_def)
  ultimately show ?thesis
    by (simp add: recordOnObject_def Some core_def set_history_def release_snapshot_def mutate_all_def
        mutateOCIDigest_def mutateAction_def)
qed

text \<open>Updating an older release changes one snapshot, and neither names nor versions.\<close>

lemma renew_snapshot_identity:
  assumes "targets_obs obs s" "Obs_Version obs > 0"
  shows "Snap_Name (renew_snapshot D obs s) = Snap_Name s" "Snap_Namespace (renew_snapshot D obs s) = Snap_Namespace s"
    "Snap_Version (renew_snapshot D obs s) = Snap_Version s"
  using assms by (auto simp: renew_snapshot_def targets_obs_def Targets_def SetTestHooks_def split: option.split)

definition one_renewed :: "Snapshots \<Rightarrow> Snapshots \<Rightarrow> bool" where
  "one_renewed h h' \<longleftrightarrow> map Snap_Version h' = map Snap_Version h \<and>
     (\<exists>i. \<forall>j < length h. j \<noteq> i \<longrightarrow> h' ! j = h ! j)"

lemma one_renewed_refl [simp]: "one_renewed h h"
  by (simp add: one_renewed_def)

lemma one_renewed_Nil [simp]: "one_renewed [] h \<longleftrightarrow> h = []"
  by (auto simp: one_renewed_def)

lemma record_older_newest:
  assumes "\<forall>v \<in> set vs. 0 < v \<and> v < Snap_Version s"
  shows "\<exists>h'. record_older D (observe_all rs []) (s # h) vs = s # h' \<and> one_renewed h h'"
  using assms
proof (induction vs)
  case Nil
  show ?case by simp
next
  case (Cons v vs)
  show ?case
  proof (cases "map_of (observe_all rs []) v")
    case None
    with Cons show ?thesis by simp
  next
    case (Some obs)
    then have ov: "Obs_Version obs = v"
      by (auto simp: observe_all_lookup find_Some_iff split: option.splits)
    then have "\<not> targets_obs obs s" using Cons.prems by (auto simp: targets_obs_def Targets_def)
    show ?thesis
    proof (cases "list_ex (targets_obs obs) h")
      case True
      then obtain ys x zs where h: "h = ys @ x # zs" "\<forall>y \<in> set ys. \<not> targets_obs obs y" "targets_obs obs x"
        by (metis list_ex_iff split_list_first_prop)
      have "record_older D (observe_all rs []) (s # h) (v # vs) = s # update_first (targets_obs obs) (renew_snapshot D obs) h"
        using Some True \<open>\<not> targets_obs obs s\<close> by simp
      moreover have "map Snap_Version (update_first (targets_obs obs) (renew_snapshot D obs) h) = map Snap_Version h"
        using renew_snapshot_identity(3) ov Cons.prems by (intro map_update_first) auto
      moreover have "update_first (targets_obs obs) (renew_snapshot D obs) h = ys @ renew_snapshot D obs x # zs"
        unfolding h(1) using h(2,3) by (rule update_first_split)
      then have "\<forall>j < length h. j \<noteq> length ys \<longrightarrow> update_first (targets_obs obs) (renew_snapshot D obs) h ! j = h ! j"
        unfolding h(1) by (auto simp: nth_append nth_Cons split: nat.split)
      ultimately show ?thesis unfolding one_renewed_def by blast
    next
      case False
      with Cons Some \<open>\<not> targets_obs obs s\<close> show ?thesis by simp
    qed
  qed
qed

subsection \<open>Install\<close>

text \<open>The run of the Helm action that a reconciler starts, and the releases it persists.\<close>

definition install_run :: "'w env \<Rightarrow> 'w Request \<Rightarrow> ('w, gerror + HelmRel) helm_run" where
  "install_run E req =
     (let req1 = start_release E ReleaseActionInstall (on_status ClearHistory req)
      in Install E (Object req1) (Chart req1) (Values req1) (World req1))"

definition upgrade_run :: "'w env \<Rightarrow> 'w Request \<Rightarrow> ('w, gerror + HelmRel) helm_run" where
  "upgrade_run E req =
     (let req1 = start_release E ReleaseActionUpgrade req
      in Upgrade E (Object req1) (Chart req1) (Values req1) (World req1))"

lemma core_start [simp]: "core (start_release E a b) = (core b)\<lparr>St_LastAttemptedReleaseAction := a\<rparr>"
  by (simp add: start_release_def core_on_status) (simp add: core_def)

lemma core_record_run:
  assumes "snd s = observe_all rs []" "core (fst s) = core b"
  shows "\<exists>d. core (record_run E action t s) = (case newest rs of
       None \<Rightarrow> (core b)\<lparr>St_LastAttemptedReleaseActionDuration := d\<rparr>
     | Some r \<Rightarrow> (core b)\<lparr>St_LastAttemptedReleaseActionDuration := d,
          St_History := record_older (eDigest E) (observe_all rs [])
            (release_snapshot E action b r # History (Object b)) (tl (sortedVersions (observe_all rs [])))\<rparr>)"
proof -
  let ?d = "Some (eNow E (World (fst s)) - t)"
  let ?req = "on_status (\<lambda>st. st\<lparr>St_LastAttemptedReleaseActionDuration := ?d\<rparr>) (fst s)"
  have c: "core ?req = (core b)\<lparr>St_LastAttemptedReleaseActionDuration := ?d\<rparr>"
    unfolding assms(2) [symmetric] core_on_status by (simp add: core_def)
  have "release_snapshot E action ?req r = release_snapshot E action b r" for r
    using assms(2) by (simp add: release_snapshot_def core_selectors)
  moreover have "History (Object ?req) = History (Object b)"
    using assms(2) by (simp add: core_selectors)
  ultimately show ?thesis
    unfolding record_run_def Let_def assms(1) record_core c
    by (intro exI [of _ ?d]) (simp split: option.split)
qed

text \<open>What \<open>conclude_release\<close> does to the rest of the status.\<close>

lemma core_release_failure:
  "core (release_failure E verb reason action buf err b) = (core b)\<lparr>St_Failures := inc64 (St_Failures (core b))\<rparr>"
  by (simp add: release_failure_def add_failure_def Let_def core_on_status) (simp add: core_def)

lemma core_increment:
  "core (on_object (IncrementFailureCount (RemInstall r)) b) = (core b)\<lparr>St_InstallFailures := inc64 (St_InstallFailures (core b))\<rparr>"
  "core (on_object (IncrementFailureCount (RemUpgrade u)) b) = (core b)\<lparr>St_UpgradeFailures := inc64 (St_UpgradeFailures (core b))\<rparr>"
  by (simp_all add: core_def InstallRemediation_IncrementFailureCount_def UpgradeRemediation_IncrementFailureCount_def)

lemma core_sort: "core (sort_history b) = (core b)\<lparr>St_History := SortByVersion (St_History (core b))\<rparr>"
  by (simp add: core_def)

lemma core_release_success:
  "St_History (core (snd (release_success E verb reason action retry b))) = SortByVersion (St_History (core b))"
  "fst (release_success E verb reason action retry b) = (if St_History (core b) = [] then Panic else Ok ())"
  "St_InstallFailures (core (snd (release_success E verb reason action retry b))) =
     (if retry = None then St_InstallFailures (core b) else 0)"
  "St_UpgradeFailures (core (snd (release_success E verb reason action retry b))) =
     (if retry = None then St_UpgradeFailures (core b) else 0)"
proof -
  have l: "latest b = None \<longleftrightarrow> St_History (core b) = []" by (simp add: latest_def core_selectors)
  have cf: "core (on_status ClearFailures b') = ClearFailures (core b')" for b' :: "'w Request"
    unfolding core_on_status by (simp add: ClearFailures_def core_def)
  show "St_History (core (snd (release_success E verb reason action retry b))) = SortByVersion (St_History (core b))"
    by (auto simp: release_success_def Let_def core_sort cf ClearFailures_def split: option.split)
  show "fst (release_success E verb reason action retry b) = (if St_History (core b) = [] then Panic else Ok ())"
    using l by (auto simp: release_success_def Let_def split: option.split)
  show "St_InstallFailures (core (snd (release_success E verb reason action retry b))) =
     (if retry = None then St_InstallFailures (core b) else 0)"
    by (auto simp: release_success_def Let_def core_sort cf ClearFailures_def split: option.split)
  show "St_UpgradeFailures (core (snd (release_success E verb reason action retry b))) =
     (if retry = None then St_UpgradeFailures (core b) else 0)"
    by (auto simp: release_success_def Let_def core_sort cf ClearFailures_def split: option.split)
qed

lemma core_postrender:
  "St_History (core (observePostRenderers E b)) = St_History (core b)"
  "St_InstallFailures (core (observePostRenderers E b)) = St_InstallFailures (core b)"
  "St_UpgradeFailures (core (observePostRenderers E b)) = St_UpgradeFailures (core b)"
  by (simp_all add: observePostRenderers_def Let_def core_def)

lemma conclude_release_outcome:
  assumes r_def: "r = conclude_release E verb okr failr action rem retry run observed b"
  shows "mset (St_History (core (snd r))) = mset (St_History (core b))"
    and "Run_Result run = Inl err \<Longrightarrow> fst r = (if observed = [] then Err err else Ok ())"
    and "Run_Result run = Inr rls \<Longrightarrow> fst r = (if St_History (core b) = [] then Panic else Ok ())"
    and "Run_Result run = Inl err \<Longrightarrow> rem = RemInstall i \<Longrightarrow> St_InstallFailures (core (snd r)) =
           (if observed = [] then St_InstallFailures (core b) else inc64 (St_InstallFailures (core b)))"
    and "Run_Result run = Inl err \<Longrightarrow> rem = RemUpgrade u \<Longrightarrow> St_UpgradeFailures (core (snd r)) =
           (if observed = [] then St_UpgradeFailures (core b) else inc64 (St_UpgradeFailures (core b)))"
    and "Run_Result run = Inr rls \<Longrightarrow> St_InstallFailures (core (snd r)) = (if retry = None then St_InstallFailures (core b) else 0)"
    and "Run_Result run = Inr rls \<Longrightarrow> St_UpgradeFailures (core (snd r)) = (if retry = None then St_UpgradeFailures (core b) else 0)"
proof -
  obtain x y where s: "release_success E verb okr action retry b = (x, y)" by fastforce
  note ok = core_release_success [of E verb okr action retry b, unfolded s]
  note defs = r_def conclude_release_def Let_def s core_release_failure core_increment
  show "mset (St_History (core (snd r))) = mset (St_History (core b))"
    using ok by (cases rem) (auto simp: defs core_postrender split: sum.split res.split)
  show "Run_Result run = Inl err \<Longrightarrow> fst r = (if observed = [] then Err err else Ok ())"
    by (simp add: defs)
  show "Run_Result run = Inr rls \<Longrightarrow> fst r = (if St_History (core b) = [] then Panic else Ok ())"
    using ok by (auto simp: defs split: res.split)
  show "Run_Result run = Inl err \<Longrightarrow> rem = RemInstall i \<Longrightarrow> St_InstallFailures (core (snd r)) =
      (if observed = [] then St_InstallFailures (core b) else inc64 (St_InstallFailures (core b)))"
    by (simp add: defs)
  show "Run_Result run = Inl err \<Longrightarrow> rem = RemUpgrade u \<Longrightarrow> St_UpgradeFailures (core (snd r)) =
      (if observed = [] then St_UpgradeFailures (core b) else inc64 (St_UpgradeFailures (core b)))"
    by (simp add: defs)
  show "Run_Result run = Inr rls \<Longrightarrow> St_InstallFailures (core (snd r)) = (if retry = None then St_InstallFailures (core b) else 0)"
    using ok by (auto simp: defs core_postrender split: res.split)
  show "Run_Result run = Inr rls \<Longrightarrow> St_UpgradeFailures (core (snd r)) = (if retry = None then St_UpgradeFailures (core b) else 0)"
    using ok by (auto simp: defs core_postrender split: res.split)
qed

lemma observe_all_Nil_iff: "observe_all rs [] = [] \<longleftrightarrow> rs = []"
  using observe_all_keys [of rs] by auto

lemma recorded_history:
  assumes "list_all (\<lambda>r. Rel_Version r > 0) rs" and "newest rs = Some r"
  shows "\<exists>h'. record_older D (observe_all rs []) (release_snapshot E action b r # h)
      (tl (sortedVersions (observe_all rs []))) = release_snapshot E action b r # h' \<and> one_renewed h h'"
proof -
  from assms have "rs \<noteq> []" by auto
  from sortedVersions_observed(2) [OF this] obtain vs where
    "tl (sortedVersions (observe_all rs [])) = vs" "\<forall>v \<in> set vs. v < Max (set (map Rel_Version rs))"
    "set vs \<subseteq> Rel_Version ` set rs" by auto
  with assms newest_Some(2) [OF assms(2)] show ?thesis
    by (intro record_older_newest) (auto simp: list_all_iff)
qed

text \<open>What install and upgrade have in common, from the run of the Helm action on.\<close>

definition release_run ::
  "'w env \<Rightarrow> string \<Rightarrow> string \<Rightarrow> string \<Rightarrow> Action \<Rightarrow> ReleaseAction \<Rightarrow> Remediation \<Rightarrow> ActionStrategy option \<Rightarrow>
   ('w, gerror + HelmRel) helm_run \<Rightarrow> time \<Rightarrow> 'w Request \<Rightarrow> unit res \<times> 'w Request" where
  "release_run E verb okr failr ac action rem retry run t req =
     (let s = observe_run [observeRelease, observeInventory E ac] run req
      in conclude_release E verb okr failr ac rem retry run (snd s) (record_run E action t s))"

lemma release_run_outcome:
  fixes rs :: "HelmRel list"
  assumes r: "r = release_run E verb okr failr ac action rem retry run t b"
    and rs: "rs = persisted_releases (Run_Ops run)" and pos: "list_all (\<lambda>r. Rel_Version r > 0) rs"
  shows "newest rs = None \<Longrightarrow> mset (St_History (core (snd r))) = mset (St_History (core b))"
    and "newest rs = Some x \<Longrightarrow> \<exists>h'. mset (St_History (core (snd r))) = mset (release_snapshot E action b x # h') \<and>
           one_renewed (St_History (core b)) h'"
    and "Run_Result run = Inl err \<Longrightarrow> fst r = (if rs = [] then Err err else Ok ())"
    and "Run_Result run = Inr rls \<Longrightarrow> fst r = (if rs = [] \<and> St_History (core b) = [] then Panic else Ok ())"
    and "Run_Result run = Inl err \<Longrightarrow> rem = RemInstall i \<Longrightarrow> St_InstallFailures (core (snd r)) =
           (if rs = [] then St_InstallFailures (core b) else inc64 (St_InstallFailures (core b)))"
    and "Run_Result run = Inl err \<Longrightarrow> rem = RemUpgrade u \<Longrightarrow> St_UpgradeFailures (core (snd r)) =
           (if rs = [] then St_UpgradeFailures (core b) else inc64 (St_UpgradeFailures (core b)))"
    and "Run_Result run = Inr rls \<Longrightarrow> St_InstallFailures (core (snd r)) = (if retry = None then St_InstallFailures (core b) else 0)"
    and "Run_Result run = Inr rls \<Longrightarrow> St_UpgradeFailures (core (snd r)) = (if retry = None then St_UpgradeFailures (core b) else 0)"
proof -
  let ?s = "observe_run [observeRelease, observeInventory E ac] run b"
  let ?b = "record_run E action t ?s"
  have "snd ?s = observe_all rs []" unfolding rs by (rule observe_run_observed)
  from core_record_run [OF this observe_run_core] obtain d where c: "core ?b = (case newest rs of
       None \<Rightarrow> (core b)\<lparr>St_LastAttemptedReleaseActionDuration := d\<rparr>
     | Some r \<Rightarrow> (core b)\<lparr>St_LastAttemptedReleaseActionDuration := d,
          St_History := record_older (eDigest E) (observe_all rs [])
            (release_snapshot E action b r # History (Object b)) (tl (sortedVersions (observe_all rs [])))\<rparr>)" by blast
  have none: "St_History (core ?b) = St_History (core b)" if "newest rs = None"
    unfolding c using that by simp
  have some: "\<exists>h'. St_History (core ?b) = release_snapshot E action b x # h' \<and> one_renewed (St_History (core b)) h'" if "newest rs = Some x" for x
    using recorded_history [OF pos that, of "eDigest E" E action b "History (Object b)"] that
    unfolding c core_selectors by auto
  have counts: "St_InstallFailures (core ?b) = St_InstallFailures (core b)" "St_UpgradeFailures (core ?b) = St_UpgradeFailures (core b)"
    unfolding c by (simp_all split: option.split)
  have empty_iff: "St_History (core ?b) = [] \<longleftrightarrow> rs = [] \<and> St_History (core b) = []"
    using none some by (cases "newest rs") (force, fastforce)
  have observed_iff: "snd ?s = [] \<longleftrightarrow> rs = []" unfolding rs by (simp add: observe_run_observed observe_all_Nil_iff)
  note out = conclude_release_outcome [OF r [unfolded release_run_def Let_def], unfolded counts empty_iff observed_iff]
  show "newest rs = None \<Longrightarrow> mset (St_History (core (snd r))) = mset (St_History (core b))"
    using out(1) none by simp
  show "newest rs = Some x \<Longrightarrow> \<exists>h'. mset (St_History (core (snd r))) = mset (release_snapshot E action b x # h') \<and>
      one_renewed (St_History (core b)) h'"
    using out(1) some by metis
  show "Run_Result run = Inl err \<Longrightarrow> fst r = (if rs = [] then Err err else Ok ())" by (rule out(2))
  show "Run_Result run = Inr rls \<Longrightarrow> fst r = (if rs = [] \<and> St_History (core b) = [] then Panic else Ok ())" by (rule out(3))
  show "Run_Result run = Inl err \<Longrightarrow> rem = RemInstall i \<Longrightarrow> St_InstallFailures (core (snd r)) =
      (if rs = [] then St_InstallFailures (core b) else inc64 (St_InstallFailures (core b)))" by (rule out(4))
  show "Run_Result run = Inl err \<Longrightarrow> rem = RemUpgrade u \<Longrightarrow> St_UpgradeFailures (core (snd r)) =
      (if rs = [] then St_UpgradeFailures (core b) else inc64 (St_UpgradeFailures (core b)))" by (rule out(5))
  show "Run_Result run = Inr rls \<Longrightarrow> St_InstallFailures (core (snd r)) = (if retry = None then St_InstallFailures (core b) else 0)"
    by (rule out(6))
  show "Run_Result run = Inr rls \<Longrightarrow> St_UpgradeFailures (core (snd r)) = (if retry = None then St_UpgradeFailures (core b) else 0)"
    by (rule out(7))
qed

text \<open>C20. After an installation the history is exactly the newest release Helm persisted, in its last state,
  recorded as made by an install; it is empty when nothing was persisted. A failure is counted if
  and only if something was persisted, and is then not returned as an error, so that the failed
  release can be remediated; a failure that persisted nothing is returned. A success clears the
  counter when the strategy is to retry.\<close>

theorem Install_Reconcile_outcome:
  assumes "list_all (\<lambda>r. Rel_Version r > 0) (persisted_releases (Run_Ops (install_run E req)))"
  shows "let rs = persisted_releases (Run_Ops (install_run E req));
             result = fst (Install_Reconcile E req); obj = Object req; obj' = Object (snd (Install_Reconcile E req));
             retry = Install_GetRetry (GetInstall obj) (defaultToRetryOnFailure (eFlags E))
    in History obj' = (case newest rs of None \<Rightarrow> [] | Some r \<Rightarrow> [release_snapshot E ReleaseActionInstall req r]) \<and>
       (case Run_Result (install_run E req) of
          Inl err \<Rightarrow> result = (if rs = [] then Err err else Ok ()) \<and>
            St_InstallFailures (HR_Status obj') =
              (if rs = [] then St_InstallFailures (HR_Status obj) else inc64 (St_InstallFailures (HR_Status obj)))
        | Inr _ \<Rightarrow> result = (if rs = [] then Panic else Ok ()) \<and>
            St_InstallFailures (HR_Status obj') = (if retry = None then St_InstallFailures (HR_Status obj) else 0))"
proof -
  let ?b = "start_release E ReleaseActionInstall (on_status ClearHistory req)"
  let ?rs = "persisted_releases (Run_Ops (install_run E req))"
  let ?i = "GetInstall (Object req)"
  let ?r = "release_run E ''install'' InstallSucceededReason InstallFailedReason ActionHelmInstall ReleaseActionInstall
     (Install_GetRemediation ?i) (Install_GetRetry ?i (defaultToRetryOnFailure (eFlags E))) (install_run E req) (eNow E (World req)) ?b"
  have res: "fst (Install_Reconcile E req) = fst ?r" "core (snd (Install_Reconcile E req)) = core (snd ?r)"
    by (simp_all add: Install_Reconcile_def install_run_def release_run_def Let_def summarized_def)
  have b: "core ?b = (core req)\<lparr>St_History := [], St_LastAttemptedReleaseAction := ReleaseActionInstall\<rparr>"
    by (simp add: core_on_status ClearHistory_def) (simp add: core_def)
  then have snap: "release_snapshot E ReleaseActionInstall ?b x = release_snapshot E ReleaseActionInstall req x" for x
    by (simp add: release_snapshot_def core_selectors)
  note out = release_run_outcome [OF refl [of ?r] refl [of ?rs] assms, unfolded snap, unfolded b]
  have "St_History (core (snd ?r)) =
      (case newest ?rs of None \<Rightarrow> [] | Some r \<Rightarrow> [release_snapshot E ReleaseActionInstall req r])"
    using out(1,2) by (cases "newest ?rs") auto
  moreover obtain ir where "Install_GetRemediation ?i = RemInstall ir" by (simp add: Install_GetRemediation_def)
  ultimately show ?thesis
    using out(3,4,5,7) by (auto simp: Let_def res core_selectors split: sum.split)
qed

theorem Install_Reconcile_outcome_witness:
  "\<exists>snap. History (Object (snd (Install_Reconcile sample_env sample_request))) = [snap] \<and>
     Snap_Status snap = ''deployed'' \<and> Snap_Version snap = 1 \<and> fst (Install_Reconcile sample_env sample_request) = Ok ()"
proof -
  let ?rs = "persisted_releases (Run_Ops (install_run sample_env sample_request))"
  have "list_all (\<lambda>r. Rel_Version r > 0) ?rs" by code_simp
  note out = Install_Reconcile_outcome [OF this, unfolded Let_def]
  have v: "(case Run_Result (install_run sample_env sample_request) of Inl e \<Rightarrow> False | Inr r \<Rightarrow> True) \<and>
      (case newest ?rs of None \<Rightarrow> False | Some r \<Rightarrow> Rel_Version r = 1 \<and> map_option Info_Status (Rel_Info r) = Some ''deployed'')"
    by code_simp
  then obtain r where r: "newest ?rs = Some r" "Rel_Version r = 1" "map_option Info_Status (Rel_Info r) = Some ''deployed''"
    by (auto split: option.splits)
  then have "?rs \<noteq> []" by (metis newest_None option.distinct(1))
  moreover have "Snap_Status (release_snapshot sample_env ReleaseActionInstall sample_request r) = ''deployed''"
    using r(3) by (auto simp: release_snapshot_def ObservedToSnapshot_def ObserveRelease_def ObserveRelease_with_def
        DefaultDataFilters_def IgnoreHookTestEvents_def split: option.split)
  ultimately show ?thesis using out r v by (auto split: sum.splits)
qed

text \<open>C21. An upgrade adds exactly one snapshot to the history, that of the newest release Helm persisted in
  its last state; of the recorded snapshots it changes at most one, and no version. Nothing is
  added when nothing was persisted. Failures are counted and returned as for an installation.\<close>

theorem Upgrade_Reconcile_outcome:
  assumes "list_all (\<lambda>r. Rel_Version r > 0) (persisted_releases (Run_Ops (upgrade_run E req)))"
  shows "let rs = persisted_releases (Run_Ops (upgrade_run E req));
             result = fst (Upgrade_Reconcile E req); obj = Object req; obj' = Object (snd (Upgrade_Reconcile E req));
             retry = Upgrade_GetRetry (GetUpgrade obj) (defaultToRetryOnFailure (eFlags E))
    in (case newest rs of
          None \<Rightarrow> mset (History obj') = mset (History obj)
        | Some r \<Rightarrow> \<exists>h. one_renewed (History obj) h \<and>
            mset (History obj') = mset (release_snapshot E ReleaseActionUpgrade req r # h)) \<and>
       (case Run_Result (upgrade_run E req) of
          Inl err \<Rightarrow> result = (if rs = [] then Err err else Ok ()) \<and>
            St_UpgradeFailures (HR_Status obj') =
              (if rs = [] then St_UpgradeFailures (HR_Status obj) else inc64 (St_UpgradeFailures (HR_Status obj)))
        | Inr _ \<Rightarrow> result = (if rs = [] \<and> History obj = [] then Panic else Ok ()) \<and>
            St_UpgradeFailures (HR_Status obj') = (if retry = None then St_UpgradeFailures (HR_Status obj) else 0))"
proof -
  let ?b = "start_release E ReleaseActionUpgrade req"
  let ?rs = "persisted_releases (Run_Ops (upgrade_run E req))"
  let ?u = "GetUpgrade (Object req)"
  let ?r = "release_run E ''upgrade'' UpgradeSucceededReason UpgradeFailedReason ActionHelmUpgrade ReleaseActionUpgrade
     (Upgrade_GetRemediation ?u) (Upgrade_GetRetry ?u (defaultToRetryOnFailure (eFlags E))) (upgrade_run E req) (eNow E (World req)) ?b"
  have res: "fst (Upgrade_Reconcile E req) = fst ?r" "core (snd (Upgrade_Reconcile E req)) = core (snd ?r)"
    by (simp_all add: Upgrade_Reconcile_def upgrade_run_def release_run_def Let_def summarized_def)
  have b: "core ?b = (core req)\<lparr>St_LastAttemptedReleaseAction := ReleaseActionUpgrade\<rparr>" by simp
  then have snap: "release_snapshot E ReleaseActionUpgrade ?b x = release_snapshot E ReleaseActionUpgrade req x" for x
    by (simp add: release_snapshot_def core_selectors)
  note out = release_run_outcome [OF refl [of ?r] refl [of ?rs] assms, unfolded snap, unfolded b]
  have hist: "case newest ?rs of None \<Rightarrow> mset (St_History (core (snd ?r))) = mset (St_History (core req))
      | Some r \<Rightarrow> \<exists>h. one_renewed (St_History (core req)) h \<and>
          mset (St_History (core (snd ?r))) = mset (release_snapshot E ReleaseActionUpgrade req r # h)"
    using out(1,2) by (cases "newest ?rs") fastforce+
  obtain ur where ur: "Upgrade_GetRemediation ?u = RemUpgrade ur" by (simp add: Upgrade_GetRemediation_def)
  show ?thesis
    unfolding Let_def core_selectors res
  proof (intro conjI)
    show "case newest ?rs of None \<Rightarrow> mset (St_History (core (snd ?r))) = mset (St_History (core req))
      | Some r \<Rightarrow> \<exists>h. one_renewed (St_History (core req)) h \<and>
          mset (St_History (core (snd ?r))) = mset (release_snapshot E ReleaseActionUpgrade req r # h)"
      by (rule hist)
  qed (use out(3,4) out(6) [OF _ ur] out(8) in \<open>auto split: sum.split\<close>)
qed

theorem Upgrade_Reconcile_outcome_witness:
  "length (History (Object (snd (Upgrade_Reconcile sample_env sample_in_sync)))) = 2 \<and>
   fst (Upgrade_Reconcile sample_env sample_in_sync) = Ok ()"
proof -
  let ?rs = "persisted_releases (Run_Ops (upgrade_run sample_env sample_in_sync))"
  have "list_all (\<lambda>r. Rel_Version r > 0) ?rs" by code_simp
  note out = Upgrade_Reconcile_outcome [OF this, unfolded Let_def]
  have v: "(case Run_Result (upgrade_run sample_env sample_in_sync) of Inl e \<Rightarrow> False | Inr r \<Rightarrow> True)" by code_simp
  have "newest ?rs \<noteq> None" by code_simp
  then obtain r where r: "newest ?rs = Some r" by blast
  then have "?rs \<noteq> []" by (metis newest_None option.distinct(1))
  moreover from out r obtain h where "one_renewed (History (Object sample_in_sync)) h"
      "mset (History (Object (snd (Upgrade_Reconcile sample_env sample_in_sync)))) =
        mset (release_snapshot sample_env ReleaseActionUpgrade sample_in_sync r # h)" by auto
  then have "length (History (Object (snd (Upgrade_Reconcile sample_env sample_in_sync)))) =
      Suc (length (History (Object sample_in_sync)))"
    unfolding one_renewed_def by (metis length_Cons length_map size_mset)
  moreover have "length (History (Object sample_in_sync)) = 1"
    by (simp add: sample_in_sync_def set_history_def)
  ultimately show ?thesis using out v by (auto split: sum.splits)
qed

end
