(* ===== verification/Summary.thy ===== *)
theory Summary
  imports Contracts
begin

section \<open>The Ready condition\<close>

text \<open>
  \<^verbatim>\<open>summarize\<close> copies one of the conditions Remediated, TestSuccess (when tests are enabled and
  their failures are not ignored) and Released into Ready.
\<close>

subsection \<open>Reading the conditions\<close>

text \<open>The conditions that are summarized: that of a disabled test is removed first.\<close>

definition relevant_conditions :: "HelmRelease \<Rightarrow> Condition list" where
  "relevant_conditions obj =
     (if Test_Enable (GetTest obj) then Conditions obj
      else List.filter (\<lambda>c. Cond_Type c \<noteq> TestSuccessCondition) (Conditions obj))"

definition leads :: "HelmRelease \<Rightarrow> Condition \<Rightarrow> bool" where
  "leads obj c \<longleftrightarrow> c \<in> set (relevant_conditions obj) \<and>
     (\<forall>d \<in> set (relevant_conditions obj). (d \<noteq> c \<longrightarrow> sum_less (sum_conds obj) c d) \<and> \<not> sum_less (sum_conds obj) d c)"

definition ready_status :: "Condition \<Rightarrow> ConditionStatus" where
  "ready_status c = (if Cond_Type c = RemediatedCondition then ConditionFalse else Cond_Status c)"

lemma summarize_leading:
  assumes "conditions_ok (eCond E)" and "leads (Object req) c"
  shows "cond_shows (cGet (eCond E) (Conditions (Object (summarize E req))) ReadyCondition)
     ReadyCondition (ready_status c) (Cond_Reason c) (Cond_Message c) (HR_Generation (Object req))"
proof -
  define b where "b = (if \<not> Test_Enable (GetTest (Object req)) then DeleteCondition E TestSuccessCondition req else req)"
  have conds: "Conditions (Object b) = relevant_conditions (Object req)" and gen: "HR_Generation (Object b) = HR_Generation (Object req)"
    by (simp_all add: b_def relevant_conditions_def DeleteCondition_def conditions_okD(3) [OF assms(1)])
  note lead = assms(2) [unfolded leads_def, THEN conjunct1] assms(2) [unfolded leads_def, THEN conjunct2]
  from SliceStable_hd_min [OF lead] obtain cs
    where s: "SliceStable (sum_less (sum_conds (Object req))) (Conditions (Object b)) = c # cs"
    unfolding conds by blast
  let ?ready = "\<lparr>Cond_Type = ReadyCondition, Cond_Status = ready_status c,
      Cond_ObservedGeneration = HR_Generation (Object req), Cond_LastTransitionTime = 0,
      Cond_Reason = Cond_Reason c, Cond_Message = Cond_Message c\<rparr>"
  let ?b1 = "on_conditions (\<lambda>_. c # cs) b"
  let ?b2 = "if ready_status c = ConditionTrue then DeleteCondition E StalledCondition ?b1 else ?b1"
  have "summarize E req = SetCondition E ?ready ?b2"
    unfolding summarize_def Let_def b_def [symmetric] s by (simp add: ready_status_def)
  moreover have "HR_Generation (Object ?b2) = HR_Generation (Object req)"
    by (simp add: gen DeleteCondition_def)
  ultimately show ?thesis
    using conditions_okD(1) [OF assms(1), of _ _ ?ready] by (simp add: SetCondition_def)
qed

subsection \<open>The leading condition\<close>

definition known_conditions :: "string list" where
  "known_conditions = [ReadyCondition, ReconcilingCondition, StalledCondition, ReleasedCondition,
     TestSuccessCondition, RemediatedCondition, DriftedCondition]"

lemma EqualFold_known:
  assumes "t \<in> set known_conditions" "u \<in> set known_conditions"
  shows "EqualFold t u \<longleftrightarrow> t = u"
proof -
  have "list_all (\<lambda>t. list_all (\<lambda>u. EqualFold t u \<longleftrightarrow> t = u) known_conditions) known_conditions" by code_simp
  with assms show ?thesis by (simp add: list_all_iff)
qed

lemma sum_conds_known: "set (sum_conds obj) \<subseteq> set known_conditions" "distinct (sum_conds obj)"
  by (auto simp: sum_conds_def known_conditions_def condition_defs)

lemma inStringSlice_known:
  assumes "set ts \<subseteq> set known_conditions" "t \<in> set known_conditions"
  shows "inStringSlice ts t = None \<longleftrightarrow> t \<notin> set ts"
    and "inStringSlice ts t = Some i \<Longrightarrow> i < length ts \<and> ts ! i = t"
  using assms(1)
proof (induction ts arbitrary: i)
  case (Cons u ts)
  {
    case 1
    with Cons.IH(1) EqualFold_known [OF _ assms(2), of u] show ?case by auto
  next
    case 2
    with Cons.IH(2) EqualFold_known [OF _ assms(2), of u] show ?case by (auto split: if_splits)
  }
qed simp_all

lemma first_present_leads:
  assumes "distinct (map Cond_Type (Conditions obj))" and "set (map Cond_Type (Conditions obj)) \<subseteq> set known_conditions"
    and "find (\<lambda>t. t \<in> set (map Cond_Type (Conditions obj))) (sum_conds obj) = Some (Cond_Type c)"
    and "c \<in> set (Conditions obj)" and "list_all (\<lambda>d. Cond_ObservedGeneration d \<le> Cond_ObservedGeneration c) (Conditions obj)"
  shows "leads obj c"
proof -
  obtain k where k: "k < length (sum_conds obj)" "sum_conds obj ! k = Cond_Type c"
      "\<forall>l < k. sum_conds obj ! l \<notin> set (map Cond_Type (Conditions obj))"
    using assms(3) unfolding find_Some_iff by (elim exE conjE) metis
  have sub: "set (relevant_conditions obj) \<subseteq> set (Conditions obj)" by (auto simp: relevant_conditions_def)
  have kn: "Cond_Type d \<in> set known_conditions" if "d \<in> set (Conditions obj)" for d using assms(2) that by auto
  note idx = inStringSlice_known [OF sum_conds_known(1) kn]
  have ci: "inStringSlice (sum_conds obj) (Cond_Type c) = Some k"
  proof (cases "inStringSlice (sum_conds obj) (Cond_Type c)")
    case None
    then have "Cond_Type c \<notin> set (sum_conds obj)" using idx(1) [OF assms(4)] by simp
    moreover have "Cond_Type c \<in> set (sum_conds obj)" using k(1,2) nth_mem by fastforce
    ultimately show ?thesis by simp
  next
    case (Some i)
    then have "i < length (sum_conds obj)" "sum_conds obj ! i = sum_conds obj ! k" using idx(2) [OF assms(4) Some] k(2) by simp_all
    then have "i = k" using k(1) sum_conds_known(2) nth_eq_iff_index_eq by blast
    with Some show ?thesis by simp
  qed
  have "Cond_Type c \<noteq> TestSuccessCondition" if "\<not> Test_Enable (GetTest obj)"
    using that k nth_mem [OF k(1)] by (auto simp: sum_conds_def condition_defs)
  then have "c \<in> set (relevant_conditions obj)" using assms(4) by (auto simp: relevant_conditions_def)
  moreover have "(d \<noteq> c \<longrightarrow> sum_less (sum_conds obj) c d) \<and> \<not> sum_less (sum_conds obj) d c"
    if "d \<in> set (relevant_conditions obj)" for d
  proof (cases "inStringSlice (sum_conds obj) (Cond_Type d)")
    case None
    then show ?thesis using ci by (simp add: sum_less_def)
  next
    case (Some j)
    have d: "d \<in> set (Conditions obj)" using that sub by blast
    have j: "sum_conds obj ! j = Cond_Type d" using idx(2) [OF d Some] by simp
    then have "\<not> j < k" using k(3) d by auto
    moreover have "d = c" if "j = k"
      using that j k(2) d assms(1,4) by (metis distinct_map inj_on_eq_iff)
    ultimately have "d \<noteq> c \<longrightarrow> k < j" "\<not> j < k" by (metis nat_neq_iff)+
    then show ?thesis
      using ci Some assms(5) d by (auto simp: sum_less_def list_all_iff)
  qed
  ultimately show ?thesis by (simp add: leads_def)
qed


definition sample_condition :: "string \<Rightarrow> ConditionStatus \<Rightarrow> int64 \<Rightarrow> Condition" where
  "sample_condition t st g = \<lparr>Cond_Type = t, Cond_Status = st, Cond_ObservedGeneration = g,
     Cond_LastTransitionTime = 0, Cond_Reason = ''Reason'', Cond_Message = t\<rparr>"


text \<open>A stale condition is not overtaken by a more recent one of lower priority: when Remediated comes
  first in the list, Ready follows it and is false, although Released was observed at a later
  generation.\<close>

theorem stale_remediation_wins:
  assumes "conditions_ok (eCond E)" and "Conditions (Object req) = [stale, released]"
    and "Cond_Type stale = RemediatedCondition" and "Cond_Type released = ReleasedCondition"
    and "Cond_ObservedGeneration stale < Cond_ObservedGeneration released"
  shows "cond_shows (cGet (eCond E) (Conditions (Object (summarize E req))) ReadyCondition) ReadyCondition
     ConditionFalse (Cond_Reason stale) (Cond_Message stale) (HR_Generation (Object req))"
proof -
  let ?b = "if \<not> Test_Enable (GetTest (Object req)) then DeleteCondition E TestSuccessCondition req else req"
  have b: "Conditions (Object ?b) = [stale, released]"
    using assms(2-4) by (simp add: DeleteCondition_def conditions_okD(3) [OF assms(1)] condition_defs)
  have gen: "HR_Generation (Object ?b) = HR_Generation (Object req)" by (simp add: DeleteCondition_def)
  have n: "EqualFold RemediatedCondition ReleasedCondition \<longleftrightarrow> False" "EqualFold ReleasedCondition ReleasedCondition"
    "EqualFold TestSuccessCondition ReleasedCondition \<longleftrightarrow> False"
    by (subst EqualFold_known; simp add: known_conditions_def condition_defs)+
  have "\<not> sum_less (sum_conds (Object req)) released stale"
    using assms(3,4) n by (simp add: sum_less_def sum_conds_def)
  then have s: "SliceStable (sum_less (sum_conds (Object req))) [stale, released] = [stale, released]"
    by (simp add: SliceStable_def)
  let ?ready = "\<lparr>Cond_Type = ReadyCondition, Cond_Status = ConditionFalse,
      Cond_ObservedGeneration = HR_Generation (Object req), Cond_LastTransitionTime = 0,
      Cond_Reason = Cond_Reason stale, Cond_Message = Cond_Message stale\<rparr>"
  have "summarize E req = SetCondition E ?ready (on_conditions (\<lambda>_. [stale, released]) ?b)"
    unfolding summarize_def Let_def b s using assms(3) by simp
  then show ?thesis
    using conditions_okD(1) [OF assms(1), of _ _ ?ready] gen by (simp add: SetCondition_def)
qed

theorem stale_remediation_wins_witness:
  "let stale = sample_condition RemediatedCondition ConditionTrue 1; released = sample_condition ReleasedCondition ConditionTrue 2
   in condition_is_true [stale, released] ReleasedCondition \<and>
      cond_shows (get_condition (Conditions (Object (summarize sample_env (on_conditions (\<lambda>_. [stale, released]) sample_request))))
        ReadyCondition) ReadyCondition ConditionFalse ''Reason'' RemediatedCondition 1"
proof -
  let ?stale = "sample_condition RemediatedCondition ConditionTrue 1"
  let ?released = "sample_condition ReleasedCondition ConditionTrue 2"
  let ?req = "on_conditions (\<lambda>_. [?stale, ?released]) sample_request"
  have ok: "conditions_ok (eCond sample_env)" by (simp add: sample_env_def sample_conditions_ok)
  have g: "HR_Generation (Object ?req) = 1" "cGet (eCond sample_env) = get_condition"
    by (simp_all add: sample_request_def sample_object_def sample_env_def sample_conditions_def)
  have "condition_is_true [?stale, ?released] ReleasedCondition"
    by (simp add: condition_is_true_def get_condition_def sample_condition_def condition_defs)
  with stale_remediation_wins [OF ok, of ?req ?stale ?released, unfolded g] show ?thesis
    by (simp add: sample_condition_def)
qed

end
