(* ===== verification/Convergence.thy ===== *)
theory Convergence
  imports Decisions Outcomes Summary
begin

section \<open>Convergence of the release loop\<close>

text \<open>
  A Helm action that delivers what was asked for settles the release: the pass after it finds the
  release in sync, the loop ends without error, the object is ready, and a further reconciliation
  runs no action. The state in which nothing is left to do is \<open>settled\<close>; what Helm has to deliver
  is \<open>delivered\<close>; the properties of conditions that the summary needs are \<open>orderly\<close>.
\<close>

subsection \<open>Truncated histories\<close>

lemma SortByVersion_desc_id:
  "sorted_wrt (\<ge>) (map Snap_Version h) \<Longrightarrow> SortByVersion h = h"
  using sort_rev_desc [of Snap_Version "[]" h] by (simp add: SortByVersion_def SliceStable_def)

lemma Latest_take: "0 < n \<Longrightarrow> Latest (take n (SortByVersion h)) = Latest h"
proof -
  assume n: "0 < n"
  have "sorted_wrt (\<ge>) (map Snap_Version (take n (SortByVersion h)))"
    using SortByVersion_desc [of h] by (simp add: take_map [symmetric] sorted_wrt_take)
  then have "SortByVersion (take n (SortByVersion h)) = take n (SortByVersion h)" by (rule SortByVersion_desc_id)
  with n show ?thesis by (cases n; cases "SortByVersion h") (simp_all add: Latest_def)
qed

lemma Latest_Truncate: "Latest (Truncate h ig) = Latest h"
proof (cases "length h < 2")
  case True
  then show ?thesis by (simp add: Truncate_def)
next
  case False
  then obtain n where "n > 0" "Truncate h ig = take n (SortByVersion h)" using Truncate_prefix [of h ig] by auto
  then show ?thesis by (simp add: Latest_take)
qed

lemma Latest_TruncateIgnoring: "Latest (TruncateIgnoringPreviousSnapshots h) = Latest h"
  by (simp add: TruncateIgnoringPreviousSnapshots_def Let_def Latest_take defaultMaxHistory_def)

subsection \<open>A settled release\<close>

definition digests_observed :: "digest_api \<Rightarrow> HelmRelease \<Rightarrow> bool" where
  "digests_observed D obj \<longleftrightarrow>
     postrenderers_digest D obj = St_ObservedPostRenderersDigest (HR_Status obj) \<and>
     common_metadata_digest D obj = St_ObservedCommonMetadataDigest (HR_Status obj)"

text \<open>A force request that was looked at is not handled again.\<close>

definition force_seen :: "'w env \<Rightarrow> HelmRelease \<Rightarrow> bool" where
  "force_seen E obj \<longleftrightarrow> (\<exists>lr before. St_LastHandledForceAt (HR_Status obj) =
     snd (eHandleAnnotationRequest E (HR_Annotations obj) ForceRequestAnnotation lr before))"

definition settled :: "'w env \<Rightarrow> HelmRel \<Rightarrow> 'w Request \<Rightarrow> bool" where
  "settled E rls req \<longleftrightarrow>
     LastRelease E (GetReleaseName (Object req)) (World req) = Ok rls \<and>
     map_option Info_Status (Rel_Info rls) = Some StatusDeployed \<and>
     (\<exists>cur. Latest (History (Object req)) = Some cur \<and> VerifyReleaseObject (eDigest E) cur rls = None \<and>
        VerifyRelease (eDigest E) (Some rls) (Some cur) (Some (Ch_Metadata (Chart req))) (Values req) = Ok ()) \<and>
     digests_observed (eDigest E) (Object req) \<and>
     \<not> Test_Enable (GetTest (Object req)) \<and> \<not> MustDetectChanges (GetDriftDetection (Object req)) \<and>
     force_seen E (Object req)"

lemma not_locked_deployed [simp]: "\<not> isLockedStatus StatusDeployed" "StatusDeployed \<noteq> StatusFailed" "StatusDeployed \<noteq> StatusUninstalled"
  by (simp_all add: isLockedStatus_def IsPending_def helm_status_defs)

lemma settled_in_sync:
  assumes "settled E rls req"
  shows "DetermineReleaseState E req = (Ok (mk_state ReleaseStatusInSync []), sort_history req)"
proof -
  from assms obtain info cur where i: "Rel_Info rls = Some info" "Info_Status info = StatusDeployed"
      and l: "LastRelease E (GetReleaseName (Object req)) (World req) = Ok rls"
      and c: "Latest (History (Object req)) = Some cur" "VerifyReleaseObject (eDigest E) cur rls = None"
        "VerifyRelease (eDigest E) (Some rls) (Some cur) (Some (Ch_Metadata (Chart req))) (Values req) = Ok ()"
    unfolding settled_def by auto
  have "drift_state E rls (sort_history req) = (Ok (mk_state ReleaseStatusInSync []), sort_history req)"
    using assms by (simp add: drift_state_def settled_def sort_history_getters(4) del: sort_history_simps(1))
  then have "deployed_state E rls cur (sort_history req) = (Ok (mk_state ReleaseStatusInSync []), sort_history req)"
    using assms c(3)
    by (simp add: deployed_state_def settled_def digests_observed_def sort_history_getters Let_def del: sort_history_simps(1))
  then show ?thesis
    using l i c(1,2) by (simp add: DetermineReleaseState_def found_state_def recorded_state_def)
qed

text \<open>The digests are observed again with the canonical algorithm, and are recognized as such.\<close>

lemma observed_digests:
  assumes "digest_ok (eDigest E)"
  shows "digests_observed (eDigest E) (Object (observePostRenderers E b))"
  using digest_okD(1-3) [OF assms]
  by (auto simp: digests_observed_def observePostRenderers_def postrenderers_digest_def common_metadata_digest_def
      observedDigestAlgorithm_def Digest_PostRenderers_def CommonMetadataDigest_def Let_def split: option.split)

lemma digests_observed_cong:
  assumes "HR_Spec (Object b) = HR_Spec (Object a)" "core b = core a"
  shows "digests_observed D (Object b) \<longleftrightarrow> digests_observed D (Object a)"
proof -
  have "St_ObservedPostRenderersDigest (HR_Status (Object b)) = St_ObservedPostRenderersDigest (HR_Status (Object a))"
    "St_ObservedCommonMetadataDigest (HR_Status (Object b)) = St_ObservedCommonMetadataDigest (HR_Status (Object a))"
    using arg_cong [OF assms(2), of St_ObservedPostRenderersDigest] arg_cong [OF assms(2), of St_ObservedCommonMetadataDigest]
    by (simp_all add: core_def)
  then show ?thesis
    by (simp add: digests_observed_def postrenderers_digest_def common_metadata_digest_def assms(1) split: option.split)
qed

lemma force_seen_handled: "force_seen E (snd (ShouldHandleForceRequest E obj))"
  by (auto simp: force_seen_def ShouldHandleForceRequest_def frame_simps case_prod_beta)

lemma force_seen_not_again:
  "annotation_request (eHandleAnnotationRequest E) \<Longrightarrow> force_seen E obj \<Longrightarrow> \<not> fst (ShouldHandleForceRequest E obj)"
  using annotation_request.not_again by (fastforce simp: force_seen_def ShouldHandleForceRequest_def case_prod_beta)

lemma force_seen_keeps:
  "keeps a b \<Longrightarrow> St_LastHandledForceAt (core b) = St_LastHandledForceAt (core a) \<Longrightarrow>
     force_seen E (Object a) \<Longrightarrow> force_seen E (Object b)"
  by (auto simp: force_seen_def keepsD core_def)

lemma spec_getters:
  assumes "keeps a b"
  shows "GetReleaseName (Object b) = GetReleaseName (Object a)" "GetTest (Object b) = GetTest (Object a)"
    "GetDriftDetection (Object b) = GetDriftDetection (Object a)"
  by (simp_all add: keepsD [OF assms] GetReleaseName_def GetTest_def GetDriftDetection_def)

lemma settled_keeps:
  assumes "settled E rls a" "keeps a b"
    and "LastRelease E (GetReleaseName (Object a)) (World b) = LastRelease E (GetReleaseName (Object a)) (World a)"
    and "Latest (History (Object b)) = Latest (History (Object a))"
    and "digests_observed (eDigest E) (Object b)" "force_seen E (Object b)"
  shows "settled E rls b"
  using assms(1,5,6) unfolding settled_def spec_getters [OF assms(2)] keepsD(8,9) [OF assms(2)] assms(3,4) by blast

subsection \<open>Conditions of a released object\<close>

text \<open>The conditions are a map from the types the controller knows, and none was observed at a later
  generation than that of the object.\<close>

definition orderly_conditions :: "int64 \<Rightarrow> Condition list \<Rightarrow> bool" where
  "orderly_conditions gen cs \<longleftrightarrow> distinct (map Cond_Type cs) \<and> set (map Cond_Type cs) \<subseteq> set known_conditions \<and>
     list_all (\<lambda>c. Cond_ObservedGeneration c \<le> gen) cs"

abbreviation orderly :: "'w Request \<Rightarrow> bool" where
  "orderly b \<equiv> orderly_conditions (HR_Generation (Object b)) (Conditions (Object b))"

lemma find_type_iff:
  assumes "distinct (map Cond_Type cs)"
  shows "find (\<lambda>d. Cond_Type d = Cond_Type c) cs = Some c \<longleftrightarrow> c \<in> set cs"
  using assms by (induction cs) (auto simp: image_iff)

lemma orderly_set:
  assumes "conditions_ok C" "orderly_conditions gen cs" "Cond_Type c \<in> set known_conditions"
  shows "orderly_conditions gen (cSet C now gen c cs)"
proof -
  let ?cs = "cSet C now gen c cs"
  from assms have d: "distinct (map Cond_Type ?cs)" "distinct (map Cond_Type cs)"
    by (auto simp: orderly_conditions_def conditions_okD(12))
  have "Cond_Type x \<in> set known_conditions \<and> Cond_ObservedGeneration x \<le> gen" if "x \<in> set ?cs" for x
  proof -
    from that have x: "cGet C ?cs (Cond_Type x) = Some x"
      by (simp add: conditions_okD(4) [OF assms(1)] find_type_iff [OF d(1)])
    show ?thesis
    proof (cases "Cond_Type x = Cond_Type c")
      case True
      with x conditions_okD(1) [OF assms(1), of now gen c cs] assms(3) show ?thesis by (simp add: cond_shows_def)
    next
      case False
      with x have "cGet C cs (Cond_Type x) = Some x" by (simp add: conditions_okD(2) [OF assms(1)])
      then have "x \<in> set cs" by (simp add: conditions_okD(4) [OF assms(1)] find_type_iff [OF d(2)])
      with assms(2) show ?thesis by (auto simp: orderly_conditions_def list_all_iff)
    qed
  qed
  with d(1) show ?thesis by (auto simp: orderly_conditions_def list_all_iff)
qed

lemma orderly_delete: "conditions_ok C \<Longrightarrow> orderly_conditions gen cs \<Longrightarrow> orderly_conditions gen (cDelete C t cs)"
  by (auto simp: conditions_okD(3) orderly_conditions_def list_all_iff distinct_map_filter)

lemma orderly_reorder: "mset cs = mset cs' \<Longrightarrow> orderly_conditions gen cs \<longleftrightarrow> orderly_conditions gen cs'"
proof -
  assume m: "mset cs = mset cs'"
  then have "set cs = set cs'" by (rule mset_eq_setD)
  moreover from m have "distinct (map Cond_Type cs) \<longleftrightarrow> distinct (map Cond_Type cs')"
    by (metis mset_map mset_eq_imp_distinct_iff)
  ultimately show ?thesis by (auto simp: orderly_conditions_def list_all_iff)
qed

lemma find_reorder:
  assumes "distinct (map Cond_Type cs)" "mset cs = mset cs'"
  shows "find (\<lambda>d. Cond_Type d = t) cs = find (\<lambda>d. Cond_Type d = t) cs'"
proof -
  have d: "distinct (map Cond_Type cs')" using assms by (metis mset_map mset_eq_imp_distinct_iff)
  have s: "set cs = set cs'" using assms(2) by (rule mset_eq_setD)
  show ?thesis
  proof (cases "find (\<lambda>d. Cond_Type d = t) cs")
    case None
    with s show ?thesis by (metis find_None_iff)
  next
    case (Some c)
    then have "Cond_Type c = t" by (auto simp: find_Some_iff)
    with Some s show ?thesis using find_type_iff [OF assms(1), of c] find_type_iff [OF d, of c] by simp
  qed
qed

text \<open>The conditions of a released object: Released is true for the present generation and nothing was
  remediated since.\<close>

definition reported_conditions :: "cond_api \<Rightarrow> int64 \<Rightarrow> Condition list \<Rightarrow> bool" where
  "reported_conditions C gen cs \<longleftrightarrow> orderly_conditions gen cs \<and> cGet C cs RemediatedCondition = None \<and>
     (\<exists>r m. cond_shows (cGet C cs ReleasedCondition) ReleasedCondition ConditionTrue r m gen)"

abbreviation reported :: "'w env \<Rightarrow> 'w Request \<Rightarrow> bool" where
  "reported E b \<equiv> reported_conditions (eCond E) (HR_Generation (Object b)) (Conditions (Object b))"

lemma known [simp]:
  "ReadyCondition \<in> set known_conditions" "ReconcilingCondition \<in> set known_conditions" "StalledCondition \<in> set known_conditions"
  "ReleasedCondition \<in> set known_conditions"
  by (simp_all add: known_conditions_def)

lemma condition_types_neq [simp]:
  "RemediatedCondition \<noteq> ReadyCondition" "ReleasedCondition \<noteq> ReadyCondition"
  "ReleasedCondition \<noteq> ReconcilingCondition" "ReleasedCondition \<noteq> StalledCondition" "RemediatedCondition \<noteq> StalledCondition"
  "RemediatedCondition \<noteq> ReleasedCondition" "ReleasedCondition \<noteq> RemediatedCondition" "TestSuccessCondition \<noteq> ReleasedCondition"
  "ReconcilingCondition \<noteq> ReleasedCondition" "StalledCondition \<noteq> ReleasedCondition" "ReadyCondition \<noteq> RemediatedCondition"
  by (simp_all add: condition_defs)

lemma reported_lists:
  assumes "conditions_ok C" "reported_conditions C gen cs"
  shows "Cond_Type c = ReadyCondition \<Longrightarrow> reported_conditions C gen (cSet C now gen c cs)"
    and "t \<noteq> ReleasedCondition \<Longrightarrow> reported_conditions C gen (cDelete C t cs)"
    and "mset cs = mset cs' \<Longrightarrow> reported_conditions C gen cs'"
proof -
  show "reported_conditions C gen (cSet C now gen c cs)" if "Cond_Type c = ReadyCondition"
    using assms(2) that by (simp add: reported_conditions_def orderly_set [OF assms(1)] conditions_okD(2) [OF assms(1)])
  show "reported_conditions C gen (cDelete C t cs)" if "t \<noteq> ReleasedCondition"
    using assms(2) that by (simp add: reported_conditions_def orderly_delete [OF assms(1)] cGet_Delete [OF assms(1)])
  show "reported_conditions C gen cs'" if "mset cs = mset cs'"
  proof -
    have "distinct (map Cond_Type cs)" using assms(2) by (simp add: reported_conditions_def orderly_conditions_def)
    from find_reorder [OF this that] orderly_reorder [OF that] assms(2) show ?thesis
      by (simp add: reported_conditions_def conditions_okD(4) [OF assms(1)])
  qed
qed

lemma reported_mark:
  assumes "conditions_ok C" "orderly_conditions gen cs" "cGet C cs RemediatedCondition = None"
  shows "reported_conditions C gen (cMark C now gen ReleasedCondition ConditionTrue r m cs)"
proof -
  have "orderly_conditions gen (cMark C now gen ReleasedCondition ConditionTrue r m cs)"
    unfolding conditions_okD(5) [OF assms(1)] using assms by (intro orderly_set) simp_all
  then show ?thesis
    using cGet_Mark_same [OF assms(1), of now gen ReleasedCondition ConditionTrue r m cs] assms(3)
    by (auto simp: reported_conditions_def cGet_Mark_other [OF assms(1)])
qed

lemma reported_summarize:
  assumes "conditions_ok (eCond E)" "reported E b"
  shows "reported E (summarize E b)"
proof -
  define b' where "b' = (if \<not> Test_Enable (GetTest (Object b)) then DeleteCondition E TestSuccessCondition b else b)"
  have b': "reported E b'"
    using assms(2) reported_lists(2) [OF assms] by (simp add: b'_def DeleteCondition_def)
  have m: "mset (Conditions (Object b')) = mset (c # cs)"
    if "SliceStable lt (Conditions (Object b')) = c # cs" for lt c cs
    by (metis that mset_SliceStable)
  have "reported E (on_conditions (\<lambda>_. c # cs) b')" if "SliceStable lt (Conditions (Object b')) = c # cs" for lt c cs
    using reported_lists(3) [OF assms(1) b' m [OF that]] by simp
  then show ?thesis
    unfolding summarize_def Let_def b'_def [symmetric]
    using b' assms(1)
    by (auto simp: SetCondition_def DeleteCondition_def reported_lists split: list.split)
qed

text \<open>The summary of such an object says that it is ready.\<close>

lemma reported_leads:
  assumes "conditions_ok (eCond E)" "reported E b" "\<not> Test_Enable (GetTest (Object b))"
  shows "\<exists>c. leads (Object b) c \<and> ready_status c = ConditionTrue"
proof -
  let ?cs = "Conditions (Object b)"
  from assms(2) have o: "orderly b" and n: "cGet (eCond E) ?cs RemediatedCondition = None"
    by (simp_all add: reported_conditions_def)
  from assms(2) obtain c where c: "cGet (eCond E) ?cs ReleasedCondition = Some c" "Cond_Type c = ReleasedCondition"
      "Cond_Status c = ConditionTrue" "Cond_ObservedGeneration c = HR_Generation (Object b)"
    by (auto simp: reported_conditions_def cond_shows_def split: option.splits)
  have d: "distinct (map Cond_Type ?cs)" using o by (simp add: orderly_conditions_def)
  have mem: "c \<in> set ?cs"
    using c(1,2) find_type_iff [OF d, of c] by (simp add: conditions_okD(4) [OF assms(1)])
  then have rel: "ReleasedCondition \<in> Cond_Type ` set ?cs" using c(2) by force
  have "find (\<lambda>t. t \<in> set (map Cond_Type ?cs)) (sum_conds (Object b)) = Some (Cond_Type c)"
    using n rel c(2) assms(3) by (auto simp: sum_conds_def conditions_okD(4) [OF assms(1)] find_None_iff)
  from first_present_leads [OF d _ this mem] o c(2-4) show ?thesis
    by (intro exI [of _ c]) (simp add: orderly_conditions_def ready_status_def)
qed

lemma reported_ready:
  assumes "conditions_ok (eCond E)" "reported E b" "\<not> Test_Enable (GetTest (Object b))"
  shows "cIsTrue (eCond E) (Conditions (Object (summarize E b))) ReadyCondition"
proof -
  from reported_leads [OF assms] obtain c where "leads (Object b) c" "ready_status c = ConditionTrue" by blast
  with summarize_leading [OF assms(1), of b c] show ?thesis
    by (auto simp: conditions_okD(8) [OF assms(1)] cond_shows_def split: option.splits)
qed

subsection \<open>A pass over a settled release\<close>

lemma World_ops [simp]:
  "World (Mark E t st r m b) = World b" "World (DeleteCondition E t b) = World b" "World (SetCondition E c b) = World b"
  "World (MarkReconciling E r m b) = World b"
  by (simp_all add: cond_op_defs)

lemma World_summarize [simp]: "World (summarize E b) = World b"
  by (simp add: summarize_def Let_def split: list.split)

lemma World_observePostRenderers [simp]: "World (observePostRenderers E b) = World b"
  by (simp add: observePostRenderers_def Let_def)

lemma core_postrender_force: "St_LastHandledForceAt (core (observePostRenderers E b)) = St_LastHandledForceAt (core b)"
  by (simp add: observePostRenderers_def Let_def core_def)

text \<open>The request after the history was truncated and Released restored.\<close>

lemma restored:
  assumes "conditions_ok (eCond E)" "reported E y"
  shows "reported E (restore_released E y)" "Latest (History (Object (restore_released E y))) = Latest (History (Object y))"
    "St_LastHandledForceAt (core (restore_released E y)) = St_LastHandledForceAt (core y)" "World (restore_released E y) = World y"
proof -
  have o: "orderly y" "cGet (eCond E) (Conditions (Object y)) RemediatedCondition = None"
    using assms(2) by (simp_all add: reported_conditions_def)
  have m: "reported E (Mark E ReleasedCondition ConditionTrue reason msg (sort_history y))" for reason msg
    using reported_mark [OF assms(1) o] by (simp add: Mark_def)
  show "reported E (restore_released E y)"
    unfolding restore_released_def using assms(2) reported_summarize [OF assms(1) m] by (simp split: option.split)
  show "Latest (History (Object (restore_released E y))) = Latest (History (Object y))"
    unfolding core_selectors by (simp add: restore_released_def core_sort split: option.split)
  show "St_LastHandledForceAt (core (restore_released E y)) = St_LastHandledForceAt (core y)"
    "World (restore_released E y) = World y"
    by (simp_all add: restore_released_def core_sort split: option.split)
qed

text \<open>In sync, the history is truncated and nothing is left to run.\<close>

lemma in_sync_action:
  assumes "conditions_ok (eCond E)" "reported E req" "\<not> fst (ShouldHandleForceRequest E (Object req))"
    and "\<not> MustDetectChanges (GetDriftDetection (Object req))"
  obtains f where "\<And>h. Latest (f h) = Latest h"
    "actionForState E (mk_state ReleaseStatusInSync []) req = (Ok None, restore_released E
       (truncate_history f (on_object (\<lambda>_. snd (ShouldHandleForceRequest E (Object req))) req)))"
proof -
  let ?x = "on_object (\<lambda>_. snd (ShouldHandleForceRequest E (Object req))) req"
  define f where "f = (if GetActiveRetry (Object ?x) (retry_flag E) \<noteq> None
     then TruncateIgnoringPreviousSnapshots else (\<lambda>h. Truncate h (ignore_test_failures (Object ?x))))"
  let ?y = "truncate_history f ?x"
  have f: "Latest (f h) = Latest h" for h by (simp add: f_def Latest_Truncate Latest_TruncateIgnoring)
  have "\<not> cIsTrue (eCond E) (Conditions (Object ?y)) RemediatedCondition"
    using assms(2) by (simp add: truncate_history_def frame_simps reported_conditions_def conditions_okD(8) [OF assms(1)])
  then have r: "replace_remediated E ?y = ?y" by (simp add: replace_remediated_def)
  have "keeps ?y (restore_released E ?y)" by (rule keep.restore_within) simp
  then have "GetDriftDetection (Object (restore_released E ?y)) = GetDriftDetection (Object req)"
    by (simp add: spec_getters truncate_history_def forced_reads)
  moreover have "(if GetActiveRetry (Object ?x) (retry_flag E) \<noteq> None
     then truncate_history TruncateIgnoringPreviousSnapshots ?x
     else truncate_history (\<lambda>h. Truncate h (ignore_test_failures (Object ?x))) ?x) = ?y" by (simp only: f_def split: if_split) simp
  ultimately have "actionForState E (mk_state ReleaseStatusInSync []) req = (Ok None, restore_released E ?y)"
    unfolding actionForState_def Let_def action_in_sync_def mk_state_simps ReleaseStatus.case using assms(3,4) r
    by (simp only: if_False)
  with f show ?thesis by (rule that)
qed

lemma settled_completes:
  assumes "conditions_ok (eCond E)" "annotation_request (eHandleAnnotationRequest E)" "digest_ok (eDigest E)"
    and "eCtxErr E (World req) = None" "settled E rls req" "reported E req"
  obtains b where "iteration E previous req = Finish [] (Ok ()) b" "settled E rls b" "reported E b"
    "World b = World req" "Latest (History (Object b)) = Latest (History (Object req))"
    "cIsTrue (eCond E) (Conditions (Object b)) ReadyCondition" "\<not> has_condition ReconcilingCondition b"
proof -
  let ?s = "sort_history req"
  let ?x = "on_object (\<lambda>_. snd (ShouldHandleForceRequest E (Object ?s))) ?s"
  have "fst (ShouldHandleForceRequest E (Object ?s)) = fst (ShouldHandleForceRequest E (Object req))"
    by (simp add: ShouldHandleForceRequest_def split: prod.split)
  moreover have "force_seen E (Object req)" using assms(5) by (simp add: settled_def)
  ultimately have nf: "\<not> fst (ShouldHandleForceRequest E (Object ?s))" using force_seen_not_again [OF assms(2)] by simp
  have "reported E ?s" "\<not> MustDetectChanges (GetDriftDetection (Object ?s))" using assms(5,6) by (simp_all add: settled_def)
  from in_sync_action [OF assms(1) this(1) nf this(2)] obtain f where f: "\<And>h. Latest (f h) = Latest h"
    "actionForState E (mk_state ReleaseStatusInSync []) ?s = (Ok None, restore_released E (truncate_history f ?x))" by blast
  let ?y = "truncate_history f ?x" and ?z = "restore_released E (truncate_history f ?x)"
  let ?d = "DeleteCondition E ReconcilingCondition ?z"
  define b where "b = observePostRenderers E (summarize E ?d)"
  have it: "iteration E previous req = Finish [] (Ok ()) b"
    unfolding iteration_def assms(4) settled_in_sync [OF assms(5)] f(2) option.case prod.case res.case
    by (simp add: finish_def completed_def b_def)
  have kp: "keeps req b" using keeps_iteration [of req E previous] by (simp add: it)
  have y: "reported E ?y" "Latest (History (Object ?y)) = Latest (History (Object req))" "World ?y = World req"
    using assms(6) f(1) by (simp_all add: truncate_history_def frame_simps)
  note z = restored [OF assms(1) y(1)]
  have l: "Latest (History (Object b)) = Latest (History (Object req))"
    using z(2) y(2) unfolding core_selectors b_def by (simp add: core_postrender)
  have w: "World b = World req" using z(4) y(3) by (simp add: b_def)
  have "St_LastHandledForceAt (core b) = St_LastHandledForceAt (core ?x)"
    unfolding b_def core_postrender_force core_summarize core_simps z(3)
    by (simp add: truncate_history_def core_on_status) (simp add: core_def)
  moreover have xd: "keeps ?x ?d" by (intro keeps_progress keep.restore_within keep.truncate_within keep.refl)
  then have "keeps ?x b" unfolding b_def by (intro keep.postrender keep.summary)
  ultimately have "force_seen E (Object b)"
    using force_seen_keeps [of ?x b E] force_seen_handled [of E "Object ?s"] by (simp only: Request_update_simps)
  with assms(3,5) kp l w observed_digests have st: "settled E rls b"
    by (intro settled_keeps [OF assms(5) kp]) (simp_all add: b_def)
  have d: "reported E ?d" using reported_lists(2) [OF assms(1) z(1)] by (simp add: DeleteCondition_def)
  have rb: "reported E b" using reported_summarize [OF assms(1) d] by (simp add: b_def observePostRenderers_def Let_def)
  have "keeps req ?d" using xd by (rule keeps_trans [rotated]) (intro keep.force_within keep.sort keep.refl)
  then have "\<not> Test_Enable (GetTest (Object ?d))" using assms(5) by (simp add: spec_getters settled_def)
  from reported_ready [OF assms(1) d this] have rd: "cIsTrue (eCond E) (Conditions (Object b)) ReadyCondition"
    by (simp add: b_def observePostRenderers_def Let_def)
  have "\<not> has_condition ReconcilingCondition b"
    using completed_not_reconciling [OF assms(1), of ?z] by (simp add: completed_def b_def)
  with it st rb w l rd show ?thesis by (rule that)
qed

subsection \<open>A release action that succeeds\<close>

lemma observe_run_frame:
  "World (fst (observe_run [observeRelease, observeInventory E ac] run b)) = Run_World run \<and>
   Conditions (Object (fst (observe_run [observeRelease, observeInventory E ac] run b))) = Conditions (Object b) \<and>
   HR_Generation (Object (fst (observe_run [observeRelease, observeInventory E ac] run b))) = HR_Generation (Object b)"
proof -
  have "World (build_inventory E ac r w b) = World b" "Conditions (Object (build_inventory E ac r w b)) = Conditions (Object b)"
    "HR_Generation (Object (build_inventory E ac r w b)) = HR_Generation (Object b)" for r w and b :: "'a Request"
    using build_inventory_object [of E ac r w b]
    by (auto simp: build_inventory_def Let_def split: option.split res.split prod.split)
  then show ?thesis
    unfolding observe_run_def
    by (intro replay_invariant [where P = "\<lambda>s. World (fst s) = Run_World run \<and> Conditions (Object (fst s)) = Conditions (Object b) \<and>
        HR_Generation (Object (fst s)) = HR_Generation (Object b)"])
      (auto simp: observeRelease_def observeInventory_def Let_def split: Releaser.split)
qed

lemma recordOnObject_frame:
  "Conditions (recordOnObject D r ms obj) = Conditions obj" "HR_Generation (recordOnObject D r ms obj) = HR_Generation obj"
  using status_change_record [of obj D r ms] by (auto simp: status_change_def)

lemma record_run_frame:
  "World (record_run E action t s) = World (fst s)" "Conditions (Object (record_run E action t s)) = Conditions (Object (fst s))"
  "HR_Generation (Object (record_run E action t s)) = HR_Generation (Object (fst s))"
  by (simp_all add: record_run_def Let_def recordOnObject_frame)

lemma core_ClearFailures: "St_LastHandledForceAt (core (on_status ClearFailures b)) = St_LastHandledForceAt (core b)"
  unfolding core_on_status by (simp add: ClearFailures_def core_def)

lemma release_success_reported:
  assumes "conditions_ok (eCond E)" "orderly b" "cGet (eCond E) (Conditions (Object b)) RemediatedCondition = None"
    and "\<not> Test_Enable (GetTest (Object b))"
  shows "reported E (snd (release_success E verb reason ac retry b))"
    "World (snd (release_success E verb reason ac retry b)) = World b"
    "St_LastHandledForceAt (core (snd (release_success E verb reason ac retry b))) = St_LastHandledForceAt (core b)"
proof -
  have t: "GetTest (Object (Mark E ReleasedCondition ConditionTrue reason msg (sort_history b))) = GetTest (Object b)" for msg
    by (simp add: Mark_def GetTest_def)
  have m: "reported E (Mark E ReleasedCondition ConditionTrue reason msg (sort_history b))" for msg
    using reported_mark [OF assms(1-3)] by (simp add: Mark_def)
  then show "reported E (snd (release_success E verb reason ac retry b))"
    using assms(4) t by (auto simp: release_success_def Let_def split: option.split)
  show "World (snd (release_success E verb reason ac retry b)) = World b"
    by (simp add: release_success_def Let_def split: option.split)
  show "St_LastHandledForceAt (core (snd (release_success E verb reason ac retry b))) = St_LastHandledForceAt (core b)"
    by (auto simp: release_success_def Let_def core_sort core_ClearFailures split: option.split)
qed

lemma release_run_success:
  assumes "conditions_ok (eCond E)" "digest_ok (eDigest E)" "orderly b"
    and "cGet (eCond E) (Conditions (Object b)) RemediatedCondition = None" "\<not> Test_Enable (GetTest (Object b))"
    and "Run_Result run = Inr x" "newest (persisted_releases (Run_Ops run)) = Some rls"
    and "list_all (\<lambda>r. Rel_Version r > 0) (persisted_releases (Run_Ops run))"
    and r: "r = release_run E verb okr failr ac action rem retry run t b"
  shows "fst r = Ok ()" "reported E (snd r)" "World (snd r) = Run_World run"
    "digests_observed (eDigest E) (Object (snd r))" "St_LastHandledForceAt (core (snd r)) = St_LastHandledForceAt (core b)"
proof -
  note out = release_run_outcome [OF r refl assms(8)]
  have "persisted_releases (Run_Ops run) \<noteq> []" using assms(7) by auto
  then show ok: "fst r = Ok ()" using out(4) [OF assms(6)] by simp
  let ?s = "observe_run [observeRelease, observeInventory E ac] run b"
  let ?b = "record_run E action t ?s"
  have keeps: "keeps b ?b" by (intro keep.record_run_within keep.observed [of _ E] keep.refl) simp
  obtain u y where y: "release_success E verb okr ac retry ?b = (u, y)" by fastforce
  have c: "r = (case u of Ok v \<Rightarrow> (Ok (), observePostRenderers E y) | other \<Rightarrow> (u, y))"
    unfolding r release_run_def Let_def conclude_release_def assms(6) y sum.case prod.case
    by (simp split: res.split)
  with ok have s: "r = (Ok (), observePostRenderers E y)" by (auto split: res.splits)
  have "orderly ?b" "cGet (eCond E) (Conditions (Object ?b)) RemediatedCondition = None" "\<not> Test_Enable (GetTest (Object ?b))"
    using assms(3-5) spec_getters(2) [OF keeps] by (simp_all add: record_run_frame observe_run_frame)
  note y' = release_success_reported [OF assms(1) this, of verb okr ac retry, unfolded y snd_conv]
  show "reported E (snd r)" using y'(1) by (simp add: s observePostRenderers_def Let_def)
  show "World (snd r) = Run_World run" using y'(2) by (simp add: s record_run_frame observe_run_frame)
  show "digests_observed (eDigest E) (Object (snd r))" using observed_digests [OF assms(2)] by (simp add: s)
  have "St_LastHandledForceAt (core ?b) = St_LastHandledForceAt (core b)"
    using core_record_run [OF observe_run_observed observe_run_core, of E action t E ac run b] assms(7) by auto
  then show "St_LastHandledForceAt (core (snd r)) = St_LastHandledForceAt (core b)"
    using y'(3) by (simp add: s core_postrender_force)
qed

subsection \<open>What Helm delivers\<close>

definition action_kind :: "ActionReconciler \<Rightarrow> ReleaseAction" where
  "action_kind a = (if a = AInstall then ReleaseActionInstall else ReleaseActionUpgrade)"

definition helm_release_run :: "ActionReconciler \<Rightarrow> 'w env \<Rightarrow> 'w Request \<Rightarrow> ('w, gerror + HelmRel) helm_run" where
  "helm_release_run a = (if a = AInstall then install_run else upgrade_run)"

definition release_start :: "ActionReconciler \<Rightarrow> 'w env \<Rightarrow> 'w Request \<Rightarrow> 'w Request" where
  "release_start a E b = start_release E (action_kind a) (if a = AInstall then on_status ClearHistory b else b)"

text \<open>The run succeeded, and the newest release it persisted is the last one in the storage: deployed,
  newer than what was recorded, of the chart and with the values that were asked for.\<close>

definition delivered :: "'w env \<Rightarrow> 'w Request \<Rightarrow> ('w, gerror + HelmRel) helm_run \<Rightarrow> HelmRel \<Rightarrow> bool" where
  "delivered E req run rls \<longleftrightarrow>
     (case Run_Result run of Inl _ \<Rightarrow> False | Inr _ \<Rightarrow> True) \<and>
     newest (persisted_releases (Run_Ops run)) = Some rls \<and>
     list_all (\<lambda>r. Rel_Version r > 0) (persisted_releases (Run_Ops run)) \<and>
     list_all (\<lambda>s. Snap_Version s < Rel_Version rls) (History (Object req)) \<and>
     LastRelease E (GetReleaseName (Object req)) (Run_World run) = Ok rls \<and>
     map_option Info_Status (Rel_Info rls) = Some StatusDeployed \<and>
     map_option Meta_Name (Rel_Chart rls) = Some (Meta_Name (Ch_Metadata (Chart req))) \<and>
     map_option Meta_Version (Rel_Chart rls) = Some (Meta_Version (Ch_Metadata (Chart req))) \<and>
     Rel_Config rls = Values req \<and>
     Observation_Encode (eDigest E) ((ObserveRelease rls)
       \<lparr>Obs_OCIDigest := St_LastAttemptedRevisionDigest (HR_Status (Object req))\<rparr>) \<noteq> None"

text \<open>The digest library makes no difference between no values and empty values.\<close>

definition empty_values_alike :: "digest_api \<Rightarrow> bool" where
  "empty_values_alike D \<longleftrightarrow> (\<forall>a. dAvailable D a \<longrightarrow> dVerifyValues D (dDigestValues D a None) (Some []))"

lemma release_action_run:
  assumes "a \<in> {AInstall, AUpgrade}"
  shows "\<exists>verb okr failr ac rem retry t. Action_Reconcile a E b =
    summarized E (release_run E verb okr failr ac (action_kind a) rem retry (helm_release_run a E b) t (release_start a E b))"
  using assms
  by (auto simp: Install_Reconcile_def Upgrade_Reconcile_def install_run_def upgrade_run_def release_run_def
      helm_release_run_def release_start_def action_kind_def Let_def) blast+

lemma release_start_simps:
  assumes "conditions_ok (eCond E)"
  shows "orderly b \<Longrightarrow> orderly (release_start a E b)" "cGet (eCond E) (Conditions (Object (release_start a E b))) RemediatedCondition = None"
    "keeps b (release_start a E b)" "release_snapshot E k (release_start a E b) r = release_snapshot E k b r"
    "St_LastHandledForceAt (core (release_start a E b)) = St_LastHandledForceAt (core b)"
    "St_History (core (release_start a E b)) = (if a = AInstall then [] else St_History (core b))"
proof -
  show "orderly b \<Longrightarrow> orderly (release_start a E b)"
    by (simp add: release_start_def start_release_def DeleteCondition_def orderly_delete [OF assms])
  show "cGet (eCond E) (Conditions (Object (release_start a E b))) RemediatedCondition = None"
    by (simp add: release_start_def start_release_def DeleteCondition_def cGet_Delete [OF assms])
  show "keeps b (release_start a E b)"
    unfolding release_start_def by (auto intro!: keep.start_release_within keep.status keep.refl)
qed (auto simp: release_snapshot_def core_selectors release_start_def core_on_status ClearHistory_def, simp_all add: core_def)

subsection \<open>The loop settles\<close>

lemma Latest_newest:
  assumes "mset h = mset (s # h')" "\<forall>t \<in> set h'. Snap_Version t < Snap_Version s"
  shows "Latest h = Some s"
proof -
  have "set h = insert s (set h')" using mset_eq_setD [OF assms(1)] by simp
  moreover obtain t where t: "Latest h = Some t" using assms(1) Latest_Some_iff [of h] by auto
  ultimately have "t = s" using Latest_maximal [OF t] assms(2) by fastforce
  with t show ?thesis by simp
qed

lemma one_renewed_versions: "one_renewed h h' \<Longrightarrow> Snap_Version ` set h' = Snap_Version ` set h"
  unfolding one_renewed_def by (metis list.set_map)

text \<open>The snapshot of a delivered release verifies against it.\<close>

lemma ObserveRelease_config:
  "Obs_Config (ObserveRelease r) = (case Rel_Config r of None \<Rightarrow> None | Some kvs \<Rightarrow> nil_if_empty kvs)"
  by (simp add: ObserveRelease_def ObserveRelease_with_def DefaultDataFilters_def IgnoreHookTestEvents_def split: option.split)

lemma delivered_verifies:
  assumes "digest_ok (eDigest E)" "empty_values_alike (eDigest E)" "delivered E b run rls"
  shows "VerifyReleaseObject (eDigest E) (release_snapshot E k b rls) rls = None"
    "VerifyRelease (eDigest E) (Some rls) (Some (release_snapshot E k b rls)) (Some (Ch_Metadata (Chart b))) (Values b) = Ok ()"
proof -
  let ?d = "St_LastAttemptedRevisionDigest (HR_Status (Object b))"
  show "VerifyReleaseObject (eDigest E) (release_snapshot E k b rls) rls = None"
    by (rule Verify_recorded [OF assms(1), where d = ?d])
      (use assms(3) in \<open>simp_all add: delivered_def release_snapshot_def ObservedToSnapshot_def Digest_ignores_action\<close>)
  have "Snap_ConfigDigest (release_snapshot E k b rls) =
      dDigestValues (eDigest E) (dCanonical (eDigest E)) (case Values b of None \<Rightarrow> None | Some kvs \<Rightarrow> nil_if_empty kvs)"
    using assms(3) by (simp add: release_snapshot_def ObservedToSnapshot_def ObserveRelease_config delivered_def)
  then have "dVerifyValues (eDigest E) (Snap_ConfigDigest (release_snapshot E k b rls)) (Values b)"
    using assms(2) digest_okD(1,5) [OF assms(1)]
    by (cases "Values b") (auto simp: nil_if_empty_def empty_values_alike_def)
  with assms(3) show "VerifyRelease (eDigest E) (Some rls) (Some (release_snapshot E k b rls))
      (Some (Ch_Metadata (Chart b))) (Values b) = Ok ()"
    by (auto simp: VerifyRelease_Ok_iff delivered_def)
qed

lemma release_action_settles:
  assumes "conditions_ok (eCond E)" "digest_ok (eDigest E)" "annotation_request (eHandleAnnotationRequest E)"
    and "a \<in> {AInstall, AUpgrade}" "orderly b" "\<not> Test_Enable (GetTest (Object b))"
    and "\<not> MustDetectChanges (GetDriftDetection (Object b))" "force_seen E (Object b)"
    and "delivered E b (helm_release_run a E b) rls" "empty_values_alike (eDigest E)"
  obtains c where "Action_Reconcile a E b = (Ok (), c)" "keeps b c" "settled E rls c" "reported E c"
    "Latest (History (Object c)) = Some (release_snapshot E (action_kind a) b rls)"
proof -
  let ?s = "release_start a E b" and ?run = "helm_release_run a E b"
  let ?snap = "release_snapshot E (action_kind a) b rls"
  note start = release_start_simps [OF assms(1)]
  from assms(9) obtain x where run: "Run_Result ?run = Inr x" "newest (persisted_releases (Run_Ops ?run)) = Some rls"
      "list_all (\<lambda>r. Rel_Version r > 0) (persisted_releases (Run_Ops ?run))"
    by (auto simp: delivered_def split: sum.splits)
  from release_action_run [OF assms(4), of E b] obtain verb okr failr ac rem retry t where
    act: "Action_Reconcile a E b =
      summarized E (release_run E verb okr failr ac (action_kind a) rem retry ?run t ?s)" by blast
  define r where "r = release_run E verb okr failr ac (action_kind a) rem retry ?run t ?s"
  have "\<not> Test_Enable (GetTest (Object ?s))" using assms(6) spec_getters(2) [OF start(3)] by simp
  note ok = release_run_success [OF assms(1,2) start(1) [OF assms(5)] start(2) this run r_def]
  define c where "c = summarize E (snd r)"
  have a: "Action_Reconcile a E b = (Ok (), c)" using act ok(1) by (simp add: r_def [symmetric] c_def summarized_def)
  have kc: "keeps b c" using keep.Action_within [of b a E] by (simp add: a)
  have rep: "reported E c" unfolding c_def by (rule reported_summarize [OF assms(1) ok(2)])
  obtain h' where h: "mset (St_History (core (snd r))) = mset (?snap # h')" "one_renewed (St_History (core ?s)) h'"
    using release_run_outcome(2) [OF r_def refl run(3,2)] by (auto simp: start(4))
  have "\<forall>t \<in> set h'. Snap_Version t < Snap_Version ?snap"
  proof
    fix t
    assume "t \<in> set h'"
    then have "Snap_Version t \<in> Snap_Version ` set (History (Object b))"
      using one_renewed_versions [OF h(2)] by (auto simp: start(6) core_selectors split: if_splits)
    then show "Snap_Version t < Snap_Version ?snap" using assms(9) by (auto simp: delivered_def list_all_iff)
  qed
  then have l: "Latest (History (Object c)) = Some ?snap"
    unfolding core_selectors c_def core_summarize using h(1) by (intro Latest_newest)
  have "HR_Spec (Object c) = HR_Spec (Object (snd r))"
    unfolding c_def by (rule keepsD(1) [OF keep.summary [OF keep.refl]])
  then have "digests_observed (eDigest E) (Object c)"
    using ok(4) digests_observed_cong [of c "snd r" "eDigest E"] by (simp add: c_def)
  moreover have "force_seen E (Object c)"
    using force_seen_keeps [OF kc _ assms(8)] ok(5) start(5) by (simp add: c_def)
  moreover have "World c = Run_World ?run" by (simp add: c_def ok(3))
  ultimately have "settled E rls c"
    using assms(6,7,9) delivered_verifies [OF assms(2,10,9), of "action_kind a"] l
    unfolding settled_def spec_getters [OF kc] keepsD(8,9) [OF kc] by (simp add: delivered_def)
  with a kc rep l show ?thesis by (intro that)
qed

text \<open>The decision for a release action leaves the conditions alone and takes note of a force request.\<close>

lemma decided_release:
  assumes "DetermineReleaseState E req = (Ok s, req1)" "actionForState E s req1 = (Ok (Some a), req2)" "a \<in> {AInstall, AUpgrade}"
  shows "keeps req req2" "Conditions (Object req2) = Conditions (Object req)" "force_seen E (Object req2)"
proof -
  show k: "keeps req req2" by (rule keep.decided [OF assms(1,2)])
  have c1: "Conditions (Object req1) = Conditions (Object req)"
    using DetermineReleaseState_object [of E req] assms(1) by auto
  let ?x = "on_object (\<lambda>_. snd (ShouldHandleForceRequest E (Object req1))) req1"
  have d: "Conditions (Object req2) = Conditions (Object ?x) \<and>
      St_LastHandledForceAt (HR_Status (Object req2)) = St_LastHandledForceAt (HR_Status (Object ?x))"
    using assms(2,3)
    by (auto simp: actionForState_def action_in_sync_def action_drifted_def action_failed_def remediate_action_def
        truncate_history_def ClearHistory_def Let_def
        split: ReleaseStatus.splits if_splits option.splits RemediationStrategy.splits res.splits)
  then show "Conditions (Object req2) = Conditions (Object req)" using c1 by (simp add: frame_simps)
  have "HR_Annotations (Object req1) = HR_Annotations (Object req)"
    using DetermineReleaseState_object [of E req] assms(1) by auto
  with d force_seen_handled [of E "Object req1"] show "force_seen E (Object req2)"
    by (simp add: force_seen_def frame_simps keepsD(6) [OF k])
qed

text \<open>Announcing the action keeps the conditions orderly.\<close>

lemma orderly_announce:
  assumes "conditions_ok (eCond E)" "orderly b"
  shows "orderly (announce E a b)"
proof -
  have "orderly (MarkReconciling E r m b)" for r m
    using assms by (simp add: MarkReconciling_def conditions_okD(5,6) [OF assms(1)] orderly_set orderly_delete)
  then show ?thesis
    by (simp add: announce_def Let_def Mark_def conditions_okD(5) [OF assms(1)] orderly_set [OF assms(1)])
qed

lemma core_announce: "core (announce E a b) = core b"
  by (simp add: announce_def Let_def MarkReconciling_def)

definition undisturbed :: "'w env \<Rightarrow> bool" where
  "undisturbed E \<longleftrightarrow> (\<forall>w. eCtxErr E w = None) \<and>
     (\<forall>obj w. fst (ePatch E obj w) = None \<and> (\<forall>n. LastRelease E n (snd (ePatch E obj w)) = LastRelease E n w))"

lemma undisturbedD:
  assumes "undisturbed E"
  shows "eCtxErr E w = None" "\<exists>w'. patch E b = (None, set_world w' b) \<and> (\<forall>n. LastRelease E n w' = LastRelease E n (World b))"
  using assms by (auto simp: undisturbed_def patch_def split: prod.split) (metis fst_conv snd_conv)+

lemma settled_world:
  "LastRelease E (GetReleaseName (Object c)) w = LastRelease E (GetReleaseName (Object c)) (World c) \<Longrightarrow>
     settled E rls c \<Longrightarrow> settled E rls (set_world w c)"
  by (simp add: settled_def)

text \<open>The pass that runs the action.\<close>

lemma releasing_pass:
  assumes "conditions_ok (eCond E)" "digest_ok (eDigest E)" "annotation_request (eHandleAnnotationRequest E)" "undisturbed E"
    and "orderly req" "\<not> Test_Enable (GetTest (Object req))" "\<not> MustDetectChanges (GetDriftDetection (Object req))"
    and "DetermineReleaseState E req = (Ok s, req1)" "actionForState E s req1 = (Ok (Some a), req2)" "a \<in> {AInstall, AUpgrade}"
    and b: "b = snd (patch E (announce E a req2))" and d: "delivered E b (helm_release_run a E b) rls" "empty_values_alike (eDigest E)"
  obtains c where "iteration E [] req = Proceed a [ReconcilerTypeRelease] c" "settled E rls c" "reported E c"
    "Latest (History (Object c)) = Some (release_snapshot E (action_kind a) b rls)"
proof -
  note dec = decided_release [OF assms(8-10)]
  obtain w where p: "patch E (announce E a req2) = (None, b)" "b = set_world w (announce E a req2)"
    using undisturbedD(2) [OF assms(4), of "announce E a req2"] b by auto
  have kb: "keeps req b" unfolding p(2) by (intro keep.basic keeps_announce dec(1))
  have "orderly req2" using assms(5) dec(2) keepsD(4) [OF dec(1)] by simp
  then have o: "orderly b" using orderly_announce [OF assms(1)] by (simp add: p(2))
  have "keeps req2 b" unfolding p(2) by (intro keep.basic keeps_announce) simp
  then have "force_seen E (Object b)" by (rule force_seen_keeps [OF _ _ dec(3)]) (simp add: p(2) core_announce)
  with release_action_settles [OF assms(1-3,10) o _ _ _ d] obtain c where
    c: "Action_Reconcile a E b = (Ok (), c)" "settled E rls c" "reported E c"
      "Latest (History (Object c)) = Some (release_snapshot E (action_kind a) b rls)"
    using assms(6,7) by (auto simp: spec_getters [OF kb])
  obtain w' where p': "patch E c = (None, set_world w' c)" "LastRelease E n w' = LastRelease E n (World c)" for n
    using undisturbedD(2) [OF assms(4), of c] by auto
  have t: "Action_Type a = ReconcilerTypeRelease" using assms(10) by auto
  have "iteration E [] req = Proceed a [ReconcilerTypeRelease] (set_world w' c)"
    using assms(8,9) undisturbedD(1) [OF assms(4)] p(1) c(1) p'(1) t
    by (simp add: iteration_def attempt_def MustContinue_def rollback_deferred_def run_action_def MustStop_def)
  with c(2-4) settled_world [OF p'(2)] show ?thesis by (intro that [of "set_world w' c"]) simp_all
qed

text \<open>The loop over such a release: the pass that runs the action, and one that finds nothing left to do.\<close>

lemma release_loop_settles:
  assumes "conditions_ok (eCond E)" "digest_ok (eDigest E)" "annotation_request (eHandleAnnotationRequest E)" "undisturbed E"
    and "orderly req" "\<not> Test_Enable (GetTest (Object req))" "\<not> MustDetectChanges (GetDriftDetection (Object req))"
    and "DetermineReleaseState E req = (Ok s, req1)" "actionForState E s req1 = (Ok (Some a), req2)" "a \<in> {AInstall, AUpgrade}"
    and "b = snd (patch E (announce E a req2))" "delivered E b (helm_release_run a E b) rls" "empty_values_alike (eDigest E)"
  obtains req' where "AtomicRelease_Reconcile E req = (Ok (), req')" "atomic_run E [] req [a] (Ok ()) req'"
    "settled E rls req'" "reported E req'" "Latest (History (Object req')) = Some (release_snapshot E (action_kind a) b rls)"
    "cIsTrue (eCond E) (Conditions (Object req')) ReadyCondition" "\<not> has_condition ReconcilingCondition req'"
proof -
  note ctx = undisturbedD(1) [OF assms(4)]
  obtain c where c: "iteration E [] req = Proceed a [ReconcilerTypeRelease] c" "settled E rls c" "reported E c"
      "Latest (History (Object c)) = Some (release_snapshot E (action_kind a) b rls)"
    by (rule releasing_pass [OF assms])
  obtain d where d: "iteration E [ReconcilerTypeRelease] c = Finish [] (Ok ()) d" "settled E rls d" "reported E d"
      "Latest (History (Object d)) = Latest (History (Object c))"
      "cIsTrue (eCond E) (Conditions (Object d)) ReadyCondition" "\<not> has_condition ReconcilingCondition d"
    by (rule settled_completes [OF assms(1,3,2) ctx c(2,3)])
  have run: "atomic_run E [] req [a] (Ok ()) d" using run_proceed [OF c(1) run_finish [OF d(1)]] .
  moreover have "AtomicRelease_Reconcile E req = (Ok (), d)" using atomic_run_loop [OF run] by (simp add: AtomicRelease_Reconcile_def)
  ultimately show ?thesis using d(2-6) c(4) by (intro that) simp_all
qed

lemma settled_loop:
  assumes "conditions_ok (eCond E)" "digest_ok (eDigest E)" "annotation_request (eHandleAnnotationRequest E)"
    and "eCtxErr E (World req) = None" "settled E rls req" "reported E req"
  obtains req' where "AtomicRelease_Reconcile E req = (Ok (), req')" "atomic_run E [] req [] (Ok ()) req'"
    "settled E rls req'" "reported E req'" "World req' = World req" "Latest (History (Object req')) = Latest (History (Object req))"
    "cIsTrue (eCond E) (Conditions (Object req')) ReadyCondition" "\<not> has_condition ReconcilingCondition req'"
proof -
  obtain d where d: "iteration E [] req = Finish [] (Ok ()) d" "settled E rls d" "reported E d" "World d = World req"
      "Latest (History (Object d)) = Latest (History (Object req))"
      "cIsTrue (eCond E) (Conditions (Object d)) ReadyCondition" "\<not> has_condition ReconcilingCondition d"
    by (rule settled_completes [OF assms(1,3,2,4-6)])
  have run: "atomic_run E [] req [] (Ok ()) d" using run_finish [OF d(1)] .
  moreover have "AtomicRelease_Reconcile E req = (Ok (), d)" using atomic_run_loop [OF run] by (simp add: AtomicRelease_Reconcile_def)
  ultimately show ?thesis using d(2-7) by (intro that)
qed



end
