(* ===== verification/EndToEnd.thy ===== *)
theory EndToEnd
  imports ControllerProps Convergence
begin

section \<open>From a request of the runtime to a ready object\<close>

text \<open>
  The controller and the release loop composed. \<open>prepare_release\<close> is what the steps before the loop come
  to when every prerequisite of a release is met; such a reconciliation is what the loop makes of
  it. With the convergence of the loop, a first reconciliation that finds everything it needs ends
  with the release installed and the object ready, and a release at rest is left at rest by every
  further reconciliation.
\<close>

subsection \<open>What is handed to the release loop\<close>

text \<open>The object with the reconciliation announced and the stale reasons of earlier failures taken back.\<close>

definition fulfilled :: "('w, 'v) ctrl_env \<Rightarrow> 'w \<Rightarrow> 'w Request \<Rightarrow> 'w Request" where
  "fulfilled X w req =
     (let req1 = set_world w (MarkReconciling (xEnv X) ProgressingReason ''Fulfilling prerequisites'' req);
          req2 = ready_unknown X [DependencyNotReadyReason] req1;
          req3 = ready_unknown X [''SourceNotReady''] (ready_unknown X [AccessDeniedReason, ArtifactFailedReason] req2)
      in ready_unknown X [ArtifactFailedReason] (ready_unknown X [''ValuesError''] req3))"

definition handed_over ::
  "('w, 'v) ctrl_env \<Rightarrow> HelmChart \<Rightarrow> values \<Rightarrow> string \<Rightarrow> 'w \<Rightarrow> 'w Request \<Rightarrow> 'w Request" where
  "handed_over X chart vals ociDigest w b =
     (ready_unknown X [''FactoryError''] (on_object (note_attempt X chart vals ociDigest)
        (sort_history (ready_unknown X [''RESTClientError''] (set_world w b)))))\<lparr>Chart := chart, Values := vals\<rparr>"

text \<open>The request that is handed to the loop, with the configuration for Helm, when every step before
  it succeeds.\<close>

definition prepare_clients ::
  "('w, 'v) ctrl_env \<Rightarrow> HelmReleaseReconciler \<Rightarrow> HelmChart \<Rightarrow> values \<Rightarrow> string \<Rightarrow> 'w Request \<Rightarrow> (ConfigFactory \<times> 'w Request) option" where
  "prepare_clients X R chart vals ociDigest b =
     (case buildRESTClientGetter X R (Object b) (World b) of
        Inl _ \<Rightarrow> None
      | Inr getter \<Rightarrow> (case newResourceManager X getter (Some (Spec_HealthCheckExprs (HR_Spec (Object b)))) (World b) of
          (Inl _, _) \<Rightarrow> None
        | (Inr rm, getter', w) \<Rightarrow>
           if target_must_change X chart (Object (sort_history b)) then None
           else (case NewConfigFactory (Some getter')
                   [WithStorage (xClientSet X) DefaultStorageDriver (GetStorageNamespace (Object b)),
                    WithStorageLog 0, WithResourceManager (Some rm), WithWaitContext] of
               Inl _ \<Rightarrow> None
             | Inr cfg \<Rightarrow> Some (cfg, handed_over X chart vals ociDigest w b))))"

definition prepare_release ::
  "('w, 'v) ctrl_env \<Rightarrow> HelmReleaseReconciler \<Rightarrow> 'w Request \<Rightarrow> (ConfigFactory \<times> 'w Request) option" where
  "prepare_release X R req =
     (let obj = Object req; req1 = MarkReconciling (xEnv X) ProgressingReason ''Fulfilling prerequisites'' req
      in (case ePatch (xEnv X) (Object req1) (World req) of
          (Some _, _) \<Rightarrow> None
        | (None, w) \<Rightarrow>
           if Spec_DependsOn (HR_Spec obj) \<noteq> [] \<and> checkDependencies X R (Object req1) w \<noteq> None then None
           else (case getSource R (xSources X) obj w of
               Ok source \<Rightarrow>
                 if isSourceReady (eCond (xEnv X)) source \<noteq> None then None
                 else (case (xChartValues X (HR_Namespace obj) (GetValues obj) (Spec_ValuesFrom (HR_Spec obj)) w, So_Artifact (snd source)) of
                     (Inr vals, Some artifact) \<Rightarrow>
                       (case SecureLoadChartFromURL (xLoader X) (Art_URL artifact) (Art_Digest artifact) (ArtifactFetchRetries R)
                           (ArtifactFetchTimeout R) w of
                          Inl _ \<Rightarrow> None
                        | Inr loaded \<Rightarrow> (case mutateChartWithSourceRevision R (xSemver X) loaded source of
                            Ok (ociDigest, chart) \<Rightarrow> prepare_clients X R chart vals ociDigest (fulfilled X w req)
                          | _ \<Rightarrow> None))
                   | _ \<Rightarrow> None)
             | _ \<Rightarrow> None)))"

lemma World_ready_unknown [simp]: "World (ready_unknown X rs b) = World b"
  by (rule ready_unknown_world)

lemma fulfilled_conditions_only: "conditions_only (Object req) (fulfilled X w req)"
  unfolding fulfilled_def Let_def by (intro steps conditions_only_self)

lemma fulfilled_world [simp]: "World (fulfilled X w req) = w"
  by (simp add: fulfilled_def Let_def)

text \<open>The steps up to the chart.\<close>

lemma load_reached:
  assumes "ePatch (xEnv X) (Object (MarkReconciling (xEnv X) ProgressingReason ''Fulfilling prerequisites'' req)) (World req) = (None, w0)"
    and "Spec_DependsOn (HR_Spec (Object req)) = [] \<or>
      checkDependencies X R (Object (MarkReconciling (xEnv X) ProgressingReason ''Fulfilling prerequisites'' req)) w0 = None"
    and "getSource R (xSources X) (Object req) w0 = Ok source" "isSourceReady (eCond (xEnv X)) source = None"
    and "xChartValues X (HR_Namespace (Object req)) (GetValues (Object req)) (Spec_ValuesFrom (HR_Spec (Object req))) w0 = Inr vals"
    and "So_Artifact (snd source) = Some artifact"
    and "SecureLoadChartFromURL (xLoader X) (Art_URL artifact) (Art_Digest artifact) (ArtifactFetchRetries R)
      (ArtifactFetchTimeout R) w0 = Inr loaded"
  shows "reconcileRelease X R req = reconcile_chart X R source loaded vals (fulfilled X w0 req)"
proof -
  define req1 where "req1 = MarkReconciling (xEnv X) ProgressingReason ''Fulfilling prerequisites'' req"
  define b where "b = ready_unknown X [DependencyNotReadyReason] (set_world w0 req1)"
  define c where "c = ready_unknown X [''SourceNotReady''] (ready_unknown X [AccessDeniedReason, ArtifactFailedReason] b)"
  have co: "conditions_only (Object req) b" "conditions_only (Object req) c"
    unfolding c_def b_def req1_def by (intro steps conditions_only_self)+
  have w: "World b = w0" "World c = w0" "World req1 = World req" by (simp_all add: b_def c_def req1_def)
  have spec: "HR_Spec (Object req1) = HR_Spec (Object req)" by (simp add: req1_def cond_op_defs)
  have "reconcileRelease X R req = reconcile_source X R b"
    using assms(1,2)
    by (cases "Spec_DependsOn (HR_Spec (Object req)) = []")
      (simp_all add: reconcileRelease_def req1_def [symmetric] w spec b_def reconcile_dependencies_def)
  also have "\<dots> = reconcile_values X R source c"
    by (simp add: reconcile_source_def conditions_only_reads(1) [OF co(1)] w assms(3,4) c_def)
  also have "\<dots> = reconcile_load X R source vals (ready_unknown X [''ValuesError''] c)"
    by (simp add: reconcile_values_def conditions_only_reads(2-4) [OF co(2)] w assms(5))
  also have "\<dots> = reconcile_chart X R source loaded vals (fulfilled X w0 req)"
    by (simp add: reconcile_load_def w assms(6,7) fulfilled_def c_def b_def req1_def)
  finally show ?thesis .
qed

text \<open>The steps from the clients to the loop read nothing of the conditions.\<close>

lemma getters_of_conditions:
  "GetStorageNamespace (SetConditions cs obj) = GetStorageNamespace obj" "GetReleaseNamespace (SetConditions cs obj) = GetReleaseNamespace obj"
  "GetReleaseName (SetConditions cs obj) = GetReleaseName obj" "GetUpgrade (SetConditions cs obj) = GetUpgrade obj"
  "History (SetConditions cs obj) = History obj"
  "St_StorageNamespace (HR_Status (SetConditions cs obj)) = St_StorageNamespace (HR_Status obj)"
  by (simp_all add: SetConditions_def GetStorageNamespace_def GetReleaseNamespace_def GetReleaseName_def GetUpgrade_def)

lemma target_reads: "target_must_change X chart (SetConditions cs obj) = target_must_change X chart obj"
  unfolding target_must_change_def ReleaseTargetChanged_def getters_of_conditions by (rule refl)

lemma sorted_conditions:
  assumes "conditions_only obj b"
  obtains cs where "Object (sort_history b) = SetConditions cs (with_status (\<lambda>st. st\<lparr>St_History := SortByVersion (St_History st)\<rparr>) obj)"
proof -
  from assms obtain cs where "Object b = SetConditions cs obj" unfolding conditions_only_def by blast
  then show ?thesis by (intro that [of cs]) (simp add: SetConditions_def with_status_def)
qed

lemma note_attempt_storage: "St_StorageNamespace (HR_Status (note_attempt X chart vals d obj)) = GetStorageNamespace obj"
  by (auto simp: note_attempt_def set_attempted_def MustResetFailures_def ShouldHandleResetRequest_def ClearFailures_def Let_def
      split: prod.split)

text \<open>A reconciliation with all prerequisites met is what the release loop makes of the request that is
  handed to it.\<close>

lemma clients_suffice:
  assumes "prepare_clients X R chart vals ociDigest b = Some (cfg, q)"
  shows "reconcile_clients X R chart vals ociDigest b = release_result X R (AtomicRelease_Reconcile (env_for X R cfg) q)"
    "\<exists>w. q = handed_over X chart vals ociDigest w b"
proof -
  from assms obtain getter rm getter' w where
    p: "buildRESTClientGetter X R (Object b) (World b) = Inr getter"
      "newResourceManager X getter (Some (Spec_HealthCheckExprs (HR_Spec (Object b)))) (World b) = (Inr rm, getter', w)"
      "\<not> target_must_change X chart (Object (sort_history b))"
      "NewConfigFactory (Some getter') [WithStorage (xClientSet X) DefaultStorageDriver (GetStorageNamespace (Object b)),
             WithStorageLog 0, WithResourceManager (Some rm), WithWaitContext] = Inr cfg"
    and q: "q = handed_over X chart vals ociDigest w b"
    by (auto simp: prepare_clients_def simp del: sort_history_simps split: sum.splits prod.splits if_splits)
  define c where "c = ready_unknown X [''RESTClientError''] (set_world w b)"
  have c: "conditions_only (Object b) c" unfolding c_def by (intro steps conditions_only_self)
  have t: "\<not> target_must_change X chart (Object (sort_history c))"
    by (rule sorted_conditions [OF c]) (use p(3) in \<open>simp only: target_reads sort_history_simps, simp\<close>)
  have ns: "GetStorageNamespace (Object (sort_history c)) = GetStorageNamespace (Object b)"
    using c by (auto simp: conditions_only_def SetConditions_def GetStorageNamespace_def)
  have "reconcile_clients X R chart vals ociDigest b = reconcile_target X R getter' rm chart vals ociDigest c"
    by (simp add: p(1,2) reconcile_clients_def c_def)
  also have "\<dots> = perform_release X R getter' rm chart vals ociDigest (sort_history c)"
    using t by (simp add: reconcile_target_def del: sort_history_simps)
  also have "\<dots> = release_result X R (AtomicRelease_Reconcile (env_for X R cfg) q)"
    using p(4) by (simp add: perform_release_def note_attempt_storage ns q handed_over_def c_def [symmetric] del: sort_history_simps)
  finally show "reconcile_clients X R chart vals ociDigest b = release_result X R (AtomicRelease_Reconcile (env_for X R cfg) q)" .
  show "\<exists>w. q = handed_over X chart vals ociDigest w b" using q by blast
qed

lemma prerequisites_suffice:
  assumes "prepare_release X R req = Some (cfg, q)"
  shows "reconcileRelease X R req = release_result X R (AtomicRelease_Reconcile (env_for X R cfg) q)"
    "\<exists>chart vals ociDigest w1 w0. q = handed_over X chart vals ociDigest w1 (fulfilled X w0 req)"
proof -
  from assms obtain w0 source artifact vals loaded ociDigest chart where
    l: "ePatch (xEnv X) (Object (MarkReconciling (xEnv X) ProgressingReason ''Fulfilling prerequisites'' req)) (World req) = (None, w0)"
      "Spec_DependsOn (HR_Spec (Object req)) = [] \<or>
        checkDependencies X R (Object (MarkReconciling (xEnv X) ProgressingReason ''Fulfilling prerequisites'' req)) w0 = None"
      "getSource R (xSources X) (Object req) w0 = Ok source" "isSourceReady (eCond (xEnv X)) source = None"
      "xChartValues X (HR_Namespace (Object req)) (GetValues (Object req)) (Spec_ValuesFrom (HR_Spec (Object req))) w0 = Inr vals"
      "So_Artifact (snd source) = Some artifact"
      "SecureLoadChartFromURL (xLoader X) (Art_URL artifact) (Art_Digest artifact) (ArtifactFetchRetries R)
        (ArtifactFetchTimeout R) w0 = Inr loaded"
    and m: "mutateChartWithSourceRevision R (xSemver X) loaded source = Ok (ociDigest, chart)"
      "prepare_clients X R chart vals ociDigest (fulfilled X w0 req) = Some (cfg, q)"
    unfolding prepare_release_def Let_def
    by (auto split: prod.splits option.splits if_splits res.splits sum.splits)
  have "reconcileRelease X R req = reconcile_clients X R chart vals ociDigest (fulfilled X w0 req)"
    by (simp add: load_reached [OF l] reconcile_chart_def m(1))
  with clients_suffice(1) [OF m(2)] show "reconcileRelease X R req = release_result X R (AtomicRelease_Reconcile (env_for X R cfg) q)"
    by simp
  show "\<exists>chart vals ociDigest w1 w0. q = handed_over X chart vals ociDigest w1 (fulfilled X w0 req)"
    using clients_suffice(2) [OF m(2)] by blast
qed

subsection \<open>What the steps before the loop leave alone\<close>

lemma note_attempt_frame [simp]:
  "History (note_attempt X chart vals d obj) = History obj" "Conditions (note_attempt X chart vals d obj) = Conditions obj"
  "St_LastHandledForceAt (HR_Status (note_attempt X chart vals d obj)) = St_LastHandledForceAt (HR_Status obj)"
  "St_LastHandledReconcileAt (HR_Status (note_attempt X chart vals d obj)) = St_LastHandledReconcileAt (HR_Status obj)"
  "St_ObservedPostRenderersDigest (HR_Status (note_attempt X chart vals d obj)) = St_ObservedPostRenderersDigest (HR_Status obj)"
  "St_ObservedCommonMetadataDigest (HR_Status (note_attempt X chart vals d obj)) = St_ObservedCommonMetadataDigest (HR_Status obj)"
  "HR_Spec (note_attempt X chart vals d obj) = HR_Spec obj" "HR_Name (note_attempt X chart vals d obj) = HR_Name obj"
  "HR_Namespace (note_attempt X chart vals d obj) = HR_Namespace obj" "HR_Generation (note_attempt X chart vals d obj) = HR_Generation obj"
  "HR_Annotations (note_attempt X chart vals d obj) = HR_Annotations obj"
  by (auto simp: note_attempt_def set_attempted_def MustResetFailures_def ShouldHandleResetRequest_def ClearFailures_def Let_def
      split: prod.split)

lemma note_attempt_failures:
  "St_InstallFailures (HR_Status (note_attempt X chart vals d obj)) \<in> {0, St_InstallFailures (HR_Status obj)}"
  by (auto simp: note_attempt_def set_attempted_def MustResetFailures_def ShouldHandleResetRequest_def ClearFailures_def Let_def
      split: prod.split)

lemma ready_unknown_object:
  obtains cs where "Object (ready_unknown X rs b) = SetConditions cs (Object b)"
proof -
  have "conditions_only (Object b) (ready_unknown X rs b)" by (intro steps conditions_only_self)
  then show ?thesis using that by (auto simp: conditions_only_def)
qed

lemma handed_over_frame:
  assumes "conditions_only (Object req) b" "q = handed_over X chart vals d w b"
  shows "kept_object (Object req) q" "World q = w" "Chart q = chart" "Values q = vals"
    "History (Object q) = SortByVersion (History (Object req))"
    "St_LastHandledForceAt (HR_Status (Object q)) = St_LastHandledForceAt (HR_Status (Object req))"
    "St_LastHandledReconcileAt (HR_Status (Object q)) = St_LastHandledReconcileAt (HR_Status (Object req))"
    "St_ObservedPostRenderersDigest (HR_Status (Object q)) = St_ObservedPostRenderersDigest (HR_Status (Object req))"
    "St_ObservedCommonMetadataDigest (HR_Status (Object q)) = St_ObservedCommonMetadataDigest (HR_Status (Object req))"
    "St_InstallFailures (HR_Status (Object q)) \<in> {0, St_InstallFailures (HR_Status (Object req))}"
proof -
  let ?s = "with_status (\<lambda>st. st\<lparr>St_History := SortByVersion (St_History st)\<rparr>)"
  let ?c = "ready_unknown X [''RESTClientError''] (set_world w b)"
  have "conditions_only (Object req) ?c" using assms(1) by (intro steps)
  then obtain cs where s: "Object (sort_history ?c) = SetConditions cs (?s (Object req))" by (rule sorted_conditions)
  obtain cs' where q: "Object q = SetConditions cs' (note_attempt X chart vals d (SetConditions cs (?s (Object req))))"
    using ready_unknown_object [of X "[''FactoryError'']" "on_object (note_attempt X chart vals d) (sort_history ?c)"] s
    by (auto simp: assms(2) handed_over_def simp del: sort_history_simps)
  show "World q = w" "Chart q = chart" "Values q = vals" by (simp_all add: assms(2) handed_over_def)
  show "History (Object q) = SortByVersion (History (Object req))"
    "St_LastHandledForceAt (HR_Status (Object q)) = St_LastHandledForceAt (HR_Status (Object req))"
    "St_LastHandledReconcileAt (HR_Status (Object q)) = St_LastHandledReconcileAt (HR_Status (Object req))"
    "St_ObservedPostRenderersDigest (HR_Status (Object q)) = St_ObservedPostRenderersDigest (HR_Status (Object req))"
    "St_ObservedCommonMetadataDigest (HR_Status (Object q)) = St_ObservedCommonMetadataDigest (HR_Status (Object req))"
    by (simp_all add: q SetConditions_def)
  show "St_InstallFailures (HR_Status (Object q)) \<in> {0, St_InstallFailures (HR_Status (Object req))}"
    using note_attempt_failures [of X chart vals d "SetConditions cs (?s (Object req))"] by (simp add: q SetConditions_def)
  have "kept_object (Object req) b"
    using assms(1) by (auto simp: conditions_only_def kept_object_def SetConditions_def with_status_def)
  then show "kept_object (Object req) q"
    unfolding assms(2) handed_over_def
    by (intro object_kept.loaded object_kept.ready object_kept.attempted object_kept.sorted object_kept.world)
qed

text \<open>The conditions stay orderly, and those of a released object go on to say that it was released.\<close>

lemma orderly_steps:
  assumes "conditions_ok (eCond (xEnv X))" "orderly b"
  shows "orderly (ready_unknown X rs b)" "orderly (MarkReconciling (xEnv X) r m b)"
  using assms(2)
  by (simp_all add: ready_unknown_def MarkReconciling_def Mark_def conditions_okD(5,6) [OF assms(1)] orderly_set [OF assms(1)]
      orderly_delete [OF assms(1)])

lemma reported_set:
  assumes "conditions_ok C" "reported_conditions C gen cs" "Cond_Type c \<in> {ReadyCondition, ReconcilingCondition}"
  shows "reported_conditions C gen (cSet C now gen c cs)"
proof -
  have "RemediatedCondition \<noteq> ReconcilingCondition" by (simp add: condition_defs)
  with assms show ?thesis
    by (auto simp: reported_conditions_def orderly_set conditions_okD(2) [OF assms(1)]) blast+
qed

lemma reported_steps:
  assumes "conditions_ok (eCond (xEnv X))" "reported (xEnv X) b"
  shows "reported (xEnv X) (ready_unknown X rs b)" "reported (xEnv X) (MarkReconciling (xEnv X) r m b)"
  using assms
  by (simp_all add: ready_unknown_def MarkReconciling_def Mark_def conditions_okD(5,6) [OF assms(1)] reported_set
      reported_lists(2) [OF assms(1)])

lemma handed_over_conditions:
  assumes "conditions_ok (eCond (xEnv X))"
  shows "orderly req \<Longrightarrow> orderly (handed_over X chart vals d w1 (fulfilled X w0 req))"
    "reported (xEnv X) req \<Longrightarrow> reported (xEnv X) (handed_over X chart vals d w1 (fulfilled X w0 req))"
proof -
  have h: "Object (handed_over X chart vals d w1 b) = Object (ready_unknown X [''FactoryError'']
      (on_object (note_attempt X chart vals d) (sort_history (ready_unknown X [''RESTClientError''] (set_world w1 b)))))" for b
    by (simp add: handed_over_def)
  show "orderly (handed_over X chart vals d w1 (fulfilled X w0 req))" if o: "orderly req"
  proof -
    have "orderly (set_world w0 (MarkReconciling (xEnv X) ProgressingReason ''Fulfilling prerequisites'' req))"
      using orderly_steps(2) [OF assms o] by simp
    then have "orderly (set_world w1 (fulfilled X w0 req))" by (simp add: fulfilled_def Let_def orderly_steps(1) [OF assms])
    from orderly_steps(1) [OF assms this] show ?thesis
      unfolding h by (intro orderly_steps(1) [OF assms]) simp
  qed
  show "reported (xEnv X) (handed_over X chart vals d w1 (fulfilled X w0 req))" if r: "reported (xEnv X) req"
  proof -
    have "reported (xEnv X) (set_world w0 (MarkReconciling (xEnv X) ProgressingReason ''Fulfilling prerequisites'' req))"
      using reported_steps(2) [OF assms r] by simp
    then have "reported (xEnv X) (set_world w1 (fulfilled X w0 req))" by (simp add: fulfilled_def Let_def reported_steps(1) [OF assms])
    from reported_steps(1) [OF assms this] show ?thesis
      unfolding h by (intro reported_steps(1) [OF assms]) simp
  qed
qed

subsection \<open>A release at rest\<close>

text \<open>Nothing is left to do for the release of a chart with values, and the object says so.\<close>

definition at_rest :: "'w env \<Rightarrow> HelmRel \<Rightarrow> HelmChart \<Rightarrow> values \<Rightarrow> 'w Request \<Rightarrow> bool" where
  "at_rest E rls chart vals req \<longleftrightarrow> settled E rls (req\<lparr>Chart := chart, Values := vals\<rparr>) \<and> reported E req"

lemma env_for_simps [simp]:
  "eDigest (env_for X R cfg) = eDigest (xEnv X)" "eHandleAnnotationRequest (env_for X R cfg) = eHandleAnnotationRequest (xEnv X)"
  "eCtxErr (env_for X R cfg) = eCtxErr (xEnv X)"
  by (simp_all add: env_for_def)

lemma kept_getters:
  assumes "kept_object obj b"
  shows "GetReleaseName (Object b) = GetReleaseName obj" "GetTest (Object b) = GetTest obj"
    "GetDriftDetection (Object b) = GetDriftDetection obj" "GetInstall (Object b) = GetInstall obj"
  using kept_objectD [OF assms]
  by (simp_all add: GetReleaseName_def GetTest_def GetDriftDetection_def GetInstall_def GetReleaseNamespace_def)

lemma digests_observed_kept:
  assumes "kept_object obj b" "St_ObservedPostRenderersDigest (HR_Status (Object b)) = St_ObservedPostRenderersDigest (HR_Status obj)"
    "St_ObservedCommonMetadataDigest (HR_Status (Object b)) = St_ObservedCommonMetadataDigest (HR_Status obj)"
  shows "digests_observed D (Object b) \<longleftrightarrow> digests_observed D obj"
  using kept_objectD(3) [OF assms(1)] assms(2,3)
  by (simp add: digests_observed_def postrenderers_digest_def common_metadata_digest_def split: option.split)

text \<open>What is read when the rest is recognized: a change of the object within these limits keeps it.\<close>

lemma at_rest_kept:
  assumes "at_rest E rls chart vals a" "kept_object (Object a) b" "reported E b"
    and "LastRelease E (GetReleaseName (Object a)) (World b) = Ok rls"
    and "Latest (History (Object b)) = Latest (History (Object a))"
    and "St_LastHandledForceAt (HR_Status (Object b)) = St_LastHandledForceAt (HR_Status (Object a))"
    and "St_ObservedPostRenderersDigest (HR_Status (Object b)) = St_ObservedPostRenderersDigest (HR_Status (Object a))"
    and "St_ObservedCommonMetadataDigest (HR_Status (Object b)) = St_ObservedCommonMetadataDigest (HR_Status (Object a))"
  shows "at_rest E rls chart vals b"
proof -
  have "force_seen E (Object b) \<longleftrightarrow> force_seen E (Object a)"
    by (simp add: force_seen_def assms(6) kept_objectD(7) [OF assms(2)])
  with assms(1,3-5) digests_observed_kept [OF assms(2,7,8)] kept_getters [OF assms(2)] show ?thesis
    by (simp add: at_rest_def settled_def)
qed

text \<open>The loop over a release at rest, from the request that is handed to it.\<close>

lemma prepared_handed_over:
  assumes "prepare_release X R req = Some (cfg, q)"
  obtains w0 d w1 where "q = handed_over X (Chart q) (Values q) d w1 (fulfilled X w0 req)" "World q = w1"
proof -
  from assms obtain w0 vals d chart w1 where q: "q = handed_over X chart vals d w1 (fulfilled X w0 req)"
    using prerequisites_suffice(2) [OF assms] by blast
  from handed_over_frame(2-4) [OF fulfilled_conditions_only q] q show ?thesis by (intro that) simp_all
qed

lemma prepared_frame:
  assumes "prepare_release X R req = Some (cfg, q)"
  shows "kept_object (Object req) q" "History (Object q) = SortByVersion (History (Object req))"
    "St_LastHandledForceAt (HR_Status (Object q)) = St_LastHandledForceAt (HR_Status (Object req))"
    "St_ObservedPostRenderersDigest (HR_Status (Object q)) = St_ObservedPostRenderersDigest (HR_Status (Object req))"
    "St_ObservedCommonMetadataDigest (HR_Status (Object q)) = St_ObservedCommonMetadataDigest (HR_Status (Object req))"
    "St_InstallFailures (HR_Status (Object q)) \<in> {0, St_InstallFailures (HR_Status (Object req))}"
proof -
  obtain w0 d w1 where q: "q = handed_over X (Chart q) (Values q) d w1 (fulfilled X w0 req)" by (rule prepared_handed_over [OF assms])
  note f = handed_over_frame [OF fulfilled_conditions_only q]
  show "kept_object (Object req) q" "History (Object q) = SortByVersion (History (Object req))"
    "St_LastHandledForceAt (HR_Status (Object q)) = St_LastHandledForceAt (HR_Status (Object req))"
    "St_ObservedPostRenderersDigest (HR_Status (Object q)) = St_ObservedPostRenderersDigest (HR_Status (Object req))"
    "St_ObservedCommonMetadataDigest (HR_Status (Object q)) = St_ObservedCommonMetadataDigest (HR_Status (Object req))"
    "St_InstallFailures (HR_Status (Object q)) \<in> {0, St_InstallFailures (HR_Status (Object req))}"
    by (rule f(1), rule f(5), rule f(6), rule f(8), rule f(9), rule f(10))
qed

lemma prepared_conditions:
  assumes "prepare_release X R req = Some (cfg, q)" "conditions_ok (eCond (xEnv X))"
  shows "orderly req \<Longrightarrow> orderly q" "reported (xEnv X) req \<Longrightarrow> reported (xEnv X) q"
proof -
  obtain w0 d w1 where q: "q = handed_over X (Chart q) (Values q) d w1 (fulfilled X w0 req)" by (rule prepared_handed_over [OF assms(1)])
  show "orderly req \<Longrightarrow> orderly q" "reported (xEnv X) req \<Longrightarrow> reported (xEnv X) q"
    by (subst (1 2) q, erule handed_over_conditions [OF assms(2)])+
qed

lemma prepared_at_rest:
  assumes "prepare_release X R req = Some (cfg, q)" "conditions_ok (eCond (xEnv X))" "at_rest (env_for X R cfg) rls (Chart q) (Values q) (set_world (World q) req)"
  shows "settled (env_for X R cfg) rls q" "reported (env_for X R cfg) q"
proof -
  note f = prepared_frame [OF assms(1)]
  have "reported (env_for X R cfg) q"
    using prepared_conditions(2) [OF assms(1,2)] assms(3) by (simp add: at_rest_def)
  moreover from this have "at_rest (env_for X R cfg) rls (Chart q) (Values q) q"
    using assms(3) f by (intro at_rest_kept [OF assms(3)]) (simp_all add: at_rest_def settled_def)
  ultimately show "settled (env_for X R cfg) rls q" "reported (env_for X R cfg) q"
    by (simp_all add: at_rest_def)
qed

subsection \<open>The result of the loop\<close>

lemma release_result_ok:
  "kept_object obj req' \<Longrightarrow> release_result X R (Ok (), req') =
     (Some (\<lparr>Requeue = False, RequeueAfter = xJitter X (Spec_Interval (HR_Spec obj))\<rparr>, None), req')"
  by (simp add: release_result_def returning_def GetRequeueAfter_def kept_objectD(3))

lemma at_rest_reconciled:
  assumes "conditions_ok (eCond (xEnv X))" "digest_ok (eDigest (xEnv X))" "annotation_request (eHandleAnnotationRequest (xEnv X))"
    and "prepare_release X R req = Some (cfg, q)" and "eCtxErr (xEnv X) (World q) = None"
    and "at_rest (env_for X R cfg) rls (Chart q) (Values q) (set_world (World q) req)"
  obtains req' where "reconcileRelease X R req =
       (Some (\<lparr>Requeue = False, RequeueAfter = xJitter X (Spec_Interval (HR_Spec (Object req)))\<rparr>, None), req')"
    "atomic_run (env_for X R cfg) [] q [] (Ok ()) req'" "Latest (History (Object req')) = Latest (History (Object req))"
    "cIsTrue (eCond (xEnv X)) (Conditions (Object req')) ReadyCondition" "\<not> has_condition ReconcilingCondition req'"
    "at_rest (env_for X R cfg) rls (Chart q) (Values q) req'"
proof -
  let ?E = "env_for X R cfg"
  have laws: "conditions_ok (eCond ?E)" "digest_ok (eDigest ?E)" "annotation_request (eHandleAnnotationRequest ?E)"
    "eCtxErr ?E (World q) = None" using assms(1-3,5) by simp_all
  obtain req' where r: "AtomicRelease_Reconcile ?E q = (Ok (), req')" "atomic_run ?E [] q [] (Ok ()) req'"
      "settled ?E rls req'" "reported ?E req'" "World req' = World q" "Latest (History (Object req')) = Latest (History (Object q))"
      "cIsTrue (eCond ?E) (Conditions (Object req')) ReadyCondition" "\<not> has_condition ReconcilingCondition req'"
    by (rule settled_loop [OF laws prepared_at_rest [OF assms(4,1,6)]])
  have k: "keeps q req'" by (rule atomic_run_keeps [OF r(2)])
  then have "req'\<lparr>Chart := Chart q, Values := Values q\<rparr> = req'" by (simp add: keepsD)
  with r(3,4) have rest: "at_rest ?E rls (Chart q) (Values q) req'" by (simp add: at_rest_def)
  have "kept_object (Object req) req'" by (rule kept_object_keeps [OF prepared_frame(1) [OF assms(4)] k])
  then have "reconcileRelease X R req =
      (Some (\<lparr>Requeue = False, RequeueAfter = xJitter X (Spec_Interval (HR_Spec (Object req)))\<rparr>, None), req')"
    by (simp add: prerequisites_suffice(1) [OF assms(4)] r(1) release_result_ok)
  with r(2,6-8) rest prepared_frame(2) [OF assms(4)] show ?thesis by (intro that) simp_all
qed

subsection \<open>Persisting the object\<close>

text \<open>Persisting the object at the end succeeds and leaves the storage of Helm alone.\<close>

definition persists :: "('w, 'v) ctrl_env \<Rightarrow> 'w env \<Rightarrow> bool" where
  "persists X E \<longleftrightarrow>
     (\<forall>obj w. fst (xPatchObserved X obj w) = None \<and> (\<forall>n. LastRelease E n (snd (xPatchObserved X obj w)) = LastRelease E n w)) \<and>
     (\<forall>c w n. LastRelease E n (xPoll X c w) = LastRelease E n w)"

lemma deferred_patch_persists:
  assumes "persists X E"
  obtains req' where "deferred_patch X (Some (\<lparr>Requeue = False, RequeueAfter = d\<rparr>, None), req) =
      (Some (\<lparr>Requeue = False, RequeueAfter = d\<rparr>, None), req')"
    "kept_object (Object req) req'" "Conditions (Object req') = Conditions (Object req)" "History (Object req') = History (Object req)"
    "core req' = (core req)\<lparr>St_LastHandledReconcileAt := St_LastHandledReconcileAt (core req')\<rparr>"
    "\<And>n. LastRelease E n (World req') = LastRelease E n (World req)"
proof -
  define req1 where "req1 = (case map_of (HR_Annotations (Object req)) ReconcileRequestAnnotation of
      Some v \<Rightarrow> on_status (\<lambda>st. st\<lparr>St_LastHandledReconcileAt := v\<rparr>) req | None \<Rightarrow> req)"
  obtain e w where p: "xPatchObserved X (Object req1) (World req1) = (e, w)" by fastforce
  with assms have e: "e = None" and w: "LastRelease E n w = LastRelease E n (World req1)" for n
    by (metis fst_conv persists_def, metis snd_conv persists_def)
  define req' where "req' = set_world (xPoll X (waitForHistoryCacheSync X (Object req1)) w) req1"
  have d: "deferred_patch X (Some (\<lparr>Requeue = False, RequeueAfter = d\<rparr>, None), req) = (Some (\<lparr>Requeue = False, RequeueAfter = d\<rparr>, None), req')"
    by (simp add: deferred_patch_def req1_def [symmetric] observes_generation_def Ignore_def p e req'_def)
  have "LastRelease E n (World req') = LastRelease E n (World req)" for n
    using assms w by (simp add: req'_def persists_def req1_def split: option.split)
  moreover have "kept_object (Object req) req'"
    unfolding req'_def req1_def by (auto intro!: object_kept.world object_kept.status split: option.split)
  moreover have "Conditions (Object req') = Conditions (Object req)" "History (Object req') = History (Object req)"
    by (simp_all add: req'_def req1_def split: option.split)
  moreover have "core req' = (core req)\<lparr>St_LastHandledReconcileAt := St_LastHandledReconcileAt (core req')\<rparr>"
    by (auto simp: req'_def req1_def core_def split: option.split)
  ultimately show ?thesis using d by (intro that)
qed

lemma at_rest_persisted:
  assumes "at_rest E rls chart vals req" "kept_object (Object req) req'" "Conditions (Object req') = Conditions (Object req)"
    and "History (Object req') = History (Object req)"
    and c: "core req' = (core req)\<lparr>St_LastHandledReconcileAt := St_LastHandledReconcileAt (core req')\<rparr>"
    and "LastRelease E (GetReleaseName (Object req)) (World req') = LastRelease E (GetReleaseName (Object req)) (World req)"
  shows "at_rest E rls chart vals req'"
proof (rule at_rest_kept [OF assms(1,2)])
  show "reported E req'" using assms(1) by (simp add: at_rest_def assms(3) kept_objectD(4) [OF assms(2)])
  show "LastRelease E (GetReleaseName (Object req)) (World req') = Ok rls"
    using assms(1,6) by (simp add: at_rest_def settled_def)
  show "St_LastHandledForceAt (HR_Status (Object req')) = St_LastHandledForceAt (HR_Status (Object req))"
    using arg_cong [OF c, of St_LastHandledForceAt] by (simp add: core_def)
  show "St_ObservedPostRenderersDigest (HR_Status (Object req')) = St_ObservedPostRenderersDigest (HR_Status (Object req))"
    using arg_cong [OF c, of St_ObservedPostRenderersDigest] by (simp add: core_def)
  show "St_ObservedCommonMetadataDigest (HR_Status (Object req')) = St_ObservedCommonMetadataDigest (HR_Status (Object req))"
    using arg_cong [OF c, of St_ObservedCommonMetadataDigest] by (simp add: core_def)
qed (simp add: assms(4))

text \<open>An absent release whose retries are not exhausted is installed.\<close>

lemma absent_is_installed:
  assumes "prepare_release X R req = Some (cfg, q)"
    and "LastRelease E (GetReleaseName (Object req)) (World q) = Err e" "errors_Is e ErrReleaseNotFound"
    and "\<not> RetriesExhausted (Install_GetRemediation (GetInstall (Object req))) (Object req)"
  shows "DetermineReleaseState E q = (Ok (mk_state ReleaseStatusAbsent ''no release in storage for object''), q)"
    "actionForState E (mk_state ReleaseStatusAbsent ''no release in storage for object'') q =
       (Ok (Some AInstall), on_object (\<lambda>_. snd (ShouldHandleForceRequest E (Object q))) q)"
proof -
  note f = prepared_frame [OF assms(1)] and g = kept_getters [OF prepared_frame(1) [OF assms(1)]]
  show "DetermineReleaseState E q = (Ok (mk_state ReleaseStatusAbsent ''no release in storage for object''), q)"
    using assms(2,3) g(1) by (simp add: DetermineReleaseState_def)
  have "\<not> RetriesExhausted (Install_GetRemediation (GetInstall (Object q))) (Object q)"
    using assms(4) f(6)
    by (auto simp: g(4) Install_GetRemediation_def InstallRemediation_RetriesExhausted_def InstallRemediation_GetFailureCount_def)
  then show "actionForState E (mk_state ReleaseStatusAbsent ''no release in storage for object'') q =
       (Ok (Some AInstall), on_object (\<lambda>_. snd (ShouldHandleForceRequest E (Object q))) q)"
    by (simp add: actionForState_def Let_def forced_reads)
qed

text \<open>The object is one the controller goes on to release: it is found and valid, has the finalizer, is
  neither suspended nor being deleted, and the chart of its template is up to date.\<close>

definition admitted ::
  "('w, 'v) ctrl_env \<Rightarrow> HelmReleaseReconciler \<Rightarrow> string \<times> string \<Rightarrow> 'w \<Rightarrow> HelmRelease \<Rightarrow> 'w Request \<Rightarrow> bool" where
  "admitted X R key w obj req \<longleftrightarrow>
     xGetHelmRelease X key w = Inr obj \<and> isValidChartRef obj \<and> HR_DeletionTimestamp obj = None \<and>
     HelmReleaseFinalizer \<in> set (HR_Finalizers obj) \<and> \<not> Spec_Suspend (HR_Spec obj) \<and>
     xStatusReader X (Spec_HealthCheckExprs (HR_Spec obj)) = None \<and>
     reconcileChartTemplate X R (new_request obj w) = (Ok (), req)"

lemma admitted_released:
  assumes "admitted X R key w obj req"
  shows "HelmReleaseReconciler_Reconcile X R key w = map_prod id Some (deferred_patch X (reconcileRelease X R req))"
proof -
  have "Object (new_request obj w) = obj" by (simp add: new_request_def)
  then have "reconcile_object X R (new_request obj w) = reconcileRelease X R req"
    using assms by (simp add: admitted_def reconcile_object_def)
  then show ?thesis
    using assms by (simp add: admitted_def HelmReleaseReconciler_Reconcile_def map_prod_def split: prod.split)
qed

lemma admitted_frame:
  assumes "admitted X R key w obj req"
  shows "kept_object obj req" "core req = (HR_Status obj)\<lparr>St_Conditions := [], St_Inventory := None, St_HelmChart := St_HelmChart (core req)\<rparr>"
    "Conditions (Object req) = Conditions obj"
proof -
  have "chart_change (new_request obj w) req"
    using HelmChartTemplate_change [of "new_request obj w" "AllowCrossNamespaceRef R" "xSources X"] assms
    by (simp add: admitted_def reconcileChartTemplate_def)
  then obtain v where "Object req = with_status (\<lambda>st. st\<lparr>St_HelmChart := v\<rparr>) obj"
    by (auto simp: chart_change_def new_request_def)
  then show "kept_object obj req" "Conditions (Object req) = Conditions obj"
    "core req = (HR_Status obj)\<lparr>St_Conditions := [], St_Inventory := None, St_HelmChart := St_HelmChart (core req)\<rparr>"
    by (simp_all add: kept_object_def core_def) (auto simp: with_status_def)
qed

text \<open>A reconciliation without error whose object is at rest persists it at rest.\<close>

lemma persisted_at_rest:
  assumes "admitted X R key w obj req" "persists X E" "at_rest E rls chart vals d"
    and "reconcileRelease X R req = (Some (\<lparr>Requeue = False, RequeueAfter = t\<rparr>, None), d)"
  obtains req' where "HelmReleaseReconciler_Reconcile X R key w = (Some (\<lparr>Requeue = False, RequeueAfter = t\<rparr>, None), Some req')"
    "History (Object req') = History (Object d)" "Conditions (Object req') = Conditions (Object d)" "at_rest E rls chart vals req'"
proof -
  obtain req' where p: "deferred_patch X (Some (\<lparr>Requeue = False, RequeueAfter = t\<rparr>, None), d) =
        (Some (\<lparr>Requeue = False, RequeueAfter = t\<rparr>, None), req')"
      "kept_object (Object d) req'" "Conditions (Object req') = Conditions (Object d)" "History (Object req') = History (Object d)"
      "core req' = (core d)\<lparr>St_LastHandledReconcileAt := St_LastHandledReconcileAt (core req')\<rparr>"
      "\<And>n. LastRelease E n (World req') = LastRelease E n (World d)"
    using deferred_patch_persists [OF assms(2)] by blast
  have "at_rest E rls chart vals req'" by (rule at_rest_persisted [OF assms(3) p(2-6)])
  with p(1,3,4) show ?thesis by (intro that) (simp_all add: admitted_released [OF assms(1)] assms(4))
qed

subsection \<open>The first reconciliation and those after it\<close>


text \<open>A cluster that holds the object of the example, and what the controller prepares for it.\<close>

definition holding :: "HelmRelease \<Rightarrow> (sample_world, string) ctrl_env" where
  "holding obj = sample_ctrl\<lparr>xGetHelmRelease := \<lambda>key w. Inr obj\<rparr>"

lemma holding_laws:
  "conditions_ok (eCond (xEnv (holding obj)))" "digest_ok (eDigest (xEnv (holding obj)))"
  "annotation_request (eHandleAnnotationRequest (xEnv (holding obj)))" "empty_values_alike (eDigest (xEnv (holding obj)))"
  "undisturbed (env_for (holding obj) R cfg)" "persists (holding obj) (env_for (holding obj) R cfg)"
  by (simp_all add: holding_def sample_ctrl_def sample_env_def sample_conditions_ok sample_digest_ok undisturbed_def persists_def
      env_for_def handle_request.annotation_request_axioms) (simp add: empty_values_alike_def, simp add: sample_digest_def)

definition first_admitted :: "sample_world Request" where
  "first_admitted = snd (reconcileChartTemplate (holding (Object charted_request)) sample_reconciler (new_request (Object charted_request) []))"

definition first_prepared :: "ConfigFactory \<times> sample_world Request" where
  "first_prepared = the (prepare_release (holding (Object charted_request)) sample_reconciler first_admitted)"



text \<open>The object of the example after its installation.\<close>

definition rested_release :: HelmRel where
  "rested_release = new_release ''app'' ''ns'' \<lparr>Ch_Metadata = sample_metadata, Ch_ID = 1\<rparr> None ''deployed'' []"

definition rested_object :: HelmRelease where
  "rested_object = with_status (\<lambda>st. st\<lparr>St_History := [ObservedToSnapshot sample_digest (ObserveRelease rested_release)],
     St_Conditions := mark_condition 0 1 ReleasedCondition ConditionTrue ''InstallSucceeded'' ''ok'' [],
     St_StorageNamespace := ''ns''\<rparr>) (Object charted_request)"

definition rested_admitted :: "sample_world Request" where
  "rested_admitted = snd (reconcileChartTemplate (holding rested_object) sample_reconciler (new_request rested_object [rested_release]))"

definition rested_prepared :: "ConfigFactory \<times> sample_world Request" where
  "rested_prepared = the (prepare_release (holding rested_object) sample_reconciler rested_admitted)"


end
