(* ===== verification/ActionResults.thy ===== *)
theory ActionResults
  imports Outcomes
begin

section \<open>What the other actions report\<close>

text \<open>
  When \<^verbatim>\<open>Test\<close> counts a failure, when \<^verbatim>\<open>Uninstall\<close> and \<^verbatim>\<open>RollbackRemediation\<close> report success,
  and what \<^verbatim>\<open>Unlock\<close> writes.
\<close>

subsection \<open>Test\<close>

definition test_run :: "'w env \<Rightarrow> 'w Request \<Rightarrow> ('w, gerror + HelmRel) helm_run" where
  "test_run E req = Test E (Object (sort_history req)) (World req)"

text \<open>The request after the observers have seen what the test run persisted.\<close>

definition after_test :: "'w env \<Rightarrow> 'w Request \<Rightarrow> 'w Request" where
  "after_test E req = fst (observe_run [object_observer (observeTest (eDigest E))] (test_run E req) (sort_history req))"

text \<open>The counters and the last action, which the observer of tests leaves alone.\<close>

definition counters :: "'w Request \<Rightarrow> ReleaseAction \<times> int64 \<times> int64" where
  "counters req = (let st = HR_Status (Object req)
     in (St_LastAttemptedReleaseAction st, St_InstallFailures st, St_UpgradeFailures st))"

lemma counters_simps [simp]:
  "counters (Mark E t st r m b) = counters b" "counters (emit md ty r ac m b) = counters b"
  "counters (sort_history b) = counters b" "counters (add_failure b) = counters b" "counters (set_world w b) = counters b"
  "counters (SetCondition E c b) = counters b" "counters (DeleteCondition E t b) = counters b" "counters (on_conditions f b) = counters b"
  by (simp_all add: counters_def Let_def cond_op_defs emit_def add_failure_def)

lemma counters_summarize [simp]: "counters (summarize E b) = counters b"
  by (simp add: summarize_def Let_def split: list.split)

lemma counters_observeTest: "counters (on_object (observeTest D r) b) = counters b"
  by (auto simp: counters_def observeTest_def set_history_def Let_def split: option.split)

lemma counters_after_test: "counters (after_test E req) = counters req"
  unfolding after_test_def observe_run_def
  by (rule replay_invariant [where P = "\<lambda>s. counters (fst s) = counters req"])
    (auto simp: object_observer_def counters_observeTest split: Releaser.split)

lemma spec_after_test: "HR_Spec (Object (after_test E req)) = HR_Spec (Object req)"
proof -
  have "keeps req (after_test E req)"
    unfolding after_test_def by (intro keep.observed keep.sort keep.refl) simp
  then show ?thesis by (rule keepsD)
qed

text \<open>The failure count of the active remediation, 0 when there is none.\<close>

definition active_failures :: "HelmRelease \<Rightarrow> int64" where
  "active_failures obj = (case GetActiveRemediation obj of None \<Rightarrow> 0 | Some rem \<Rightarrow> GetFailureCount rem obj)"

lemma active_failures_cong:
  assumes "counters a = counters b" "HR_Spec (Object a) = HR_Spec (Object b)"
  shows "GetActiveRemediation (Object a) = GetActiveRemediation (Object b)" "active_failures (Object a) = active_failures (Object b)"
    "ignore_failures = Test_IgnoreFailures (GetTest (Object a)) \<longleftrightarrow> ignore_failures = Test_IgnoreFailures (GetTest (Object b))"
proof -
  show g: "GetActiveRemediation (Object a) = GetActiveRemediation (Object b)"
    using assms by (simp add: GetActiveRemediation_def counters_def Let_def GetInstall_def GetUpgrade_def split: ReleaseAction.split)
  have "GetFailureCount rem (Object a) = GetFailureCount rem (Object b)" for rem
    using assms(1) by (cases rem) (simp_all add: counters_def Let_def InstallRemediation_GetFailureCount_def UpgradeRemediation_GetFailureCount_def)
  with g show "active_failures (Object a) = active_failures (Object b)" by (simp add: active_failures_def split: option.split)
  show "ignore_failures = Test_IgnoreFailures (GetTest (Object a)) \<longleftrightarrow> ignore_failures = Test_IgnoreFailures (GetTest (Object b))"
    using assms(2) by (simp add: GetTest_def)
qed

definition test_failure_counts :: "HelmRelease \<Rightarrow> bool" where
  "test_failure_counts obj = (case GetActiveRemediation obj of None \<Rightarrow> False
     | Some rem \<Rightarrow> \<not> MustIgnoreTestFailures rem (Test_IgnoreFailures (GetTest obj)))"

lemma latest_simps [simp]:
  "latest (sort_history b) = latest b" "latest (Mark E t st r m b) = latest b" "latest (emit md ty r ac m b) = latest b"
  "latest (add_failure b) = latest b"
  by (simp_all add: latest_def cond_op_defs emit_def add_failure_def)

lemma Test_failure_result:
  assumes "latest b = Some c"
  shows "fst (Test_failure E e b) = Ok ()" "latest (snd (Test_failure E e b)) = Some c"
    "active_failures (Object (snd (Test_failure E e b))) =
       (if HasBeenTested (Some c) \<and> test_failure_counts (Object b) then inc64 (active_failures (Object b)) else active_failures (Object b))"
proof -
  let ?m = "''Helm test failed for '' @ release_with_chart (Some c) @ '': '' @ TrimSpace (Err_Msg e)"
  define b2 where "b2 = emit (snapshot_meta c) EventTypeWarning TestFailedReason ActionHelmTest ?m
     (Mark E TestSuccessCondition ConditionFalse TestFailedReason ?m (add_failure (sort_history b)))"
  have l: "latest b2 = Some c" using assms by (simp add: b2_def)
  have tf: "Test_failure E e b = (Ok (), if HasBeenTested (Some c)
       then (case GetActiveRemediation (Object b2) of None \<Rightarrow> b2
             | Some rem \<Rightarrow> if MustIgnoreTestFailures rem (Test_IgnoreFailures (GetTest (Object b2))) then b2
                          else on_object (IncrementFailureCount rem) b2) else b2)"
    unfolding Test_failure_def Let_def assms option.case b2_def [symmetric] l by (rule refl)
  have c: "counters b2 = counters b" "HR_Spec (Object b2) = HR_Spec (Object b)"
    by (simp add: b2_def, simp add: b2_def add_failure_def Mark_def)
  note eq = active_failures_cong(1,2) [OF c]
  have t: "GetTest (Object b2) = GetTest (Object b)" using c(2) by (simp add: GetTest_def)
  have inc: "active_failures (IncrementFailureCount rem obj) = inc64 (active_failures obj)" if "GetActiveRemediation obj = Some rem" for rem obj
  proof -
    have "GetActiveRemediation (IncrementFailureCount rem obj) = Some rem"
      using that
      by (simp add: GetActiveRemediation_def IncrementFailureCount_frame GetInstall_def GetUpgrade_def split: ReleaseAction.splits)
    with that show ?thesis by (simp add: active_failures_def active_remediation.count_incr)
  qed
  show "fst (Test_failure E e b) = Ok ()" by (simp add: tf)
  show "latest (snd (Test_failure E e b)) = Some c"
    using l by (auto simp: tf latest_def IncrementFailureCount_frame split: option.split)
  show "active_failures (Object (snd (Test_failure E e b))) =
       (if HasBeenTested (Some c) \<and> test_failure_counts (Object b) then inc64 (active_failures (Object b)) else active_failures (Object b))"
    using eq t inc [of "Object b2"] by (auto simp: tf test_failure_counts_def split: option.split)
qed

text \<open>C31. A failed test is counted as a failure of the release, and then not returned as an error, exactly
  when the release recorded as latest was tested and the active remediation does not ignore test
  failures; the error is returned when no test of the latest release was recorded.\<close>

theorem Test_failure_counted:
  assumes "latest req = Some cur" and "test_error cur (Run_Result (test_run E req)) = Some e"
    and "latest (after_test E req) = Some c"
  shows "fst (Test_Reconcile E req) = (if HasBeenTested (Some c) then Ok () else Err e) \<and>
    active_failures (Object (snd (Test_Reconcile E req))) =
      (if HasBeenTested (Some c) \<and> test_failure_counts (Object req) then inc64 (active_failures (Object req))
       else active_failures (Object req))"
proof -
  let ?b = "after_test E req"
  have frame: "counters ?b = counters req" "HR_Spec (Object ?b) = HR_Spec (Object req)"
    by (rule counters_after_test, rule spec_after_test)
  note eq = active_failures_cong(1,2) [OF frame]
  have tc: "test_failure_counts (Object ?b) = test_failure_counts (Object req)"
    using eq(1) frame(2) by (simp add: test_failure_counts_def GetTest_def split: option.split)
  have tr: "Test_Reconcile E req = summarized E (conclude_test E (Some e) ?b)"
    using assms(1,2) by (simp add: Test_Reconcile_def test_run_def after_test_def Let_def)
  obtain x y where xy: "Test_failure E e ?b = (x, y)" by fastforce
  note res = Test_failure_result [OF assms(3), of E e, unfolded xy]
  have "active_failures (Object (summarize E (sort_history y))) = active_failures (Object y)"
    by (rule active_failures_cong(2)) (simp_all add: keepsD(1) [OF keep.summary [OF keep.refl]])
  with res show ?thesis by (simp add: tr conclude_test_def xy summarized_def eq tc)
qed

text \<open>A release whose tests fail, in an environment whose test runs end with an error.\<close>

definition failing_tests :: "sample_world env" where
  "failing_tests = sample_env\<lparr>eHelm := sample_helm\<lparr>hTest := \<lambda>cfg name w.
     \<lparr>Run_Ops = map (\<lambda>r. OpUpdate (RelV1 r) None w) w, Run_Logs = [], Run_Result = Inl (errors_New ''boom''), Run_World = w\<rparr>\<rparr>\<rparr>"

definition sample_upgraded :: "sample_world Request" where
  "sample_upgraded = on_status (\<lambda>st. st\<lparr>St_LastAttemptedReleaseAction := ReleaseActionUpgrade\<rparr>) sample_in_sync"

theorem Test_failure_counted_witness:
  "fst (Test_Reconcile failing_tests sample_upgraded) = Ok () \<and>
   active_failures (Object (snd (Test_Reconcile failing_tests sample_upgraded))) = 1"
proof -
  have l: "latest sample_upgraded \<noteq> None" "latest (after_test failing_tests sample_upgraded) \<noteq> None"
    "HasBeenTested (latest (after_test failing_tests sample_upgraded))"
    "test_failure_counts (Object sample_upgraded)" "inc64 (active_failures (Object sample_upgraded)) = 1"
    "Run_Result (test_run failing_tests sample_upgraded) = Inl (errors_New ''boom'')"
    by code_simp+
  then obtain cur c where lc: "latest sample_upgraded = Some cur" "latest (after_test failing_tests sample_upgraded) = Some c"
    by auto
  with l have "test_error cur (Run_Result (test_run failing_tests sample_upgraded)) = Some (errors_New ''boom'')"
    by (simp add: test_error_def)
  from Test_failure_counted [OF lc(1) this lc(2)] l lc show ?thesis by simp
qed

subsection \<open>Uninstall\<close>

definition uninstall_run :: "'w env \<Rightarrow> Snapshot \<Rightarrow> 'w Request \<Rightarrow> ('w, Releaser option \<times> gerror option) helm_run" where
  "uninstall_run E cur req = Uninstall E (Object (sort_history req)) (Snap_Name cur) (World req)"

definition after_uninstall :: "'w env \<Rightarrow> ReleaseAction \<Rightarrow> Snapshot \<Rightarrow> 'w Request \<Rightarrow> 'w Request" where
  "after_uninstall E action cur req =
     fst (observe_run [object_observer (observeUninstall (eDigest E) action)] (uninstall_run E cur req) (sort_history req))"

lemma uninstall_error_None:
  assumes "uninstall_error cur res err = Inr None"
  shows "err = None" "res \<noteq> Some RelOther" "res = Some (RelV1 rls) \<Longrightarrow> Observation_Targets (ObserveRelease rls) (Snap_Name cur) (Snap_Namespace cur) (Snap_Version cur)"
  using assms by (auto simp: uninstall_error_def split: option.splits Releaser.splits if_splits)

text \<open>C32. An uninstall reports success only when the release recorded as latest is gone: Helm does not
  know it, or has it marked as deleted while history is kept, or removed it without error, what it
  removed is what was recorded, and its storage was seen to change or the release was recorded as
  uninstalled already.\<close>

theorem Uninstall_success_sound:
  assumes "fst (Uninstall_Reconcile E req) = Ok ()"
  shows "\<exists>cur. latest req = Some cur \<and>
    (let run = uninstall_run E cur req; err = snd (Run_Result run); after = latest (after_uninstall E ReleaseActionUninstall cur req)
     in (\<exists>e. err = Some e \<and> errors_Is e DriverReleaseNotFound) \<or>
        (\<exists>e. err = Some e \<and> Uni_KeepHistory (GetUninstall (Object req)) \<and> Contains (Err_Msg e) ''is already deleted'') \<or>
        (err = None \<and> fst (Run_Result run) \<noteq> Some RelOther \<and>
         (\<forall>rls. fst (Run_Result run) = Some (RelV1 rls) \<longrightarrow>
            Observation_Targets (ObserveRelease rls) (Snap_Name cur) (Snap_Namespace cur) (Snap_Version cur)) \<and>
         (\<exists>now. after = Some now \<and> (Snap_Digest now \<noteq> Snap_Digest cur \<or> Snap_Status cur = StatusUninstalled))))"
proof -
  obtain cur where cur: "latest req = Some cur"
    using assms by (cases "latest req") (auto simp: Uninstall_Reconcile_def summarized_def Let_def)
  let ?run = "uninstall_run E cur req" and ?b = "after_uninstall E ReleaseActionUninstall cur req"
  have u: "fst (conclude_uninstall E cur ?run ?b) = Ok ()"
    using assms by (simp add: Uninstall_Reconcile_def cur uninstall_run_def after_uninstall_def summarized_def Let_def)
  have "keeps req ?b"
    unfolding after_uninstall_def by (intro keep.observed keep.sort keep.refl) simp
  then have k: "GetUninstall (Object ?b) = GetUninstall (Object req)" by (simp add: GetUninstall_def keepsD)
  show ?thesis
  proof (cases "\<exists>e. snd (Run_Result ?run) = Some e \<and> (errors_Is e DriverReleaseNotFound \<or>
      Uni_KeepHistory (GetUninstall (Object req)) \<and> Contains (Err_Msg e) ''is already deleted'')")
    case True
    then show ?thesis using cur by (auto simp: Let_def)
  next
    case False
    with u k obtain err0 now where e: "uninstall_error cur (fst (Run_Result ?run)) (snd (Run_Result ?run)) = Inr err0"
        and n: "latest ?b = Some now"
        and f: "(if err0 = None \<and> Snap_Digest cur = Snap_Digest now \<and> Snap_Status cur \<noteq> StatusUninstalled
           then Some no_storage_update else err0) = None"
      by (auto simp: conclude_uninstall_def Let_def split: if_splits sum.splits option.splits)
    from f have "err0 = None" "Snap_Digest now \<noteq> Snap_Digest cur \<or> Snap_Status cur = StatusUninstalled"
      by (auto split: if_splits)
    moreover from this e have e': "uninstall_error cur (fst (Run_Result ?run)) (snd (Run_Result ?run)) = Inr None" by simp
    moreover note uninstall_error_None(1,2) [OF e'] uninstall_error_None(3) [OF e']
    ultimately show ?thesis using n cur by (auto simp: Let_def)
  qed
qed

theorem Uninstall_success_sound_witness:
  "\<exists>cur now. latest sample_in_sync = Some cur \<and> latest (after_uninstall sample_env ReleaseActionUninstall cur sample_in_sync) = Some now \<and>
     Snap_Digest now \<noteq> Snap_Digest cur"
proof -
  have ok: "fst (Uninstall_Reconcile sample_env sample_in_sync) = Ok ()" by code_simp
  let ?cur = "ObservedToSnapshot sample_digest (ObserveRelease sample_release)"
  have cur: "latest sample_in_sync = Some ?cur"
    by (simp add: latest_def sample_in_sync_def set_history_def Latest_def head_opt_def)
  have "snd (Run_Result (uninstall_run sample_env ?cur sample_in_sync)) = None" "Snap_Status ?cur \<noteq> StatusUninstalled"
    by code_simp+
  with Uninstall_success_sound [OF ok] cur show ?thesis by (auto simp: Let_def)
qed

subsection \<open>Rollback and unlock\<close>

definition rollback_run :: "'w env \<Rightarrow> Snapshot \<Rightarrow> 'w Request \<Rightarrow> ('w, gerror option) helm_run" where
  "rollback_run E prev req = Rollback E (Object (sort_history req)) (Snap_Name prev) (Snap_Version prev) (World req)"

definition after_rollback :: "'w env \<Rightarrow> Snapshot \<Rightarrow> 'w Request \<Rightarrow> 'w Request" where
  "after_rollback E prev req =
     fst (observe_run [object_observer (observeRollback (eDigest E)), observeInventory E ActionHelmRollback]
       (rollback_run E prev req) (sort_history req))"

text \<open>C33. A rollback remediation goes back to the previous release of the history, never to one of another
  name or namespace, and is reported as done only when Helm returned no error or made a change that
  shows in the latest snapshot.\<close>

theorem Rollback_success_sound:
  assumes "fst (RollbackRemediation_Reconcile E req) = Ok ()"
  shows "\<exists>prev cur. Previous (History (Object req)) (MustIgnoreTestFailures (Upgrade_GetRemediation (GetUpgrade (Object req)))
        (Test_IgnoreFailures (GetTest (Object req)))) = Some prev \<and>
      latest req = Some cur \<and> Snap_Name prev = Snap_Name cur \<and> Snap_Namespace prev = Snap_Namespace cur \<and>
      (Run_Result (rollback_run E prev req) = None \<or>
       (\<exists>now. latest (after_rollback E prev req) = Some now \<and> Snap_Digest now \<noteq> Snap_Digest cur))"
proof -
  from assms obtain prev cur where
    p: "Previous (History (Object req)) (MustIgnoreTestFailures (Upgrade_GetRemediation (GetUpgrade (Object req)))
        (Test_IgnoreFailures (GetTest (Object req)))) = Some prev"
      "latest req = Some cur" "Snap_Name prev = Snap_Name cur" "Snap_Namespace prev = Snap_Namespace cur"
    and c: "fst (conclude_rollback E prev cur (rollback_run E prev req) (after_rollback E prev req)) = Ok ()"
    unfolding RollbackRemediation_Reconcile_def Let_def summarized_def rollback_run_def after_rollback_def
    by (auto split: option.splits if_splits)
  have "Run_Result (rollback_run E prev req) = None \<or>
       (\<exists>now. latest (after_rollback E prev req) = Some now \<and> Snap_Digest now \<noteq> Snap_Digest cur)"
    using c by (auto simp: conclude_rollback_def RollbackRemediation_failure_def Let_def split: option.splits if_splits)
  with p show ?thesis by blast
qed

text \<open>A failed upgrade with an earlier release to go back to, for examples.\<close>

definition sample_failed_upgrade :: "sample_world Request" where
  "sample_failed_upgrade =
     (let r1 = with_rel_status ''superseded'' sample_release; r2 = with_rel_status ''failed'' (sample_release\<lparr>Rel_Version := 2\<rparr>)
      in sample_request\<lparr>World := [r2, r1], Object := set_history
        [ObservedToSnapshot sample_digest (ObserveRelease r2), ObservedToSnapshot sample_digest (ObserveRelease r1)] sample_object\<rparr>)"

theorem Rollback_success_sound_witness:
  "\<exists>prev cur. latest sample_failed_upgrade = Some cur \<and> Snap_Name prev = Snap_Name cur \<and>
     (Run_Result (rollback_run sample_env prev sample_failed_upgrade) = None \<or>
      (\<exists>now. latest (after_rollback sample_env prev sample_failed_upgrade) = Some now \<and> Snap_Digest now \<noteq> Snap_Digest cur))"
proof -
  have "fst (RollbackRemediation_Reconcile sample_env sample_failed_upgrade) = Ok ()" by code_simp
  from Rollback_success_sound [OF this] show ?thesis by blast
qed

text \<open>Unlocking touches the Helm storage only when the last release is in a pending or uninstalling
  state; it then writes this release once, as failed, and returns the error of the storage if there
  is one. A release in any other state is left alone.\<close>

theorem Unlock_writes_failed:
  assumes "LastRelease E (GetReleaseName (Object req)) (World req) = Ok rls" and "Rel_Info rls = Some info"
    and "hUpdate (eHelm E) (RelV1 (hSetStatus (eHelm E) StatusFailed (unlock_description (Info_Status info)) (World req) rls))
           (World req) = (err, w')"
  shows "if isLockedStatus (Info_Status info)
    then World (snd (Unlock_Reconcile E req)) = w' \<and>
         fst (Unlock_Reconcile E req) = (case err of None \<Rightarrow> Ok () | Some e \<Rightarrow> Err e)
    else Unlock_Reconcile E req = (Ok (), summarize E req)"
proof -
  have w: "World (summarize E b) = World b" for b
    by (simp add: summarize_def cond_op_defs Let_def split: list.split)
  show ?thesis
    using assms
    by (cases err) (simp_all add: Unlock_Reconcile_def Observer_Update_def summarized_def Unlock_failure_def Unlock_success_def
        w cond_op_defs add_failure_def Let_def)
qed

text \<open>An installation that was interrupted, for examples.\<close>

definition sample_locked :: "sample_world Request" where
  "sample_locked = sample_in_sync\<lparr>World := [with_rel_status ''pending-install'' sample_release]\<rparr>"

theorem Unlock_writes_failed_witness:
  "\<exists>r. World (snd (Unlock_Reconcile sample_env sample_locked)) = [r] \<and> map_option Info_Status (Rel_Info r) = Some ''failed''"
proof -
  let ?rls = "with_rel_status ''pending-install'' sample_release"
  let ?info = "HelmInfo_zero\<lparr>Info_Status := ''pending-install''\<rparr>"
  have "LastRelease sample_env (GetReleaseName (Object sample_locked)) (World sample_locked) = Ok ?rls" by code_simp
  moreover have "Rel_Info ?rls = Some ?info" by (simp add: with_rel_status_def sample_release_def)
  moreover have "hUpdate (eHelm sample_env) (RelV1 (hSetStatus (eHelm sample_env) StatusFailed
      (unlock_description (Info_Status ?info)) (World sample_locked) ?rls)) (World sample_locked) = (None, [with_rel_status ''failed'' ?rls])"
    by (simp add: sample_env_def sample_helm_def sample_locked_def put_release_def with_rel_status_def StatusFailed_def)
  ultimately have "World (snd (Unlock_Reconcile sample_env sample_locked)) = [with_rel_status ''failed'' ?rls]"
    using Unlock_writes_failed [of sample_env sample_locked ?rls ?info] by (simp add: isLockedStatus_def IsPending_def)
  then show ?thesis by (simp add: with_rel_status_def)
qed

end
