(* ===== verification/Retries.thy ===== *)
theory Retries
  imports Decisions ActionResults
begin

section \<open>The retries of an installation\<close>

text \<open>
  How often an installation may fail. The failure counter of installations is followed through the
  sub-reconcilers, a pass and the loop, and then over a sequence of reconciliations between which
  anything may happen to the cluster. Counters have 64 bits, so the increments are iterations of
  \<open>inc64\<close>.
\<close>

subsection \<open>The failure counter\<close>

definition install_failures :: "'w Request \<Rightarrow> int64" where
  "install_failures req = St_InstallFailures (HR_Status (Object req))"

lemma install_failures_core: "install_failures req = St_InstallFailures (core req)"
  by (simp add: install_failures_def core_def)

lemma install_failures_counters: "install_failures req = fst (snd (counters req))"
  by (simp add: install_failures_def counters_def Let_def)

text \<open>\<open>counted n a b\<close>: the counter went up at most \<open>n\<close> times from \<open>a\<close> to \<open>b\<close>.\<close>

definition counted :: "nat \<Rightarrow> 'w Request \<Rightarrow> 'w Request \<Rightarrow> bool" where
  "counted n a b \<longleftrightarrow> (\<exists>k \<le> n. install_failures b = (inc64 ^^ k) (install_failures a))"

lemma counted_same: "counters b = counters a \<Longrightarrow> counted n a b"
  unfolding counted_def install_failures_counters by (intro exI [of _ 0]) simp

lemma counted_refl [simp]: "counted n a a"
  by (rule counted_same) (rule refl)

lemma counted_trans:
  assumes "counted m a b" "counted n b c"
  shows "counted (m + n) a c"
proof -
  from assms obtain j k where "j \<le> m" "install_failures b = (inc64 ^^ j) (install_failures a)"
      "k \<le> n" "install_failures c = (inc64 ^^ k) (install_failures b)" by (auto simp: counted_def)
  then show ?thesis
    unfolding counted_def by (intro exI [of _ "k + j"]) (simp add: funpow_add)
qed

lemma inc64_iterated:
  assumes "0 \<le> x" "x + int k < 2 ^ 63"
  shows "(inc64 ^^ k) x = x + int k"
  using assms by (induction k) (simp_all add: inc64_Suc is_int64_def)

lemma counted_range:
  assumes "counted n a b" "0 \<le> install_failures a" "install_failures a + int n < 2 ^ 63"
  shows "install_failures a \<le> install_failures b" "install_failures b \<le> install_failures a + int n"
  using assms inc64_iterated by (auto simp: counted_def)

subsection \<open>What the sub-reconcilers count\<close>

text \<open>Retrying is not configured, so that failures are remediated and no success clears the counter.\<close>

definition remediating :: "'w env \<Rightarrow> HelmRelease \<Rightarrow> bool" where
  "remediating E obj \<longleftrightarrow> Install_GetRetry (GetInstall obj) (retry_flag E) = None \<and>
     Upgrade_GetRetry (GetUpgrade obj) (retry_flag E) = None"

lemma increment_counts:
  "install_failures (on_object (IncrementFailureCount (RemInstall i)) b) = inc64 (install_failures b)"
  "install_failures (on_object (IncrementFailureCount (RemUpgrade u)) b) = install_failures b"
  by (simp_all add: install_failures_def InstallRemediation_IncrementFailureCount_def UpgradeRemediation_IncrementFailureCount_def)

text \<open>The releases a run persisted are those the observers saw.\<close>

lemma counters_record_run:
  "install_failures (record_run E action t (observe_run [observeRelease, observeInventory E ac] run b)) = install_failures b"
proof -
  from core_record_run [OF observe_run_observed observe_run_core, of E action t E ac run b]
  show ?thesis unfolding install_failures_core by (cases "newest (persisted_releases (Run_Ops run))") auto
qed

lemma release_run_counts:
  assumes "retry = None" "r = release_run E verb okr failr ac action rem retry run t b"
  shows "install_failures (snd r) =
    (if (\<exists>i. rem = RemInstall i) \<and> (\<exists>e. Run_Result run = Inl e) \<and> persisted_releases (Run_Ops run) \<noteq> []
     then inc64 (install_failures b) else install_failures b)"
proof -
  let ?s = "observe_run [observeRelease, observeInventory E ac] run b"
  let ?b = "record_run E action t ?s"
  have r: "r = conclude_release E verb okr failr ac rem retry run (snd ?s) ?b"
    by (simp add: assms(2) release_run_def Let_def)
  have obs: "snd ?s = [] \<longleftrightarrow> persisted_releases (Run_Ops run) = []"
    by (simp add: observe_run_observed observe_all_Nil_iff)
  show ?thesis
  proof (cases "Run_Result run")
    case (Inl e)
    have "install_failures (release_failure E verb failr ac (run_buffer (Run_Logs run)) e ?b) = install_failures b"
      using counters_record_run by (simp add: install_failures_core core_release_failure)
    then show ?thesis
      using Inl obs by (cases rem) (simp_all add: r conclude_release_def Let_def increment_counts)
  next
    case (Inr x)
    from conclude_release_outcome(6) [OF r this] assms(1) counters_record_run Inr show ?thesis
      by (simp add: install_failures_core)
  qed
qed

text \<open>An installation that fails after it persisted something, and one in general.\<close>

definition install_fails :: "'w env \<Rightarrow> 'w Request \<Rightarrow> bool" where
  "install_fails E req \<longleftrightarrow> (case Run_Result (install_run E req) of Inl _ \<Rightarrow> True | Inr _ \<Rightarrow> False) \<and>
     persisted_releases (Run_Ops (install_run E req)) \<noteq> []"

lemma summarize_counts [simp]: "install_failures (summarize E b) = install_failures b"
  by (simp add: install_failures_core)

lemma Install_counts:
  assumes "remediating E (Object req)"
  shows "install_failures (snd (Install_Reconcile E req)) =
    (if install_fails E req then inc64 (install_failures req) else install_failures req)"
proof -
  let ?b = "start_release E ReleaseActionInstall (on_status ClearHistory req)"
  let ?i = "GetInstall (Object req)"
  define r where "r = release_run E ''install'' InstallSucceededReason InstallFailedReason ActionHelmInstall ReleaseActionInstall
     (Install_GetRemediation ?i) (Install_GetRetry ?i (defaultToRetryOnFailure (eFlags E))) (install_run E req) (eNow E (World req)) ?b"
  have "snd (Install_Reconcile E req) = summarize E (snd r)"
    by (simp add: r_def Install_Reconcile_def install_run_def release_run_def Let_def summarized_def)
  moreover have "install_failures ?b = install_failures req"
    by (simp add: install_failures_core core_on_status ClearHistory_def) (simp add: core_def)
  moreover have "Install_GetRetry ?i (defaultToRetryOnFailure (eFlags E)) = None" using assms by (simp add: remediating_def retry_flag_def)
  ultimately show ?thesis
    using release_run_counts [OF _ r_def]
    by (auto simp: install_fails_def Install_GetRemediation_def split: sum.split)
qed

lemma Upgrade_counts:
  assumes "remediating E (Object req)"
  shows "install_failures (snd (Upgrade_Reconcile E req)) = install_failures req"
proof -
  let ?b = "start_release E ReleaseActionUpgrade req"
  let ?u = "GetUpgrade (Object req)"
  define r where "r = release_run E ''upgrade'' UpgradeSucceededReason UpgradeFailedReason ActionHelmUpgrade ReleaseActionUpgrade
     (Upgrade_GetRemediation ?u) (Upgrade_GetRetry ?u (defaultToRetryOnFailure (eFlags E))) (upgrade_run E req) (eNow E (World req)) ?b"
  have "snd (Upgrade_Reconcile E req) = summarize E (snd r)"
    by (simp add: r_def Upgrade_Reconcile_def upgrade_run_def release_run_def Let_def summarized_def)
  moreover have "install_failures ?b = install_failures req" by (simp add: install_failures_core)
  moreover have "Upgrade_GetRetry ?u (defaultToRetryOnFailure (eFlags E)) = None" using assms by (simp add: remediating_def retry_flag_def)
  ultimately show ?thesis
    using release_run_counts [OF _ r_def] by (auto simp: Upgrade_GetRemediation_def)
qed

text \<open>The observers of the other actions write to the history only.\<close>

lemma counters_observers:
  "counters (on_object (observeUnlock D r) b) = counters b" "counters (on_object (observeUninstall D action r) b) = counters b"
  "counters (on_object (observeRollback D r) b) = counters b"
  by (simp_all add: counters_def observeUnlock_def observeUninstall_def observeRollback_def set_history_def Let_def)

lemma counters_inventory [simp]: "counters (build_inventory E ac r w b) = counters b"
  using build_inventory_object [of E ac r w b] by (auto simp: counters_def Let_def)

definition leaves_counters :: "('w, 'w obs_state) ObserveFunc \<Rightarrow> bool" where
  "leaves_counters obs \<longleftrightarrow> (\<forall>rls w s. counters (fst (obs rls w s)) = counters (fst s))"

lemma observers_leave_counters [simp]:
  "leaves_counters (object_observer (observeUnlock D))" "leaves_counters (object_observer (observeUninstall D action))"
  "leaves_counters (object_observer (observeRollback D))" "leaves_counters (object_observer (observeTest D))"
  "leaves_counters (observeInventory E ac)"
  by (auto simp: leaves_counters_def object_observer_def observeInventory_def counters_observers counters_observeTest
      split: Releaser.split)

lemma counters_observed:
  assumes "\<forall>obs \<in> set observers. leaves_counters obs"
  shows "counters (fst (observe_run observers run b)) = counters b"
  unfolding observe_run_def
  by (rule replay_invariant [where P = "\<lambda>s. counters (fst s) = counters b"])
    (use assms in \<open>auto simp: leaves_counters_def\<close>)

lemma counters_status [simp]: "counters (on_status (St_Inventory_update f) b) = counters b"
  by (simp add: counters_def Let_def)

lemma counters_conclude:
  "counters (snd (conclude_uninstall_remediation E cur run b)) = counters b"
  "counters (snd (conclude_uninstall E cur run b)) = counters b"
  "counters (snd (conclude_rollback E prev cur run' b)) = counters b"
  "counters (snd (drift_report E cs err b)) = counters b"
  by (auto simp: conclude_uninstall_remediation_def conclude_uninstall_def conclude_rollback_def drift_report_def
      UninstallRemediation_failure_def UninstallRemediation_success_def Uninstall_failure_def Uninstall_success_def
      RollbackRemediation_failure_def RollbackRemediation_success_def Let_def split: sum.split option.split prod.split)

lemma counters_Unlock: "counters (snd (Unlock_Reconcile E req)) = counters req"
proof -
  have "counters s' = counters req"
    if "Observer_Update [object_observer (observeUnlock (eDigest E))] u k r w (req, []) = (e, w', s', o')" for u k r w e w' s' o'
    using that
    by (auto simp: Observer_Update_def notify_def object_observer_def counters_observers
        split: prod.splits option.splits Releaser.splits)
  then show ?thesis
    by (auto simp: Unlock_Reconcile_def Unlock_failure_def Unlock_success_def summarized_def Let_def
        split: res.split option.split prod.split)
qed

lemma counters_others:
  "counters (snd (RollbackRemediation_Reconcile E req)) = counters req"
  "counters (snd (UninstallRemediation_Reconcile E req)) = counters req"
  "counters (snd (Uninstall_Reconcile E req)) = counters req"
  "counters (snd (CorrectClusterDrift_Reconcile E diff owner req)) = counters req"
  by (auto simp: RollbackRemediation_Reconcile_def UninstallRemediation_Reconcile_def Uninstall_Reconcile_def
      CorrectClusterDrift_Reconcile_def summarized_def counters_conclude counters_observed Let_def
      split: option.split prod.split)

lemma counted_increment:
  assumes "counters b = counters a"
  shows "counted (Suc 0) a (on_object (IncrementFailureCount rem) b)"
proof -
  have "install_failures b = install_failures a" using assms by (simp add: install_failures_counters)
  then show ?thesis
    unfolding counted_def
    by (cases rem) (auto simp: increment_counts intro: exI [of _ 1] exI [of _ 0])
qed

lemma counted_cong: "counters a' = counters a \<Longrightarrow> counters b' = counters b \<Longrightarrow> counted n a' b' \<longleftrightarrow> counted n a b"
  unfolding counted_def install_failures_counters by simp

lemma Test_failure_counts: "counted (Suc 0) b (snd (Test_failure E e b))"
  unfolding Test_failure_def Let_def
  by (auto intro: counted_same counted_increment split: option.split)

lemma conclude_test_counts: "counted (Suc 0) b (snd (conclude_test E err b))"
proof (cases err)
  case None
  then show ?thesis by (auto simp: conclude_test_def Test_success_def Let_def intro: counted_same split: option.split)
next
  case (Some e)
  then show ?thesis
    using Test_failure_counts [of b E e]
    by (cases "Test_failure E e b") (auto simp: conclude_test_def counted_cong [of b b "sort_history y" y for y] split: res.split)
qed

lemma Test_counts: "counted (Suc 0) req (snd (Test_Reconcile E req))"
proof (cases "latest req")
  case None
  then show ?thesis by (auto simp: Test_Reconcile_def summarized_def Let_def intro: counted_same)
next
  case (Some cur)
  let ?run = "Test E (Object (sort_history req)) (World req)"
  let ?b = "fst (observe_run [object_observer (observeTest (eDigest E))] ?run (sort_history req))"
  have b: "counters req = counters ?b" by (simp add: counters_observed)
  have "snd (Test_Reconcile E req) = summarize E (snd (conclude_test E (test_error cur (Run_Result ?run)) ?b))"
    using Some by (simp add: Test_Reconcile_def summarized_def Let_def)
  then show ?thesis
    using conclude_test_counts counted_cong [OF b counters_summarize] by simp
qed

lemma Action_counts:
  assumes "remediating E (Object b)"
  shows "counted (Suc 0) b (snd (Action_Reconcile n E b))"
proof (cases n)
  case AInstall
  show ?thesis
    using Install_counts [OF assms] unfolding counted_def AInstall
    by (cases "install_fails E b") (auto intro: exI [of _ 1] exI [of _ 0])
next
  case AUpgrade
  then show ?thesis using Upgrade_counts [OF assms] by (auto simp: counted_def intro: exI [of _ 0])
next
  case ATest
  then show ?thesis by (simp add: Test_counts)
qed (auto intro!: counted_same simp: counters_Unlock counters_others)

subsection \<open>What a pass counts\<close>

lemma counters_object: "Object b \<in> {Object a, Object (sort_history a)} \<Longrightarrow> counters b = counters a"
  by (auto simp: counters_def Let_def)

lemma counters_state: "counters (snd (DetermineReleaseState E req)) = counters req"
  by (rule counters_object [OF DetermineReleaseState_object])

lemma counters_force [simp]: "counters (on_object (\<lambda>_. snd (ShouldHandleForceRequest E (Object b))) b) = counters b"
  using force_object [of E "Object b"] by (auto simp: counters_def Let_def)

lemma counters_postrender [simp]: "counters (observePostRenderers E b) = counters b"
  by (simp add: counters_def observePostRenderers_def Let_def)

lemma counters_truncate [simp]: "counters (truncate_history f b) = counters b" "counters (on_status ClearHistory b) = counters b"
  by (simp_all add: counters_def truncate_history_def ClearHistory_def Let_def)

lemma counters_marks [simp]: "counters (MarkReconciling E r m b) = counters b" "counters (MarkStalled E r m b) = counters b"
  by (simp_all add: counters_def Let_def cond_op_defs)

lemma counters_restore [simp]: "counters (restore_released E b) = counters b" "counters (replace_remediated E b) = counters b"
  by (simp_all add: restore_released_def replace_remediated_def replaceCondition_def split: option.split)

lemma counters_action: "counters (snd (actionForState E s b)) = counters b"
  unfolding actionForState_def action_in_sync_def action_drifted_def action_failed_def remediate_action_def Let_def
  by (auto split: ReleaseStatus.split option.split RemediationStrategy.split res.split)

lemma counters_decided:
  assumes "DetermineReleaseState E req = (r, req1)" "actionForState E s req1 = (d, req2)"
  shows "counters req2 = counters req"
  using counters_state [of E req] counters_action [of E s req1] assms by simp

lemma counters_patch [simp]: "counters (snd (patch E b)) = counters b" "counters (announce E n b) = counters b"
  by (simp_all add: patch_def announce_def Let_def split: prod.split)

lemma counters_exits [simp]:
  "counters (snd (canceled E e b)) = counters b" "counters (snd (no_action_possible E e b)) = counters b"
  "counters (snd (completed E b)) = counters b" "counters (snd (stopped_before E b)) = counters b"
  "counters (snd (action_error E e b)) = counters b" "counters (snd (stopped_after E b)) = counters b"
  "counters (snd (requeue E b)) = counters b"
  unfolding canceled_def no_action_possible_def stall_retries_def completed_def stopped_before_def
    retry_later_def requeue_def action_error_def stopped_after_def
  by (auto split: option.split)

text \<open>The request a started action ends with has the counters of the action.\<close>

lemma run_action_counters:
  assumes "patch E (announce E n req) = (None, b)"
  shows "counters (iter_request (run_action E previous n req)) = counters (snd (Action_Reconcile n E b))"
proof -
  obtain r c where r: "Action_Reconcile n E b = (r, c)" by fastforce
  obtain e d where p: "patch E c = (e, d)" by fastforce
  then have "counters d = counters c" using counters_patch(1) [of E c] by simp
  then show ?thesis
    by (auto simp: run_action_def assms r p split: res.split option.split)
qed

lemma counters_patched: "patch E (announce E n req) = (e, b) \<Longrightarrow> counters b = counters req"
  using counters_patch(1) [of E "announce E n req"] by simp

lemma remediating_keeps: "keeps a b \<Longrightarrow> remediating E (Object b) \<longleftrightarrow> remediating E (Object a)"
  by (simp add: remediating_def GetInstall_def GetUpgrade_def keepsD)

lemma iteration_counts:
  assumes "remediating E (Object req)"
  shows "counted (Suc 0) req (iter_request (iteration E previous req))"
proof -
  obtain r1 b1 where s1: "DetermineReleaseState E req = (r1, b1)" by fastforce
  have c1: "counters b1 = counters req" using counters_state [of E req] s1 by simp
  have run: "counted (Suc 0) req (iter_request (attempt E previous n b2))"
    if d: "actionForState E s b1 = (d, b2)" for s d n b2
  proof -
    have c2: "counters b2 = counters req" by (rule counters_decided [OF s1 d])
    have k2: "keeps req b2" by (rule keep.decided [OF s1 d])
    obtain e b3 where p: "patch E (announce E n b2) = (e, b3)" by fastforce
    have k3: "keeps req b3"
      using keeps_patch [OF keeps_announce [OF k2, where E = E and n = n], where E = E] p by simp
    have c3: "counters b3 = counters req" using counters_patched [OF p] c2 by simp
    have "counted (Suc 0) req (iter_request (run_action E previous n b2))"
    proof (cases e)
      case None
      note eq = run_action_counters [OF p [unfolded None]]
      have "remediating E (Object b3)" using assms remediating_keeps [OF k3] by blast
      from Action_counts [OF this] show ?thesis using counted_cong [OF c3 [symmetric] eq] by blast
    next
      case (Some x)
      then show ?thesis using p c3 by (auto simp: run_action_def intro: counted_same)
    qed
    then show ?thesis
      using c2 by (auto simp: attempt_def intro: counted_same split: option.split bool.split)
  qed
  have decided: "counters b2 = counters req" if "actionForState E s b1 = (d, b2)" for s d b2
    by (rule counters_decided [OF s1 that])
  show ?thesis
    unfolding iteration_def s1 using c1
    by (auto simp: decided run intro!: counted_same split: option.split res.split prod.split)
qed

lemma atomic_run_counts:
  assumes "atomic_run E previous req acts result req'" "remediating E (Object req)"
  shows "counted (Suc (length acts)) req req'"
  using assms
proof (induction rule: atomic_run.induct)
  case (run_finish previous req acts result req')
  then have "counted (Suc 0) req req'" using iteration_counts [of E req previous] by simp
  then show ?case using counted_trans [of "Suc 0" req req' "length acts" req'] by simp
next
  case (run_proceed previous req act previous' req' acts result req'')
  have "counted (Suc 0) req req'" using iteration_counts [OF run_proceed.prems, of previous] run_proceed.hyps(1) by simp
  moreover have "keeps req req'" using keeps_iteration [of req E previous] run_proceed.hyps(1) by simp
  then have "counted (Suc (length acts)) req' req''"
    using run_proceed.IH run_proceed.prems remediating_keeps by blast
  ultimately show ?case using counted_trans by fastforce
qed

subsection \<open>Failed installations\<close>

text \<open>In an execution of the loop an installation fails after it persisted something.\<close>

inductive fails_installing :: "'w env \<Rightarrow> ReconcilerTypeSet \<Rightarrow> 'w Request \<Rightarrow> bool" for E :: "'w env" where
  fails_now: "eCtxErr E (World req) = None \<Longrightarrow> DetermineReleaseState E req = (Ok s, req1) \<Longrightarrow>
    actionForState E s req1 = (Ok (Some AInstall), req2) \<Longrightarrow> ReconcilerTypeRelease \<notin> set previous \<Longrightarrow>
    patch E (announce E AInstall req2) = (None, b) \<Longrightarrow> install_fails E b \<Longrightarrow> fails_installing E previous req"
| fails_later: "iteration E previous req = Proceed act previous' req' \<Longrightarrow> fails_installing E previous' req' \<Longrightarrow>
    fails_installing E previous req"

text \<open>An installation is chosen only when retries are left.\<close>

definition install_retries :: "HelmRelease \<Rightarrow> int64" where
  "install_retries obj = GetRetries (Install_GetRemediation (GetInstall obj))"

lemma install_needs_retries:
  assumes "DetermineReleaseState E req = (Ok s, req1)" "actionForState E s req1 = (Ok (Some AInstall), req2)"
    and "\<not> fst (ShouldHandleForceRequest E (Object req1))" "0 \<le> install_retries (Object req)"
  shows "install_failures req \<le> install_retries (Object req)"
proof -
  let ?x = "on_object (\<lambda>_. snd (ShouldHandleForceRequest E (Object req1))) req1"
  have "\<not> RetriesExhausted (Install_GetRemediation (GetInstall (Object ?x))) (Object ?x)"
    using assms(2,3)
    by (auto simp: actionForState_def action_in_sync_def action_drifted_def action_failed_def remediate_action_def Let_def
        split: ReleaseStatus.splits if_splits option.splits RemediationStrategy.splits res.splits)
  moreover have "keeps req (snd (DetermineReleaseState E req))" by (intro keep.state_within keep.refl)
  then have "keeps req ?x" using assms(1) by (intro keep.force_within) simp
  then have "GetInstall (Object ?x) = GetInstall (Object req)" unfolding GetInstall_def by (simp only: keepsD(1))
  moreover have "counters ?x = counters req" using counters_state [of E req] assms(1) by simp
  then have "install_failures ?x = install_failures req" by (simp add: install_failures_counters)
  ultimately show ?thesis
    using assms(4)
    by (simp add: install_retries_def Install_GetRemediation_def install_remediation.exhausted_iff
        InstallRemediation_GetFailureCount_def install_failures_def)
qed

lemma failing_pass:
  assumes "eCtxErr E (World req) = None" "DetermineReleaseState E req = (Ok s, req1)"
    "actionForState E s req1 = (Ok (Some AInstall), req2)" "ReconcilerTypeRelease \<notin> set previous"
    "patch E (announce E AInstall req2) = (None, b)" "install_fails E b" "remediating E (Object req)"
  shows "install_failures (iter_request (iteration E previous req)) = inc64 (install_failures req)"
proof -
  have it: "iteration E previous req = run_action E previous AInstall req2"
    using assms(1-4) by (simp add: iteration_def attempt_def MustContinue_def rollback_deferred_def)
  have k: "keeps req b"
    using keeps_patch [OF keeps_announce [OF keep.decided [OF assms(2,3)], where E = E and n = AInstall], where E = E] assms(5) by simp
  then have "remediating E (Object b)" using assms(7) remediating_keeps by blast
  from Install_counts [OF this] assms(6) have "install_failures (snd (Install_Reconcile E b)) = inc64 (install_failures b)" by simp
  moreover have "counters b = counters req" using counters_patched [OF assms(5)] counters_decided [OF assms(2,3)] by simp
  ultimately show ?thesis
    unfolding it install_failures_counters run_action_counters [OF assms(5)] by simp
qed

text \<open>No force request is made.\<close>

definition unforced :: "HelmRelease \<Rightarrow> bool" where
  "unforced obj \<longleftrightarrow> map_of (HR_Annotations obj) ForceRequestAnnotation = None"

lemma unforced_no_request:
  "annotation_request (eHandleAnnotationRequest E) \<Longrightarrow> unforced obj \<Longrightarrow> \<not> fst (ShouldHandleForceRequest E obj)"
  using annotation_request.needs_annotation
  by (fastforce simp: unforced_def ShouldHandleForceRequest_def case_prod_beta)

lemma unforced_keeps: "keeps a b \<Longrightarrow> unforced (Object b) \<longleftrightarrow> unforced (Object a)"
  by (simp add: unforced_def keepsD)

lemma install_retries_keeps: "keeps a b \<Longrightarrow> install_retries (Object b) = install_retries (Object a)"
  by (simp add: install_retries_def GetInstall_def keepsD)

text \<open>An execution with a failed installation had retries left at its start, and ends with a higher
  count.\<close>

lemma failing_run:
  assumes "fails_installing E previous req" "atomic_run E previous req acts result req'"
    and "annotation_request (eHandleAnnotationRequest E)" "remediating E (Object req)" "unforced (Object req)"
    and "0 \<le> install_retries (Object req)" "0 \<le> install_failures req"
    and "install_failures req + int (Suc (length acts)) < 2 ^ 63"
  shows "install_failures req \<le> install_retries (Object req) \<and> install_failures req + 1 \<le> install_failures req'"
  using assms
proof (induction arbitrary: acts rule: fails_installing.induct)
  case (fails_now req s req1 req2 previous b)
  have "keeps req (snd (DetermineReleaseState E req))" by (intro keep.state_within keep.refl)
  with fails_now.hyps(2) fails_now.prems(4) have "unforced (Object req1)" using unforced_keeps by fastforce
  then have le: "install_failures req \<le> install_retries (Object req)"
    using install_needs_retries [OF fails_now.hyps(2,3)] unforced_no_request fails_now.prems(2,5) by blast
  let ?b = "iter_request (iteration E previous req)"
  have b: "install_failures ?b = install_failures req + 1"
    using failing_pass [OF fails_now.hyps fails_now.prems(3)] fails_now.prems(6,7) by (simp add: inc64_Suc is_int64_def)
  from fails_now.prems(1) have "install_failures ?b \<le> install_failures req'"
  proof (cases rule: atomic_run.cases)
    case run_finish
    then show ?thesis by simp
  next
    case (run_proceed act previous' r acts')
    have "keeps req r" using keeps_iteration [of req E previous] run_proceed(2) by simp
    then have "counted (Suc (length acts')) r req'"
      using atomic_run_counts [OF run_proceed(3)] fails_now.prems(3) remediating_keeps by blast
    with b run_proceed fails_now.prems(6,7) show ?thesis by (auto dest!: counted_range(1))
  qed
  with le b show ?case by simp
next
  case (fails_later previous req act previous' r)
  from fails_later.prems(1) fails_later.hyps(1) obtain acts' where
    run: "acts = act # acts'" "atomic_run E previous' r acts' result req'"
    by (auto elim: atomic_run.cases)
  have k: "keeps req r" using keeps_iteration [of req E previous] fails_later.hyps(1) by simp
  have "counted (Suc 0) req r" using iteration_counts [OF fails_later.prems(3), of previous] fails_later.hyps(1) by simp
  then have c: "install_failures req \<le> install_failures r" "install_failures r \<le> install_failures req + 1"
    using counted_range [of "Suc 0" req r] fails_later.prems(6,7) by simp_all
  have "install_failures r \<le> install_retries (Object r) \<and> install_failures r + 1 \<le> install_failures req'"
    using fails_later.prems c run k
    by (intro fails_later.IH [OF run(2)]) (simp_all add: remediating_keeps unforced_keeps install_retries_keeps)
  with c k show ?case by (simp add: install_retries_keeps)
qed

subsection \<open>Sequences of reconciliations\<close>

text \<open>Between two reconciliations anything may happen to the cluster, the chart, the values and the
  status, except that the specification, the annotations and the failure count of the
  installation are left alone.\<close>

definition resumed :: "'w Request \<Rightarrow> 'w Request \<Rightarrow> bool" where
  "resumed a b \<longleftrightarrow> HR_Spec (Object b) = HR_Spec (Object a) \<and> HR_Annotations (Object b) = HR_Annotations (Object a) \<and>
     install_failures b = install_failures a"

inductive reconciliations :: "'w env \<Rightarrow> nat \<Rightarrow> nat \<Rightarrow> 'w Request \<Rightarrow> 'w Request \<Rightarrow> bool" for E :: "'w env" where
  not_yet: "reconciliations E 0 0 req req"
| failed_again: "reconciliations E m n req a \<Longrightarrow> resumed a b \<Longrightarrow> fails_installing E [] b \<Longrightarrow>
    reconciliations E (Suc m) (Suc n) req (snd (AtomicRelease_Reconcile E b))"
| went_on: "reconciliations E m n req a \<Longrightarrow> resumed a b \<Longrightarrow> \<not> fails_installing E [] b \<Longrightarrow>
    reconciliations E (Suc m) n req (snd (AtomicRelease_Reconcile E b))"

lemma AtomicRelease_run:
  obtains acts where "atomic_run E [] req acts (fst (AtomicRelease_Reconcile E req)) (snd (AtomicRelease_Reconcile E req))" "length acts \<le> 5"
proof -
  obtain acts where run: "atomic_run E [] req acts (fst (AtomicRelease_Reconcile E req)) (snd (AtomicRelease_Reconcile E req))"
    unfolding AtomicRelease_Reconcile_def using loop_atomic_run by blast
  from atomic_run_types(1) [OF run] ReconcilerType_card [of "map Action_Type acts"] have "length acts \<le> 5" by simp
  with run show ?thesis by (rule that)
qed

lemma reconciliation_counts:
  assumes "remediating E (Object b)" "0 \<le> install_failures b" "install_failures b + 6 < 2 ^ 63"
  shows "install_failures b \<le> install_failures (snd (AtomicRelease_Reconcile E b))"
    "install_failures (snd (AtomicRelease_Reconcile E b)) \<le> install_failures b + 6"
proof -
  obtain acts where run: "atomic_run E [] b acts (fst (AtomicRelease_Reconcile E b)) (snd (AtomicRelease_Reconcile E b))" "length acts \<le> 5"
    by (rule AtomicRelease_run)
  note range = counted_range [OF atomic_run_counts [OF run(1) assms(1)] assms(2)]
  show "install_failures b \<le> install_failures (snd (AtomicRelease_Reconcile E b))"
    "install_failures (snd (AtomicRelease_Reconcile E b)) \<le> install_failures b + 6"
    using range run(2) assms(3) by simp_all
qed

text \<open>What the sequence keeps, and the count so far as a potential: every failed installation raises it,
  and needs it to be within the retries.\<close>

lemma reconciliations_bounded:
  assumes "reconciliations E m n req req'" "annotation_request (eHandleAnnotationRequest E)"
    and "remediating E (Object req)" "unforced (Object req)" "0 \<le> install_retries (Object req)"
    and "0 \<le> install_failures req" "install_failures req + 6 * int m < 2 ^ 63"
  shows "HR_Spec (Object req') = HR_Spec (Object req) \<and> HR_Annotations (Object req') = HR_Annotations (Object req) \<and>
    install_failures req + int n \<le> install_failures req' \<and> install_failures req' \<le> install_failures req + 6 * int m \<and>
    (n = 0 \<or> install_failures req + int n \<le> install_retries (Object req) + 1)"
  using assms
proof (induction rule: reconciliations.induct)
  case (not_yet req)
  then show ?case by simp
next
  case (failed_again m n req a b)
  from failed_again.IH failed_again.prems failed_again.hyps(2) have b: "HR_Spec (Object b) = HR_Spec (Object req)"
      "HR_Annotations (Object b) = HR_Annotations (Object req)" "install_failures req + int n \<le> install_failures b"
      "install_failures b \<le> install_failures req + 6 * int m"
    by (auto simp: resumed_def)
  have c: "remediating E (Object b)" "unforced (Object b)" "install_retries (Object b) = install_retries (Object req)"
    using failed_again.prems(2,3) b(1,2)
    by (simp_all add: remediating_def unforced_def install_retries_def GetInstall_def GetUpgrade_def)
  obtain acts where run: "atomic_run E [] b acts (fst (AtomicRelease_Reconcile E b)) (snd (AtomicRelease_Reconcile E b))" "length acts \<le> 5"
    by (rule AtomicRelease_run)
  have r: "0 \<le> install_failures b" "install_failures b + 6 < 2 ^ 63" using b(3,4) failed_again.prems(5,6) by simp_all
  have "install_failures b \<le> install_retries (Object b) \<and> install_failures b + 1 \<le> install_failures (snd (AtomicRelease_Reconcile E b))"
    using r run(2) failed_again.prems(1,4) c
    by (intro failing_run [OF failed_again.hyps(3) run(1)]) simp_all
  moreover note reconciliation_counts(2) [OF c(1) r]
  moreover have "keeps b (snd (AtomicRelease_Reconcile E b))" using atomic_run_keeps [OF run(1)] .
  ultimately show ?case using b c(3) by (simp add: keepsD)
next
  case (went_on m n req a b)
  from went_on.IH went_on.prems went_on.hyps(2) have b: "HR_Spec (Object b) = HR_Spec (Object req)"
      "HR_Annotations (Object b) = HR_Annotations (Object req)" "install_failures req + int n \<le> install_failures b"
      "install_failures b \<le> install_failures req + 6 * int m"
      "n = 0 \<or> install_failures req + int n \<le> install_retries (Object req) + 1"
    by (auto simp: resumed_def)
  have c: "remediating E (Object b)" using went_on.prems(2) b(1) by (simp add: remediating_def GetInstall_def GetUpgrade_def)
  have r: "0 \<le> install_failures b" "install_failures b + 6 < 2 ^ 63" using b(3,4) went_on.prems(5,6) by simp_all
  obtain acts where run: "atomic_run E [] b acts (fst (AtomicRelease_Reconcile E b)) (snd (AtomicRelease_Reconcile E b))"
    by (rule AtomicRelease_run)
  have "keeps b (snd (AtomicRelease_Reconcile E b))" using atomic_run_keeps [OF run] .
  with b reconciliation_counts [OF c r] show ?case by (simp add: keepsD)
qed


text \<open>An environment in which every installation fails after it created its release, for examples.\<close>

definition failing_installs :: "sample_world env" where
  "failing_installs = sample_env\<lparr>eHelm := sample_helm\<lparr>hInstall := \<lambda>cfg chart vals w.
     let r = new_release (IC_ReleaseName cfg) (IC_Namespace cfg) chart vals ''failed'' w
     in \<lparr>Run_Ops = [OpCreate (RelV1 r) None (r # w)], Run_Logs = [], Run_Result = Inl (errors_New ''boom''), Run_World = r # w\<rparr>\<rparr>\<rparr>"

lemma failing_installs_laws: "annotation_request (eHandleAnnotationRequest failing_installs)"
  by (simp add: failing_installs_def sample_env_def handle_request.annotation_request_axioms)

lemma failing_installs_fail: "fails_installing failing_installs [] sample_request"
proof -
  let ?E = failing_installs and ?s = "mk_state ReleaseStatusAbsent ''no release in storage for object''"
  let ?b = "snd (patch ?E (announce ?E AInstall (snd (actionForState ?E ?s sample_request))))"
  have "DetermineReleaseState ?E sample_request = (Ok ?s, sample_request)"
    by (simp add: DetermineReleaseState_def LastRelease_def failing_installs_def sample_env_def sample_helm_def sample_name sample_request_def)
  moreover have "fst (actionForState ?E ?s sample_request) = Ok (Some AInstall)"
    "fst (patch ?E (announce ?E AInstall (snd (actionForState ?E ?s sample_request)))) = None" "install_fails ?E ?b"
    "eCtxErr ?E (World sample_request) = None"
    by code_simp+
  ultimately show ?thesis
    by (intro fails_now [of ?E _ ?s sample_request "snd (actionForState ?E ?s sample_request)" _ ?b]) (simp_all add: prod_eq_iff)
qed


end
