(* ===== verification/Watches.thy ===== *)
theory Watches
  imports Sources
begin

section \<open>Watches: internal/controller/helmrelease\_indexers.go, helmrelease\_manager.go and internal/predicates\<close>

text \<open>
  Which HelmReleases are reconciled when a source or a configuration changes: the indices under
  which HelmReleases are found, the predicate that filters the events of sources, and the
  functions that turn an event into requests. Listing by an index, the sorting of dependencies and
  the comparison of revisions are functions of \<open>watch_api\<close>. Errors are logged and give no requests.
\<close>

record 'w watch_api =
  yList :: "string \<Rightarrow> string \<Rightarrow> 'w \<Rightarrow> gerror + HelmRelease list"
  ySort :: "HelmRelease list \<Rightarrow> gerror + (string \<times> string) list"
  yHasRevision :: "Artifact \<Rightarrow> string \<Rightarrow> bool"
  yHasConditions :: "SourceKind \<Rightarrow> bool"

subsection \<open>Indices: helmrelease\_manager.go\<close>

definition SourceIndexKey :: string where "SourceIndexKey = ''.metadata.source''"
definition indexConfigMap :: string where "indexConfigMap = ''.metadata.configMap''"
definition indexSecret :: string where "indexSecret = ''.metadata.secret''"

definition source_reference :: "HelmRelease \<Rightarrow> HelmChartReference option" where
  "source_reference obj =
     (if HasChartRef obj \<and> \<not> HasChartTemplate obj then Spec_GetHelmChartReference obj
      else if \<not> HasChartRef obj \<and> HasChartTemplate obj then GetHelmChartTemplateReference obj
      else None)"

definition index_source :: "HelmRelease \<Rightarrow> string list" where
  "index_source obj =
     (if HasChartRef obj \<and> \<not> HasChartTemplate obj \<or> \<not> HasChartRef obj \<and> HasChartTemplate obj
      then [HelmChartReference_String (source_reference obj)] else [])"

definition values_keys :: "string \<Rightarrow> HelmRelease \<Rightarrow> string list" where
  "values_keys kind obj = map (\<lambda>ref. HR_Namespace obj @ ''/'' @ VR_Name ref)
     (List.filter (\<lambda>ref. VR_Kind ref = kind) (Spec_ValuesFrom (HR_Spec obj)))"

definition index_configmap :: "HelmRelease \<Rightarrow> string list" where
  "index_configmap obj =
     (case Option.bind (Spec_KubeConfig (HR_Spec obj)) KC_ConfigMapRef of
        None \<Rightarrow> [] | Some name \<Rightarrow> [HR_Namespace obj @ ''/'' @ name]) @ values_keys ''ConfigMap'' obj"

definition index_secret :: "HelmRelease \<Rightarrow> string list" where
  "index_secret obj =
     (case Option.bind (Spec_KubeConfig (HR_Spec obj)) KC_SecretRef of
        None \<Rightarrow> [] | Some (name, key) \<Rightarrow> [HR_Namespace obj @ ''/'' @ name]) @ values_keys ''Secret'' obj"

definition index_of :: "string \<Rightarrow> HelmRelease \<Rightarrow> string list" where
  "index_of idx = (if idx = SourceIndexKey then index_source else if idx = indexConfigMap then index_configmap
     else if idx = indexSecret then index_secret else (\<lambda>_. []))"

subsection \<open>Registration with the manager\<close>

text \<open>A rate limiter and a predicate of the options are carried as identities. \<open>mIndexField\<close> registers an
  index and \<open>mComplete\<close> the controller with its watches; \<open>Wrapped\<close> tells whether the reconciler is
  wrapped so that a new event cancels health checks.\<close>

record HelmReleaseReconcilerOptions =
  RateLimiter :: nat
  WatchConfigs :: bool
  WatchConfigsPredicate :: nat
  WatchExternalArtifacts :: bool
  CancelHealthCheckOnRequeue :: bool

datatype WatchPredicate =
  GenerationChangedPredicate | ReconcileRequestedPredicate | OrPredicate WatchPredicate WatchPredicate
| SourceRevisionChangePredicate | ResourceVersionChangedPredicate | OptionPredicate nat

datatype Watch =
  WatchFor WatchPredicate
| WatchSource SourceKind "WatchPredicate list"
| WatchMetadata string string "WatchPredicate list"

record ControllerBuilder =
  Wrapped :: bool
  WatchList :: "Watch list"
  BuilderRateLimiter :: nat

record 'w manager_api =
  mIndexField :: "string \<Rightarrow> (HelmRelease \<Rightarrow> string list) \<Rightarrow> 'w \<Rightarrow> gerror option \<times> 'w"
  mComplete :: "ControllerBuilder \<Rightarrow> 'w \<Rightarrow> gerror option \<times> 'w"

definition setup_watches :: "HelmReleaseReconcilerOptions \<Rightarrow> Watch list" where
  "setup_watches opts =
     [WatchFor (OrPredicate GenerationChangedPredicate ReconcileRequestedPredicate),
      WatchSource KHelmChart [SourceRevisionChangePredicate], WatchSource KOCIRepository [SourceRevisionChangePredicate]] @
     (if WatchConfigs opts
      then [WatchMetadata ''ConfigMap'' indexConfigMap [ResourceVersionChangedPredicate, OptionPredicate (WatchConfigsPredicate opts)],
            WatchMetadata ''Secret'' indexSecret [ResourceVersionChangedPredicate, OptionPredicate (WatchConfigsPredicate opts)]]
      else []) @
     (if WatchExternalArtifacts opts then [WatchSource KExternalArtifact [SourceRevisionChangePredicate]] else [])"

definition SetupWithManager ::
  "'w manager_api \<Rightarrow> HelmReleaseReconcilerOptions \<Rightarrow> 'w \<Rightarrow> gerror option \<times> 'w" where
  "SetupWithManager M opts w = (case mIndexField M SourceIndexKey index_source w of
       (Some e, w1) \<Rightarrow> (Some e, w1)
     | (None, w1) \<Rightarrow> (case mIndexField M indexConfigMap index_configmap w1 of
         (Some e, w2) \<Rightarrow> (Some e, w2)
       | (None, w2) \<Rightarrow> (case mIndexField M indexSecret index_secret w2 of
           (Some e, w3) \<Rightarrow> (Some e, w3)
         | (None, w3) \<Rightarrow> mComplete M \<lparr>Wrapped = CancelHealthCheckOnRequeue opts, WatchList = setup_watches opts,
             BuilderRateLimiter = RateLimiter opts\<rparr> w3)))"

subsection \<open>Events of sources: internal/predicates/source\_predicate.go\<close>

datatype WatchedObject = WSource Source | WOther

definition SourceRevisionChangePredicate_Update ::
  "cond_api \<Rightarrow> 'w watch_api \<Rightarrow> WatchedObject option \<Rightarrow> WatchedObject option \<Rightarrow> bool" where
  "SourceRevisionChangePredicate_Update C Y objectOld objectNew = (case (objectOld, objectNew) of
       (Some (WSource (ok, old)), Some (WSource (nk, new'))) \<Rightarrow>
         (case (So_Artifact old, So_Artifact new') of
            (None, Some _) \<Rightarrow> True
          | (Some a, Some b) \<Rightarrow> \<not> yHasRevision Y a (Art_Revision b) \<or>
              yHasConditions Y ok \<and> yHasConditions Y nk \<and> \<not> cIsReady C (So_Conditions old) \<and> cIsReady C (So_Conditions new')
          | _ \<Rightarrow> yHasConditions Y ok \<and> yHasConditions Y nk \<and> \<not> cIsReady C (So_Conditions old) \<and> cIsReady C (So_Conditions new'))
     | _ \<Rightarrow> False)"

definition SourceRevisionChangePredicate_Create :: "WatchedObject option \<Rightarrow> bool" where
  "SourceRevisionChangePredicate_Create e = False"

definition SourceRevisionChangePredicate_Delete :: "WatchedObject option \<Rightarrow> bool" where
  "SourceRevisionChangePredicate_Delete e = False"

subsection \<open>Requests: helmrelease\_indexers.go\<close>

definition isReadyOrReconciling :: "cond_api \<Rightarrow> HelmRelease \<Rightarrow> bool" where
  "isReadyOrReconciling C hr \<longleftrightarrow> cIsReady C (Conditions hr) \<or> cIsTrue C (Conditions hr) ReconcilingCondition"

definition sortedRequests :: "'w watch_api \<Rightarrow> HelmRelease list \<Rightarrow> (string \<times> string) list" where
  "sortedRequests Y objects = (case ySort Y objects of Inl e \<Rightarrow> [] | Inr reqs \<Rightarrow> reqs)"

text \<open>The requests for the HelmReleases listed under a source that are not up to date with it.\<close>

definition requests_for ::
  "'w watch_api \<Rightarrow> string \<Rightarrow> SourceObject \<Rightarrow> (HelmRelease \<Rightarrow> bool) \<Rightarrow> 'w \<Rightarrow> (string \<times> string) list" where
  "requests_for Y kind src skip w =
     (case yList Y SourceIndexKey (kind @ ''/'' @ So_Namespace src @ ''/'' @ So_Name src) w of
        Inl e \<Rightarrow> [] | Inr items \<Rightarrow> sortedRequests Y (List.filter (\<lambda>hr. \<not> skip hr) items))"

definition requestsForHelmChartChange ::
  "cond_api \<Rightarrow> 'w watch_api \<Rightarrow> WatchedObject \<Rightarrow> 'w \<Rightarrow> (string \<times> string) list" where
  "requestsForHelmChartChange C Y o' w = (case o' of
       WSource (KHelmChart, hc) \<Rightarrow>
         (case So_Artifact hc of
            None \<Rightarrow> []
          | Some artifact \<Rightarrow> requests_for Y HelmChartKind hc
              (\<lambda>hr. isReadyOrReconciling C hr \<and> yHasRevision Y artifact (St_LastAttemptedRevision (HR_Status hr))) w)
     | _ \<Rightarrow> [])"

definition requestsForOCIRepositoryChange ::
  "cond_api \<Rightarrow> 'w watch_api \<Rightarrow> WatchedObject \<Rightarrow> 'w \<Rightarrow> (string \<times> string) list" where
  "requestsForOCIRepositoryChange C Y o' w = (case o' of
       WSource (KOCIRepository, repo) \<Rightarrow>
         (case So_Artifact repo of
            None \<Rightarrow> []
          | Some artifact \<Rightarrow>
             (let digest = extractDigest (Art_Revision artifact)
              in requests_for Y OCIRepositoryKind repo
                   (\<lambda>hr. digest = '''' \<or>
                      isReadyOrReconciling C hr \<and> digest = St_LastAttemptedRevisionDigest (HR_Status hr)) w))
     | _ \<Rightarrow> [])"

definition requestsForExternalArtifactChange ::
  "cond_api \<Rightarrow> 'w watch_api \<Rightarrow> WatchedObject \<Rightarrow> 'w \<Rightarrow> (string \<times> string) list" where
  "requestsForExternalArtifactChange C Y o' w = (case o' of
       WSource (KExternalArtifact, ea) \<Rightarrow>
         (case So_Artifact ea of
            None \<Rightarrow> []
          | Some artifact \<Rightarrow> requests_for Y ExternalArtifactKind ea
              (\<lambda>hr. isReadyOrReconciling C hr \<and>
                 (if Contains (Art_Revision artifact) '':''
                  then extractDigest (Art_Revision artifact) = St_LastAttemptedRevisionDigest (HR_Status hr)
                  else Art_Revision artifact = St_LastAttemptedRevision (HR_Status hr))) w)
     | _ \<Rightarrow> [])"

definition requestsForConfigDependency ::
  "'w watch_api \<Rightarrow> string \<Rightarrow> string \<times> string \<Rightarrow> 'w \<Rightarrow> (string \<times> string) list" where
  "requestsForConfigDependency Y index key w = (case yList Y index (fst key @ ''/'' @ snd key) w of
       Inl e \<Rightarrow> [] | Inr items \<Rightarrow> map (\<lambda>hr. (HR_Namespace hr, HR_Name hr)) items)"

subsection \<open>Every HelmRelease of a changed source is reconciled\<close>

text \<open>Listing by an index gives the objects of the cluster that have the key; sorting gives the keys of
  the objects it was given, when it does not fail on a cycle.\<close>

definition watch_ok :: "'w watch_api \<Rightarrow> ('w \<Rightarrow> HelmRelease list) \<Rightarrow> bool" where
  "watch_ok Y cluster \<longleftrightarrow>
     (\<forall>idx key w. yList Y idx key w = Inr (List.filter (\<lambda>hr. key \<in> set (index_of idx hr)) (cluster w))) \<and>
     (\<forall>objs reqs. ySort Y objs = Inr reqs \<longrightarrow> set reqs = (\<lambda>hr. (HR_Namespace hr, HR_Name hr)) ` set objs)"

definition slash_free :: "HelmChartReference \<Rightarrow> bool" where
  "slash_free r \<longleftrightarrow> CHR ''/'' \<notin> set (Ref_Kind r) \<and> CHR ''/'' \<notin> set (Ref_Namespace r) \<and> CHR ''/'' \<notin> set (Ref_Name r)"

lemma reference_string_eq:
  assumes "slash_free r" "slash_free s"
  shows "HelmChartReference_String (Some r) = HelmChartReference_String (Some s) \<longleftrightarrow> r = s"
proof
  assume eq: "HelmChartReference_String (Some r) = HelmChartReference_String (Some s)"
  have "Split (HelmChartReference_String (Some t)) (CHR ''/'') = [Ref_Kind t, Ref_Namespace t, Ref_Name t]"
    if "slash_free t" for t
    using HelmChartReference_String_slashes(2) that
    by (simp add: HelmChartReference_String_def slash_free_def)
  from this [OF assms(1)] this [OF assms(2)] eq show "r = s" by (intro HelmChartReference.equality) simp_all
qed simp

lemma index_source_iff:
  assumes "\<forall>ref. source_reference hr = Some ref \<longrightarrow> slash_free ref" "slash_free r"
  shows "HelmChartReference_String (Some r) \<in> set (index_source hr) \<longleftrightarrow> source_reference hr = Some r"
proof -
  have none: "source_reference hr = None \<Longrightarrow> index_source hr = []"
    by (auto simp: source_reference_def index_source_def HasChartRef_def HasChartTemplate_def Spec_GetHelmChartReference_def
        GetHelmChartTemplateReference_def Let_def split: if_splits option.splits)
  show ?thesis
  proof (cases "source_reference hr")
    case (Some ref)
    then have "index_source hr = [HelmChartReference_String (Some ref)]"
      by (auto simp: source_reference_def index_source_def split: if_splits)
    then show ?thesis using reference_string_eq [of r ref] assms Some by auto
  qed (simp add: none)
qed

lemma requests_for_iff:
  assumes "watch_ok Y cluster" "\<forall>hr \<in> set (cluster w). \<forall>ref. source_reference hr = Some ref \<longrightarrow> slash_free ref"
    and "slash_free \<lparr>Ref_Kind = kind, Ref_Name = So_Name src, Ref_Namespace = So_Namespace src\<rparr>"
    and "\<forall>objs. \<exists>reqs. ySort Y objs = Inr reqs"
  shows "req \<in> set (requests_for Y kind src skip w) \<longleftrightarrow>
    (\<exists>hr \<in> set (cluster w). req = (HR_Namespace hr, HR_Name hr) \<and> \<not> skip hr \<and>
       source_reference hr = Some \<lparr>Ref_Kind = kind, Ref_Name = So_Name src, Ref_Namespace = So_Namespace src\<rparr>)"
proof -
  let ?r = "\<lparr>Ref_Kind = kind, Ref_Name = So_Name src, Ref_Namespace = So_Namespace src\<rparr>"
  have key: "kind @ ''/'' @ So_Namespace src @ ''/'' @ So_Name src = HelmChartReference_String (Some ?r)"
    by (simp add: HelmChartReference_String_def)
  have sorted: "set (sortedRequests Y objs) = (\<lambda>hr. (HR_Namespace hr, HR_Name hr)) ` set objs" for objs
  proof -
    obtain reqs where "ySort Y objs = Inr reqs" using assms(4) by blast
    with assms(1) show ?thesis by (simp add: watch_ok_def sortedRequests_def)
  qed
  have listed: "yList Y SourceIndexKey key w = Inr (List.filter (\<lambda>hr. key \<in> set (index_source hr)) (cluster w))" for key
    using assms(1) by (simp add: watch_ok_def index_of_def)
  have "set (requests_for Y kind src skip w) = (\<lambda>hr. (HR_Namespace hr, HR_Name hr)) `
      {hr \<in> set (cluster w). \<not> skip hr \<and> HelmChartReference_String (Some ?r) \<in> set (index_source hr)}"
    unfolding requests_for_def key listed by (simp add: sorted conj_commute)
  also have "{hr \<in> set (cluster w). \<not> skip hr \<and> HelmChartReference_String (Some ?r) \<in> set (index_source hr)} =
      {hr \<in> set (cluster w). \<not> skip hr \<and> source_reference hr = Some ?r}"
    using index_source_iff assms(2,3) by blast
  finally show ?thesis by auto
qed


definition sample_watch :: "HelmRelease list watch_api" where
  "sample_watch = \<lparr>yList = (\<lambda>idx key w. Inr (List.filter (\<lambda>hr. key \<in> set (index_of idx hr)) w)),
     ySort = (\<lambda>objs. Inr (map (\<lambda>hr. (HR_Namespace hr, HR_Name hr)) objs)),
     yHasRevision = (\<lambda>a r. Art_Revision a = r), yHasConditions = (\<lambda>k. True)\<rparr>"

definition oci_release :: HelmRelease where
  "oci_release = sample_object\<lparr>HR_Spec := sample_spec\<lparr>Spec_ChartRef := Some
     \<lparr>CSR_APIVersion = '''', CSR_Kind = ''OCIRepository'', CSR_Name = ''podinfo'', CSR_Namespace = ''''\<rparr>\<rparr>\<rparr>"


end
