(* ===== verification/Rendering.thy ===== *)
theory Rendering
  imports Sample PostRender
begin

section \<open>Running the post-renderers: internal/postrender\<close>

text \<open>
  What Helm gets when it runs the post-renderer of a release: \<^verbatim>\<open>combined.go\<close>, \<^verbatim>\<open>kustomize.go\<close>,
  \<^verbatim>\<open>transformer.go\<close> and the renderers of \<^verbatim>\<open>common_renderer.go\<close>. Kustomize, its in-memory file system and
  the encoding of a kustomization are functions of \<open>kust_api\<close>, over a type \<open>'r\<close> of resource maps and a
  type \<open>'f\<close> of file systems. The images and patches of the specification are carried as JSON;
  \<open>zImage\<close> and \<open>zPatch\<close> give their fields.
\<close>

record FieldSpec =
  FS_Path :: string
  FS_CreateIfNotPresent :: bool

record Image =
  Img_Name :: string
  Img_NewName :: string
  Img_NewTag :: string
  Img_Digest :: string

record Selector =
  Sel_Group :: string
  Sel_Kind :: string
  Sel_Version :: string
  Sel_Name :: string
  Sel_Namespace :: string
  Sel_LabelSelector :: string
  Sel_AnnotationSelector :: string

record Patch =
  Pat_Patch :: string
  Pat_Target :: "Selector option"

record Kustomization =
  Kz_APIVersion :: string
  Kz_Kind :: string
  Kz_Images :: "Image list"
  Kz_Resources :: "string list"
  Kz_Patches :: "Patch list"

record KustomizerOptions =
  Opt_LoadRestrictionsNone :: bool
  Opt_PluginsDisabled :: bool

record ('r, 'f) kust_api =
  zImage :: "json \<Rightarrow> Image"
  zPatch :: "json \<Rightarrow> Patch"
  zNewResMap :: "string \<Rightarrow> gerror + 'r"
  zAsYaml :: "'r \<Rightarrow> gerror + string"
  zLabels :: "strmap \<Rightarrow> FieldSpec list \<Rightarrow> 'r \<Rightarrow> gerror + 'r"
  zAnnotations :: "strmap \<Rightarrow> FieldSpec list \<Rightarrow> 'r \<Rightarrow> gerror + 'r"
  zFsInMemory :: 'f
  zCreate :: "string \<Rightarrow> 'f \<Rightarrow> gerror + 'f"
  zWrite :: "string \<Rightarrow> string \<Rightarrow> 'f \<Rightarrow> gerror + 'f"
  zClose :: "string \<Rightarrow> 'f \<Rightarrow> gerror + 'f"
  zMarshal :: "Kustomization \<Rightarrow> gerror + string"
  zKustomizer :: "KustomizerOptions \<Rightarrow> 'f \<Rightarrow> string \<Rightarrow> gerror + 'r"

text \<open>Sequencing of fallible steps.\<close>

fun bind_sum :: "gerror + 'a \<Rightarrow> ('a \<Rightarrow> gerror + 'b) \<Rightarrow> gerror + 'b" where
  "bind_sum (Inl e) f = Inl e"
| "bind_sum (Inr x) f = f x"

subsection \<open>Transformers\<close>

type_synonym 'r ResMapTransformer = "'r \<Rightarrow> gerror + 'r"

definition labelTransformer :: "('r, 'f) kust_api \<Rightarrow> strmap \<Rightarrow> 'r ResMapTransformer" where
  "labelTransformer K labels = zLabels K labels [\<lparr>FS_Path = ''metadata/labels'', FS_CreateIfNotPresent = True\<rparr>]"

definition annotationTransformer :: "('r, 'f) kust_api \<Rightarrow> strmap \<Rightarrow> 'r ResMapTransformer" where
  "annotationTransformer K annotations =
     zAnnotations K annotations [\<lparr>FS_Path = ''metadata/annotations'', FS_CreateIfNotPresent = True\<rparr>]"

fun transform_all :: "'r ResMapTransformer list \<Rightarrow> 'r \<Rightarrow> gerror + 'r" where
  "transform_all [] r = Inr r"
| "transform_all (t # ts) r = bind_sum (t r) (transform_all ts)"

definition transform :: "('r, 'f) kust_api \<Rightarrow> 'r ResMapTransformer list \<Rightarrow> string \<Rightarrow> gerror + string" where
  "transform K ts manifests =
     bind_sum (zNewResMap K manifests) (\<lambda>r. bind_sum (transform_all ts r) (zAsYaml K))"

definition OriginLabels_Run ::
  "('r, 'f) kust_api \<Rightarrow> string \<Rightarrow> string \<Rightarrow> string \<Rightarrow> string \<Rightarrow> gerror + string" where
  "OriginLabels_Run K grp ns name manifests = transform K [labelTransformer K (originLabels grp ns name)] manifests"

definition CommonRenderer_Run ::
  "('r, 'f) kust_api \<Rightarrow> strmap option \<Rightarrow> strmap option \<Rightarrow> string \<Rightarrow> gerror + string" where
  "CommonRenderer_Run K labels annotations manifests =
     (let transformers = (case labels of None \<Rightarrow> [] | Some m \<Rightarrow> [labelTransformer K m]) @
                         (case annotations of None \<Rightarrow> [] | Some m \<Rightarrow> [annotationTransformer K m])
      in if transformers = [] then Inr manifests else transform K transformers manifests)"

subsection \<open>Kustomize\<close>

definition writeToFile :: "('r, 'f) kust_api \<Rightarrow> 'f \<Rightarrow> string \<Rightarrow> string \<Rightarrow> gerror + 'f" where
  "writeToFile K fs path content =
     bind_sum (zCreate K path fs) (\<lambda>fs. bind_sum (zWrite K path content fs) (zClose K path))"

definition adaptImages :: "Image list \<Rightarrow> Image list" where
  "adaptImages images = map (\<lambda>i. \<lparr>Img_Name = Img_Name i, Img_NewName = Img_NewName i,
     Img_NewTag = Img_NewTag i, Img_Digest = Img_Digest i\<rparr>) images"

definition adaptSelector :: "Selector option \<Rightarrow> Selector option" where
  "adaptSelector sel = (case sel of None \<Rightarrow> None
     | Some s \<Rightarrow> Some \<lparr>Sel_Group = Sel_Group s, Sel_Kind = Sel_Kind s, Sel_Version = Sel_Version s,
         Sel_Name = Sel_Name s, Sel_Namespace = Sel_Namespace s, Sel_LabelSelector = Sel_LabelSelector s,
         Sel_AnnotationSelector = Sel_AnnotationSelector s\<rparr>)"

definition buildKustomization :: "('r, 'f) kust_api \<Rightarrow> 'f \<Rightarrow> string \<Rightarrow> gerror + 'r" where
  "buildKustomization K fs dirPath =
     zKustomizer K \<lparr>Opt_LoadRestrictionsNone = True, Opt_PluginsDisabled = True\<rparr> fs dirPath"

definition Kustomize_Run :: "('r, 'f) kust_api \<Rightarrow> KustomizeSpec \<Rightarrow> string \<Rightarrow> gerror + string" where
  "Kustomize_Run K k manifests =
     (let cfg = \<lparr>Kz_APIVersion = ''kustomize.config.k8s.io/v1beta1'', Kz_Kind = ''Kustomization'',
                 Kz_Images = adaptImages (map (zImage K) (Kust_Images k)), Kz_Resources = [''helm-output.yaml''],
                 Kz_Patches = map (\<lambda>m. \<lparr>Pat_Patch = Pat_Patch (zPatch K m),
                   Pat_Target = adaptSelector (Pat_Target (zPatch K m))\<rparr>) (Kust_Patches k)\<rparr>
      in bind_sum (writeToFile K (zFsInMemory K) ''helm-output.yaml'' manifests) (\<lambda>fs.
         bind_sum (zMarshal K cfg) (\<lambda>kustomization.
         bind_sum (writeToFile K fs ''kustomization.yaml'' kustomization) (\<lambda>fs.
         bind_sum (buildKustomization K fs ''.'') (zAsYaml K)))))"

subsection \<open>The combined renderer\<close>

fun Renderer_Run :: "('r, 'f) kust_api \<Rightarrow> Renderer \<Rightarrow> string \<Rightarrow> gerror + string" where
  "Renderer_Run K (RKustomize k) manifests = Kustomize_Run K k manifests"
| "Renderer_Run K (RCommon labels annotations) manifests = CommonRenderer_Run K labels annotations manifests"
| "Renderer_Run K (ROriginLabels grp ns name) manifests = OriginLabels_Run K grp ns name manifests"

fun Combined_Run :: "('r, 'f) kust_api \<Rightarrow> Renderer list \<Rightarrow> string \<Rightarrow> gerror + string" where
  "Combined_Run K [] manifests = Inr manifests"
| "Combined_Run K (r # rs) manifests = bind_sum (Renderer_Run K r manifests) (Combined_Run K rs)"

subsection \<open>Every object is marked with its origin\<close>

lemma bind_sum_Inr: "bind_sum x f = Inr y \<longleftrightarrow> (\<exists>a. x = Inr a \<and> f a = Inr y)"
  by (cases x) auto

lemma Combined_Run_append:
  "Combined_Run K (rs @ ss) m = bind_sum (Combined_Run K rs m) (Combined_Run K ss)"
proof (induction rs arbitrary: m)
  case (Cons r rs)
  then show ?case by (cases "Renderer_Run K r m") simp_all
qed simp

text \<open>Kustomize's label transformer sets the given labels on every object of the resource map.\<close>

definition labels_set :: "('r, 'f) kust_api \<Rightarrow> ('r \<Rightarrow> Unst list) \<Rightarrow> bool" where
  "labels_set K objects \<longleftrightarrow> (\<forall>m r r' obj k v.
     labelTransformer K m r = Inr r' \<and> obj \<in> set (objects r') \<and> map_of m k = Some v \<longrightarrow>
       (\<exists>ls. U_Labels obj = Some ls \<and> map_of ls k = Some v))"

lemma labels_setD:
  assumes "labels_set K objects" "labelTransformer K m r = Inr r'" "obj \<in> set (objects r')" "map_of m k = Some v"
  shows "\<exists>ls. U_Labels obj = Some ls \<and> map_of ls k = Some v"
  using assms unfolding labels_set_def by blast

text \<open>C26. Whatever post-renderers and common metadata a HelmRelease declares, every object that Helm gets
  back from the post-renderer carries labels with the name and the namespace of the HelmRelease: the
  origin labels are put on last, so that nothing overrides them.\<close>

theorem rendered_with_origin:
  assumes "labels_set K objects" and "Combined_Run K (BuildPostRenderers rel) manifests = Inr out"
  shows "\<exists>r. zAsYaml K r = Inr out \<and> (\<forall>obj \<in> set (objects r). \<exists>ls. U_Labels obj = Some ls \<and>
    map_of ls (GroupName @ ''/name'') = Some (HR_Name rel) \<and>
    map_of ls (GroupName @ ''/namespace'') = Some (HR_Namespace rel))"
proof -
  let ?labels = "originLabels GroupName (HR_Namespace rel) (HR_Name rel)"
  obtain rs where "BuildPostRenderers rel = rs @ [ROriginLabels GroupName (HR_Namespace rel) (HR_Name rel)]"
    by (simp add: BuildPostRenderers_def NewOriginLabels_def)
  with assms(2) obtain m where "OriginLabels_Run K GroupName (HR_Namespace rel) (HR_Name rel) m = Inr out"
    by (auto simp: Combined_Run_append bind_sum_Inr)
  then obtain r r' where r: "labelTransformer K ?labels r = Inr r'" "zAsYaml K r' = Inr out"
    by (auto simp: OriginLabels_Run_def transform_def bind_sum_Inr)
  have l: "map_of ?labels (GroupName @ ''/name'') = Some (HR_Name rel)"
    "map_of ?labels (GroupName @ ''/namespace'') = Some (HR_Namespace rel)"
    by (simp_all add: originLabels_def)
  have "\<exists>ls. U_Labels obj = Some ls \<and> map_of ls (GroupName @ ''/name'') = Some (HR_Name rel) \<and>
      map_of ls (GroupName @ ''/namespace'') = Some (HR_Namespace rel)" if obj: "obj \<in> set (objects r')" for obj
    using labels_setD [OF assms(1) r(1) obj l(1)] labels_setD [OF assms(1) r(1) obj l(2)] by auto
  with r(2) show ?thesis by blast
qed

text \<open>An instance in which a manifest is the name of its only object.\<close>

definition put_labels :: "strmap \<Rightarrow> Unst \<Rightarrow> Unst" where
  "put_labels m obj = obj\<lparr>U_Labels := Some (m @ (case U_Labels obj of None \<Rightarrow> [] | Some ls \<Rightarrow> ls))\<rparr>"

definition sample_kust :: "(Unst list, unit) kust_api" where
  "sample_kust = \<lparr>zImage = (\<lambda>j. \<lparr>Img_Name = '''', Img_NewName = '''', Img_NewTag = '''', Img_Digest = ''''\<rparr>),
     zPatch = (\<lambda>j. \<lparr>Pat_Patch = '''', Pat_Target = None\<rparr>),
     zNewResMap = (\<lambda>name. Inr [\<lparr>U_Group = '''', U_Version = ''v1'', U_Kind = ''ConfigMap'', U_Namespace = '''',
        U_Name = name, U_Labels = None, U_Annotations = None, U_Rest = JNull\<rparr>]),
     zAsYaml = (\<lambda>r. Inr (concat (map U_Name r))), zLabels = (\<lambda>m fs r. Inr (map (put_labels m) r)),
     zAnnotations = (\<lambda>m fs r. Inr r), zFsInMemory = (), zCreate = (\<lambda>p f. Inr f), zWrite = (\<lambda>p c f. Inr f),
     zClose = (\<lambda>p f. Inr f), zMarshal = (\<lambda>c. Inr ''''), zKustomizer = (\<lambda>opts f p. Inr [])\<rparr>"

lemma sample_labels_set: "labels_set sample_kust (\<lambda>r. r)"
  by (auto simp: labels_set_def sample_kust_def labelTransformer_def put_labels_def map_add_def split: option.split)

theorem rendered_with_origin_witness:
  "\<exists>r. zAsYaml sample_kust r = Inr ''settings'' \<and> (\<forall>obj \<in> set r. \<exists>ls. U_Labels obj = Some ls \<and>
    map_of ls (GroupName @ ''/name'') = Some (HR_Name sample_object) \<and>
    map_of ls (GroupName @ ''/namespace'') = Some (HR_Namespace sample_object))"
proof -
  have "Combined_Run sample_kust (BuildPostRenderers sample_object) ''settings'' = Inr ''settings''"
    by code_simp
  from rendered_with_origin [OF sample_labels_set this] show ?thesis .
qed

end
