(* ===== verification/Waiting.thy ===== *)
theory Waiting
  imports Actions ClusterAccess
begin

section \<open>Waiting for resources: internal/action/wait.go, client.go, pod\_status\_reader.go\<close>

text \<open>
  The waiter that the Helm client of the controller hands to Helm's actions in place of Helm's own:
  which resources are waited for, with which status readers, and when an action does not wait.
  The resource manager and conversions of objects are functions of \<open>wait_api\<close>; the content of a
  resource is carried as JSON.
\<close>

record Resource =
  Res_GVK :: "string \<times> string \<times> string"
  Res_Namespace :: string
  Res_Name :: string
  Res_Object :: json

record ObjMetadata =
  OM_Group :: string
  OM_Kind :: string
  OM_Namespace :: string
  OM_Name :: string

record WaitOptions =
  WO_Interval :: duration
  WO_Timeout :: duration
  WO_FailFast :: bool
  WO_JobsWithTTL :: "ObjMetadata list"

text \<open>The context of a wait: the background context, the one configured for the client, and the
  interrupt context derived from another.\<close>

datatype wait_ctx = BackgroundContext | ConfiguredContext | InterruptContext wait_ctx

text \<open>An object that is only named: its group, version and kind, its namespace and its name.\<close>

type_synonym named_object = "(string \<times> string \<times> string) \<times> string \<times> string"

record 'w wait_api =
  tToUnstructured :: "json \<Rightarrow> gerror + json"
  tNestedBool :: "json \<Rightarrow> string list \<Rightarrow> bool option"
  tObjMeta :: "json \<Rightarrow> gerror + ObjMetadata"
  tJobsWithTTL :: "json list \<Rightarrow> ObjMetadata list"
  tWaitForSet :: "ResourceManagers \<Rightarrow> StatusReader list \<Rightarrow> wait_ctx \<Rightarrow> ObjMetadata list \<Rightarrow> WaitOptions \<Rightarrow> 'w \<Rightarrow> gerror option \<times> 'w"
  tWaitForTermination :: "ResourceManagers \<Rightarrow> StatusReader list \<Rightarrow> named_object list \<Rightarrow> WaitOptions \<Rightarrow> 'w \<Rightarrow> gerror option \<times> 'w"
  tHelmWaiter :: "MemoryRESTClientGetter option \<Rightarrow> string \<Rightarrow> gerror + nat"

definition HookOnlyStrategy :: string where "HookOnlyStrategy = ''hookOnly''"
definition LegacyStrategy :: string where "LegacyStrategy = ''legacy''"

definition deploymentGVK :: "string \<times> string \<times> string" where "deploymentGVK = (''apps'', ''v1'', ''Deployment'')"
definition jobGVK :: "string \<times> string \<times> string" where "jobGVK = (''batch'', ''v1'', ''Job'')"

subsection \<open>The waiter\<close>

record waiter =
  W_strategy :: string
  W_newResourceManager :: ResourceManagers
  W_waitContext :: bool

definition waitCtx :: "waiter \<Rightarrow> wait_ctx" where
  "waitCtx v = (if W_waitContext v then ConfiguredContext else BackgroundContext)"

definition is_paused :: "'w wait_api \<Rightarrow> Resource \<Rightarrow> gerror + bool" where
  "is_paused T res =
     (if Res_GVK res = deploymentGVK
      then (case tToUnstructured T (Res_Object res) of Inl e \<Rightarrow> Inl e
         | Inr uns \<Rightarrow> Inr (tNestedBool T uns [''spec'', ''paused''] = Some True))
      else Inr False)"

definition job_content :: "'w wait_api \<Rightarrow> Resource \<Rightarrow> gerror + json list" where
  "job_content T res =
     (if Res_GVK res = jobGVK
      then (case tToUnstructured T (Res_Object res) of Inl e \<Rightarrow> Inl e | Inr uns \<Rightarrow> Inr [uns])
      else Inr [])"

text \<open>The loop over the resources: the objects to wait for and the jobs among them.\<close>

fun collect_objects :: "'w wait_api \<Rightarrow> Resource list \<Rightarrow> gerror + ObjMetadata list \<times> json list" where
  "collect_objects T [] = Inr ([], [])"
| "collect_objects T (res # rs) = (case is_paused T res of
       Inl e \<Rightarrow> Inl e
     | Inr True \<Rightarrow> collect_objects T rs
     | Inr False \<Rightarrow> (case job_content T res of
         Inl e \<Rightarrow> Inl e
       | Inr jobs \<Rightarrow> (case tObjMeta T (Res_Object res) of
           Inl e \<Rightarrow> Inl e
         | Inr obj \<Rightarrow> (case collect_objects T rs of
             Inl e \<Rightarrow> Inl e
           | Inr (objs, jobs') \<Rightarrow> Inr (obj # objs, jobs @ jobs')))))"

definition waiter_wait ::
  "'w wait_api \<Rightarrow> waiter \<Rightarrow> wait_ctx \<Rightarrow> Resource list \<Rightarrow> duration \<Rightarrow> bool \<Rightarrow> StatusReader list \<Rightarrow> 'w \<Rightarrow> gerror option \<times> 'w" where
  "waiter_wait T v ctx resources timeout failFast sr w = (case collect_objects T resources of
       Inl e \<Rightarrow> (Some e, w)
     | Inr (objs, jobs) \<Rightarrow> tWaitForSet T (W_newResourceManager v) (resource_manager_readers (W_newResourceManager v) sr) ctx objs
         \<lparr>WO_Interval = 5 * Second, WO_Timeout = timeout, WO_FailFast = failFast, WO_JobsWithTTL = tJobsWithTTL T jobs\<rparr> w)"

definition WatchUntilReady :: "'w wait_api \<Rightarrow> waiter \<Rightarrow> Resource list \<Rightarrow> duration \<Rightarrow> 'w \<Rightarrow> gerror option \<times> 'w" where
  "WatchUntilReady T v resources timeout w = waiter_wait T v (waitCtx v) resources timeout False
     [BuiltinReader ''Job'', BuiltinReader ''Pod'', BuiltinReader ''alwaysReady''] w"

definition waiter_Wait :: "'w wait_api \<Rightarrow> waiter \<Rightarrow> Resource list \<Rightarrow> duration \<Rightarrow> 'w \<Rightarrow> gerror option \<times> 'w" where
  "waiter_Wait T v resources timeout w =
     (if W_strategy v = HookOnlyStrategy then (None, w)
      else waiter_wait T v (InterruptContext (waitCtx v)) resources timeout True [] w)"

definition WaitWithJobs :: "'w wait_api \<Rightarrow> waiter \<Rightarrow> Resource list \<Rightarrow> duration \<Rightarrow> 'w \<Rightarrow> gerror option \<times> 'w" where
  "WaitWithJobs T v resources timeout w =
     (if W_strategy v = HookOnlyStrategy then (None, w)
      else waiter_wait T v (InterruptContext (waitCtx v)) resources timeout True [BuiltinReader ''Job''] w)"

definition WaitForDelete :: "'w wait_api \<Rightarrow> waiter \<Rightarrow> Resource list \<Rightarrow> duration \<Rightarrow> 'w \<Rightarrow> gerror option \<times> 'w" where
  "WaitForDelete T v resources timeout w =
     (if W_strategy v = HookOnlyStrategy then (None, w)
      else tWaitForTermination T (W_newResourceManager v) (resource_manager_readers (W_newResourceManager v) [])
        (map (\<lambda>r. (Res_GVK r, Res_Namespace r, Res_Name r)) resources)
        \<lparr>WO_Interval = 2 * Second, WO_Timeout = timeout, WO_FailFast = False, WO_JobsWithTTL = []\<rparr> w)"

text \<open>The client gives Helm's own waiter for the legacy strategy or without a resource manager.\<close>

datatype Waiter = HelmWaiter nat | KstatusWaiter waiter

definition newWaiter :: "'w wait_api \<Rightarrow> KubeClient \<Rightarrow> string \<Rightarrow> gerror + Waiter" where
  "newWaiter T c strategy =
     (case (if strategy = LegacyStrategy then None else Client_newResourceManager c) of
        None \<Rightarrow> (case tHelmWaiter T (Client_Getter c) strategy of Inl e \<Rightarrow> Inl e | Inr h \<Rightarrow> Inr (HelmWaiter h))
      | Some rm \<Rightarrow> Inr (KstatusWaiter \<lparr>W_strategy = strategy, W_newResourceManager = rm, W_waitContext = Client_waitContext c\<rparr>))"

subsection \<open>Status of pods\<close>

datatype Status = CurrentStatus | FailedStatus | InProgressStatus

record StatusCondition =
  SC_Type :: string
  SC_Status :: ConditionStatus
  SC_Reason :: string
  SC_Message :: string

record StatusResult =
  SR_Status :: Status
  SR_Message :: string
  SR_Conditions :: "StatusCondition list"

definition alwaysReady :: StatusResult where
  "alwaysReady = \<lparr>SR_Status = CurrentStatus, SR_Message = ''Resource is current'', SR_Conditions = []\<rparr>"

definition PodReader_Supports :: "string \<times> string \<Rightarrow> bool" where
  "PodReader_Supports gk \<longleftrightarrow> gk = ('''', ''Pod'')"

text \<open>\<open>field\<close> reads a string field of the object and defaults to the empty string.\<close>

definition podConditions :: "(json \<Rightarrow> string \<Rightarrow> string) \<Rightarrow> string \<Rightarrow> json \<Rightarrow> StatusResult" where
  "podConditions field name u =
     (let phase = field u ''.status.phase''
      in if phase = ''Succeeded''
         then (let message = ''pod '' @ name @ '' succeeded''
               in \<lparr>SR_Status = CurrentStatus, SR_Message = message, SR_Conditions =
                    [\<lparr>SC_Type = ''Stalled'', SC_Status = ConditionTrue, SC_Reason = '''', SC_Message = message\<rparr>]\<rparr>)
         else if phase = ''Failed''
         then (let message = ''pod '' @ name @ '' failed''
               in \<lparr>SR_Status = FailedStatus, SR_Message = message, SR_Conditions =
                    [\<lparr>SC_Type = ''Stalled'', SC_Status = ConditionTrue, SC_Reason = ''PodFailed'', SC_Message = message\<rparr>]\<rparr>)
         else (let message = ''Pod in progress''
               in \<lparr>SR_Status = InProgressStatus, SR_Message = message, SR_Conditions =
                    [\<lparr>SC_Type = ''Reconciling'', SC_Status = ConditionTrue, SC_Reason = ''PodInProgress'', SC_Message = message\<rparr>]\<rparr>))"

subsection \<open>A wait covers all resources\<close>

text \<open>The resource manager returns without error only when all objects of the set are ready.\<close>

definition wait_ok :: "'w wait_api \<Rightarrow> ('w \<Rightarrow> ObjMetadata \<Rightarrow> bool) \<Rightarrow> bool" where
  "wait_ok T ready \<longleftrightarrow> (\<forall>rm sr ctx objs opts w w'.
     tWaitForSet T rm sr ctx objs opts w = (None, w') \<longrightarrow> (\<forall>obj \<in> set objs. ready w' obj))"

lemma collect_objects_covers:
  assumes "collect_objects T rs = Inr (objs, jobs)" "res \<in> set rs"
  shows "is_paused T res = Inr True \<or> (\<exists>obj \<in> set objs. tObjMeta T (Res_Object res) = Inr obj)"
  using assms
proof (induction rs arbitrary: objs jobs)
  case (Cons r rs)
  then show ?case by (auto split: sum.splits bool.splits)
qed simp

lemma waiter_wait_covers:
  assumes "wait_ok T ready" "waiter_wait T v ctx resources timeout failFast sr w = (None, w')" "res \<in> set resources"
  shows "is_paused T res = Inr True \<or> (\<exists>obj. tObjMeta T (Res_Object res) = Inr obj \<and> ready w' obj)"
proof -
  from assms(2) obtain objs jobs opts sr' where c: "collect_objects T resources = Inr (objs, jobs)"
    "tWaitForSet T (W_newResourceManager v) sr' ctx objs opts w = (None, w')"
    by (auto simp: waiter_wait_def split: sum.splits)
  with assms(1) have "\<forall>obj \<in> set objs. ready w' obj" unfolding wait_ok_def by blast
  with collect_objects_covers [OF c(1) assms(3)] show ?thesis by blast
qed

lemma newWaiter_strategy:
  "newWaiter T c strategy = Inr (KstatusWaiter v) \<Longrightarrow> W_strategy v = strategy"
  by (auto simp: newWaiter_def split: option.splits sum.splits if_splits)


text \<open>An instance in which the world is the set of ready objects, given by their names.\<close>

definition sample_wait :: "string list wait_api" where
  "sample_wait = \<lparr>tToUnstructured = (\<lambda>j. Inr j), tNestedBool = (\<lambda>j path. Some (j = JStr ''paused'')),
     tObjMeta = (\<lambda>j. case j of JStr name \<Rightarrow> Inr \<lparr>OM_Group = '''', OM_Kind = '''', OM_Namespace = '''', OM_Name = name\<rparr>
        | _ \<Rightarrow> Inl (errors_New ''no object'')),
     tJobsWithTTL = (\<lambda>js. []),
     tWaitForSet = (\<lambda>rm sr ctx objs opts w.
        (if list_all (\<lambda>obj. OM_Name obj \<in> set w) objs then None else Some (errors_New ''timeout waiting''), w)),
     tWaitForTermination = (\<lambda>rm sr objs opts w. (None, w)), tHelmWaiter = (\<lambda>g s. Inr 0)\<rparr>"

lemma sample_wait_ok: "wait_ok sample_wait (\<lambda>w obj. OM_Name obj \<in> set w)"
  by (auto simp: wait_ok_def sample_wait_def list_all_iff split: if_splits)


end
