(* ===== verification/LogHandler.thy ===== *)
theory LogHandler
  imports LogBuffer Errors "HOL-Library.Sublist"
begin

section \<open>The slog handler in front of the log buffer: internal/action/log.go\<close>

text \<open>
  Helm logs through \<^verbatim>\<open>slog\<close>. The handler keeps the attributes and groups it was derived with, nests
  the attributes of a record by their groups, and appends message and attributes to the ring buffer,
  if it has one. The value of an attribute is JSON, with an object for a map; \<open>marshal\<close> is the JSON
  encoder. What is sent to the logger of the controller is left out.
\<close>

datatype slog_Level = LevelDebug | LevelInfo | LevelWarn | LevelError

record slog_Record =
  Rec_Level :: slog_Level
  Rec_Message :: string
  Rec_Attrs :: "(string \<times> json) list"

record groupedAttr =
  ga_group :: "string list"
  ga_attr :: "string \<times> json"

record LogBuffer =
  LB_attrs :: "groupedAttr list"
  LB_group :: "string list"
  LB_buf :: "logRingBuffer option"

definition newLogBuffer :: LogBuffer where
  "newLogBuffer = \<lparr>LB_attrs = [], LB_group = [], LB_buf = None\<rparr>"

definition NewTraceLogger :: LogBuffer where "NewTraceLogger = newLogBuffer"

definition NewDebugLogBuffer :: "nat \<Rightarrow> LogBuffer" where
  "NewDebugLogBuffer n = newLogBuffer\<lparr>LB_buf := Some (newLogRingBuffer n)\<rparr>"

definition Enabled :: "LogBuffer \<Rightarrow> slog_Level \<Rightarrow> bool" where "Enabled l level = True"

definition withAttrs :: "(string \<times> json) list \<Rightarrow> LogBuffer \<Rightarrow> LogBuffer" where
  "withAttrs attrs l = l\<lparr>LB_attrs := LB_attrs l @ map (\<lambda>a. \<lparr>ga_group = LB_group l, ga_attr = a\<rparr>) attrs\<rparr>"

definition WithGroup :: "string \<Rightarrow> LogBuffer \<Rightarrow> LogBuffer" where
  "WithGroup name l = (if name = '''' then l else l\<lparr>LB_group := LB_group l @ [name]\<rparr>)"

text \<open>Setting an attribute in the nested map; a value in the way of a group is replaced by a map.\<close>

fun put_attr :: "string list \<Rightarrow> string \<Rightarrow> json \<Rightarrow> (string \<times> json) list \<Rightarrow> (string \<times> json) list" where
  "put_attr [] key v target = AList.update key v target"
| "put_attr (g # gs) key v target =
     AList.update g (JObj (put_attr gs key v (case map_of target g of Some (JObj node) \<Rightarrow> node | _ \<Rightarrow> []))) target"

definition nest_attrs :: "groupedAttr list \<Rightarrow> (string \<times> json) list" where
  "nest_attrs gas = fold (\<lambda>ga. put_attr (ga_group ga) (fst (ga_attr ga)) (snd (ga_attr ga))) gas []"

definition level_message :: "slog_Record \<Rightarrow> string" where
  "level_message r = (case Rec_Level r of
       LevelError \<Rightarrow> ''error: '' @ Rec_Message r
     | LevelWarn \<Rightarrow> ''warning: '' @ Rec_Message r
     | _ \<Rightarrow> Rec_Message r)"

definition append_buf :: "string \<Rightarrow> string \<Rightarrow> LogBuffer \<Rightarrow> LogBuffer" where
  "append_buf now line l = l\<lparr>LB_buf := map_option (Appendf now line) (LB_buf l)\<rparr>"

definition Handle :: "(json \<Rightarrow> gerror + string) \<Rightarrow> string \<Rightarrow> slog_Record \<Rightarrow> LogBuffer \<Rightarrow> gerror option \<times> LogBuffer" where
  "Handle marshal now r l =
     (let msg = level_message r; attrs = nest_attrs (LB_attrs (withAttrs (Rec_Attrs r) l))
      in (case marshal (JObj attrs) of
          Inl e \<Rightarrow> (Some e, append_buf now msg l)
        | Inr b \<Rightarrow> (None, append_buf now (msg @ '': '' @ b) l)))"

definition LogBuffer_contents :: "LogBuffer option \<Rightarrow> string" where
  "LogBuffer_contents l = (case l of None \<Rightarrow> '''' | Some l \<Rightarrow>
     (case LB_buf l of None \<Rightarrow> '''' | Some buf \<Rightarrow> LogBuffer_String buf))"

definition LogBuffer_is_empty :: "LogBuffer option \<Rightarrow> bool" where
  "LogBuffer_is_empty l = (case l of None \<Rightarrow> True | Some l \<Rightarrow>
     (case LB_buf l of None \<Rightarrow> True | Some buf \<Rightarrow> LogBuffer_Empty buf))"

subsection \<open>Attributes are found under their groups\<close>

fun get_path :: "string list \<Rightarrow> (string \<times> json) list \<Rightarrow> json option" where
  "get_path [] m = None"
| "get_path [k] m = map_of m k"
| "get_path (g # h # gs) m = (case map_of m g of Some (JObj node) \<Rightarrow> get_path (h # gs) node | _ \<Rightarrow> None)"

lemma get_path_Cons:
  "ps \<noteq> [] \<Longrightarrow> get_path (g # ps) m = (case map_of m g of Some (JObj node) \<Rightarrow> get_path ps node | _ \<Rightarrow> None)"
  by (cases ps) (simp_all cong: option.case_cong json.case_cong)

lemma put_attr_get: "get_path (gs @ [k]) (put_attr gs k v m) = Some v"
  by (induction gs arbitrary: m) (simp_all add: get_path_Cons update_conv')

lemma put_attr_frame:
  assumes "ps \<parallel> gs @ [k]"
  shows "get_path ps (put_attr gs k v m) = get_path ps m"
  using assms
proof (induction gs arbitrary: ps m)
  case Nil
  then obtain p ps' where ps: "ps = p # ps'" "p \<noteq> k" by (cases ps) auto
  then show ?case by (cases ps') (simp_all add: update_conv')
next
  case (Cons g gs)
  obtain p ps' where ps: "ps = p # ps'" using Cons.prems by (cases ps) auto
  show ?case
  proof (cases "p = g")
    case True
    with Cons.prems ps have par: "ps' \<parallel> gs @ [k]" by (auto simp: parallel_def)
    then have "ps' \<noteq> []" by auto
    moreover have "get_path ps' [] = None" by (cases ps'; cases "tl ps'") (auto simp: get_path_Cons)
    ultimately show ?thesis
      using Cons.IH [OF par] ps True by (auto simp: get_path_Cons update_conv' split: option.split json.split)
  next
    case False
    with ps show ?thesis by (cases ps') (simp_all add: update_conv')
  qed
qed

text \<open>The value logged last under a path is found there, and it stays when everything that follows is
  logged under other paths.\<close>

lemma nest_attrs_lookup:
  assumes "\<forall>ga \<in> set later. ga_group ga @ [fst (ga_attr ga)] \<parallel> grp @ [k]"
  shows "get_path (grp @ [k]) (nest_attrs (before @ \<lparr>ga_group = grp, ga_attr = (k, v)\<rparr> # later)) = Some v"
proof -
  have "get_path (grp @ [k]) (fold (\<lambda>ga. put_attr (ga_group ga) (fst (ga_attr ga)) (snd (ga_attr ga))) later m) =
    get_path (grp @ [k]) m" for m
    using assms
  proof (induction later arbitrary: m)
    case (Cons ga later)
    then have "grp @ [k] \<parallel> ga_group ga @ [fst (ga_attr ga)]" by (auto intro: parallel_commute)
    with Cons show ?case by (simp add: put_attr_frame)
  qed simp
  then show ?thesis by (simp add: nest_attrs_def put_attr_get)
qed

lemma withAttrs_in_group:
  assumes "name \<noteq> ''''"
  shows "LB_attrs (withAttrs [a] (WithGroup name l)) = LB_attrs l @ [\<lparr>ga_group = LB_group l @ [name], ga_attr = a\<rparr>]"
  using assms by (simp add: withAttrs_def WithGroup_def)

text \<open>Handling records appends their lines to the buffer, and changes nothing else of the handler.\<close>

definition record_line :: "(json \<Rightarrow> gerror + string) \<Rightarrow> LogBuffer \<Rightarrow> slog_Record \<Rightarrow> string" where
  "record_line marshal l r = (case marshal (JObj (nest_attrs (LB_attrs (withAttrs (Rec_Attrs r) l)))) of
     Inl e \<Rightarrow> level_message r | Inr b \<Rightarrow> level_message r @ '': '' @ b)"

lemma Handle_appends:
  "snd (Handle marshal now r l) = append_buf now (record_line marshal l r) l"
  by (simp add: Handle_def record_line_def Let_def split: sum.split)

lemma record_line_append [simp]: "record_line marshal (append_buf now line l) r = record_line marshal l r"
  by (simp add: record_line_def append_buf_def withAttrs_def)

lemma handled_lines:
  "LB_buf (fold (\<lambda>(now, r) l. snd (Handle marshal now r l)) rs l) =
     map_option (append_all (map (\<lambda>(now, r). (now, record_line marshal l r)) rs)) (LB_buf l)"
proof (induction rs arbitrary: l)
  case (Cons x rs)
  obtain now r where "x = (now, r)" by fastforce
  with Cons show ?case
    by (simp add: Handle_appends append_all_def append_buf_def option.map_comp o_def)
      (simp add: append_buf_def [symmetric])
next
  case Nil
  then show ?case by (cases "LB_buf l") (simp_all add: append_all_def)
qed

end
