(* ===== verification/Drivers.thy ===== *)
theory Drivers
  imports Releases
begin

section \<open>Storage drivers: internal/storage/observer.go and failing.go\<close>

text \<open>
  Helm stores releases through a driver. The observing driver wraps another one and calls its
  observers after a release was persisted; the failing driver returns configured errors. Here both
  are drivers like the one they wrap, so that a whole run of Helm can be followed; the writing
  operations of the observing driver are those of \<open>Releases\<close>.
\<close>

record 'w driver =
  dName :: string
  dGet :: "string \<Rightarrow> 'w \<Rightarrow> gerror + Releaser"
  dList :: "(Releaser \<Rightarrow> bool) \<Rightarrow> 'w \<Rightarrow> gerror + Releaser list"
  dQuery :: "(string \<times> string) list \<Rightarrow> 'w \<Rightarrow> gerror + Releaser list"
  dCreate :: "string \<Rightarrow> Releaser \<Rightarrow> 'w \<Rightarrow> gerror option \<times> 'w"
  dUpdate :: "string \<Rightarrow> Releaser \<Rightarrow> 'w \<Rightarrow> gerror option \<times> 'w"
  dDelete :: "string \<Rightarrow> 'w \<Rightarrow> (gerror + Releaser) \<times> 'w"

definition ObserverDriverName :: string where "ObserverDriverName = ''observer''"

text \<open>The world of the observing driver includes the state of its observers.\<close>

definition NewObserver :: "'w driver \<Rightarrow> ('w, 's) ObserveFunc list \<Rightarrow> ('w \<times> 's) driver" where
  "NewObserver D observers =
     \<lparr>dName = ObserverDriverName,
      dGet = (\<lambda>key (w, s). dGet D key w),
      dList = (\<lambda>flt (w, s). dList D flt w),
      dQuery = (\<lambda>keyvals (w, s). dQuery D keyvals w),
      dCreate = (\<lambda>key rls (w, s). Observer_Create observers (dCreate D) key rls w s),
      dUpdate = (\<lambda>key rls (w, s). Observer_Update observers (dUpdate D) key rls w s),
      dDelete = (\<lambda>key (w, s). Observer_Delete observers (dDelete D) key w s)\<rparr>"

definition FailingDriverName :: string where "FailingDriverName = ''failing''"

record Failing =
  GetErr :: "gerror option"
  ListErr :: "gerror option"
  QueryErr :: "gerror option"
  CreateErr :: "gerror option"
  UpdateErr :: "gerror option"
  DeleteErr :: "gerror option"

definition Failing_driver :: "Failing \<Rightarrow> 'w driver \<Rightarrow> 'w driver" where
  "Failing_driver F D =
     \<lparr>dName = FailingDriverName,
      dGet = (\<lambda>key w. case GetErr F of Some e \<Rightarrow> Inl e | None \<Rightarrow> dGet D key w),
      dList = (\<lambda>flt w. case ListErr F of Some e \<Rightarrow> Inl e | None \<Rightarrow> dList D flt w),
      dQuery = (\<lambda>keyvals w. case QueryErr F of Some e \<Rightarrow> Inl e | None \<Rightarrow> dQuery D keyvals w),
      dCreate = (\<lambda>key rls w. case CreateErr F of Some e \<Rightarrow> (Some e, w) | None \<Rightarrow> dCreate D key rls w),
      dUpdate = (\<lambda>key rls w. case UpdateErr F of Some e \<Rightarrow> (Some e, w) | None \<Rightarrow> dUpdate D key rls w),
      dDelete = (\<lambda>key w. case DeleteErr F of Some e \<Rightarrow> (Inl e, w) | None \<Rightarrow> dDelete D key w)\<rparr>"

subsection \<open>Runs of a driver\<close>

datatype driver_call =
    CGet string | CList "Releaser \<Rightarrow> bool" | CQuery "(string \<times> string) list"
  | CCreate string Releaser | CUpdate string Releaser | CDelete string

datatype driver_reply = ROne "gerror + Releaser" | RMany "gerror + Releaser list" | RDone "gerror option"

fun driver_step :: "'w driver \<Rightarrow> driver_call \<Rightarrow> 'w \<Rightarrow> driver_reply \<times> 'w" where
  "driver_step D (CGet key) w = (ROne (dGet D key w), w)"
| "driver_step D (CList flt) w = (RMany (dList D flt w), w)"
| "driver_step D (CQuery kvs) w = (RMany (dQuery D kvs w), w)"
| "driver_step D (CCreate key rls) w = (case dCreate D key rls w of (r, w') \<Rightarrow> (RDone r, w'))"
| "driver_step D (CUpdate key rls) w = (case dUpdate D key rls w of (r, w') \<Rightarrow> (RDone r, w'))"
| "driver_step D (CDelete key) w = (case dDelete D key w of (r, w') \<Rightarrow> (ROne r, w'))"

fun driver_run :: "'w driver \<Rightarrow> driver_call list \<Rightarrow> 'w \<Rightarrow> driver_reply list \<times> 'w" where
  "driver_run D [] w = ([], w)"
| "driver_run D (c # cs) w = (case driver_step D c w of (r, w') \<Rightarrow>
     (case driver_run D cs w' of (rs, w'') \<Rightarrow> (r # rs, w'')))"

text \<open>The release that a call persisted, according to its reply.\<close>

fun persisted_release :: "driver_call \<Rightarrow> driver_reply \<Rightarrow> Releaser option" where
  "persisted_release (CCreate key rls) (RDone None) = Some rls"
| "persisted_release (CUpdate key rls) (RDone None) = Some rls"
| "persisted_release (CDelete key) (ROne (Inr rls)) = Some rls"
| "persisted_release _ _ = None"

fun persisted_in :: "'w driver \<Rightarrow> driver_call list \<Rightarrow> 'w \<Rightarrow> (Releaser \<times> 'w) list" where
  "persisted_in D [] w = []"
| "persisted_in D (c # cs) w = (case driver_step D c w of (r, w') \<Rightarrow>
     (case persisted_release c r of None \<Rightarrow> [] | Some rls \<Rightarrow> [(rls, w')]) @ persisted_in D cs w')"

lemma Observer_step:
  "driver_step (NewObserver D obs) c (w, s) = (case driver_step D c w of (r, w') \<Rightarrow>
     (r, w', case persisted_release c r of None \<Rightarrow> s | Some rls \<Rightarrow> notify obs rls w' s))"
  by (cases c) (auto simp: NewObserver_def Observer_Create_def Observer_Update_def Observer_Delete_def
      split: prod.split option.split sum.split)

text \<open>C25. The observing driver refines the driver it wraps: for every sequence of calls it gives the same
  replies and leaves the same storage, and its observers are called with exactly the releases that
  were persisted or deleted, in order, each in the storage at that moment.\<close>

theorem Observer_refines_driver:
  "driver_run (NewObserver D obs) cs (w, s) =
     (fst (driver_run D cs w), snd (driver_run D cs w),
      fold (\<lambda>(rls, w'). notify obs rls w') (persisted_in D cs w) s)"
proof (induction cs arbitrary: w s)
  case (Cons c cs)
  obtain r w' where step: "driver_step D c w = (r, w')" by fastforce
  show ?case
    by (cases "persisted_release c r") (simp_all add: Observer_step step Cons.IH split: prod.split)
qed simp

text \<open>The failing driver without errors is the driver it wraps; a configured error on the writing
  operations keeps the storage as it was.\<close>

lemma Failing_no_errors:
  assumes "F = \<lparr>GetErr = None, ListErr = None, QueryErr = None, CreateErr = None, UpdateErr = None, DeleteErr = None\<rparr>"
  shows "Failing_driver F D = D\<lparr>dName := FailingDriverName\<rparr>"
  using assms by (simp add: Failing_driver_def)

lemma Failing_writes_nothing:
  assumes "CreateErr F \<noteq> None" "UpdateErr F \<noteq> None" "DeleteErr F \<noteq> None"
  shows "snd (driver_run (Failing_driver F D) cs w) = w \<and> persisted_in (Failing_driver F D) cs w = []"
proof (induction cs)
  case (Cons c cs)
  have "snd (driver_step (Failing_driver F D) c w) = w \<and>
      persisted_release c (fst (driver_step (Failing_driver F D) c w)) = None"
    using assms by (cases c) (auto simp: Failing_driver_def)
  with Cons show ?case by (auto split: prod.split)
qed simp

end
