(* ===== verification/MemoryWatch.thy ===== *)
theory MemoryWatch
  imports Complex_Main Errors "HOL-Library.Word"
begin

section \<open>The watcher of memory: internal/oomwatch/watch.go\<close>

text \<open>
  The watcher reads the limit of memory once and the usage on every tick, and cancels its context
  when the usage reaches the threshold. Files are read through \<open>cgroup_api\<close>. Go's \<open>float64\<close> is a
  rational with a rounding \<open>fl\<close> after each operation; a division by zero gives infinity, which is
  above every threshold, or for zero by zero the number that compares false with everything.
\<close>

record 'w cgroup_api =
  fLstat :: "string \<Rightarrow> 'w \<Rightarrow> gerror option"
  fReadFile :: "string \<Rightarrow> 'w \<Rightarrow> gerror + string"

definition DefaultCgroupPath :: string where "DefaultCgroupPath = ''/sys/fs/cgroup/''"
definition MemoryLimitFile :: string where "MemoryLimitFile = ''memory/memory.limit_in_bytes''"
definition MemoryUsageFile :: string where "MemoryUsageFile = ''memory/memory.usage_in_bytes''"
definition MemoryMaxFile :: string where "MemoryMaxFile = ''memory.max''"
definition MemoryCurrentFile :: string where "MemoryCurrentFile = ''memory.current''"

record Watcher =
  memoryMax :: "64 word"
  memoryCurrentPath :: string
  memoryUsagePercentThreshold :: "8 word"
  interval :: duration

subsection \<open>Reading numbers\<close>

definition parse_error :: "string \<Rightarrow> string \<Rightarrow> gerror" where
  "parse_error s why = errors_New (''strconv.ParseUint: parsing '' @ CHR 0x22 # s @ CHR 0x22 # '': '' @ why)"

text \<open>\<^verbatim>\<open>strconv.ParseUint\<close> in base ten: the digits are read one by one, and the number is out of range as
  soon as it does not fit 64 bits.\<close>

fun parse_uint :: "string \<Rightarrow> nat \<Rightarrow> string \<Rightarrow> gerror + nat" where
  "parse_uint s n [] = Inr n"
| "parse_uint s n (c # cs) =
     (if (of_char c :: nat) < 48 \<or> (of_char c :: nat) > 57 then Inl (parse_error s ''invalid syntax'')
      else let n' = n * 10 + (of_char c - 48)
           in if n' \<ge> 2 ^ 64 then Inl (parse_error s ''value out of range'') else parse_uint s n' cs)"

definition ParseUint :: "string \<Rightarrow> gerror + 64 word" where
  "ParseUint s = (if s = '''' then Inl (parse_error s ''invalid syntax'')
     else (case parse_uint s 0 s of Inl e \<Rightarrow> Inl e | Inr n \<Rightarrow> Inr (word_of_nat n)))"

definition readUintFromFile :: "'w cgroup_api \<Rightarrow> string \<Rightarrow> 'w \<Rightarrow> gerror + 64 word" where
  "readUintFromFile A path w = (case fReadFile A path w of Inl e \<Rightarrow> Inl e | Inr b \<Rightarrow> ParseUint (TrimSpace b))"

subsection \<open>Setting up\<close>

definition Millisecond :: duration where "Millisecond = 1000000"

definition discover_path :: "'w cgroup_api \<Rightarrow> string \<Rightarrow> string \<Rightarrow> string \<Rightarrow> 'w \<Rightarrow> string" where
  "discover_path A given v2 v1 w =
     (if given \<noteq> '''' then given
      else if fLstat A (DefaultCgroupPath @ v2) w = None then DefaultCgroupPath @ v2
      else if fLstat A (DefaultCgroupPath @ v1) w = None then DefaultCgroupPath @ v1
      else '''')"

definition discoverCgroupPaths :: "'w cgroup_api \<Rightarrow> string \<Rightarrow> string \<Rightarrow> 'w \<Rightarrow> gerror + string \<times> string" where
  "discoverCgroupPaths A maxPath currentPath w =
     (let m = discover_path A maxPath MemoryMaxFile MemoryLimitFile w;
          c = discover_path A currentPath MemoryCurrentFile MemoryUsageFile w
      in if m = '''' \<and> c = '''' then Inl (errors_New ''failed to discover cgroup paths, please specify them manually'')
         else if m = '''' then Inl (errors_New ''failed to discover max memory path, please specify it manually'')
         else if c = '''' then Inl (errors_New ''failed to discover current memory path, please specify it manually'')
         else Inr (m, c))"

definition New_Watcher ::
  "'w cgroup_api \<Rightarrow> string \<Rightarrow> string \<Rightarrow> 8 word \<Rightarrow> duration \<Rightarrow> 'w \<Rightarrow> gerror + Watcher" where
  "New_Watcher A maxPath currentPath threshold ivl w =
     (if threshold < 1 \<or> threshold > 100
      then Inl (errors_New (''memory usage percent threshold must be between 1 and 100, got '' @ nat_str (unat threshold)))
      else if ivl < 50 * Millisecond
      then Inl (errors_New (''interval must be at least '' @ Duration_String (50 * Millisecond) @ '', got '' @ Duration_String ivl))
      else (case discoverCgroupPaths A maxPath currentPath w of
          Inl e \<Rightarrow> Inl e
        | Inr (m, c) \<Rightarrow> (case fLstat A c w of
            Some e \<Rightarrow> Inl (Errorf_w ''failed to confirm existence of current memory usage file: '' e '''')
          | None \<Rightarrow> (case readUintFromFile A m w of
              Inl e \<Rightarrow> Inl (Errorf_w ''failed to read memory usage limit: '' e '''')
            | Inr limit \<Rightarrow> Inr \<lparr>memoryMax = limit, memoryCurrentPath = c, memoryUsagePercentThreshold = threshold,
                interval = ivl\<rparr>))))"

subsection \<open>Watching\<close>

definition near_oom :: "(rat \<Rightarrow> rat) \<Rightarrow> Watcher \<Rightarrow> 64 word \<Rightarrow> bool" where
  "near_oom fl W current =
     (if memoryMax W = 0 then current \<noteq> 0
      else fl (fl (fl (of_nat (unat current)) / fl (of_nat (unat (memoryMax W)))) * 100) \<ge>
             of_nat (unat (memoryUsagePercentThreshold W)))"

text \<open>What the loop receives: the end of the parent context, or a tick in some state of the files.\<close>

datatype 'w watch_event = ParentDone | Tick 'w

datatype watch_end = Watching | Stopped | Canceled

fun watchForNearOOM :: "(rat \<Rightarrow> rat) \<Rightarrow> 'w cgroup_api \<Rightarrow> Watcher \<Rightarrow> 'w watch_event list \<Rightarrow> watch_end" where
  "watchForNearOOM fl A W [] = Watching"
| "watchForNearOOM fl A W (ParentDone # es) = Stopped"
| "watchForNearOOM fl A W (Tick w # es) = (case readUintFromFile A (memoryCurrentPath W) w of
       Inl e \<Rightarrow> watchForNearOOM fl A W es
     | Inr current \<Rightarrow> if near_oom fl W current then Canceled else watchForNearOOM fl A W es)"

text \<open>\<^verbatim>\<open>Watch\<close> derives a context from the given one on its first call only; \<open>kept\<close> is the context of the
  watcher.\<close>

definition Watcher_Watch :: "('c \<Rightarrow> 'c) \<Rightarrow> 'c option \<Rightarrow> 'c \<Rightarrow> 'c \<times> 'c option" where
  "Watcher_Watch withCancel kept ctx = (case kept of
       Some c \<Rightarrow> (c, kept)
     | None \<Rightarrow> (let c = withCancel ctx in (c, Some c)))"

subsection \<open>Sizes\<close>

function size_loop :: "64 word \<Rightarrow> 64 word \<Rightarrow> nat \<Rightarrow> 64 word \<times> nat" where
  "size_loop n d e = (if n \<ge> 1024 then size_loop (n div 1024) (d * 1024) (e + 1) else (d, e))"
  by pat_completeness auto
termination
proof (relation "measure (\<lambda>(n, d, e). unat n)")
  fix n d :: "64 word" and e :: nat
  assume "1024 \<le> n"
  then have "1024 \<le> unat n" by (simp add: word_le_nat_alt)
  then show "((n div 1024, d * 1024, e + 1), n, d, e) \<in> measure (\<lambda>(n, d, e). unat n)"
    by (simp add: unat_div)
qed simp

declare size_loop.simps [simp del]

text \<open>\<open>fmt\<close> prints with one decimal; \<open>None\<close> is the panic of an index out of range.\<close>

definition formatSize :: "(rat \<Rightarrow> rat) \<Rightarrow> (rat \<Rightarrow> string) \<Rightarrow> 64 word \<Rightarrow> string option" where
  "formatSize fl fmt b =
     (if b = 0 then Some ''-''
      else if b < 1024 then Some (nat_str (unat b) @ '' B'')
      else (case size_loop (b div 1024) 1024 0 of (d, e) \<Rightarrow>
        if e < length ''KMGTPE''
        then Some (fmt (fl (fl (of_nat (unat b)) / fl (of_nat (unat d)))) @ '' '' @ [''KMGTPE'' ! e] @ ''iB'')
        else None))"

subsection \<open>Properties\<close>

text \<open>The unit of a formatted size is one of the six letters, the divisor does not wrap around, and the
  number printed is at least 1 and below 1024.\<close>

lemma size_loop_bounds:
  fixes b :: "64 word"
  assumes "unat n * 1024 ^ (e + 1) \<le> unat b" "unat b < (unat n + 1) * 1024 ^ (e + 1)" "unat d = 1024 ^ (e + 1)" "n \<noteq> 0"
    and "size_loop n d e = (d', e')"
  shows "unat d' = 1024 ^ (e' + 1) \<and> unat d' \<le> unat b \<and> unat b < 1024 * unat d'"
  using assms
proof (induction n d e rule: size_loop.induct)
  case (1 n d e)
  show ?case
  proof (cases "1024 \<le> n")
    case False
    then have "unat n < 1024" by (simp add: word_le_nat_alt)
    moreover have "d' = d" "e' = e" using False 1(6) by (simp_all add: size_loop.simps)
    moreover have "1 \<le> unat n" using 1(5) by (simp add: Suc_leI unat_gt_0)
    ultimately show ?thesis using 1(2-4)
      by (auto intro: order.trans [rotated] order.strict_trans2 mult_le_mono1)
  next
    case True
    then have n: "1024 \<le> unat n" by (simp add: word_le_nat_alt)
    have u: "unat (n div 1024) = unat n div 1024" by (simp add: unat_div)
    have "1024 * 1024 ^ (e + 1) \<le> unat n * 1024 ^ (e + 1)" using n by (intro mult_le_mono1)
    also have "\<dots> \<le> unat b" using 1(2) .
    also have "unat b < 2 ^ LENGTH(64)" by (rule unsigned_less)
    finally have d: "unat (d * 1024) = 1024 ^ (e + 1 + 1)"
      using 1(4) by (simp add: unat_word_ariths mult.commute take_bit_nat_eq_self)
    show ?thesis
    proof (rule 1(1) [OF True])
      show "unat (n div 1024) * 1024 ^ (e + 1 + 1) \<le> unat b"
      proof -
        have "unat (n div 1024) * 1024 ^ (e + 1 + 1) = unat n div 1024 * 1024 * 1024 ^ (e + 1)" using u by simp
        also have "\<dots> \<le> unat n * 1024 ^ (e + 1)" by (intro mult_le_mono1) simp
        finally show ?thesis using 1(2) by (rule order.trans)
      qed
      show "unat b < (unat (n div 1024) + 1) * 1024 ^ (e + 1 + 1)"
      proof -
        have "unat n + 1 \<le> (unat n div 1024 + 1) * 1024"
          using dividend_less_div_times [of 1024 "unat n"] by (simp add: Suc_le_eq)
        then have "(unat n + 1) * 1024 ^ (e + 1) \<le> (unat n div 1024 + 1) * 1024 * 1024 ^ (e + 1)" by (rule mult_le_mono1)
        with 1(3) have "unat b < (unat n div 1024 + 1) * 1024 * 1024 ^ (e + 1)" by (rule order.strict_trans2)
        with u show ?thesis by (simp add: distrib_right)
      qed
      show "n div 1024 \<noteq> 0" using n u by (metis div_greater_zero_iff not_gr0 unat_0 zero_less_numeral)
    qed (use d 1(6) True in \<open>simp_all add: size_loop.simps [of n]\<close>)
  qed
qed

lemma formatSize_unit:
  assumes "b \<ge> 1024" and "size_loop (b div 1024) 1024 0 = (d, e)"
  shows "e < length ''KMGTPE'' \<and> unat d = 1024 ^ (e + 1) \<and> unat d \<le> unat b \<and> unat b < 1024 * unat d"
proof -
  have b: "1024 \<le> unat b" using assms(1) by (simp add: word_le_nat_alt)
  have u: "unat (b div 1024) = unat b div 1024" by (simp add: unat_div)
  have "unat b < 1024 + unat b div 1024 * 1024" by (rule dividend_less_div_times) simp
  then have d: "unat d = 1024 ^ (e + 1)" "unat d \<le> unat b" "unat b < 1024 * unat d"
    using size_loop_bounds [OF _ _ _ _ assms(2), of b] b u by (auto simp: unat_eq_zero [symmetric] distrib_right)
  have "(2 :: nat) ^ (10 * (e + 1)) = (2 ^ 10) ^ (e + 1)" by (rule power_mult)
  also have "(2 ^ 10) ^ (e + 1) \<le> unat b" using d(1,2) by simp
  also have "unat b < 2 ^ LENGTH(64)" by (rule unsigned_less)
  finally have "10 * (e + 1) < LENGTH(64)" by (rule power_less_imp_less_exp [rotated]) simp
  with d show ?thesis by simp
qed

lemma formatSize_total: "formatSize fl fmt b \<noteq> None"
proof (cases "b < 1024")
  case False
  obtain d e where l: "size_loop (b div 1024) 1024 0 = (d, e)" by fastforce
  with formatSize_unit [of b d e] False show ?thesis by (simp add: formatSize_def not_less)
qed (simp add: formatSize_def)

text \<open>Rounding is monotone and exact for one; then a higher usage is at least as near to the limit.\<close>

definition rounding_ok :: "(rat \<Rightarrow> rat) \<Rightarrow> bool" where
  "rounding_ok fl \<longleftrightarrow> mono fl \<and> fl 1 = 1"

lemma near_oom_mono:
  assumes "rounding_ok fl" "near_oom fl W current" "current \<le> current'"
  shows "near_oom fl W current'"
proof (cases "memoryMax W = 0")
  case True
  with assms(2,3) show ?thesis by (auto simp: near_oom_def)
next
  case False
  have m: "fl x \<le> fl y" if "x \<le> y" for x y using assms(1) that by (simp add: rounding_ok_def monoD)
  have "1 \<le> (of_nat (unat (memoryMax W)) :: rat)"
    using False by (metis unat_gt_0 Suc_leI of_nat_1 of_nat_le_iff One_nat_def)
  from m [OF this] have "0 < fl (of_nat (unat (memoryMax W)))" using assms(1) by (simp add: rounding_ok_def)
  moreover have "(of_nat (unat current) :: rat) \<le> of_nat (unat current')" using assms(3) by (subst of_nat_le_iff) (simp add: word_le_nat_alt)
  ultimately have "fl (of_nat (unat current)) / fl (of_nat (unat (memoryMax W))) \<le>
      fl (of_nat (unat current')) / fl (of_nat (unat (memoryMax W)))"
    by (intro divide_right_mono m) simp_all
  from m [OF mult_right_mono [OF m [OF this], of 100]] assms(2) False show ?thesis
    by (simp add: near_oom_def)
qed

text \<open>The watcher cancels exactly at the first tick, before the end of the parent context, that reads a
  usage near the limit; ticks at which the file cannot be read are skipped.\<close>

definition tick_near :: "(rat \<Rightarrow> rat) \<Rightarrow> 'w cgroup_api \<Rightarrow> Watcher \<Rightarrow> 'w watch_event \<Rightarrow> bool" where
  "tick_near fl A W ev = (case ev of ParentDone \<Rightarrow> False
     | Tick w \<Rightarrow> (case readUintFromFile A (memoryCurrentPath W) w of Inl e \<Rightarrow> False | Inr n \<Rightarrow> near_oom fl W n))"

lemma watch_cancels_iff:
  "watchForNearOOM fl A W es = Canceled \<longleftrightarrow>
     (\<exists>ev \<in> set (takeWhile (\<lambda>ev. ev \<noteq> ParentDone) es). tick_near fl A W ev)"
proof (induction es)
  case (Cons ev es)
  then show ?case by (cases ev) (auto simp: tick_near_def split: sum.split)
qed simp

end
