(* ===== verification/Lifecycle.thy ===== *)
theory Lifecycle
  imports ControllerProps
begin

section \<open>The life of a HelmRelease\<close>

text \<open>
  A HelmRelease is created, edited and deleted by users and reconciled by the controller, in any
  order and any number of times. The relation \<open>lifecycle\<close> has one rule for each of these steps, for
  reconciliations that are cut short, and for changes of the world by others. An invariant of its
  reachable states and the removal of the finalizer by the controller show together that a release
  is not left behind.
\<close>

record 'w cluster =
  stored :: "HelmRelease option"
  outside :: 'w

text \<open>An object that is marked for deletion disappears with its last finalizer.\<close>

definition persist :: "HelmRelease \<Rightarrow> HelmRelease option" where
  "persist obj = (if HR_DeletionTimestamp obj \<noteq> None \<and> HR_Finalizers obj = [] then None else Some obj)"

text \<open>A release was recorded for the object. Users change neither the status nor the finalizer of the
  controller nor the marking for deletion.\<close>

definition release_recorded :: "HelmRelease \<Rightarrow> bool" where
  "release_recorded obj \<longleftrightarrow> St_StorageNamespace (HR_Status obj) \<noteq> '''' \<or> History obj \<noteq> []"

definition finalized :: "HelmRelease \<Rightarrow> bool" where
  "finalized obj \<longleftrightarrow> HelmReleaseFinalizer \<in> set (HR_Finalizers obj)"

definition user_edit :: "HelmRelease \<Rightarrow> HelmRelease \<Rightarrow> bool" where
  "user_edit obj obj' \<longleftrightarrow> HR_Name obj' = HR_Name obj \<and> HR_Namespace obj' = HR_Namespace obj \<and>
     HR_Status obj' = HR_Status obj \<and> HR_DeletionTimestamp obj' = HR_DeletionTimestamp obj \<and>
     finalized obj' = finalized obj"

text \<open>A reconciliation persists the object at its end. The object is also persisted on the way, which
  happens only after the finalizer was added; when the controller stops then, or the last patch
  fails, what is stored differs from the object before in its status only.\<close>

inductive lifecycle :: "('w, 'v) ctrl_env \<Rightarrow> HelmReleaseReconciler \<Rightarrow> 'w cluster \<Rightarrow> 'w cluster \<Rightarrow> bool"
  for X R where
  created: "stored c = None \<Longrightarrow> \<not> release_recorded obj \<Longrightarrow> HR_DeletionTimestamp obj = None \<Longrightarrow>
    lifecycle X R c (c\<lparr>stored := Some obj\<rparr>)"
| edited: "stored c = Some obj \<Longrightarrow> user_edit obj obj' \<Longrightarrow> lifecycle X R c (c\<lparr>stored := persist obj'\<rparr>)"
| deleted: "stored c = Some obj \<Longrightarrow> HR_DeletionTimestamp obj = None \<Longrightarrow>
    lifecycle X R c (c\<lparr>stored := persist (obj\<lparr>HR_DeletionTimestamp := Some t\<rparr>)\<rparr>)"
| reconciled: "stored c = Some obj \<Longrightarrow> isValidChartRef obj \<Longrightarrow>
    deferred_patch X (reconcile_object X R (new_request obj (outside c))) = (out, req) \<Longrightarrow>
    lifecycle X R c \<lparr>stored = persist (Object req), outside = World req\<rparr>"
| interrupted: "stored c = Some obj \<Longrightarrow> finalized obj \<Longrightarrow>
    lifecycle X R c \<lparr>stored = Some (obj\<lparr>HR_Status := st\<rparr>), outside = w\<rparr>"
| changed: "lifecycle X R c (c\<lparr>outside := w\<rparr>)"

inductive_cases lifecycleE: "lifecycle X R c c'"

subsection \<open>What a reconciliation persists\<close>

lemma deferred_patch_object:
  "HR_Finalizers (Object (snd (deferred_patch X out))) = HR_Finalizers (Object (snd out))"
  "HR_DeletionTimestamp (Object (snd (deferred_patch X out))) = HR_DeletionTimestamp (Object (snd out))"
  by (cases out; simp add: deferred_patch_def Let_def split: prod.split option.split)+

lemma reconcile_object_adds_finalizer:
  assumes "HR_DeletionTimestamp (Object req) = None"
  shows "finalized (Object (snd (reconcile_object X R req)))"
proof (cases "finalized (Object req)")
  case True
  with reconcile_object_finalizers [OF assms, of X R] show ?thesis by (auto simp: finalized_def)
next
  case False
  with assms show ?thesis by (simp add: reconcile_object_def finalized_def returning_def Let_def)
qed

lemma reconcile_object_deletion:
  "HR_DeletionTimestamp (Object (snd (reconcile_object X R req))) = HR_DeletionTimestamp (Object req)"
proof -
  obtain r b where t: "reconcileChartTemplate X R req = (r, b)" by fastforce
  have b: "kept_object (Object req) b" using object_kept.template_kept [of "Object req" req X R] t by simp
  obtain r1 b1 where d: "reconcileReleaseDeletion X R req = (r1, b1)" by fastforce
  obtain r2 b2 where t2: "reconcileChartTemplate X R b1 = (r2, b2)" by fastforce
  have b1: "kept_object (Object req) b1" using object_kept.deletion_kept [of "Object req" req X R] d by simp
  have b2: "kept_object (Object req) b2" using object_kept.template_kept [OF b1, of X R] t2 by simp
  note k = kept_objectD(2) [OF b] kept_objectD(2) [OF object_kept.release_kept [OF b, of X R]]
    kept_objectD(2) [OF b1] kept_objectD(2) [OF b2]
  show ?thesis
    by (auto simp: reconcile_object_def reconcileDelete_def release_object_def RemoveFinalizer_def t d t2 k returning_def
        ready_false_def emit_def cond_op_defs on_conditions_def Let_def split: option.split res.split)
qed

lemma persist_finalized: "finalized obj \<Longrightarrow> persist obj = Some obj"
  by (auto simp: persist_def finalized_def)

lemma persist_Some: "persist obj = Some obj' \<Longrightarrow> obj' = obj"
  by (simp add: persist_def split: if_splits)

lemma persisted_finalized:
  assumes "deferred_patch X (reconcile_object X R (new_request obj w)) = (out, req)"
    and "HR_DeletionTimestamp obj = None"
  shows "finalized (Object req)"
  using assms deferred_patch_object(1) [of X "reconcile_object X R (new_request obj w)"]
    reconcile_object_adds_finalizer [of "new_request obj w" X R]
  by (simp add: finalized_def new_request_def)

lemma persisted_unfinalized:
  assumes "deferred_patch X (reconcile_object X R (new_request obj w)) = (out, req)"
    and "finalized obj" "\<not> finalized (Object req)"
  shows "HR_DeletionTimestamp obj \<noteq> None \<and>
    (Spec_Suspend (HR_Spec obj) \<or> uninstall_settled X R (new_request obj w))"
  using assms deferred_patch_object(1) [of X "reconcile_object X R (new_request obj w)"]
    finalizer_removal [of "new_request obj w" X R]
  by (auto simp: finalized_def new_request_def)

subsection \<open>Releases carry the finalizer\<close>

definition release_guarded :: "'w cluster \<Rightarrow> bool" where
  "release_guarded c \<longleftrightarrow> (case stored c of None \<Rightarrow> True
     | Some obj \<Rightarrow> HR_DeletionTimestamp obj \<noteq> None \<or> finalized obj \<or> \<not> release_recorded obj)"

lemma lifecycle_guarded:
  assumes "lifecycle X R c c'" "release_guarded c"
  shows "release_guarded c'"
  using assms
proof cases
  case (edited obj obj')
  with assms(2) show ?thesis
    by (auto simp: release_guarded_def user_edit_def release_recorded_def split: option.split dest!: persist_Some)
next
  case (deleted obj t)
  then show ?thesis by (auto simp: release_guarded_def split: option.split dest!: persist_Some)
next
  case (reconciled obj out req)
  have "HR_DeletionTimestamp (Object req) = HR_DeletionTimestamp obj"
    using deferred_patch_object(2) [of X "reconcile_object X R (new_request obj (outside c))"]
      reconcile_object_deletion [of X R "new_request obj (outside c)"] reconciled(4)
    by (simp add: new_request_def)
  with persisted_finalized [OF reconciled(4)] show ?thesis
    by (auto simp: reconciled release_guarded_def split: option.split dest!: persist_Some)
qed (use assms(2) in \<open>auto simp: release_guarded_def finalized_def\<close>)

lemma reachable_guarded:
  assumes "(lifecycle X R)\<^sup>*\<^sup>* c0 c" "stored c0 = None"
  shows "release_guarded c"
  using assms by (induction rule: rtranclp_induct) (auto simp: release_guarded_def [of c0] intro: lifecycle_guarded)

subsection \<open>The end of a release\<close>

definition cleaned_up :: "('w, 'v) ctrl_env \<Rightarrow> HelmReleaseReconciler \<Rightarrow> 'w cluster \<Rightarrow> bool" where
  "cleaned_up X R d \<longleftrightarrow> (\<exists>obj. stored d = Some obj \<and> finalized obj \<and> HR_DeletionTimestamp obj \<noteq> None \<and>
     (Spec_Suspend (HR_Spec obj) \<or> uninstall_settled X R (new_request obj (outside d))))"

lemma lifecycle_finalized:
  assumes "lifecycle X R c c'" "stored c = Some obj" "finalized obj"
  shows "(\<exists>obj'. stored c' = Some obj' \<and> finalized obj') \<or> cleaned_up X R c"
  using assms(1)
proof cases
  case (edited obj1 obj')
  then have "finalized obj'" using assms by (simp add: user_edit_def)
  with edited show ?thesis by (simp add: persist_finalized)
next
  case (deleted obj1 t)
  then have "finalized (obj1\<lparr>HR_DeletionTimestamp := Some t\<rparr>)" using assms by (simp add: finalized_def)
  with deleted show ?thesis by (simp add: persist_finalized)
next
  case (reconciled obj1 out req)
  then have [simp]: "obj1 = obj" using assms by simp
  show ?thesis
  proof (cases "finalized (Object req)")
    case True
    with reconciled show ?thesis by (simp add: persist_finalized)
  next
    case False
    from persisted_unfinalized [OF reconciled(4)] False assms show ?thesis by (auto simp: cleaned_up_def)
  qed
qed (use assms in \<open>auto simp: finalized_def\<close>)

lemma finalized_until_cleaned_up:
  assumes "(lifecycle X R)\<^sup>*\<^sup>* c c'" "stored c' = None" "stored c = Some obj" "finalized obj"
  shows "\<exists>d. (lifecycle X R)\<^sup>*\<^sup>* c d \<and> (lifecycle X R)\<^sup>*\<^sup>* d c' \<and> cleaned_up X R d"
  using assms
proof (induction arbitrary: obj rule: converse_rtranclp_induct)
  case (step c e)
  show ?case
  proof (cases "cleaned_up X R c")
    case True
    with step.hyps show ?thesis by (blast intro: converse_rtranclp_into_rtranclp)
  next
    case False
    with lifecycle_finalized [OF step.hyps(1) step.prems(2,3)] obtain obj' where
      "stored e = Some obj'" "finalized obj'" by blast
    from step.IH [OF step.prems(1) this] step.hyps(1) show ?thesis
      by (blast intro: converse_rtranclp_into_rtranclp)
  qed
qed simp


text \<open>A run: the object is created, gets its finalizer, a release is recorded, the object is suspended,
  deleted and gone.\<close>

definition life_object :: "string list \<Rightarrow> string \<Rightarrow> bool \<Rightarrow> time option \<Rightarrow> HelmRelease" where
  "life_object fs ns suspended deletion =
     (let obj = Object templated_request
      in obj\<lparr>HR_Finalizers := fs, HR_DeletionTimestamp := deletion,
             HR_Spec := (HR_Spec obj)\<lparr>Spec_Suspend := suspended\<rparr>,
             HR_Status := (HR_Status obj)\<lparr>St_StorageNamespace := ns\<rparr>\<rparr>)"

definition life :: "HelmRelease option \<Rightarrow> sample_world cluster" where
  "life obj = \<lparr>stored = obj, outside = []\<rparr>"

abbreviation life_step :: "sample_world cluster \<Rightarrow> sample_world cluster \<Rightarrow> bool" where
  "life_step \<equiv> lifecycle sample_ctrl sample_reconciler"

lemma life_object_simps [simp]:
  "HR_Finalizers (life_object fs ns b d) = fs" "HR_DeletionTimestamp (life_object fs ns b d) = d"
  "Spec_Suspend (HR_Spec (life_object fs ns b d)) = b"
  "St_StorageNamespace (HR_Status (life_object fs ns b d)) = ns" "History (life_object fs ns b d) = []"
  "HR_Name (life_object fs ns b d) = ''app''" "HR_Namespace (life_object fs ns b d) = ''ns''"
  "HR_Annotations (life_object fs ns b d) = []" "isValidChartRef (life_object fs ns b d)"
  by (simp_all add: life_object_def templated_request_def sample_request_def sample_object_def sample_status_def
      sample_spec_def isValidChartRef_def HasChartRef_def HasChartTemplate_def Let_def)

lemma life_object_updates [simp]:
  "(life_object fs ns b d)\<lparr>HR_DeletionTimestamp := d'\<rparr> = life_object fs ns b d'"
  "(life_object fs ns b d)\<lparr>HR_Finalizers := fs'\<rparr> = life_object fs' ns b d"
  by (cases "Object templated_request"; simp add: life_object_def Let_def)+

lemma life_steps:
  "life_step (life None) (life (Some (life_object [] '''' False None)))"
  "life_step (life (Some (life_object [HelmReleaseFinalizer] '''' False None)))
     (life (Some (life_object [HelmReleaseFinalizer] ''ns'' False None)))"
  "life_step (life (Some (life_object [HelmReleaseFinalizer] ''ns'' False None)))
     (life (Some (life_object [HelmReleaseFinalizer] ''ns'' True None)))"
  "life_step (life (Some (life_object [HelmReleaseFinalizer] ''ns'' True None)))
     (life (Some (life_object [HelmReleaseFinalizer] ''ns'' True (Some 0))))"
proof -
  show "life_step (life None) (life (Some (life_object [] '''' False None)))"
    using lifecycle.created [of "life None" "life_object [] '''' False None" sample_ctrl sample_reconciler]
    by (simp add: life_def release_recorded_def)
  show "life_step (life (Some (life_object [HelmReleaseFinalizer] '''' False None)))
     (life (Some (life_object [HelmReleaseFinalizer] ''ns'' False None)))"
    using lifecycle.interrupted [of "life (Some (life_object [HelmReleaseFinalizer] '''' False None))" _ sample_ctrl
        sample_reconciler "HR_Status (life_object [] ''ns'' False None)" "[]"]
    by (simp add: life_def finalized_def) (simp add: life_object_def Let_def)
  have "user_edit (life_object [HelmReleaseFinalizer] ''ns'' False None) (life_object [HelmReleaseFinalizer] ''ns'' True None)"
    by (simp add: user_edit_def finalized_def) (simp add: life_object_def Let_def)
  then show "life_step (life (Some (life_object [HelmReleaseFinalizer] ''ns'' False None)))
     (life (Some (life_object [HelmReleaseFinalizer] ''ns'' True None)))"
    using lifecycle.edited [of "life (Some (life_object [HelmReleaseFinalizer] ''ns'' False None))"
        "life_object [HelmReleaseFinalizer] ''ns'' False None"
        "life_object [HelmReleaseFinalizer] ''ns'' True None" sample_ctrl sample_reconciler]
    by (simp add: life_def persist_def)
  show "life_step (life (Some (life_object [HelmReleaseFinalizer] ''ns'' True None)))
     (life (Some (life_object [HelmReleaseFinalizer] ''ns'' True (Some 0))))"
    using lifecycle.deleted [of "life (Some (life_object [HelmReleaseFinalizer] ''ns'' True None))" _
        sample_ctrl sample_reconciler 0]
    by (simp add: life_def persist_def)
qed

lemma life_reconciled:
  assumes "snd (reconcile_object sample_ctrl sample_reconciler (new_request obj [])) = on_object f (new_request obj [])"
    and "isValidChartRef obj" "HR_Annotations (f obj) = []"
  shows "life_step (life (Some obj)) (life (persist (f obj)))"
proof -
  let ?r = "reconcile_object sample_ctrl sample_reconciler (new_request obj [])"
  obtain out req where d: "deferred_patch sample_ctrl ?r = (out, req)" by fastforce
  have "Object req = f obj \<and> World req = []"
    using d assms by (cases ?r) (auto simp: deferred_patch_def new_request_def sample_ctrl_def sample_env_def Let_def
        split: prod.splits if_splits)
  with lifecycle.reconciled [of "life (Some obj)", OF _ assms(2), of sample_ctrl sample_reconciler out req] d
  show ?thesis by (simp add: life_def)
qed

lemma life_finalized:
  "life_step (life (Some (life_object [] '''' False None))) (life (Some (life_object [HelmReleaseFinalizer] '''' False None)))"
  using life_reconciled [of "life_object [] '''' False None" "\<lambda>obj. obj\<lparr>HR_Finalizers := HR_Finalizers obj @ [HelmReleaseFinalizer]\<rparr>"]
  by (simp add: reconcile_object_def returning_def new_request_def persist_def)

lemma life_gone: "life_step (life (Some (life_object [HelmReleaseFinalizer] ''ns'' True (Some 0)))) (life None)"
  using life_reconciled [of "life_object [HelmReleaseFinalizer] ''ns'' True (Some 0)" "RemoveFinalizer HelmReleaseFinalizer"]
  by (simp add: reconcile_object_def reconcileDelete_def release_object_def returning_def new_request_def persist_def
      RemoveFinalizer_def sample_ctrl_def set_world_def on_object_def Let_def)


end
