(* ===== verification/V2beta2.thy ===== *)
theory V2beta2
  imports Annotations
begin

section \<open>The API version v2beta2: api/v2beta2\<close>

text \<open>
  The HelmRelease of the API version v2beta2 with its accessors, its own history operations and its
  annotation requests. A type whose fields are those of the type of the same name in v2 is a synonym
  of it, as Go converts between types of the same structure; the accessors are translated again from
  the sources of this version. The theory \<open>ApiVersions\<close> relates the versions.
\<close>

subsection \<open>References\<close>

type_synonym B2_CrossNamespaceObjectReference = CrossNamespaceObjectReference
type_synonym B2_CrossNamespaceSourceReference = CrossNamespaceSourceReference

record B2_ValuesReference =
  B2VR_Kind :: string
  B2VR_Name :: string
  B2VR_ValuesKey :: string
  B2VR_TargetPath :: string
  B2VR_Optional :: bool

definition B2_GetValuesKey :: "B2_ValuesReference \<Rightarrow> string" where
  "B2_GetValuesKey r = (if B2VR_ValuesKey r = '''' then ''values.yaml'' else B2VR_ValuesKey r)"

subsection \<open>Post-renderers, drift detection and the chart template\<close>

record B2_Kustomize =
  B2Kust_Patches :: "json list"
  B2Kust_PatchesStrategicMerge :: "json list"
  B2Kust_PatchesJSON6902 :: "json list"
  B2Kust_Images :: "json list"

record B2_PostRenderer =
  B2PR_Kustomize :: "B2_Kustomize option"

type_synonym B2_IgnoreRule = IgnoreRule
type_synonym B2_DriftDetection = DriftDetection

definition B2_GetMode :: "B2_DriftDetection \<Rightarrow> DriftDetectionMode" where
  "B2_GetMode d = (if DD_Mode d = DriftDetectionUnset then DriftDetectionDisabled else DD_Mode d)"

definition B2_MustDetectChanges :: "B2_DriftDetection \<Rightarrow> bool" where
  "B2_MustDetectChanges d \<longleftrightarrow> B2_GetMode d = DriftDetectionEnabled \<or> B2_GetMode d = DriftDetectionWarn"

type_synonym B2_HelmChartTemplateObjectMeta = HelmChartTemplateObjectMeta

record B2_HelmChartTemplateVerification =
  B2Ver_Provider :: string
  B2Ver_SecretRef :: "string option"

record B2_HelmChartTemplateSpec =
  B2TplSpec_Chart :: string
  B2TplSpec_Version :: string
  B2TplSpec_SourceRef :: B2_CrossNamespaceObjectReference
  B2TplSpec_Interval :: "duration option"
  B2TplSpec_ReconcileStrategy :: string
  B2TplSpec_ValuesFiles :: "string list"
  B2TplSpec_ValuesFile :: string
  B2TplSpec_IgnoreMissingValuesFiles :: bool
  B2TplSpec_Verify :: "B2_HelmChartTemplateVerification option"

record B2_HelmChartTemplate =
  B2Tpl_ObjectMeta :: "B2_HelmChartTemplateObjectMeta option"
  B2Tpl_Spec :: B2_HelmChartTemplateSpec

definition B2_Template_GetInterval :: "B2_HelmChartTemplate \<Rightarrow> duration \<Rightarrow> duration" where
  "B2_Template_GetInterval t d = (case B2TplSpec_Interval (B2Tpl_Spec t) of None \<Rightarrow> d | Some i \<Rightarrow> i)"

definition B2_Template_GetNamespace :: "B2_HelmChartTemplate \<Rightarrow> string \<Rightarrow> string" where
  "B2_Template_GetNamespace t d =
     (let ns = COR_Namespace (B2TplSpec_SourceRef (B2Tpl_Spec t)) in if ns = '''' then d else ns)"

subsection \<open>Install, upgrade, test, rollback and uninstall configuration\<close>

type_synonym B2_InstallRemediation = InstallRemediation
type_synonym B2_UpgradeRemediation = UpgradeRemediation

record B2_Install =
  B2Inst_Timeout :: "duration option"
  B2Inst_Remediation :: "B2_InstallRemediation option"
  B2Inst_DisableWait :: bool
  B2Inst_DisableWaitForJobs :: bool
  B2Inst_DisableHooks :: bool
  B2Inst_DisableOpenAPIValidation :: bool
  B2Inst_Replace :: bool
  B2Inst_SkipCRDs :: bool
  B2Inst_CRDs :: CRDsPolicy
  B2Inst_CreateNamespace :: bool

record B2_Upgrade =
  B2Upg_Timeout :: "duration option"
  B2Upg_Remediation :: "B2_UpgradeRemediation option"
  B2Upg_DisableWait :: bool
  B2Upg_DisableWaitForJobs :: bool
  B2Upg_DisableHooks :: bool
  B2Upg_DisableOpenAPIValidation :: bool
  B2Upg_Force :: bool
  B2Upg_PreserveValues :: bool
  B2Upg_CleanupOnFail :: bool
  B2Upg_CRDs :: CRDsPolicy

type_synonym B2_Filter = Filter
type_synonym B2_Test = TestSpec

record B2_Rollback =
  B2Rb_Timeout :: "duration option"
  B2Rb_DisableWait :: bool
  B2Rb_DisableWaitForJobs :: bool
  B2Rb_DisableHooks :: bool
  B2Rb_Recreate :: bool
  B2Rb_Force :: bool
  B2Rb_CleanupOnFail :: bool

type_synonym B2_Uninstall = UninstallSpec

definition B2_Install_zero :: B2_Install where
  "B2_Install_zero =
     \<lparr>B2Inst_Timeout = None, B2Inst_Remediation = None, B2Inst_DisableWait = False,
      B2Inst_DisableWaitForJobs = False, B2Inst_DisableHooks = False,
      B2Inst_DisableOpenAPIValidation = False, B2Inst_Replace = False, B2Inst_SkipCRDs = False,
      B2Inst_CRDs = CRDsUnset, B2Inst_CreateNamespace = False\<rparr>"

definition B2_Upgrade_zero :: B2_Upgrade where
  "B2_Upgrade_zero =
     \<lparr>B2Upg_Timeout = None, B2Upg_Remediation = None, B2Upg_DisableWait = False,
      B2Upg_DisableWaitForJobs = False, B2Upg_DisableHooks = False,
      B2Upg_DisableOpenAPIValidation = False, B2Upg_Force = False, B2Upg_PreserveValues = False,
      B2Upg_CleanupOnFail = False, B2Upg_CRDs = CRDsUnset\<rparr>"

definition B2_Rollback_zero :: B2_Rollback where
  "B2_Rollback_zero =
     \<lparr>B2Rb_Timeout = None, B2Rb_DisableWait = False, B2Rb_DisableWaitForJobs = False,
      B2Rb_DisableHooks = False, B2Rb_Recreate = False, B2Rb_Force = False, B2Rb_CleanupOnFail = False\<rparr>"

definition B2_Install_GetTimeout :: "B2_Install \<Rightarrow> duration \<Rightarrow> duration" where
  "B2_Install_GetTimeout i d = (case B2Inst_Timeout i of None \<Rightarrow> d | Some t \<Rightarrow> t)"

definition B2_Upgrade_GetTimeout :: "B2_Upgrade \<Rightarrow> duration \<Rightarrow> duration" where
  "B2_Upgrade_GetTimeout u d = (case B2Upg_Timeout u of None \<Rightarrow> d | Some t \<Rightarrow> t)"

definition B2_Test_GetTimeout :: "B2_Test \<Rightarrow> duration \<Rightarrow> duration" where
  "B2_Test_GetTimeout t d = (case Test_Timeout t of None \<Rightarrow> d | Some x \<Rightarrow> x)"

definition B2_Rollback_GetTimeout :: "B2_Rollback \<Rightarrow> duration \<Rightarrow> duration" where
  "B2_Rollback_GetTimeout r d = (case B2Rb_Timeout r of None \<Rightarrow> d | Some t \<Rightarrow> t)"

definition B2_Uninstall_GetTimeout :: "B2_Uninstall \<Rightarrow> duration \<Rightarrow> duration" where
  "B2_Uninstall_GetTimeout u d = (case Uni_Timeout u of None \<Rightarrow> d | Some t \<Rightarrow> t)"

definition B2_GetDeletionPropagation :: "B2_Uninstall \<Rightarrow> string" where
  "B2_GetDeletionPropagation u = (case Uni_DeletionPropagation u of None \<Rightarrow> ''background'' | Some p \<Rightarrow> p)"

definition B2_GetFilters :: "B2_Test \<Rightarrow> B2_Filter list" where
  "B2_GetFilters t = (case Test_Filters t of None \<Rightarrow> [] | Some fs \<Rightarrow> fs)"

subsection \<open>The HelmRelease\<close>

text \<open>The release action is a Go string with two constants.\<close>

type_synonym B2_ReleaseAction = string

definition B2_ReleaseActionInstall :: B2_ReleaseAction where "B2_ReleaseActionInstall = ''install''"
definition B2_ReleaseActionUpgrade :: B2_ReleaseAction where "B2_ReleaseActionUpgrade = ''upgrade''"

record B2_HelmReleaseSpec =
  B2Spec_Chart :: "B2_HelmChartTemplate option"
  B2Spec_ChartRef :: "B2_CrossNamespaceSourceReference option"
  B2Spec_Interval :: duration
  B2Spec_KubeConfig :: "KubeConfigReference option"
  B2Spec_Suspend :: bool
  B2Spec_ReleaseName :: string
  B2Spec_TargetNamespace :: string
  B2Spec_StorageNamespace :: string
  B2Spec_DependsOn :: "(string \<times> string) list"
  B2Spec_Timeout :: "duration option"
  B2Spec_MaxHistory :: "int64 option"
  B2Spec_ServiceAccountName :: string
  B2Spec_PersistentClient :: "bool option"
  B2Spec_DriftDetection :: "B2_DriftDetection option"
  B2Spec_Install :: "B2_Install option"
  B2Spec_Upgrade :: "B2_Upgrade option"
  B2Spec_Test :: "B2_Test option"
  B2Spec_Rollback :: "B2_Rollback option"
  B2Spec_Uninstall :: "B2_Uninstall option"
  B2Spec_ValuesFrom :: "B2_ValuesReference list"
  B2Spec_Values :: "json option"
  B2Spec_PostRenderers :: "B2_PostRenderer list option"

record B2_HelmReleaseStatus =
  B2St_ObservedGeneration :: int64
  B2St_ObservedPostRenderersDigest :: string
  B2St_LastAttemptedGeneration :: int64
  B2St_Conditions :: "Condition list"
  B2St_HelmChart :: string
  B2St_StorageNamespace :: string
  B2St_History :: Snapshots
  B2St_LastAttemptedReleaseAction :: B2_ReleaseAction
  B2St_Failures :: int64
  B2St_InstallFailures :: int64
  B2St_UpgradeFailures :: int64
  B2St_LastAppliedRevision :: string
  B2St_LastAttemptedRevision :: string
  B2St_LastAttemptedRevisionDigest :: string
  B2St_LastAttemptedValuesChecksum :: string
  B2St_LastReleaseRevision :: int64
  B2St_LastAttemptedConfigDigest :: string
  B2St_LastHandledForceAt :: string
  B2St_LastHandledResetAt :: string
  B2St_LastHandledReconcileAt :: string

record B2_HelmRelease =
  B2_Name :: string
  B2_Namespace :: string
  B2_Generation :: int64
  B2_DeletionTimestamp :: "time option"
  B2_Annotations :: strmap
  B2_Finalizers :: "string list"
  B2_Spec :: B2_HelmReleaseSpec
  B2_Status :: B2_HelmReleaseStatus

definition B2_with_status ::
  "(B2_HelmReleaseStatus \<Rightarrow> B2_HelmReleaseStatus) \<Rightarrow> B2_HelmRelease \<Rightarrow> B2_HelmRelease" where
  "B2_with_status f hr = hr\<lparr>B2_Status := f (B2_Status hr)\<rparr>"

definition B2_ClearHistory :: "B2_HelmReleaseStatus \<Rightarrow> B2_HelmReleaseStatus" where
  "B2_ClearHistory st = st\<lparr>B2St_History := []\<rparr>"

definition B2_ClearFailures :: "B2_HelmReleaseStatus \<Rightarrow> B2_HelmReleaseStatus" where
  "B2_ClearFailures st = st\<lparr>B2St_Failures := 0, B2St_InstallFailures := 0, B2St_UpgradeFailures := 0\<rparr>"

definition B2_Status_GetHelmChart :: "B2_HelmReleaseStatus \<Rightarrow> string \<times> string" where
  "B2_Status_GetHelmChart st =
     (if B2St_HelmChart st = '''' then ('''', '''')
      else (case Split (B2St_HelmChart st) (CHR ''/'') of
          a # b # _ \<Rightarrow> (a, b)
        | _ \<Rightarrow> ('''', '''')))"

definition B2_GetLastAttemptedRevision :: "B2_HelmReleaseStatus \<Rightarrow> string" where
  "B2_GetLastAttemptedRevision st = B2St_LastAttemptedRevision st"

definition B2_GetDriftDetection :: "B2_HelmRelease \<Rightarrow> B2_DriftDetection" where
  "B2_GetDriftDetection hr = (case B2Spec_DriftDetection (B2_Spec hr) of None \<Rightarrow> DriftDetection_zero | Some d \<Rightarrow> d)"

definition B2_GetInstall :: "B2_HelmRelease \<Rightarrow> B2_Install" where
  "B2_GetInstall hr = (case B2Spec_Install (B2_Spec hr) of None \<Rightarrow> B2_Install_zero | Some i \<Rightarrow> i)"

definition B2_GetUpgrade :: "B2_HelmRelease \<Rightarrow> B2_Upgrade" where
  "B2_GetUpgrade hr = (case B2Spec_Upgrade (B2_Spec hr) of None \<Rightarrow> B2_Upgrade_zero | Some u \<Rightarrow> u)"

definition B2_GetTest :: "B2_HelmRelease \<Rightarrow> B2_Test" where
  "B2_GetTest hr = (case B2Spec_Test (B2_Spec hr) of None \<Rightarrow> TestSpec_zero | Some t \<Rightarrow> t)"

definition B2_GetRollback :: "B2_HelmRelease \<Rightarrow> B2_Rollback" where
  "B2_GetRollback hr = (case B2Spec_Rollback (B2_Spec hr) of None \<Rightarrow> B2_Rollback_zero | Some r \<Rightarrow> r)"

definition B2_GetUninstall :: "B2_HelmRelease \<Rightarrow> B2_Uninstall" where
  "B2_GetUninstall hr = (case B2Spec_Uninstall (B2_Spec hr) of None \<Rightarrow> UninstallSpec_zero | Some u \<Rightarrow> u)"

definition B2_GetRequeueAfter :: "B2_HelmRelease \<Rightarrow> duration" where
  "B2_GetRequeueAfter hr = B2Spec_Interval (B2_Spec hr)"

definition B2_GetValues :: "B2_HelmRelease \<Rightarrow> (string \<times> json) list option" where
  "B2_GetValues hr = (case B2Spec_Values (B2_Spec hr) of Some (JObj kvs) \<Rightarrow> Some kvs | _ \<Rightarrow> None)"

definition B2_GetReleaseName :: "B2_HelmRelease \<Rightarrow> string" where
  "B2_GetReleaseName hr =
     (if B2Spec_ReleaseName (B2_Spec hr) \<noteq> '''' then B2Spec_ReleaseName (B2_Spec hr)
      else if B2Spec_TargetNamespace (B2_Spec hr) \<noteq> ''''
        then Join [B2Spec_TargetNamespace (B2_Spec hr), B2_Name hr] ''-''
      else B2_Name hr)"

definition B2_GetReleaseNamespace :: "B2_HelmRelease \<Rightarrow> string" where
  "B2_GetReleaseNamespace hr =
     (if B2Spec_TargetNamespace (B2_Spec hr) \<noteq> '''' then B2Spec_TargetNamespace (B2_Spec hr)
      else B2_Namespace hr)"

definition B2_GetStorageNamespace :: "B2_HelmRelease \<Rightarrow> string" where
  "B2_GetStorageNamespace hr =
     (if B2Spec_StorageNamespace (B2_Spec hr) \<noteq> '''' then B2Spec_StorageNamespace (B2_Spec hr)
      else B2_Namespace hr)"

definition B2_GetHelmChartName :: "B2_HelmRelease \<Rightarrow> string" where
  "B2_GetHelmChartName hr = Join [B2_Namespace hr, B2_Name hr] ''-''"

definition B2_GetTimeout :: "B2_HelmRelease \<Rightarrow> duration" where
  "B2_GetTimeout hr = (case B2Spec_Timeout (B2_Spec hr) of None \<Rightarrow> 300 * Second | Some d \<Rightarrow> d)"

definition B2_defaultMaxHistory :: nat where "B2_defaultMaxHistory = 5"

definition B2_GetMaxHistory :: "B2_HelmRelease \<Rightarrow> int64" where
  "B2_GetMaxHistory hr = (case B2Spec_MaxHistory (B2_Spec hr) of None \<Rightarrow> int B2_defaultMaxHistory | Some n \<Rightarrow> n)"

definition B2_UsePersistentClient :: "B2_HelmRelease \<Rightarrow> bool" where
  "B2_UsePersistentClient hr = (case B2Spec_PersistentClient (B2_Spec hr) of None \<Rightarrow> True | Some b \<Rightarrow> b)"

definition B2_GetDependsOn :: "B2_HelmRelease \<Rightarrow> (string \<times> string) list" where
  "B2_GetDependsOn hr = B2Spec_DependsOn (B2_Spec hr)"

definition B2_GetConditions :: "B2_HelmRelease \<Rightarrow> Condition list" where
  "B2_GetConditions hr = B2St_Conditions (B2_Status hr)"

definition B2_SetConditions :: "Condition list \<Rightarrow> B2_HelmRelease \<Rightarrow> B2_HelmRelease" where
  "B2_SetConditions cs = B2_with_status (\<lambda>st. st\<lparr>B2St_Conditions := cs\<rparr>)"

definition B2_HasChartRef :: "B2_HelmRelease \<Rightarrow> bool" where
  "B2_HasChartRef hr \<longleftrightarrow> B2Spec_ChartRef (B2_Spec hr) \<noteq> None"

definition B2_HasChartTemplate :: "B2_HelmRelease \<Rightarrow> bool" where
  "B2_HasChartTemplate hr \<longleftrightarrow> B2Spec_Chart (B2_Spec hr) \<noteq> None"

subsection \<open>Remediation\<close>

definition B2_InstallRemediation_GetRetries :: "B2_InstallRemediation \<Rightarrow> int64" where
  "B2_InstallRemediation_GetRetries r = IRem_Retries r"

definition B2_InstallRemediation_MustIgnoreTestFailures :: "B2_InstallRemediation \<Rightarrow> bool \<Rightarrow> bool" where
  "B2_InstallRemediation_MustIgnoreTestFailures r d = (case IRem_IgnoreTestFailures r of None \<Rightarrow> d | Some b \<Rightarrow> b)"

definition B2_InstallRemediation_MustRemediateLastFailure :: "B2_InstallRemediation \<Rightarrow> bool" where
  "B2_InstallRemediation_MustRemediateLastFailure r = (case IRem_RemediateLastFailure r of None \<Rightarrow> False | Some b \<Rightarrow> b)"

definition B2_InstallRemediation_GetStrategy :: "B2_InstallRemediation \<Rightarrow> RemediationStrategy" where
  "B2_InstallRemediation_GetStrategy r = UninstallRemediationStrategy"

definition B2_InstallRemediation_GetFailureCount :: "B2_InstallRemediation \<Rightarrow> B2_HelmRelease \<Rightarrow> int64" where
  "B2_InstallRemediation_GetFailureCount r hr = B2St_InstallFailures (B2_Status hr)"

definition B2_InstallRemediation_IncrementFailureCount ::
  "B2_InstallRemediation \<Rightarrow> B2_HelmRelease \<Rightarrow> B2_HelmRelease" where
  "B2_InstallRemediation_IncrementFailureCount r =
     B2_with_status (\<lambda>st. st\<lparr>B2St_InstallFailures := inc64 (B2St_InstallFailures st)\<rparr>)"

definition B2_InstallRemediation_RetriesExhausted :: "B2_InstallRemediation \<Rightarrow> B2_HelmRelease \<Rightarrow> bool" where
  "B2_InstallRemediation_RetriesExhausted r hr \<longleftrightarrow>
     IRem_Retries r \<ge> 0 \<and> B2_InstallRemediation_GetFailureCount r hr > IRem_Retries r"

definition B2_UpgradeRemediation_GetRetries :: "B2_UpgradeRemediation \<Rightarrow> int64" where
  "B2_UpgradeRemediation_GetRetries r = URem_Retries r"

definition B2_UpgradeRemediation_MustIgnoreTestFailures :: "B2_UpgradeRemediation \<Rightarrow> bool \<Rightarrow> bool" where
  "B2_UpgradeRemediation_MustIgnoreTestFailures r d = (case URem_IgnoreTestFailures r of None \<Rightarrow> d | Some b \<Rightarrow> b)"

definition B2_UpgradeRemediation_MustRemediateLastFailure :: "B2_UpgradeRemediation \<Rightarrow> bool" where
  "B2_UpgradeRemediation_MustRemediateLastFailure r =
     (case URem_RemediateLastFailure r of None \<Rightarrow> URem_Retries r > 0 | Some b \<Rightarrow> b)"

definition B2_UpgradeRemediation_GetStrategy :: "B2_UpgradeRemediation \<Rightarrow> RemediationStrategy" where
  "B2_UpgradeRemediation_GetStrategy r = (case URem_Strategy r of None \<Rightarrow> RollbackRemediationStrategy | Some s \<Rightarrow> s)"

definition B2_UpgradeRemediation_GetFailureCount :: "B2_UpgradeRemediation \<Rightarrow> B2_HelmRelease \<Rightarrow> int64" where
  "B2_UpgradeRemediation_GetFailureCount r hr = B2St_UpgradeFailures (B2_Status hr)"

definition B2_UpgradeRemediation_IncrementFailureCount ::
  "B2_UpgradeRemediation \<Rightarrow> B2_HelmRelease \<Rightarrow> B2_HelmRelease" where
  "B2_UpgradeRemediation_IncrementFailureCount r =
     B2_with_status (\<lambda>st. st\<lparr>B2St_UpgradeFailures := inc64 (B2St_UpgradeFailures st)\<rparr>)"

definition B2_UpgradeRemediation_RetriesExhausted :: "B2_UpgradeRemediation \<Rightarrow> B2_HelmRelease \<Rightarrow> bool" where
  "B2_UpgradeRemediation_RetriesExhausted r hr \<longleftrightarrow>
     URem_Retries r \<ge> 0 \<and> B2_UpgradeRemediation_GetFailureCount r hr > URem_Retries r"

text \<open>The interface \<^verbatim>\<open>Remediation\<close> as a datatype of its implementations.\<close>

datatype B2_Remediation = B2_RemInstall B2_InstallRemediation | B2_RemUpgrade B2_UpgradeRemediation

fun B2_GetRetries :: "B2_Remediation \<Rightarrow> int64" where
  "B2_GetRetries (B2_RemInstall r) = B2_InstallRemediation_GetRetries r"
| "B2_GetRetries (B2_RemUpgrade r) = B2_UpgradeRemediation_GetRetries r"

fun B2_MustIgnoreTestFailures :: "B2_Remediation \<Rightarrow> bool \<Rightarrow> bool" where
  "B2_MustIgnoreTestFailures (B2_RemInstall r) d = B2_InstallRemediation_MustIgnoreTestFailures r d"
| "B2_MustIgnoreTestFailures (B2_RemUpgrade r) d = B2_UpgradeRemediation_MustIgnoreTestFailures r d"

fun B2_MustRemediateLastFailure :: "B2_Remediation \<Rightarrow> bool" where
  "B2_MustRemediateLastFailure (B2_RemInstall r) = B2_InstallRemediation_MustRemediateLastFailure r"
| "B2_MustRemediateLastFailure (B2_RemUpgrade r) = B2_UpgradeRemediation_MustRemediateLastFailure r"

fun B2_GetStrategy :: "B2_Remediation \<Rightarrow> RemediationStrategy" where
  "B2_GetStrategy (B2_RemInstall r) = B2_InstallRemediation_GetStrategy r"
| "B2_GetStrategy (B2_RemUpgrade r) = B2_UpgradeRemediation_GetStrategy r"

fun B2_GetFailureCount :: "B2_Remediation \<Rightarrow> B2_HelmRelease \<Rightarrow> int64" where
  "B2_GetFailureCount (B2_RemInstall r) hr = B2_InstallRemediation_GetFailureCount r hr"
| "B2_GetFailureCount (B2_RemUpgrade r) hr = B2_UpgradeRemediation_GetFailureCount r hr"

fun B2_IncrementFailureCount :: "B2_Remediation \<Rightarrow> B2_HelmRelease \<Rightarrow> B2_HelmRelease" where
  "B2_IncrementFailureCount (B2_RemInstall r) hr = B2_InstallRemediation_IncrementFailureCount r hr"
| "B2_IncrementFailureCount (B2_RemUpgrade r) hr = B2_UpgradeRemediation_IncrementFailureCount r hr"

fun B2_RetriesExhausted :: "B2_Remediation \<Rightarrow> B2_HelmRelease \<Rightarrow> bool" where
  "B2_RetriesExhausted (B2_RemInstall r) hr = B2_InstallRemediation_RetriesExhausted r hr"
| "B2_RetriesExhausted (B2_RemUpgrade r) hr = B2_UpgradeRemediation_RetriesExhausted r hr"

definition B2_Install_GetRemediation :: "B2_Install \<Rightarrow> B2_Remediation" where
  "B2_Install_GetRemediation i =
     B2_RemInstall (case B2Inst_Remediation i of None \<Rightarrow> InstallRemediation_zero | Some r \<Rightarrow> r)"

definition B2_Upgrade_GetRemediation :: "B2_Upgrade \<Rightarrow> B2_Remediation" where
  "B2_Upgrade_GetRemediation u =
     B2_RemUpgrade (case B2Upg_Remediation u of None \<Rightarrow> UpgradeRemediation_zero | Some r \<Rightarrow> r)"

definition B2_GetActiveRemediation :: "B2_HelmRelease \<Rightarrow> B2_Remediation option" where
  "B2_GetActiveRemediation hr =
     (if B2St_LastAttemptedReleaseAction (B2_Status hr) = B2_ReleaseActionInstall
      then Some (B2_Install_GetRemediation (B2_GetInstall hr))
      else if B2St_LastAttemptedReleaseAction (B2_Status hr) = B2_ReleaseActionUpgrade
      then Some (B2_Upgrade_GetRemediation (B2_GetUpgrade hr))
      else None)"

lemmas B2_remediation_defs =
  B2_InstallRemediation_GetRetries_def B2_InstallRemediation_MustIgnoreTestFailures_def
  B2_InstallRemediation_MustRemediateLastFailure_def B2_InstallRemediation_GetStrategy_def
  B2_InstallRemediation_GetFailureCount_def B2_InstallRemediation_IncrementFailureCount_def
  B2_InstallRemediation_RetriesExhausted_def B2_UpgradeRemediation_GetRetries_def
  B2_UpgradeRemediation_MustIgnoreTestFailures_def B2_UpgradeRemediation_MustRemediateLastFailure_def
  B2_UpgradeRemediation_GetStrategy_def B2_UpgradeRemediation_GetFailureCount_def
  B2_UpgradeRemediation_IncrementFailureCount_def B2_UpgradeRemediation_RetriesExhausted_def

interpretation B2_remediation: remediation B2_GetRetries B2_GetFailureCount B2_IncrementFailureCount B2_RetriesExhausted
proof unfold_locales
  fix r hr
  show "B2_RetriesExhausted r hr \<longleftrightarrow> B2_GetRetries r \<ge> 0 \<and> B2_GetFailureCount r hr > B2_GetRetries r"
    by (cases r) (simp_all add: B2_remediation_defs)
  show "B2_GetFailureCount r (B2_IncrementFailureCount r hr) = inc64 (B2_GetFailureCount r hr)"
    by (cases r) (simp_all add: B2_remediation_defs B2_with_status_def)
qed

subsection \<open>Annotation requests\<close>

definition B2_ShouldHandleResetRequest :: "B2_HelmRelease \<Rightarrow> bool \<times> B2_HelmRelease" where
  "B2_ShouldHandleResetRequest obj =
     (case handleRequest (B2_Annotations obj) ResetRequestAnnotation
             (B2St_LastHandledReconcileAt (B2_Status obj)) (B2St_LastHandledResetAt (B2_Status obj)) of
        (b, v) \<Rightarrow> (b, B2_with_status (\<lambda>st. st\<lparr>B2St_LastHandledResetAt := v\<rparr>) obj))"

definition B2_ShouldHandleForceRequest :: "B2_HelmRelease \<Rightarrow> bool \<times> B2_HelmRelease" where
  "B2_ShouldHandleForceRequest obj =
     (case handleRequest (B2_Annotations obj) ForceRequestAnnotation
             (B2St_LastHandledReconcileAt (B2_Status obj)) (B2St_LastHandledForceAt (B2_Status obj)) of
        (b, v) \<Rightarrow> (b, B2_with_status (\<lambda>st. st\<lparr>B2St_LastHandledForceAt := v\<rparr>) obj))"

subsection \<open>Snapshots\<close>

record B2_Snapshot =
  B2Snap_APIVersion :: string
  B2Snap_Digest :: string
  B2Snap_Name :: string
  B2Snap_Namespace :: string
  B2Snap_Version :: int64
  B2Snap_Status :: string
  B2Snap_ChartName :: string
  B2Snap_ChartVersion :: string
  B2Snap_ConfigDigest :: string
  B2Snap_FirstDeployed :: time
  B2Snap_LastDeployed :: time
  B2Snap_Deleted :: time
  B2Snap_TestHooks :: "test_hooks option"
  B2Snap_OCIDigest :: string

type_synonym B2_Snapshots = "B2_Snapshot list"

definition B2_FullReleaseName :: "B2_Snapshot option \<Rightarrow> string" where
  "B2_FullReleaseName s = (case s of None \<Rightarrow> ''''
     | Some s \<Rightarrow> B2Snap_Namespace s @ ''/'' @ B2Snap_Name s @ ''.v'' @ itoa (B2Snap_Version s))"

definition B2_VersionedChartName :: "B2_Snapshot option \<Rightarrow> string" where
  "B2_VersionedChartName s = (case s of None \<Rightarrow> '''' | Some s \<Rightarrow> B2Snap_ChartName s @ ''@'' @ B2Snap_ChartVersion s)"

definition B2_HasBeenTested :: "B2_Snapshot option \<Rightarrow> bool" where
  "B2_HasBeenTested s = (case s of None \<Rightarrow> False | Some s \<Rightarrow> B2Snap_TestHooks s \<noteq> None)"

definition B2_GetTestHooks :: "B2_Snapshot option \<Rightarrow> test_hooks option" where
  "B2_GetTestHooks s = (case s of None \<Rightarrow> None | Some s \<Rightarrow> B2Snap_TestHooks s)"

text \<open>The loop reads the phase of every hook it meets, also of a nil one, which panics: \<open>None\<close>.\<close>

fun B2_hook_in_phase :: "string \<Rightarrow> test_hooks \<Rightarrow> bool option" where
  "B2_hook_in_phase ph [] = Some False"
| "B2_hook_in_phase ph ((n, None) # hs) = None"
| "B2_hook_in_phase ph ((n, Some h) # hs) = (if TH_Phase h = ph then Some True else B2_hook_in_phase ph hs)"

definition B2_HasTestInPhase :: "B2_Snapshot option \<Rightarrow> string \<Rightarrow> bool option" where
  "B2_HasTestInPhase s ph = (case B2_GetTestHooks s of None \<Rightarrow> Some False | Some hs \<Rightarrow> B2_hook_in_phase ph hs)"

definition B2_SetTestHooks :: "B2_Snapshot option \<Rightarrow> test_hooks option \<Rightarrow> B2_Snapshot option" where
  "B2_SetTestHooks s hooks = (case (s, hooks) of
       (Some s, Some hs) \<Rightarrow> Some (s\<lparr>B2Snap_TestHooks := Some hs\<rparr>) | _ \<Rightarrow> s)"

definition B2_Targets :: "B2_Snapshot option \<Rightarrow> string \<Rightarrow> string \<Rightarrow> int64 \<Rightarrow> bool" where
  "B2_Targets s name ns version = (case s of None \<Rightarrow> False
     | Some s \<Rightarrow> B2Snap_Name s = name \<and> B2Snap_Namespace s = ns \<and> B2Snap_Version s = version)"

definition B2_SortByVersion :: "B2_Snapshots \<Rightarrow> B2_Snapshots" where
  "B2_SortByVersion h = SliceStable (\<lambda>a b. B2Snap_Version a > B2Snap_Version b) h"

definition B2_Latest :: "B2_Snapshots \<Rightarrow> B2_Snapshot option" where
  "B2_Latest h = head_opt (B2_SortByVersion h)"

definition B2_was_released :: "bool \<Rightarrow> B2_Snapshot \<Rightarrow> bool option" where
  "B2_was_released ignoreTests s =
     (if B2Snap_Status s = ''deployed'' \<or> B2Snap_Status s = ''superseded''
      then if ignoreTests then Some True else map_option Not (B2_HasTestInPhase (Some s) ''Failed'')
      else Some False)"

text \<open>The loops of \<^verbatim>\<open>Previous\<close> and \<^verbatim>\<open>Truncate\<close>: the snapshots up to the first released one; \<open>None\<close>
  when a test of a snapshot panics.\<close>

fun B2_through_released :: "bool \<Rightarrow> B2_Snapshots \<Rightarrow> B2_Snapshots option option" where
  "B2_through_released ig [] = Some None"
| "B2_through_released ig (s # h) = (case B2_was_released ig s of
      None \<Rightarrow> None
    | Some True \<Rightarrow> Some (Some [s])
    | Some False \<Rightarrow> map_option (map_option ((#) s)) (B2_through_released ig h))"

definition B2_Previous :: "B2_Snapshots \<Rightarrow> bool \<Rightarrow> B2_Snapshot option option" where
  "B2_Previous h ignoreTests =
     (if length h < 2 then Some None
      else map_option (map_option last) (B2_through_released ignoreTests (tl (B2_SortByVersion h))))"

definition B2_Truncate :: "B2_Snapshots \<Rightarrow> bool \<Rightarrow> B2_Snapshots option" where
  "B2_Truncate h ignoreTests =
     (if length h < 2 then Some h
      else (let s = B2_SortByVersion h
            in map_option (\<lambda>r. case r of
                   Some keep \<Rightarrow> hd s # keep
                 | None \<Rightarrow> if length s > B2_defaultMaxHistory then take B2_defaultMaxHistory s else s)
                 (B2_through_released ignoreTests (tl s))))"

end
