(* ===== verification/V2beta1.thy ===== *)
theory V2beta1
  imports V2beta2
begin

section \<open>The API version v2beta1: api/v2beta1\<close>

text \<open>
  The HelmRelease of the API version v2beta1, its accessors, and the functions that record the
  progress of a reconciliation in its status. As in \<open>V2beta2\<close>, a type with the structure of an
  already modelled one is a synonym. The functions take the HelmRelease by value and return it
  changed; \<^verbatim>\<open>apimeta.SetStatusCondition\<close> of the Kubernetes libraries is a parameter.
\<close>

subsection \<open>References and the chart template\<close>

type_synonym B1_CrossNamespaceObjectReference = CrossNamespaceObjectReference
type_synonym B1_ValuesReference = B2_ValuesReference
type_synonym B1_Kustomize = B2_Kustomize
type_synonym B1_PostRenderer = B2_PostRenderer
type_synonym B1_HelmChartTemplateObjectMeta = HelmChartTemplateObjectMeta
type_synonym B1_HelmChartTemplateVerification = B2_HelmChartTemplateVerification

definition B1_GetValuesKey :: "B1_ValuesReference \<Rightarrow> string" where
  "B1_GetValuesKey r = (if B2VR_ValuesKey r = '''' then ''values.yaml'' else B2VR_ValuesKey r)"

record B1_HelmChartTemplateSpec =
  B1TplSpec_Chart :: string
  B1TplSpec_Version :: string
  B1TplSpec_SourceRef :: B1_CrossNamespaceObjectReference
  B1TplSpec_Interval :: "duration option"
  B1TplSpec_ReconcileStrategy :: string
  B1TplSpec_ValuesFiles :: "string list"
  B1TplSpec_ValuesFile :: string
  B1TplSpec_Verify :: "B1_HelmChartTemplateVerification option"

record B1_HelmChartTemplate =
  B1Tpl_ObjectMeta :: "B1_HelmChartTemplateObjectMeta option"
  B1Tpl_Spec :: B1_HelmChartTemplateSpec

definition B1_Template_GetInterval :: "B1_HelmChartTemplate \<Rightarrow> duration \<Rightarrow> duration" where
  "B1_Template_GetInterval t d = (case B1TplSpec_Interval (B1Tpl_Spec t) of None \<Rightarrow> d | Some i \<Rightarrow> i)"

definition B1_Template_GetNamespace :: "B1_HelmChartTemplate \<Rightarrow> string \<Rightarrow> string" where
  "B1_Template_GetNamespace t d =
     (let ns = COR_Namespace (B1TplSpec_SourceRef (B1Tpl_Spec t)) in if ns = '''' then d else ns)"

subsection \<open>Action configuration\<close>

type_synonym B1_InstallRemediation = InstallRemediation
type_synonym B1_UpgradeRemediation = UpgradeRemediation
type_synonym B1_Install = B2_Install
type_synonym B1_Upgrade = B2_Upgrade
type_synonym B1_Rollback = B2_Rollback
type_synonym B1_Uninstall = UninstallSpec

record B1_Test =
  B1Test_Enable :: bool
  B1Test_Timeout :: "duration option"
  B1Test_IgnoreFailures :: bool

definition B1_Test_zero :: B1_Test where
  "B1_Test_zero = \<lparr>B1Test_Enable = False, B1Test_Timeout = None, B1Test_IgnoreFailures = False\<rparr>"

definition B1_Install_GetTimeout :: "B1_Install \<Rightarrow> duration \<Rightarrow> duration" where
  "B1_Install_GetTimeout i d = (case B2Inst_Timeout i of None \<Rightarrow> d | Some t \<Rightarrow> t)"

definition B1_Upgrade_GetTimeout :: "B1_Upgrade \<Rightarrow> duration \<Rightarrow> duration" where
  "B1_Upgrade_GetTimeout u d = (case B2Upg_Timeout u of None \<Rightarrow> d | Some t \<Rightarrow> t)"

definition B1_Test_GetTimeout :: "B1_Test \<Rightarrow> duration \<Rightarrow> duration" where
  "B1_Test_GetTimeout t d = (case B1Test_Timeout t of None \<Rightarrow> d | Some x \<Rightarrow> x)"

definition B1_Rollback_GetTimeout :: "B1_Rollback \<Rightarrow> duration \<Rightarrow> duration" where
  "B1_Rollback_GetTimeout r d = (case B2Rb_Timeout r of None \<Rightarrow> d | Some t \<Rightarrow> t)"

definition B1_Uninstall_GetTimeout :: "B1_Uninstall \<Rightarrow> duration \<Rightarrow> duration" where
  "B1_Uninstall_GetTimeout u d = (case Uni_Timeout u of None \<Rightarrow> d | Some t \<Rightarrow> t)"

definition B1_GetDeletionPropagation :: "B1_Uninstall \<Rightarrow> string" where
  "B1_GetDeletionPropagation u = (case Uni_DeletionPropagation u of None \<Rightarrow> ''background'' | Some p \<Rightarrow> p)"

subsection \<open>The HelmRelease\<close>

record B1_HelmReleaseSpec =
  B1Spec_Chart :: "B1_HelmChartTemplate option"
  B1Spec_ChartRef :: "CrossNamespaceSourceReference option"
  B1Spec_Interval :: duration
  B1Spec_KubeConfig :: "KubeConfigReference option"
  B1Spec_Suspend :: bool
  B1Spec_ReleaseName :: string
  B1Spec_TargetNamespace :: string
  B1Spec_StorageNamespace :: string
  B1Spec_DependsOn :: "(string \<times> string) list"
  B1Spec_Timeout :: "duration option"
  B1Spec_MaxHistory :: "int64 option"
  B1Spec_ServiceAccountName :: string
  B1Spec_PersistentClient :: "bool option"
  B1Spec_DriftDetection :: "B2_DriftDetection option"
  B1Spec_Install :: "B1_Install option"
  B1Spec_Upgrade :: "B1_Upgrade option"
  B1Spec_Test :: "B1_Test option"
  B1Spec_Rollback :: "B1_Rollback option"
  B1Spec_Uninstall :: "B1_Uninstall option"
  B1Spec_ValuesFrom :: "B1_ValuesReference list"
  B1Spec_Values :: "json option"
  B1Spec_PostRenderers :: "B1_PostRenderer list option"

record B1_HelmReleaseStatus =
  B1St_ObservedGeneration :: int64
  B1St_ObservedPostRenderersDigest :: string
  B1St_LastHandledReconcileAt :: string
  B1St_Conditions :: "Condition list"
  B1St_LastAppliedRevision :: string
  B1St_LastAttemptedRevision :: string
  B1St_LastAttemptedValuesChecksum :: string
  B1St_LastReleaseRevision :: int64
  B1St_HelmChart :: string
  B1St_Failures :: int64
  B1St_InstallFailures :: int64
  B1St_UpgradeFailures :: int64
  B1St_StorageNamespace :: string
  B1St_History :: Snapshots
  B1St_LastAttemptedGeneration :: int64
  B1St_LastAttemptedConfigDigest :: string
  B1St_LastAttemptedReleaseAction :: string
  B1St_LastHandledForceAt :: string
  B1St_LastHandledResetAt :: string

record B1_HelmRelease =
  B1_Name :: string
  B1_Namespace :: string
  B1_Generation :: int64
  B1_DeletionTimestamp :: "time option"
  B1_Annotations :: strmap
  B1_Finalizers :: "string list"
  B1_Spec :: B1_HelmReleaseSpec
  B1_Status :: B1_HelmReleaseStatus

definition B1_with_status ::
  "(B1_HelmReleaseStatus \<Rightarrow> B1_HelmReleaseStatus) \<Rightarrow> B1_HelmRelease \<Rightarrow> B1_HelmRelease" where
  "B1_with_status f hr = hr\<lparr>B1_Status := f (B1_Status hr)\<rparr>"

definition B1_GetInstall :: "B1_HelmReleaseSpec \<Rightarrow> B1_Install" where
  "B1_GetInstall spec = (case B1Spec_Install spec of None \<Rightarrow> B2_Install_zero | Some i \<Rightarrow> i)"

definition B1_GetUpgrade :: "B1_HelmReleaseSpec \<Rightarrow> B1_Upgrade" where
  "B1_GetUpgrade spec = (case B1Spec_Upgrade spec of None \<Rightarrow> B2_Upgrade_zero | Some u \<Rightarrow> u)"

definition B1_GetTest :: "B1_HelmReleaseSpec \<Rightarrow> B1_Test" where
  "B1_GetTest spec = (case B1Spec_Test spec of None \<Rightarrow> B1_Test_zero | Some t \<Rightarrow> t)"

definition B1_GetRollback :: "B1_HelmReleaseSpec \<Rightarrow> B1_Rollback" where
  "B1_GetRollback spec = (case B1Spec_Rollback spec of None \<Rightarrow> B2_Rollback_zero | Some r \<Rightarrow> r)"

definition B1_GetUninstall :: "B1_HelmReleaseSpec \<Rightarrow> B1_Uninstall" where
  "B1_GetUninstall spec = (case B1Spec_Uninstall spec of None \<Rightarrow> UninstallSpec_zero | Some u \<Rightarrow> u)"

definition B1_Status_GetHelmChart :: "B1_HelmReleaseStatus \<Rightarrow> string \<times> string" where
  "B1_Status_GetHelmChart st =
     (if B1St_HelmChart st = '''' then ('''', '''')
      else (case Split (B1St_HelmChart st) (CHR ''/'') of
          a # b # _ \<Rightarrow> (a, b)
        | _ \<Rightarrow> ('''', '''')))"

definition B1_GetRequeueAfter :: "B1_HelmRelease \<Rightarrow> duration" where
  "B1_GetRequeueAfter hr = B1Spec_Interval (B1_Spec hr)"

definition B1_GetValues :: "B1_HelmRelease \<Rightarrow> (string \<times> json) list option" where
  "B1_GetValues hr = (case B1Spec_Values (B1_Spec hr) of Some (JObj kvs) \<Rightarrow> Some kvs | _ \<Rightarrow> None)"

definition B1_GetReleaseName :: "B1_HelmRelease \<Rightarrow> string" where
  "B1_GetReleaseName hr =
     (if B1Spec_ReleaseName (B1_Spec hr) \<noteq> '''' then B1Spec_ReleaseName (B1_Spec hr)
      else if B1Spec_TargetNamespace (B1_Spec hr) \<noteq> ''''
        then Join [B1Spec_TargetNamespace (B1_Spec hr), B1_Name hr] ''-''
      else B1_Name hr)"

definition B1_GetReleaseNamespace :: "B1_HelmRelease \<Rightarrow> string" where
  "B1_GetReleaseNamespace hr =
     (if B1Spec_TargetNamespace (B1_Spec hr) \<noteq> '''' then B1Spec_TargetNamespace (B1_Spec hr)
      else B1_Namespace hr)"

definition B1_GetStorageNamespace :: "B1_HelmRelease \<Rightarrow> string" where
  "B1_GetStorageNamespace hr =
     (if B1Spec_StorageNamespace (B1_Spec hr) \<noteq> '''' then B1Spec_StorageNamespace (B1_Spec hr)
      else B1_Namespace hr)"

definition B1_GetHelmChartName :: "B1_HelmRelease \<Rightarrow> string" where
  "B1_GetHelmChartName hr = Join [B1_Namespace hr, B1_Name hr] ''-''"

definition B1_GetTimeout :: "B1_HelmRelease \<Rightarrow> duration" where
  "B1_GetTimeout hr = (case B1Spec_Timeout (B1_Spec hr) of None \<Rightarrow> 300 * Second | Some d \<Rightarrow> d)"

definition B1_GetMaxHistory :: "B1_HelmRelease \<Rightarrow> int64" where
  "B1_GetMaxHistory hr = (case B1Spec_MaxHistory (B1_Spec hr) of None \<Rightarrow> 10 | Some n \<Rightarrow> n)"

definition B1_UsePersistentClient :: "B1_HelmRelease \<Rightarrow> bool" where
  "B1_UsePersistentClient hr = (case B1Spec_PersistentClient (B1_Spec hr) of None \<Rightarrow> True | Some b \<Rightarrow> b)"

definition B1_GetDependsOn :: "B1_HelmRelease \<Rightarrow> (string \<times> string) list" where
  "B1_GetDependsOn hr = B1Spec_DependsOn (B1_Spec hr)"

definition B1_GetConditions :: "B1_HelmRelease \<Rightarrow> Condition list" where
  "B1_GetConditions hr = B1St_Conditions (B1_Status hr)"

definition B1_SetConditions :: "Condition list \<Rightarrow> B1_HelmRelease \<Rightarrow> B1_HelmRelease" where
  "B1_SetConditions cs = B1_with_status (\<lambda>st. st\<lparr>B1St_Conditions := cs\<rparr>)"

subsection \<open>Remediation\<close>

definition B1_InstallRemediation_GetRetries :: "B1_InstallRemediation \<Rightarrow> int64" where
  "B1_InstallRemediation_GetRetries r = IRem_Retries r"

definition B1_InstallRemediation_MustIgnoreTestFailures :: "B1_InstallRemediation \<Rightarrow> bool \<Rightarrow> bool" where
  "B1_InstallRemediation_MustIgnoreTestFailures r d = (case IRem_IgnoreTestFailures r of None \<Rightarrow> d | Some b \<Rightarrow> b)"

definition B1_InstallRemediation_MustRemediateLastFailure :: "B1_InstallRemediation \<Rightarrow> bool" where
  "B1_InstallRemediation_MustRemediateLastFailure r = (case IRem_RemediateLastFailure r of None \<Rightarrow> False | Some b \<Rightarrow> b)"

definition B1_InstallRemediation_GetStrategy :: "B1_InstallRemediation \<Rightarrow> RemediationStrategy" where
  "B1_InstallRemediation_GetStrategy r = UninstallRemediationStrategy"

definition B1_InstallRemediation_GetFailureCount :: "B1_InstallRemediation \<Rightarrow> B1_HelmRelease \<Rightarrow> int64" where
  "B1_InstallRemediation_GetFailureCount r hr = B1St_InstallFailures (B1_Status hr)"

definition B1_InstallRemediation_IncrementFailureCount ::
  "B1_InstallRemediation \<Rightarrow> B1_HelmRelease \<Rightarrow> B1_HelmRelease" where
  "B1_InstallRemediation_IncrementFailureCount r =
     B1_with_status (\<lambda>st. st\<lparr>B1St_InstallFailures := inc64 (B1St_InstallFailures st)\<rparr>)"

definition B1_InstallRemediation_RetriesExhausted :: "B1_InstallRemediation \<Rightarrow> B1_HelmRelease \<Rightarrow> bool" where
  "B1_InstallRemediation_RetriesExhausted r hr \<longleftrightarrow>
     IRem_Retries r \<ge> 0 \<and> B1_InstallRemediation_GetFailureCount r hr > IRem_Retries r"

definition B1_UpgradeRemediation_GetRetries :: "B1_UpgradeRemediation \<Rightarrow> int64" where
  "B1_UpgradeRemediation_GetRetries r = URem_Retries r"

definition B1_UpgradeRemediation_MustIgnoreTestFailures :: "B1_UpgradeRemediation \<Rightarrow> bool \<Rightarrow> bool" where
  "B1_UpgradeRemediation_MustIgnoreTestFailures r d = (case URem_IgnoreTestFailures r of None \<Rightarrow> d | Some b \<Rightarrow> b)"

definition B1_UpgradeRemediation_MustRemediateLastFailure :: "B1_UpgradeRemediation \<Rightarrow> bool" where
  "B1_UpgradeRemediation_MustRemediateLastFailure r =
     (case URem_RemediateLastFailure r of None \<Rightarrow> URem_Retries r > 0 | Some b \<Rightarrow> b)"

definition B1_UpgradeRemediation_GetStrategy :: "B1_UpgradeRemediation \<Rightarrow> RemediationStrategy" where
  "B1_UpgradeRemediation_GetStrategy r = (case URem_Strategy r of None \<Rightarrow> RollbackRemediationStrategy | Some s \<Rightarrow> s)"

definition B1_UpgradeRemediation_GetFailureCount :: "B1_UpgradeRemediation \<Rightarrow> B1_HelmRelease \<Rightarrow> int64" where
  "B1_UpgradeRemediation_GetFailureCount r hr = B1St_UpgradeFailures (B1_Status hr)"

definition B1_UpgradeRemediation_IncrementFailureCount ::
  "B1_UpgradeRemediation \<Rightarrow> B1_HelmRelease \<Rightarrow> B1_HelmRelease" where
  "B1_UpgradeRemediation_IncrementFailureCount r =
     B1_with_status (\<lambda>st. st\<lparr>B1St_UpgradeFailures := inc64 (B1St_UpgradeFailures st)\<rparr>)"

definition B1_UpgradeRemediation_RetriesExhausted :: "B1_UpgradeRemediation \<Rightarrow> B1_HelmRelease \<Rightarrow> bool" where
  "B1_UpgradeRemediation_RetriesExhausted r hr \<longleftrightarrow>
     URem_Retries r \<ge> 0 \<and> B1_UpgradeRemediation_GetFailureCount r hr > URem_Retries r"

text \<open>The interfaces \<^verbatim>\<open>Remediation\<close> and \<^verbatim>\<open>DeploymentAction\<close> as datatypes of their implementations.\<close>

datatype B1_Remediation = B1_RemInstall B1_InstallRemediation | B1_RemUpgrade B1_UpgradeRemediation
datatype B1_DeploymentAction = B1_ActInstall B1_Install | B1_ActUpgrade B1_Upgrade

fun B1_GetRetries :: "B1_Remediation \<Rightarrow> int64" where
  "B1_GetRetries (B1_RemInstall r) = B1_InstallRemediation_GetRetries r"
| "B1_GetRetries (B1_RemUpgrade r) = B1_UpgradeRemediation_GetRetries r"

fun B1_GetFailureCount :: "B1_Remediation \<Rightarrow> B1_HelmRelease \<Rightarrow> int64" where
  "B1_GetFailureCount (B1_RemInstall r) hr = B1_InstallRemediation_GetFailureCount r hr"
| "B1_GetFailureCount (B1_RemUpgrade r) hr = B1_UpgradeRemediation_GetFailureCount r hr"

fun B1_IncrementFailureCount :: "B1_Remediation \<Rightarrow> B1_HelmRelease \<Rightarrow> B1_HelmRelease" where
  "B1_IncrementFailureCount (B1_RemInstall r) hr = B1_InstallRemediation_IncrementFailureCount r hr"
| "B1_IncrementFailureCount (B1_RemUpgrade r) hr = B1_UpgradeRemediation_IncrementFailureCount r hr"

fun B1_RetriesExhausted :: "B1_Remediation \<Rightarrow> B1_HelmRelease \<Rightarrow> bool" where
  "B1_RetriesExhausted (B1_RemInstall r) hr = B1_InstallRemediation_RetriesExhausted r hr"
| "B1_RetriesExhausted (B1_RemUpgrade r) hr = B1_UpgradeRemediation_RetriesExhausted r hr"

definition B1_Install_GetRemediation :: "B1_Install \<Rightarrow> B1_Remediation" where
  "B1_Install_GetRemediation i =
     B1_RemInstall (case B2Inst_Remediation i of None \<Rightarrow> InstallRemediation_zero | Some r \<Rightarrow> r)"

definition B1_Upgrade_GetRemediation :: "B1_Upgrade \<Rightarrow> B1_Remediation" where
  "B1_Upgrade_GetRemediation u =
     B1_RemUpgrade (case B2Upg_Remediation u of None \<Rightarrow> UpgradeRemediation_zero | Some r \<Rightarrow> r)"

fun B1_GetDescription :: "B1_DeploymentAction \<Rightarrow> string" where
  "B1_GetDescription (B1_ActInstall i) = ''install''"
| "B1_GetDescription (B1_ActUpgrade u) = ''upgrade''"

fun B1_GetRemediation :: "B1_DeploymentAction \<Rightarrow> B1_Remediation" where
  "B1_GetRemediation (B1_ActInstall i) = B1_Install_GetRemediation i"
| "B1_GetRemediation (B1_ActUpgrade u) = B1_Upgrade_GetRemediation u"

lemmas B1_remediation_defs =
  B1_InstallRemediation_GetRetries_def B1_InstallRemediation_MustIgnoreTestFailures_def
  B1_InstallRemediation_MustRemediateLastFailure_def B1_InstallRemediation_GetStrategy_def
  B1_InstallRemediation_GetFailureCount_def B1_InstallRemediation_IncrementFailureCount_def
  B1_InstallRemediation_RetriesExhausted_def B1_UpgradeRemediation_GetRetries_def
  B1_UpgradeRemediation_MustIgnoreTestFailures_def B1_UpgradeRemediation_MustRemediateLastFailure_def
  B1_UpgradeRemediation_GetStrategy_def B1_UpgradeRemediation_GetFailureCount_def
  B1_UpgradeRemediation_IncrementFailureCount_def B1_UpgradeRemediation_RetriesExhausted_def

interpretation B1_remediation: remediation B1_GetRetries B1_GetFailureCount B1_IncrementFailureCount B1_RetriesExhausted
proof unfold_locales
  fix r hr
  show "B1_RetriesExhausted r hr \<longleftrightarrow> B1_GetRetries r \<ge> 0 \<and> B1_GetFailureCount r hr > B1_GetRetries r"
    by (cases r) (simp_all add: B1_remediation_defs)
  show "B1_GetFailureCount r (B1_IncrementFailureCount r hr) = inc64 (B1_GetFailureCount r hr)"
    by (cases r) (simp_all add: B1_remediation_defs B1_with_status_def)
qed

subsection \<open>The progress of a reconciliation\<close>

definition B1_inStringSlice :: "string \<Rightarrow> string list \<Rightarrow> bool" where
  "B1_inStringSlice str s = list_ex (\<lambda>v. str = v) s"

definition B1_resetFailureCounts :: "B1_HelmRelease \<Rightarrow> B1_HelmRelease" where
  "B1_resetFailureCounts =
     B1_with_status (\<lambda>st. st\<lparr>B1St_Failures := 0, B1St_InstallFailures := 0, B1St_UpgradeFailures := 0\<rparr>)"

text \<open>The Ready condition that is handed to \<^verbatim>\<open>SetStatusCondition\<close>; the unset fields are zero.\<close>

definition B1_ready :: "ConditionStatus \<Rightarrow> string \<Rightarrow> string \<Rightarrow> Condition" where
  "B1_ready status reason message =
     \<lparr>Cond_Type = ReadyCondition, Cond_Status = status, Cond_ObservedGeneration = 0,
      Cond_LastTransitionTime = 0, Cond_Reason = reason, Cond_Message = message\<rparr>"

type_synonym set_condition = "Condition \<Rightarrow> Condition list \<Rightarrow> Condition list"

definition B1_ReconciliationSucceededReason :: string where
  "B1_ReconciliationSucceededReason = ''ReconciliationSucceeded''"

definition HelmReleaseProgressing :: "set_condition \<Rightarrow> B1_HelmRelease \<Rightarrow> B1_HelmRelease" where
  "HelmReleaseProgressing sc hr =
     (let hr1 = B1_with_status (\<lambda>st. st\<lparr>B1St_Conditions := []\<rparr>) hr;
          newCondition = B1_ready ConditionUnknown ProgressingReason ''Reconciliation in progress'';
          hr2 = B1_SetConditions (sc newCondition (B1_GetConditions hr1)) hr1
      in B1_resetFailureCounts hr2)"

definition HelmReleaseNotReady :: "set_condition \<Rightarrow> B1_HelmRelease \<Rightarrow> string \<Rightarrow> string \<Rightarrow> B1_HelmRelease" where
  "HelmReleaseNotReady sc hr reason message =
     (let newCondition = B1_ready ConditionFalse reason message;
          hr1 = B1_SetConditions (sc newCondition (B1_GetConditions hr)) hr
      in B1_with_status (\<lambda>st. st\<lparr>B1St_Failures := inc64 (B1St_Failures st)\<rparr>) hr1)"

definition HelmReleaseReady :: "set_condition \<Rightarrow> B1_HelmRelease \<Rightarrow> B1_HelmRelease" where
  "HelmReleaseReady sc hr =
     (let newCondition = B1_ready ConditionTrue B1_ReconciliationSucceededReason ''Release reconciliation succeeded'';
          hr1 = B1_SetConditions (sc newCondition (B1_GetConditions hr)) hr;
          hr2 = B1_with_status (\<lambda>st. st\<lparr>B1St_LastAppliedRevision := B1St_LastAttemptedRevision st\<rparr>) hr1
      in B1_resetFailureCounts hr2)"

definition HelmReleaseRecordAttempt :: "B1_HelmRelease \<Rightarrow> string \<Rightarrow> int64 \<Rightarrow> string \<Rightarrow> B1_HelmRelease" where
  "HelmReleaseRecordAttempt hr revision releaseRevision valuesChecksum =
     B1_with_status (\<lambda>st. st\<lparr>B1St_LastAttemptedRevision := revision, B1St_LastReleaseRevision := releaseRevision,
       B1St_LastAttemptedValuesChecksum := valuesChecksum\<rparr>) hr"

definition HelmReleaseAttempted ::
  "B1_HelmRelease \<Rightarrow> string \<Rightarrow> int64 \<Rightarrow> string \<Rightarrow> B1_HelmRelease \<times> bool" where
  "HelmReleaseAttempted hr revision releaseRevision valuesChecksum =
     (let changed = (B1St_LastAttemptedRevision (B1_Status hr) \<noteq> revision \<or>
            B1St_LastReleaseRevision (B1_Status hr) \<noteq> releaseRevision \<or>
            B1St_LastAttemptedValuesChecksum (B1_Status hr) \<noteq> valuesChecksum)
      in (B1_with_status (\<lambda>st. st\<lparr>B1St_LastAttemptedRevision := revision, B1St_LastReleaseRevision := releaseRevision,
            B1St_LastAttemptedValuesChecksum := valuesChecksum\<rparr>) hr, changed))"

definition HelmReleaseChanged :: "B1_HelmRelease \<Rightarrow> string \<Rightarrow> int64 \<Rightarrow> string list \<Rightarrow> bool" where
  "HelmReleaseChanged hr revision releaseRevision valuesChecksums \<longleftrightarrow>
     B1St_LastAttemptedRevision (B1_Status hr) \<noteq> revision \<or>
     B1St_LastReleaseRevision (B1_Status hr) \<noteq> releaseRevision \<or>
     \<not> B1_inStringSlice (B1St_LastAttemptedValuesChecksum (B1_Status hr)) valuesChecksums"

text \<open>What the two functions in favour of which \<^verbatim>\<open>HelmReleaseAttempted\<close> is deprecated do together.\<close>

lemma HelmReleaseAttempted_split:
  "HelmReleaseAttempted hr r n c =
     (HelmReleaseRecordAttempt hr r n c, HelmReleaseChanged hr r n [c])"
  by (simp add: HelmReleaseAttempted_def HelmReleaseRecordAttempt_def HelmReleaseChanged_def B1_inStringSlice_def)

lemma recorded_attempt_unchanged: "c \<in> set cs \<Longrightarrow> \<not> HelmReleaseChanged (HelmReleaseRecordAttempt hr r n c) r n cs"
  by (auto simp: HelmReleaseRecordAttempt_def HelmReleaseChanged_def B1_inStringSlice_def B1_with_status_def list_ex_iff)

end
