(* ===== verification/ApiVersions.thy ===== *)
theory ApiVersions
  imports V2beta1 Sample
begin

section \<open>The API versions agree\<close>

text \<open>
  A HelmRelease is stored once and served in every version of the API: the same JSON is decoded to
  the types of the version that is asked for. \<open>v2_of\<close> takes an object of v2beta2 to the object of v2
  that has the same JSON, less the fields that v2 does not know, and \<open>b2_of\<close> takes an object of
  v2beta1 to one of v2beta2. The accessors and operations of the versions commute with them.
\<close>

subsection \<open>Decoding an object of v2beta2 as v2\<close>

definition v2_string :: "string \<Rightarrow> string \<Rightarrow> (string \<times> json) list" where
  "v2_string k v = (if v = '''' then [] else [(k, JStr v)])"

definition v2_of_values_ref :: "B2_ValuesReference \<Rightarrow> ValuesReference" where
  "v2_of_values_ref r =
     \<lparr>VR_Kind = B2VR_Kind r, VR_Name = B2VR_Name r,
      VR_Rest = JObj (v2_string ''valuesKey'' (B2VR_ValuesKey r) @ v2_string ''targetPath'' (B2VR_TargetPath r) @
        (if B2VR_Optional r then [(''optional'', JBool True)] else []))\<rparr>"

definition v2_of_post_renderer :: "B2_PostRenderer \<Rightarrow> PostRenderer" where
  "v2_of_post_renderer p = \<lparr>PR_Kustomize =
     map_option (\<lambda>k. \<lparr>Kust_Patches = B2Kust_Patches k, Kust_Images = B2Kust_Images k\<rparr>) (B2PR_Kustomize p)\<rparr>"

definition v2_of_verification :: "B2_HelmChartTemplateVerification \<Rightarrow> string \<times> json" where
  "v2_of_verification v = (B2Ver_Provider v, JObj (case B2Ver_SecretRef v of None \<Rightarrow> []
     | Some n \<Rightarrow> [(''secretRef'', JObj [(''name'', JStr n)])]))"

definition v2_of_template :: "B2_HelmChartTemplate \<Rightarrow> HelmChartTemplate" where
  "v2_of_template t =
     (let s = B2Tpl_Spec t
      in \<lparr>Tpl_Kind = '''', Tpl_ObjectMeta = B2Tpl_ObjectMeta t,
          Tpl_Spec = \<lparr>TplSpec_OCI = \<lparr>OCI_Interval = B2TplSpec_Interval s, OCI_LayerSelector = None,
              OCI_Verify = map_option v2_of_verification (B2TplSpec_Verify s), OCI_Rest = JObj []\<rparr>,
            TplSpec_Chart = B2TplSpec_Chart s, TplSpec_Version = B2TplSpec_Version s,
            TplSpec_SourceRef = Some (B2TplSpec_SourceRef s),
            TplSpec_ReconcileStrategy = B2TplSpec_ReconcileStrategy s, TplSpec_ValuesFiles = B2TplSpec_ValuesFiles s,
            TplSpec_IgnoreMissingValuesFiles = B2TplSpec_IgnoreMissingValuesFiles s\<rparr>\<rparr>)"

definition v2_of_install :: "B2_Install \<Rightarrow> InstallSpec" where
  "v2_of_install i = InstallSpec_zero
     \<lparr>Inst_Timeout := B2Inst_Timeout i, Inst_Remediation := B2Inst_Remediation i,
      Inst_DisableWait := B2Inst_DisableWait i, Inst_DisableWaitForJobs := B2Inst_DisableWaitForJobs i,
      Inst_DisableHooks := B2Inst_DisableHooks i, Inst_DisableOpenAPIValidation := B2Inst_DisableOpenAPIValidation i,
      Inst_Replace := B2Inst_Replace i, Inst_SkipCRDs := B2Inst_SkipCRDs i, Inst_CRDs := B2Inst_CRDs i,
      Inst_CreateNamespace := B2Inst_CreateNamespace i\<rparr>"

definition v2_of_upgrade :: "B2_Upgrade \<Rightarrow> UpgradeSpec" where
  "v2_of_upgrade u = UpgradeSpec_zero
     \<lparr>Upg_Timeout := B2Upg_Timeout u, Upg_Remediation := B2Upg_Remediation u,
      Upg_DisableWait := B2Upg_DisableWait u, Upg_DisableWaitForJobs := B2Upg_DisableWaitForJobs u,
      Upg_DisableHooks := B2Upg_DisableHooks u, Upg_DisableOpenAPIValidation := B2Upg_DisableOpenAPIValidation u,
      Upg_Force := B2Upg_Force u, Upg_PreserveValues := B2Upg_PreserveValues u,
      Upg_CleanupOnFail := B2Upg_CleanupOnFail u, Upg_CRDs := B2Upg_CRDs u\<rparr>"

definition v2_of_rollback :: "B2_Rollback \<Rightarrow> RollbackSpec" where
  "v2_of_rollback r = RollbackSpec_zero
     \<lparr>Rb_Timeout := B2Rb_Timeout r, Rb_DisableWait := B2Rb_DisableWait r,
      Rb_DisableWaitForJobs := B2Rb_DisableWaitForJobs r, Rb_DisableHooks := B2Rb_DisableHooks r,
      Rb_Recreate := B2Rb_Recreate r, Rb_Force := B2Rb_Force r, Rb_CleanupOnFail := B2Rb_CleanupOnFail r\<rparr>"

text \<open>A release action that v2 does not know is none of its actions.\<close>

definition v2_of_action :: "B2_ReleaseAction \<Rightarrow> ReleaseAction" where
  "v2_of_action s =
     (if s = ''install'' then ReleaseActionInstall else if s = ''upgrade'' then ReleaseActionUpgrade
      else if s = ''rollback'' then ReleaseActionRollback else if s = ''uninstall'' then ReleaseActionUninstall
      else if s = ''uninstall-remediation'' then ReleaseActionUninstallRemediation else ReleaseActionNone)"

definition v2_of_spec :: "B2_HelmReleaseSpec \<Rightarrow> HelmReleaseSpec" where
  "v2_of_spec s =
     \<lparr>Spec_Chart = map_option v2_of_template (B2Spec_Chart s), Spec_ChartRef = B2Spec_ChartRef s,
      Spec_Interval = B2Spec_Interval s, Spec_KubeConfig = B2Spec_KubeConfig s, Spec_Suspend = B2Spec_Suspend s,
      Spec_ReleaseName = B2Spec_ReleaseName s, Spec_TargetNamespace = B2Spec_TargetNamespace s,
      Spec_StorageNamespace = B2Spec_StorageNamespace s,
      Spec_DependsOn = map (\<lambda>(ns, n). \<lparr>Dep_Name = n, Dep_Namespace = ns, Dep_ReadyExpr = ''''\<rparr>) (B2Spec_DependsOn s),
      Spec_Timeout = B2Spec_Timeout s, Spec_MaxHistory = B2Spec_MaxHistory s,
      Spec_ServiceAccountName = B2Spec_ServiceAccountName s, Spec_PersistentClient = B2Spec_PersistentClient s,
      Spec_DriftDetection = B2Spec_DriftDetection s, Spec_Install = map_option v2_of_install (B2Spec_Install s),
      Spec_Upgrade = map_option v2_of_upgrade (B2Spec_Upgrade s), Spec_Test = B2Spec_Test s,
      Spec_Rollback = map_option v2_of_rollback (B2Spec_Rollback s), Spec_Uninstall = B2Spec_Uninstall s,
      Spec_ValuesFrom = map v2_of_values_ref (B2Spec_ValuesFrom s), Spec_Values = B2Spec_Values s,
      Spec_CommonMetadata = None,
      Spec_PostRenderers = map_option (map v2_of_post_renderer) (B2Spec_PostRenderers s),
      Spec_PostRenderStrategy = PostRenderStrategyUnset, Spec_WaitStrategy = None, Spec_HealthCheckExprs = []\<rparr>"

definition v2_of_status :: "B2_HelmReleaseStatus \<Rightarrow> HelmReleaseStatus" where
  "v2_of_status st =
     \<lparr>St_ObservedGeneration = B2St_ObservedGeneration st,
      St_ObservedPostRenderersDigest = B2St_ObservedPostRenderersDigest st, St_ObservedCommonMetadataDigest = '''',
      St_LastAttemptedGeneration = B2St_LastAttemptedGeneration st, St_Conditions = B2St_Conditions st,
      St_HelmChart = B2St_HelmChart st, St_StorageNamespace = B2St_StorageNamespace st,
      St_History = B2St_History st, St_Inventory = None,
      St_LastAttemptedReleaseAction = v2_of_action (B2St_LastAttemptedReleaseAction st),
      St_LastAttemptedReleaseActionDuration = None, St_Failures = B2St_Failures st,
      St_InstallFailures = B2St_InstallFailures st, St_UpgradeFailures = B2St_UpgradeFailures st,
      St_LastAttemptedRevision = B2St_LastAttemptedRevision st,
      St_LastAttemptedRevisionDigest = B2St_LastAttemptedRevisionDigest st,
      St_LastAttemptedValuesChecksum = B2St_LastAttemptedValuesChecksum st,
      St_LastReleaseRevision = B2St_LastReleaseRevision st,
      St_LastAttemptedConfigDigest = B2St_LastAttemptedConfigDigest st,
      St_LastHandledResetAt = B2St_LastHandledResetAt st,
      St_LastHandledReconcileAt = B2St_LastHandledReconcileAt st,
      St_LastHandledForceAt = B2St_LastHandledForceAt st\<rparr>"

definition v2_of :: "B2_HelmRelease \<Rightarrow> HelmRelease" where
  "v2_of b =
     \<lparr>HR_Name = B2_Name b, HR_Namespace = B2_Namespace b, HR_Generation = B2_Generation b,
      HR_DeletionTimestamp = B2_DeletionTimestamp b, HR_Annotations = B2_Annotations b,
      HR_Finalizers = B2_Finalizers b, HR_Spec = v2_of_spec (B2_Spec b), HR_Status = v2_of_status (B2_Status b)\<rparr>"

fun v2_of_remediation :: "B2_Remediation \<Rightarrow> Remediation" where
  "v2_of_remediation (B2_RemInstall r) = RemInstall r"
| "v2_of_remediation (B2_RemUpgrade r) = RemUpgrade r"

lemmas v2_of_defs = v2_of_def v2_of_spec_def v2_of_status_def

subsection \<open>The specification\<close>

text \<open>What identifies the release, and the settings with a default.\<close>

definition same_release :: "HelmRelease \<Rightarrow> B2_HelmRelease \<Rightarrow> bool" where
  "same_release hr b \<longleftrightarrow> GetReleaseName hr = B2_GetReleaseName b \<and>
     GetReleaseNamespace hr = B2_GetReleaseNamespace b \<and> GetStorageNamespace hr = B2_GetStorageNamespace b \<and>
     GetTimeout hr = B2_GetTimeout b \<and> GetMaxHistory hr = B2_GetMaxHistory b \<and>
     UsePersistentClient hr = B2_UsePersistentClient b \<and> GetRequeueAfter hr = B2_GetRequeueAfter b \<and>
     GetValues hr = B2_GetValues b \<and> GetDependsOn hr = B2_GetDependsOn b"

definition same_actions :: "HelmRelease \<Rightarrow> B2_HelmRelease \<Rightarrow> bool" where
  "same_actions hr b \<longleftrightarrow>
     (\<forall>d. Install_GetTimeout (GetInstall hr) d = B2_Install_GetTimeout (B2_GetInstall b) d \<and>
          Upgrade_GetTimeout (GetUpgrade hr) d = B2_Upgrade_GetTimeout (B2_GetUpgrade b) d \<and>
          Test_GetTimeout (GetTest hr) d = B2_Test_GetTimeout (B2_GetTest b) d \<and>
          Rollback_GetTimeout (GetRollback hr) d = B2_Rollback_GetTimeout (B2_GetRollback b) d \<and>
          Uninstall_GetTimeout (GetUninstall hr) d = B2_Uninstall_GetTimeout (B2_GetUninstall b) d) \<and>
     GetFilters (GetTest hr) = B2_GetFilters (B2_GetTest b) \<and>
     GetDeletionPropagation (GetUninstall hr) = B2_GetDeletionPropagation (B2_GetUninstall b) \<and>
     MustDetectChanges (GetDriftDetection hr) = B2_MustDetectChanges (B2_GetDriftDetection b)"

definition same_chart :: "HelmRelease \<Rightarrow> B2_HelmRelease \<Rightarrow> bool" where
  "same_chart hr b \<longleftrightarrow> HasChartRef hr = B2_HasChartRef b \<and> HasChartTemplate hr = B2_HasChartTemplate b \<and>
     GetHelmChartTemplateReference hr = map_option (\<lambda>t. \<lparr>Ref_Kind = HelmChartKind, Ref_Name = B2_GetHelmChartName b,
       Ref_Namespace = B2_Template_GetNamespace t (B2_Namespace b)\<rparr>) (B2Spec_Chart (B2_Spec b)) \<and>
     GetTemplateInterval hr = (case B2Spec_Chart (B2_Spec b) of None \<Rightarrow> B2_GetRequeueAfter b
       | Some t \<Rightarrow> B2_Template_GetInterval t (B2_GetRequeueAfter b))"

lemma v2_of_same_release: "same_release (v2_of b) b"
proof -
  have "map ((\<lambda>d. (Dep_Namespace d, Dep_Name d)) \<circ> (\<lambda>(ns, n). \<lparr>Dep_Name = n, Dep_Namespace = ns, Dep_ReadyExpr = e\<rparr>)) xs = xs"
    for e xs by (induction xs) auto
  then show ?thesis
    by (simp add: same_release_def v2_of_def v2_of_spec_def GetReleaseName_def B2_GetReleaseName_def
        GetReleaseNamespace_def B2_GetReleaseNamespace_def GetStorageNamespace_def B2_GetStorageNamespace_def
        GetTimeout_def B2_GetTimeout_def GetMaxHistory_def B2_GetMaxHistory_def defaultMaxHistory_def
        B2_defaultMaxHistory_def UsePersistentClient_def B2_UsePersistentClient_def GetRequeueAfter_def
        B2_GetRequeueAfter_def GetValues_def B2_GetValues_def GetDependsOn_def B2_GetDependsOn_def split: option.split)
qed

lemma v2_of_GetInstall: "GetInstall (v2_of b) = v2_of_install (B2_GetInstall b)"
  by (simp add: GetInstall_def B2_GetInstall_def v2_of_def v2_of_spec_def v2_of_install_def B2_Install_zero_def
      InstallSpec_zero_def split: option.split)

lemma v2_of_GetUpgrade: "GetUpgrade (v2_of b) = v2_of_upgrade (B2_GetUpgrade b)"
  by (simp add: GetUpgrade_def B2_GetUpgrade_def v2_of_def v2_of_spec_def v2_of_upgrade_def B2_Upgrade_zero_def
      UpgradeSpec_zero_def split: option.split)

lemma v2_of_GetRollback: "GetRollback (v2_of b) = v2_of_rollback (B2_GetRollback b)"
  by (simp add: GetRollback_def B2_GetRollback_def v2_of_def v2_of_spec_def v2_of_rollback_def B2_Rollback_zero_def
      RollbackSpec_zero_def split: option.split)

lemma v2_of_unchanged:
  "GetTest (v2_of b) = B2_GetTest b" "GetUninstall (v2_of b) = B2_GetUninstall b"
  "GetDriftDetection (v2_of b) = B2_GetDriftDetection b"
  by (simp_all add: GetTest_def B2_GetTest_def GetUninstall_def B2_GetUninstall_def GetDriftDetection_def
      B2_GetDriftDetection_def v2_of_def v2_of_spec_def)

lemma v2_of_same_actions: "same_actions (v2_of b) b"
  by (simp add: same_actions_def v2_of_GetInstall v2_of_GetUpgrade v2_of_GetRollback v2_of_unchanged
      v2_of_install_def v2_of_upgrade_def v2_of_rollback_def Install_GetTimeout_def B2_Install_GetTimeout_def
      Upgrade_GetTimeout_def B2_Upgrade_GetTimeout_def Test_GetTimeout_def B2_Test_GetTimeout_def
      Rollback_GetTimeout_def B2_Rollback_GetTimeout_def Uninstall_GetTimeout_def B2_Uninstall_GetTimeout_def
      GetFilters_def B2_GetFilters_def GetDeletionPropagation_def B2_GetDeletionPropagation_def
      MustDetectChanges_def B2_MustDetectChanges_def GetMode_def B2_GetMode_def)

lemma v2_of_same_chart: "same_chart (v2_of b) b"
  by (simp add: same_chart_def v2_of_def v2_of_spec_def HasChartRef_def B2_HasChartRef_def HasChartTemplate_def
      B2_HasChartTemplate_def GetHelmChartTemplateReference_def v2_of_template_def HelmChartKind_def
      B2_GetHelmChartName_def B2_Template_GetNamespace_def GetTemplateInterval_def B2_Template_GetInterval_def
      B2_GetRequeueAfter_def Let_def split: option.split)

subsection \<open>The status\<close>

text \<open>The active remediation is the same one, and its counters are those of the status.\<close>

lemma v2_of_GetRemediation:
  "Install_GetRemediation (v2_of_install i) = v2_of_remediation (B2_Install_GetRemediation i)"
  "Upgrade_GetRemediation (v2_of_upgrade u) = v2_of_remediation (B2_Upgrade_GetRemediation u)"
  by (simp_all add: Install_GetRemediation_def B2_Install_GetRemediation_def Upgrade_GetRemediation_def
      B2_Upgrade_GetRemediation_def v2_of_install_def v2_of_upgrade_def)

lemma v2_of_GetActiveRemediation:
  "GetActiveRemediation (v2_of b) = map_option v2_of_remediation (B2_GetActiveRemediation b)"
proof -
  have "St_LastAttemptedReleaseAction (HR_Status (v2_of b)) = v2_of_action (B2St_LastAttemptedReleaseAction (B2_Status b))"
    by (simp add: v2_of_def v2_of_status_def)
  then show ?thesis
    by (simp add: GetActiveRemediation_def B2_GetActiveRemediation_def v2_of_GetInstall v2_of_GetUpgrade
        v2_of_GetRemediation B2_ReleaseActionInstall_def B2_ReleaseActionUpgrade_def v2_of_action_def)
qed

lemma v2_of_with_status:
  assumes "\<And>st. v2_of_status (f st) = g (v2_of_status st)"
  shows "v2_of (B2_with_status f b) = with_status g (v2_of b)"
  using assms by (simp add: v2_of_def B2_with_status_def with_status_def)

definition same_remediation :: "Remediation \<Rightarrow> B2_Remediation \<Rightarrow> B2_HelmRelease \<Rightarrow> bool" where
  "same_remediation r' r b \<longleftrightarrow> GetRetries r' = B2_GetRetries r \<and> GetStrategy r' = B2_GetStrategy r \<and>
     MustRemediateLastFailure r' = B2_MustRemediateLastFailure r \<and>
     (\<forall>d. MustIgnoreTestFailures r' d = B2_MustIgnoreTestFailures r d) \<and>
     GetFailureCount r' (v2_of b) = B2_GetFailureCount r b \<and>
     RetriesExhausted r' (v2_of b) = B2_RetriesExhausted r b \<and>
     IncrementFailureCount r' (v2_of b) = v2_of (B2_IncrementFailureCount r b)"

lemma v2_of_same_remediation: "same_remediation (v2_of_remediation r) r b"
proof -
  have "v2_of (B2_with_status (\<lambda>st. st\<lparr>B2St_InstallFailures := inc64 (B2St_InstallFailures st)\<rparr>) b) =
      with_status (\<lambda>st. st\<lparr>St_InstallFailures := inc64 (St_InstallFailures st)\<rparr>) (v2_of b)"
    "v2_of (B2_with_status (\<lambda>st. st\<lparr>B2St_UpgradeFailures := inc64 (B2St_UpgradeFailures st)\<rparr>) b) =
      with_status (\<lambda>st. st\<lparr>St_UpgradeFailures := inc64 (St_UpgradeFailures st)\<rparr>) (v2_of b)"
    by (rule v2_of_with_status, simp add: v2_of_status_def)+
  moreover have "St_InstallFailures (HR_Status (v2_of b)) = B2St_InstallFailures (B2_Status b)"
    "St_UpgradeFailures (HR_Status (v2_of b)) = B2St_UpgradeFailures (B2_Status b)"
    by (simp_all add: v2_of_def v2_of_status_def)
  ultimately show ?thesis
    by (cases r) (simp_all add: same_remediation_def B2_remediation_defs
        InstallRemediation_MustIgnoreTestFailures_def InstallRemediation_MustRemediateLastFailure_def
        InstallRemediation_GetFailureCount_def InstallRemediation_IncrementFailureCount_def
        InstallRemediation_RetriesExhausted_def UpgradeRemediation_MustIgnoreTestFailures_def
        UpgradeRemediation_MustRemediateLastFailure_def UpgradeRemediation_GetStrategy_def
        UpgradeRemediation_GetFailureCount_def UpgradeRemediation_IncrementFailureCount_def
        UpgradeRemediation_RetriesExhausted_def)
qed

lemma v2_of_status_updates:
  "v2_of (B2_with_status B2_ClearFailures b) = with_status ClearFailures (v2_of b)"
  "v2_of (B2_with_status B2_ClearHistory b) = with_status ClearHistory (v2_of b)"
  "v2_of (B2_SetConditions cs b) = SetConditions cs (v2_of b)"
  unfolding B2_SetConditions_def SetConditions_def
  by (rule v2_of_with_status, simp add: v2_of_status_def B2_ClearFailures_def ClearFailures_def B2_ClearHistory_def
      ClearHistory_def)+

lemma v2_of_requests:
  assumes "eHandleAnnotationRequest E = handleRequest"
  shows "ShouldHandleForceRequest E (v2_of b) = map_prod id v2_of (B2_ShouldHandleForceRequest b)"
    and "ShouldHandleResetRequest E (v2_of b) = map_prod id v2_of (B2_ShouldHandleResetRequest b)"
  using assms by (simp_all add: ShouldHandleForceRequest_def ShouldHandleResetRequest_def
      B2_ShouldHandleForceRequest_def B2_ShouldHandleResetRequest_def split: prod.split)
    (simp_all add: v2_of_def v2_of_status_def B2_with_status_def with_status_def)


subsection \<open>The chart recorded in the status\<close>

text \<open>What \<^verbatim>\<open>SetChart\<close> of v2 writes for a HelmChart is read back by \<^verbatim>\<open>GetHelmChart\<close> of the older versions;
  for another kind, such as an OCIRepository, they return the kind as the namespace and the
  namespace as the name.\<close>

lemma B2_GetHelmChart_of_SetChart:
  assumes "CHR ''/'' \<notin> set (Ref_Kind r)" "CHR ''/'' \<notin> set (Ref_Namespace r)" "CHR ''/'' \<notin> set (Ref_Name r)"
    and "B2St_HelmChart st = St_HelmChart (SetChart (Some r) st')"
  shows "B2_Status_GetHelmChart st =
    (if Ref_Kind r = HelmChartKind then (Ref_Namespace r, Ref_Name r) else (Ref_Kind r, Ref_Namespace r))"
proof (cases "Ref_Kind r = HelmChartKind")
  case True
  then have "B2St_HelmChart st = Ref_Namespace r @ ''/'' @ Ref_Name r"
    using assms(4) TrimPrefix_append [of "HelmChartKind @ ''/''"] by (simp add: SetChart_def HelmChartReference_String_def)
  with True HelmChartReference_String_slashes(1) [OF assms(1-3)] show ?thesis
    by (simp add: B2_Status_GetHelmChart_def)
next
  case False
  have "CHR ''/'' \<notin> set HelmChartKind" by (simp add: HelmChartKind_def)
  then have "B2St_HelmChart st = Ref_Kind r @ ''/'' @ Ref_Namespace r @ ''/'' @ Ref_Name r"
    using False assms(4) HasPrefix_other_kind [OF assms(1)]
    by (fastforce simp: SetChart_def HelmChartReference_String_def TrimPrefix_def)
  with False HelmChartReference_String_slashes(2) [OF assms(1-3)] show ?thesis
    by (simp add: B2_Status_GetHelmChart_def)
qed

subsection \<open>The history\<close>

definition v2_of_snapshot :: "B2_Snapshot \<Rightarrow> Snapshot" where
  "v2_of_snapshot s =
     \<lparr>Snap_APIVersion = B2Snap_APIVersion s, Snap_Digest = B2Snap_Digest s, Snap_Name = B2Snap_Name s,
      Snap_Namespace = B2Snap_Namespace s, Snap_Version = B2Snap_Version s, Snap_Status = B2Snap_Status s,
      Snap_Action = ReleaseActionNone, Snap_ChartName = B2Snap_ChartName s,
      Snap_ChartVersion = B2Snap_ChartVersion s, Snap_AppVersion = '''', Snap_ConfigDigest = B2Snap_ConfigDigest s,
      Snap_FirstDeployed = B2Snap_FirstDeployed s, Snap_LastDeployed = B2Snap_LastDeployed s,
      Snap_Deleted = B2Snap_Deleted s, Snap_TestHooks = B2Snap_TestHooks s, Snap_OCIDigest = B2Snap_OCIDigest s\<rparr>"

text \<open>No test hook of a history is nil.\<close>

definition hooks_present :: "B2_Snapshots \<Rightarrow> bool" where
  "hooks_present h \<longleftrightarrow> (\<forall>s \<in> set h. case B2Snap_TestHooks s of None \<Rightarrow> True | Some hs \<Rightarrow> (\<forall>x \<in> set hs. snd x \<noteq> None))"

lemma sort_rev_map: "sort_rev lt (map f acc) (map f xs) = map f (sort_rev (\<lambda>a b. lt (f a) (f b)) acc xs)"
proof (induction xs arbitrary: acc)
  case (Cons x xs)
  have "sort_insert lt (f x) (map f acc) = map f (sort_insert (\<lambda>a b. lt (f a) (f b)) x acc)"
    by (induction acc) simp_all
  with Cons show ?case by simp
qed simp

lemma v2_of_sorted: "SortByVersion (map v2_of_snapshot h) = map v2_of_snapshot (B2_SortByVersion h)"
  using sort_rev_map [of "\<lambda>a b. Snap_Version a > Snap_Version b" v2_of_snapshot "[]" h]
  by (simp add: SortByVersion_def B2_SortByVersion_def SliceStable_def rev_map v2_of_snapshot_def)

lemma B2_hook_in_phase_list_ex:
  "\<forall>x \<in> set hs. snd x \<noteq> None \<Longrightarrow> B2_hook_in_phase ph hs = Some (list_ex (hook_in_phase ph) hs)"
  by (induction ph hs rule: B2_hook_in_phase.induct) (auto simp: hook_in_phase_def)

lemma v2_of_was_released:
  assumes "hooks_present [s]"
  shows "B2_was_released ig s = Some (was_released ig (v2_of_snapshot s))"
  using assms
  by (auto simp: B2_was_released_def was_released_def v2_of_snapshot_def snapshotStatusDeployed_def
      snapshotStatusSuperseded_def B2_HasTestInPhase_def B2_GetTestHooks_def HasTestInPhase_def GetTestHooks_def
      snapshotTestPhaseFailed_def hooks_present_def B2_hook_in_phase_list_ex split: option.split)

lemma v2_of_through_released:
  assumes "hooks_present h"
  shows "\<exists>r. B2_through_released ig h = Some r \<and>
    take_through (was_released ig) (map v2_of_snapshot h) = map_option (map v2_of_snapshot) r"
  using assms
proof (induction h)
  case (Cons s h)
  then have "hooks_present [s]" "hooks_present h" by (simp_all add: hooks_present_def)
  with Cons v2_of_was_released [of s ig] show ?case
    by (cases "was_released ig (v2_of_snapshot s)") (auto simp: option.map_comp comp_def)
qed simp

lemma hooks_present_sorted: "hooks_present h \<Longrightarrow> hooks_present (tl (B2_SortByVersion h))"
  by (cases "B2_SortByVersion h")
    (auto simp: hooks_present_def B2_SortByVersion_def dest!: arg_cong [of _ _ set])

text \<open>The history of v2beta2 agrees with that of v2 when no test hook is nil: the operations do not panic,
  and the latest release, the previous successful one and the truncated history are those of v2.\<close>

theorem v2beta2_history_agrees:
  assumes "hooks_present h"
  shows "Latest (map v2_of_snapshot h) = map_option v2_of_snapshot (B2_Latest h) \<and>
    map_option (map_option v2_of_snapshot) (B2_Previous h ig) = Some (Previous (map v2_of_snapshot h) ig) \<and>
    map_option (map v2_of_snapshot) (B2_Truncate h ig) = Some (Truncate (map v2_of_snapshot h) ig)"
proof -
  let ?s = "B2_SortByVersion h"
  have len: "length ?s = length h" by (simp add: B2_SortByVersion_def)
  obtain r where r: "B2_through_released ig (tl ?s) = Some r"
    and t: "take_through (was_released ig) (tl (SortByVersion (map v2_of_snapshot h))) = map_option (map v2_of_snapshot) r"
    using v2_of_through_released [OF hooks_present_sorted [OF assms], of ig] by (auto simp: v2_of_sorted map_tl)
  have "find (was_released ig) (tl (SortByVersion (map v2_of_snapshot h))) = map_option (v2_of_snapshot \<circ> last) r"
    using t take_through_find [of "was_released ig"] take_through_last [of "was_released ig"]
    by (cases r) (force simp: last_map)+
  moreover have "hd (map v2_of_snapshot ?s) = v2_of_snapshot (hd ?s)" if "2 \<le> length h"
    using that len by (intro list.map_sel) auto
  ultimately show ?thesis
    using r t len by (auto simp: Latest_def B2_Latest_def v2_of_sorted head_opt_def B2_Previous_def Previous_def
        B2_Truncate_def Truncate_def option.map_comp take_map B2_defaultMaxHistory_def defaultMaxHistory_def
        split: list.split option.split)
qed

subsection \<open>Decoding an object of v2beta1 as v2beta2\<close>

definition b2_of_template :: "B1_HelmChartTemplate \<Rightarrow> B2_HelmChartTemplate" where
  "b2_of_template t =
     (let s = B1Tpl_Spec t
      in \<lparr>B2Tpl_ObjectMeta = B1Tpl_ObjectMeta t,
          B2Tpl_Spec = \<lparr>B2TplSpec_Chart = B1TplSpec_Chart s, B2TplSpec_Version = B1TplSpec_Version s,
            B2TplSpec_SourceRef = B1TplSpec_SourceRef s, B2TplSpec_Interval = B1TplSpec_Interval s,
            B2TplSpec_ReconcileStrategy = B1TplSpec_ReconcileStrategy s, B2TplSpec_ValuesFiles = B1TplSpec_ValuesFiles s,
            B2TplSpec_ValuesFile = B1TplSpec_ValuesFile s, B2TplSpec_IgnoreMissingValuesFiles = False,
            B2TplSpec_Verify = B1TplSpec_Verify s\<rparr>\<rparr>)"

definition b2_of_test :: "B1_Test \<Rightarrow> B2_Test" where
  "b2_of_test t = TestSpec_zero\<lparr>Test_Enable := B1Test_Enable t, Test_Timeout := B1Test_Timeout t,
     Test_IgnoreFailures := B1Test_IgnoreFailures t\<rparr>"

definition b2_of_spec :: "B1_HelmReleaseSpec \<Rightarrow> B2_HelmReleaseSpec" where
  "b2_of_spec s =
     \<lparr>B2Spec_Chart = map_option b2_of_template (B1Spec_Chart s), B2Spec_ChartRef = B1Spec_ChartRef s,
      B2Spec_Interval = B1Spec_Interval s, B2Spec_KubeConfig = B1Spec_KubeConfig s, B2Spec_Suspend = B1Spec_Suspend s,
      B2Spec_ReleaseName = B1Spec_ReleaseName s, B2Spec_TargetNamespace = B1Spec_TargetNamespace s,
      B2Spec_StorageNamespace = B1Spec_StorageNamespace s, B2Spec_DependsOn = B1Spec_DependsOn s,
      B2Spec_Timeout = B1Spec_Timeout s, B2Spec_MaxHistory = B1Spec_MaxHistory s,
      B2Spec_ServiceAccountName = B1Spec_ServiceAccountName s, B2Spec_PersistentClient = B1Spec_PersistentClient s,
      B2Spec_DriftDetection = B1Spec_DriftDetection s, B2Spec_Install = B1Spec_Install s,
      B2Spec_Upgrade = B1Spec_Upgrade s, B2Spec_Test = map_option b2_of_test (B1Spec_Test s),
      B2Spec_Rollback = B1Spec_Rollback s, B2Spec_Uninstall = B1Spec_Uninstall s,
      B2Spec_ValuesFrom = B1Spec_ValuesFrom s, B2Spec_Values = B1Spec_Values s,
      B2Spec_PostRenderers = B1Spec_PostRenderers s\<rparr>"

definition b2_of_status :: "B1_HelmReleaseStatus \<Rightarrow> B2_HelmReleaseStatus" where
  "b2_of_status st =
     \<lparr>B2St_ObservedGeneration = B1St_ObservedGeneration st,
      B2St_ObservedPostRenderersDigest = B1St_ObservedPostRenderersDigest st,
      B2St_LastAttemptedGeneration = B1St_LastAttemptedGeneration st, B2St_Conditions = B1St_Conditions st,
      B2St_HelmChart = B1St_HelmChart st, B2St_StorageNamespace = B1St_StorageNamespace st,
      B2St_History = B1St_History st, B2St_LastAttemptedReleaseAction = B1St_LastAttemptedReleaseAction st,
      B2St_Failures = B1St_Failures st, B2St_InstallFailures = B1St_InstallFailures st,
      B2St_UpgradeFailures = B1St_UpgradeFailures st, B2St_LastAppliedRevision = B1St_LastAppliedRevision st,
      B2St_LastAttemptedRevision = B1St_LastAttemptedRevision st, B2St_LastAttemptedRevisionDigest = '''',
      B2St_LastAttemptedValuesChecksum = B1St_LastAttemptedValuesChecksum st,
      B2St_LastReleaseRevision = B1St_LastReleaseRevision st,
      B2St_LastAttemptedConfigDigest = B1St_LastAttemptedConfigDigest st,
      B2St_LastHandledForceAt = B1St_LastHandledForceAt st, B2St_LastHandledResetAt = B1St_LastHandledResetAt st,
      B2St_LastHandledReconcileAt = B1St_LastHandledReconcileAt st\<rparr>"

definition b2_of :: "B1_HelmRelease \<Rightarrow> B2_HelmRelease" where
  "b2_of b =
     \<lparr>B2_Name = B1_Name b, B2_Namespace = B1_Namespace b, B2_Generation = B1_Generation b,
      B2_DeletionTimestamp = B1_DeletionTimestamp b, B2_Annotations = B1_Annotations b,
      B2_Finalizers = B1_Finalizers b, B2_Spec = b2_of_spec (B1_Spec b), B2_Status = b2_of_status (B1_Status b)\<rparr>"

fun b2_of_remediation :: "B1_Remediation \<Rightarrow> B2_Remediation" where
  "b2_of_remediation (B1_RemInstall r) = B2_RemInstall r"
| "b2_of_remediation (B1_RemUpgrade r) = B2_RemUpgrade r"

text \<open>The names and settings of a release, read in v2 and in v2beta1.\<close>

definition same_as_v2beta1 :: "HelmRelease \<Rightarrow> B1_HelmRelease \<Rightarrow> bool" where
  "same_as_v2beta1 hr b \<longleftrightarrow> GetReleaseName hr = B1_GetReleaseName b \<and>
     GetReleaseNamespace hr = B1_GetReleaseNamespace b \<and> GetStorageNamespace hr = B1_GetStorageNamespace b \<and>
     GetTimeout hr = B1_GetTimeout b \<and> UsePersistentClient hr = B1_UsePersistentClient b \<and>
     GetRequeueAfter hr = B1_GetRequeueAfter b \<and> GetValues hr = B1_GetValues b \<and> GetDependsOn hr = B1_GetDependsOn b \<and>
     (\<forall>d. Install_GetTimeout (GetInstall hr) d = B1_Install_GetTimeout (B1_GetInstall (B1_Spec b)) d \<and>
          Upgrade_GetTimeout (GetUpgrade hr) d = B1_Upgrade_GetTimeout (B1_GetUpgrade (B1_Spec b)) d \<and>
          Test_GetTimeout (GetTest hr) d = B1_Test_GetTimeout (B1_GetTest (B1_Spec b)) d \<and>
          Rollback_GetTimeout (GetRollback hr) d = B1_Rollback_GetTimeout (B1_GetRollback (B1_Spec b)) d \<and>
          Uninstall_GetTimeout (GetUninstall hr) d = B1_Uninstall_GetTimeout (B1_GetUninstall (B1_Spec b)) d) \<and>
     GetDeletionPropagation (GetUninstall hr) = B1_GetDeletionPropagation (B1_GetUninstall (B1_Spec b)) \<and>
     GetHelmChartTemplateReference hr = map_option (\<lambda>t. \<lparr>Ref_Kind = HelmChartKind, Ref_Name = B1_GetHelmChartName b,
       Ref_Namespace = B1_Template_GetNamespace t (B1_Namespace b)\<rparr>) (B1Spec_Chart (B1_Spec b)) \<and>
     GetTemplateInterval hr = (case B1Spec_Chart (B1_Spec b) of None \<Rightarrow> B1_GetRequeueAfter b
       | Some t \<Rightarrow> B1_Template_GetInterval t (B1_GetRequeueAfter b))"

lemma b2_of_accessors:
  "B2_GetReleaseName (b2_of b) = B1_GetReleaseName b" "B2_GetReleaseNamespace (b2_of b) = B1_GetReleaseNamespace b"
  "B2_GetStorageNamespace (b2_of b) = B1_GetStorageNamespace b" "B2_GetTimeout (b2_of b) = B1_GetTimeout b"
  "B2_UsePersistentClient (b2_of b) = B1_UsePersistentClient b" "B2_GetRequeueAfter (b2_of b) = B1_GetRequeueAfter b"
  "B2_GetValues (b2_of b) = B1_GetValues b" "B2_GetDependsOn (b2_of b) = B1_GetDependsOn b"
  "B2_GetHelmChartName (b2_of b) = B1_GetHelmChartName b"
  by (simp_all add: b2_of_def b2_of_spec_def B2_GetReleaseName_def B1_GetReleaseName_def B2_GetReleaseNamespace_def
      B1_GetReleaseNamespace_def B2_GetStorageNamespace_def B1_GetStorageNamespace_def B2_GetTimeout_def
      B1_GetTimeout_def B2_UsePersistentClient_def B1_UsePersistentClient_def B2_GetRequeueAfter_def
      B1_GetRequeueAfter_def B2_GetValues_def B1_GetValues_def B2_GetDependsOn_def B1_GetDependsOn_def
      B2_GetHelmChartName_def B1_GetHelmChartName_def)

lemma b2_of_actions:
  "B2_GetInstall (b2_of b) = B1_GetInstall (B1_Spec b)" "B2_GetUpgrade (b2_of b) = B1_GetUpgrade (B1_Spec b)"
  "B2_GetTest (b2_of b) = b2_of_test (B1_GetTest (B1_Spec b))" "B2_GetRollback (b2_of b) = B1_GetRollback (B1_Spec b)"
  "B2_GetUninstall (b2_of b) = B1_GetUninstall (B1_Spec b)"
  by (simp_all add: b2_of_def b2_of_spec_def B2_GetInstall_def B1_GetInstall_def B2_GetUpgrade_def B1_GetUpgrade_def
      B2_GetTest_def B1_GetTest_def B2_GetRollback_def B1_GetRollback_def B2_GetUninstall_def B1_GetUninstall_def
      b2_of_test_def B1_Test_zero_def TestSpec_zero_def split: option.split)

lemma b2_of_timeouts:
  "B2_Install_GetTimeout i d = B1_Install_GetTimeout i d" "B2_Upgrade_GetTimeout u d = B1_Upgrade_GetTimeout u d"
  "B2_Test_GetTimeout (b2_of_test t) d = B1_Test_GetTimeout t d"
  "B2_Rollback_GetTimeout r d = B1_Rollback_GetTimeout r d" "B2_Uninstall_GetTimeout n d = B1_Uninstall_GetTimeout n d"
  "B2_GetDeletionPropagation n = B1_GetDeletionPropagation n"
  by (simp_all add: B2_Install_GetTimeout_def B1_Install_GetTimeout_def B2_Upgrade_GetTimeout_def
      B1_Upgrade_GetTimeout_def B2_Test_GetTimeout_def B1_Test_GetTimeout_def B2_Rollback_GetTimeout_def
      B1_Rollback_GetTimeout_def B2_Uninstall_GetTimeout_def B1_Uninstall_GetTimeout_def
      B2_GetDeletionPropagation_def B1_GetDeletionPropagation_def b2_of_test_def)

lemma b2_of_template:
  "B2Spec_Chart (B2_Spec (b2_of b)) = map_option b2_of_template (B1Spec_Chart (B1_Spec b))"
  "B2_Template_GetNamespace (b2_of_template t) ns = B1_Template_GetNamespace t ns"
  "B2_Template_GetInterval (b2_of_template t) d = B1_Template_GetInterval t d"
  "B2_Namespace (b2_of b) = B1_Namespace b"
  by (simp_all add: b2_of_def b2_of_spec_def b2_of_template_def B2_Template_GetNamespace_def
      B1_Template_GetNamespace_def B2_Template_GetInterval_def B1_Template_GetInterval_def Let_def)

lemma b2_of_remediation_agrees:
  "B2_RetriesExhausted (b2_of_remediation r) (b2_of b) = B1_RetriesExhausted r b"
  "B2_IncrementFailureCount (b2_of_remediation r) (b2_of b) = b2_of (B1_IncrementFailureCount r b)"
  by (cases r; simp add: B1_remediation_defs B2_remediation_defs b2_of_def b2_of_status_def B1_with_status_def
      B2_with_status_def)+

text \<open>An object of v2beta1 has in v2 the release names, namespaces, settings, values, dependencies,
  timeouts and chart that it has in v2beta1, and failures are counted and retries exhausted alike. The number
  of releases that Helm keeps is the same when it is set; when it is not, v2beta1 keeps ten and v2
  keeps five.\<close>

theorem v2beta1_agrees_with_v2:
  "same_as_v2beta1 (v2_of (b2_of b)) b \<and>
   GetMaxHistory (v2_of (b2_of b)) = (if B1Spec_MaxHistory (B1_Spec b) = None then 5 else B1_GetMaxHistory b) \<and>
   (B1Spec_MaxHistory (B1_Spec b) = None \<longrightarrow> B1_GetMaxHistory b = 10) \<and>
   (\<forall>r. RetriesExhausted (v2_of_remediation (b2_of_remediation r)) (v2_of (b2_of b)) = B1_RetriesExhausted r b \<and>
        IncrementFailureCount (v2_of_remediation (b2_of_remediation r)) (v2_of (b2_of b)) =
          v2_of (b2_of (B1_IncrementFailureCount r b)))"
proof -
  note agree = v2_of_same_release [of "b2_of b"] v2_of_same_actions [of "b2_of b"] v2_of_same_chart [of "b2_of b"]
  have "same_as_v2beta1 (v2_of (b2_of b)) b"
    using agree by (simp add: same_release_def same_actions_def same_chart_def same_as_v2beta1_def b2_of_accessors
        b2_of_actions b2_of_timeouts b2_of_template option.map_comp comp_def split: option.splits)
  moreover have "RetriesExhausted (v2_of_remediation (b2_of_remediation r)) (v2_of (b2_of b)) = B1_RetriesExhausted r b \<and>
      IncrementFailureCount (v2_of_remediation (b2_of_remediation r)) (v2_of (b2_of b)) =
        v2_of (b2_of (B1_IncrementFailureCount r b))" for r
    using v2_of_same_remediation [of "b2_of_remediation r" "b2_of b"]
    by (simp add: same_remediation_def b2_of_remediation_agrees)
  ultimately show ?thesis
    by (auto simp: GetMaxHistory_def B1_GetMaxHistory_def v2_of_def v2_of_spec_def b2_of_def b2_of_spec_def
        defaultMaxHistory_def)
qed

subsection \<open>An instance\<close>

definition sample_b1 :: B1_HelmRelease where
  "sample_b1 =
     \<lparr>B1_Name = ''web'', B1_Namespace = ''apps'', B1_Generation = 1, B1_DeletionTimestamp = None, B1_Annotations = [],
      B1_Finalizers = [],
      B1_Spec = \<lparr>B1Spec_Chart = Some \<lparr>B1Tpl_ObjectMeta = None, B1Tpl_Spec = \<lparr>B1TplSpec_Chart = ''podinfo'',
          B1TplSpec_Version = ''6.x'', B1TplSpec_SourceRef = \<lparr>COR_APIVersion = '''', COR_Kind = ''HelmRepository'',
            COR_Name = ''podinfo'', COR_Namespace = ''sources''\<rparr>, B1TplSpec_Interval = None,
          B1TplSpec_ReconcileStrategy = '''', B1TplSpec_ValuesFiles = [], B1TplSpec_ValuesFile = '''',
          B1TplSpec_Verify = None\<rparr>\<rparr>,
        B1Spec_ChartRef = None, B1Spec_Interval = 5 * Minute, B1Spec_KubeConfig = None, B1Spec_Suspend = False,
        B1Spec_ReleaseName = '''', B1Spec_TargetNamespace = ''prod'', B1Spec_StorageNamespace = '''',
        B1Spec_DependsOn = [], B1Spec_Timeout = None, B1Spec_MaxHistory = None, B1Spec_ServiceAccountName = '''',
        B1Spec_PersistentClient = None, B1Spec_DriftDetection = None, B1Spec_Install = None, B1Spec_Upgrade = None,
        B1Spec_Test = None, B1Spec_Rollback = None, B1Spec_Uninstall = None, B1Spec_ValuesFrom = [],
        B1Spec_Values = None, B1Spec_PostRenderers = None\<rparr>,
      B1_Status = \<lparr>B1St_ObservedGeneration = 1, B1St_ObservedPostRenderersDigest = '''',
        B1St_LastHandledReconcileAt = '''', B1St_Conditions = [], B1St_LastAppliedRevision = '''',
        B1St_LastAttemptedRevision = '''', B1St_LastAttemptedValuesChecksum = '''', B1St_LastReleaseRevision = 0,
        B1St_HelmChart = ''sources/apps-web'', B1St_Failures = 1, B1St_InstallFailures = 1, B1St_UpgradeFailures = 0,
        B1St_StorageNamespace = '''', B1St_History = [], B1St_LastAttemptedGeneration = 1,
        B1St_LastAttemptedConfigDigest = '''', B1St_LastAttemptedReleaseAction = ''install'',
        B1St_LastHandledForceAt = '''', B1St_LastHandledResetAt = ''''\<rparr>\<rparr>"

definition sample_b2_snapshot :: "int64 \<Rightarrow> string \<Rightarrow> test_hooks option \<Rightarrow> B2_Snapshot" where
  "sample_b2_snapshot version status hooks =
     \<lparr>B2Snap_APIVersion = '''', B2Snap_Digest = '''', B2Snap_Name = ''web'', B2Snap_Namespace = ''prod'',
      B2Snap_Version = version, B2Snap_Status = status, B2Snap_ChartName = ''podinfo'', B2Snap_ChartVersion = ''6.0.0'',
      B2Snap_ConfigDigest = '''', B2Snap_FirstDeployed = 0, B2Snap_LastDeployed = 0, B2Snap_Deleted = 0,
      B2Snap_TestHooks = hooks, B2Snap_OCIDigest = ''''\<rparr>"


theorem v2beta2_history_agrees_witness:
  "let h = [sample_b2_snapshot 1 ''superseded'' None,
       sample_b2_snapshot 3 ''failed'' (Some [(''t'', Some \<lparr>TH_LastStarted = 0, TH_LastCompleted = 0, TH_Phase = ''Failed''\<rparr>)])]
   in hooks_present h \<and> Previous (map v2_of_snapshot h) False = Some (v2_of_snapshot (sample_b2_snapshot 1 ''superseded'' None))"
proof -
  let ?h = "[sample_b2_snapshot 1 ''superseded'' None,
    sample_b2_snapshot 3 ''failed'' (Some [(''t'', Some \<lparr>TH_LastStarted = 0, TH_LastCompleted = 0, TH_Phase = ''Failed''\<rparr>)])]"
  have h: "hooks_present ?h" by (simp add: hooks_present_def sample_b2_snapshot_def)
  have "B2_Previous ?h False = Some (Some (sample_b2_snapshot 1 ''superseded'' None))"
    by (simp add: B2_Previous_def B2_SortByVersion_def SliceStable_def sample_b2_snapshot_def B2_was_released_def
        B2_HasTestInPhase_def B2_GetTestHooks_def)
  with v2beta2_history_agrees [OF h, of False] h show ?thesis by (simp add: Let_def)
qed

theorem v2beta1_agrees_with_v2_witness:
  "B1_GetMaxHistory sample_b1 = 10 \<and> GetMaxHistory (v2_of (b2_of sample_b1)) = 5 \<and>
   GetReleaseName (v2_of (b2_of sample_b1)) = B1_GetReleaseName sample_b1"
proof -
  have "B1Spec_MaxHistory (B1_Spec sample_b1) = None" by (simp add: sample_b1_def)
  with v2beta1_agrees_with_v2 [of sample_b1] show ?thesis by (simp add: same_as_v2beta1_def)
qed

subsection \<open>The progress of a reconciliation in v2beta1\<close>

text \<open>What the functions rely on: the condition of the given type is set, with its status, reason and
  message, and those of the other types stay.\<close>

definition shown :: "Condition list \<Rightarrow> string \<Rightarrow> (ConditionStatus \<times> string \<times> string) option" where
  "shown cs ty = map_option (\<lambda>c. (Cond_Status c, Cond_Reason c, Cond_Message c)) (find (\<lambda>c. Cond_Type c = ty) cs)"

definition set_condition_ok :: "set_condition \<Rightarrow> bool" where
  "set_condition_ok sc \<longleftrightarrow> (\<forall>c cs ty. shown (sc c cs) ty =
     (if ty = Cond_Type c then Some (Cond_Status c, Cond_Reason c, Cond_Message c) else shown cs ty))"

lemma ready_after_attempt:
  assumes "set_condition_ok sc" and "hr' = HelmReleaseReady sc (HelmReleaseRecordAttempt hr r n c)"
  shows "shown (B1_GetConditions hr') ReadyCondition =
      Some (ConditionTrue, B1_ReconciliationSucceededReason, ''Release reconciliation succeeded'')"
    and "B1St_LastAppliedRevision (B1_Status hr') = r"
    and "\<not> HelmReleaseChanged hr' r n [c]"
    and "B1_GetFailureCount rem hr' = 0"
    and "\<not> B1_RetriesExhausted rem hr'"
  using assms
  by (cases rem; simp add: HelmReleaseReady_def HelmReleaseRecordAttempt_def HelmReleaseChanged_def B1_inStringSlice_def
      B1_SetConditions_def B1_GetConditions_def B1_resetFailureCounts_def B1_with_status_def B1_ready_def
      B1_remediation_defs set_condition_ok_def Let_def)+

lemma progressing_shows_only_ready:
  assumes "set_condition_ok sc" and "hr' = HelmReleaseProgressing sc hr"
  shows "shown (B1_GetConditions hr') ty = (if ty = ReadyCondition
      then Some (ConditionUnknown, ProgressingReason, ''Reconciliation in progress'') else None)"
    and "B1_GetFailureCount rem hr' = 0" and "B1St_Failures (B1_Status hr') = 0"
  using assms
  by (cases rem; simp add: HelmReleaseProgressing_def B1_SetConditions_def B1_GetConditions_def
      B1_resetFailureCounts_def B1_with_status_def B1_ready_def B1_remediation_defs set_condition_ok_def shown_def Let_def)+

lemma failures_counted:
  assumes "B1St_Failures (B1_Status hr) = 0" "int n < 2 ^ 63"
  shows "B1St_Failures (B1_Status (((\<lambda>hr. HelmReleaseNotReady sc hr reason message) ^^ n) hr)) = int n"
  using assms
  by (induction n) (simp_all add: HelmReleaseNotReady_def B1_SetConditions_def B1_with_status_def Let_def inc64_Suc is_int64_def)

text \<open>A nil hook of an older release makes the operations of v2beta2 panic; those of v2 skip it.\<close>

lemma nil_hook_panics:
  "let h = [sample_b2_snapshot 2 ''deployed'' None, sample_b2_snapshot 1 ''superseded'' (Some [(''t'', None)])]
   in B2_Previous h False = None \<and> B2_Truncate h False = None \<and> Previous (map v2_of_snapshot h) False \<noteq> None"
  by (simp add: B2_Previous_def B2_Truncate_def B2_SortByVersion_def SliceStable_def sample_b2_snapshot_def B2_was_released_def
      B2_HasTestInPhase_def B2_GetTestHooks_def Previous_def SortByVersion_def v2_of_snapshot_def was_released_def
      snapshotStatusDeployed_def snapshotStatusSuperseded_def HasTestInPhase_def GetTestHooks_def hook_in_phase_def)

text \<open>A release that v2 holds for tested is one that v2beta2 holds for tested; a release whose tests
  are still running only counts as tested in v2beta2.\<close>

lemma tested_in_both: "HasBeenTested (map_option v2_of_snapshot s) \<Longrightarrow> B2_HasBeenTested s"
  by (cases s) (auto simp: HasBeenTested_def B2_HasBeenTested_def v2_of_snapshot_def split: option.splits)

lemma running_tests_differ:
  "let s = sample_b2_snapshot 1 ''deployed'' (Some [(''t'', Some \<lparr>TH_LastStarted = 0, TH_LastCompleted = 0, TH_Phase = ''Running''\<rparr>)])
   in B2_HasBeenTested (Some s) \<and> \<not> HasBeenTested (Some (v2_of_snapshot s))"
  by (simp add: B2_HasBeenTested_def HasBeenTested_def sample_b2_snapshot_def v2_of_snapshot_def hook_in_phase_def
      snapshotTestPhaseFailed_def snapshotTestPhaseSucceeded_def)

end
