(* ===== verification/Startup.thy ===== *)
theory Startup
  imports ControllerProps Watches MemoryWatch
begin

section \<open>Starting the controller: main.go and internal/features/features.go\<close>

text \<open>
  \<^verbatim>\<open>main\<close> reads the command line, checks the feature gates, sets the global variables, builds the
  manager, the reconciler and its options, sets the controller up and starts the manager; every step
  that fails logs a message and exits. The model threads the world through the steps in their order; an
  exit is \<open>Inl\<close> with the logged message. What belongs to libraries (the gates, option structs and
  their validation, the manager, SPIFFE, the event recorder, the token cache) is a parameter; logging is left out.
\<close>

subsection \<open>Feature gates: internal/features\<close>

text \<open>The names of the gates that the Flux runtime and the auth package define, and the reason of the
  retired one.\<close>

record gate_names =
  FeatureGateCacheSecretsAndConfigMaps :: string
  FeatureGateAdditiveCELDependencyCheck :: string
  FeatureGateExternalArtifact :: string
  FeatureGateDisableConfigWatchers :: string
  FeatureGateDirectSourceFetch :: string
  FeatureGateObjectLevelWorkloadIdentity :: string
  FeatureGateObjectLevelWorkloadIdentityRetirementReason :: string

definition Gate_DetectDrift :: string where "Gate_DetectDrift = ''DetectDrift''"
definition Gate_CorrectDrift :: string where "Gate_CorrectDrift = ''CorrectDrift''"
definition Gate_AllowDNSLookups :: string where "Gate_AllowDNSLookups = ''AllowDNSLookups''"
definition Gate_OOMWatch :: string where "Gate_OOMWatch = ''OOMWatch''"
definition Gate_AdoptLegacyReleases :: string where "Gate_AdoptLegacyReleases = ''AdoptLegacyReleases''"
definition Gate_DisableChartDigestTracking :: string where
  "Gate_DisableChartDigestTracking = ''DisableChartDigestTracking''"
definition Gate_UseHelm3Defaults :: string where "Gate_UseHelm3Defaults = ''UseHelm3Defaults''"
definition Gate_CancelHealthCheckOnNewRevision :: string where
  "Gate_CancelHealthCheckOnNewRevision = ''CancelHealthCheckOnNewRevision''"
definition Gate_DefaultToRetryOnFailure :: string where "Gate_DefaultToRetryOnFailure = ''DefaultToRetryOnFailure''"

definition features :: "gate_names \<Rightarrow> (string \<times> bool) list" where
  "features G =
     [(FeatureGateCacheSecretsAndConfigMaps G, False), (Gate_DetectDrift, False), (Gate_CorrectDrift, False),
      (Gate_AllowDNSLookups, False), (Gate_OOMWatch, False), (Gate_AdoptLegacyReleases, False),
      (Gate_DisableChartDigestTracking, False), (FeatureGateAdditiveCELDependencyCheck G, False),
      (FeatureGateExternalArtifact G, False), (FeatureGateDisableConfigWatchers G, False),
      (FeatureGateDirectSourceFetch G, False), (Gate_UseHelm3Defaults, False),
      (Gate_CancelHealthCheckOnNewRevision, False), (Gate_DefaultToRetryOnFailure, False)]"

definition retiredFeatures :: "gate_names \<Rightarrow> (string \<times> string) list" where
  "retiredFeatures G =
     [(FeatureGateObjectLevelWorkloadIdentity G, FeatureGateObjectLevelWorkloadIdentityRetirementReason G)]"

definition FeatureGates :: "gate_names \<Rightarrow> (string \<times> bool) list \<times> (string \<times> string) list" where
  "FeatureGates G = (features G, retiredFeatures G)"

definition Disable :: "string \<Rightarrow> (string \<times> bool) list \<Rightarrow> (string \<times> bool) list" where
  "Disable f fs = (if f \<in> fst ` set fs then map (\<lambda>(k, v). (k, if k = f then False else v)) fs else fs)"

subsection \<open>The command line and the libraries\<close>

record command_line =
  metricsAddr :: string
  eventsAddr :: string
  healthAddr :: string
  concurrent :: int64
  requeueDependency :: duration
  gracefulShutdownTimeout :: duration
  httpRetry :: int64
  httpTimeout :: duration
  defaultServiceAccount :: string
  defaultKubeConfigServiceAccount :: string
  oomWatchMemoryThreshold :: "8 word"
  oomWatchInterval :: duration
  oomWatchMaxMemoryPath :: string
  oomWatchCurrentMemoryPath :: string
  snapshotDigestAlgo :: string
  overrideManagers :: "string list"
  authorizedArtifactServers :: "string list"
  authorizedEventServers :: "string list"
  spiffeBrokerEndpoint :: string
  spiffeBrokerIDs :: "string list"

definition command_line_defaults :: "digest_api \<Rightarrow> command_line" where
  "command_line_defaults D =
     \<lparr>metricsAddr = '':8080'', eventsAddr = '''', healthAddr = '':9440'', concurrent = 4,
      requeueDependency = 30 * Second, gracefulShutdownTimeout = 600 * Second, httpRetry = 9, httpTimeout = 60 * Second,
      defaultServiceAccount = '''', defaultKubeConfigServiceAccount = '''', oomWatchMemoryThreshold = 95,
      oomWatchInterval = 500 * Millisecond, oomWatchMaxMemoryPath = '''', oomWatchCurrentMemoryPath = '''',
      snapshotDigestAlgo = dCanonical D, overrideManagers = [], authorizedArtifactServers = [],
      authorizedEventServers = [], spiffeBrokerEndpoint = '''', spiffeBrokerIDs = []\<rparr>"

text \<open>The options that libraries bind to the command line, as far as \<^verbatim>\<open>main\<close> reads them.\<close>

record bound_options =
  NoCrossNamespaceRefs :: bool
  AllNamespaces :: bool
  LabelSelector :: string
  clientOptions :: ClientOptions
  LeaderElect :: bool
  TokenCacheMaxSize :: int64

record ManagerConfig =
  HealthProbeBindAddress :: string
  LeaderElection :: bool
  LeaderElectionID :: string
  GracefulShutdown :: duration
  CacheDisabledFor :: "string list"
  WatchSelector :: nat
  RecoverPanic :: bool
  MaxConcurrentReconciles :: int64
  MetricsBindAddress :: string
  DefaultNamespaces :: "string list"

text \<open>\<open>'g\<close> is the state of the gates. The context of the process is the memory watcher that may end
  it, if any. \<open>pRESTConfig\<close> is \<^verbatim>\<open>GetConfigOrDie\<close>, which exits by itself.\<close>

record ('g, 'w) startup_api =
  pSupportedFeatures :: "(string \<times> bool) list \<Rightarrow> (string \<times> string) list \<Rightarrow> gerror + 'g"
  pEnabled :: "'g \<Rightarrow> string \<Rightarrow> gerror + bool"
  pSetGlobalJitter :: "gerror option"
  pGetenv :: "string \<Rightarrow> string"
  pGetWatchSelector :: "gerror + nat"
  pGetWatchConfigsPredicate :: "gerror + nat"
  pGenerateID :: "string \<Rightarrow> string \<Rightarrow> string"
  pRESTConfig :: "gerror option"
  pNewManager :: "ManagerConfig \<Rightarrow> 'w \<Rightarrow> gerror option \<times> 'w"
  pNewX509Source :: "Watcher option \<Rightarrow> 'w \<Rightarrow> gerror option \<times> 'w"
  pBuildTLSConfig :: "string list \<Rightarrow> 'w \<Rightarrow> (gerror + nat) \<times> 'w"
  pNewBroker :: "string \<Rightarrow> string list \<Rightarrow> 'w \<Rightarrow> gerror option \<times> 'w"
  pClose :: "string \<Rightarrow> 'w \<Rightarrow> 'w"
  pNewRecorder :: "string \<Rightarrow> string \<Rightarrow> nat option \<Rightarrow> 'w \<Rightarrow> gerror option \<times> 'w"
  pNewTokenCache :: "int64 \<Rightarrow> 'w \<Rightarrow> gerror option \<times> 'w"
  pGetRateLimiter :: nat
  pStart :: "Watcher option \<Rightarrow> 'w \<Rightarrow> gerror option \<times> 'w"

text \<open>A step that fails ends the process with a message.\<close>

type_synonym ('a, 'w) startup = "(string + 'a) \<times> 'w"

definition or_exit :: "gerror + 'a \<Rightarrow> string \<Rightarrow> 'w \<Rightarrow> ('a \<Rightarrow> ('b, 'w) startup) \<Rightarrow> ('b, 'w) startup" where
  "or_exit r msg w k = (case r of Inl e \<Rightarrow> (Inl msg, w) | Inr a \<Rightarrow> k a)"

definition then_exit :: "gerror option \<times> 'w \<Rightarrow> string \<Rightarrow> ('w \<Rightarrow> ('b, 'w) startup) \<Rightarrow> ('b, 'w) startup" where
  "then_exit r msg k = (case r of (Some e, w) \<Rightarrow> (Inl msg, w) | (None, w) \<Rightarrow> k w)"

definition check_gate ::
  "('g, 'w) startup_api \<Rightarrow> 'g \<Rightarrow> string \<Rightarrow> 'w \<Rightarrow> (bool \<Rightarrow> ('b, 'w) startup) \<Rightarrow> ('b, 'w) startup" where
  "check_gate A g f w k = or_exit (pEnabled A g f) (''unable to check feature gate '' @ f) w k"

text \<open>\<^verbatim>\<open>ok, _ := features.Enabled(f)\<close>: an error counts as disabled.\<close>

definition gate_on :: "('g, 'w) startup_api \<Rightarrow> 'g \<Rightarrow> string \<Rightarrow> bool" where
  "gate_on A g f = (case pEnabled A g f of Inl e \<Rightarrow> False | Inr b \<Rightarrow> b)"

subsection \<open>The steps of main\<close>

definition controllerName :: string where "controllerName = ''helm-controller''"

record gate_values =
  gv_UseHelm3Defaults :: bool
  gv_DefaultToRetryOnFailure :: bool
  gv_CancelHealthCheckOnNewRevision :: bool

definition load_gates ::
  "('g, 'w) startup_api \<Rightarrow> gate_names \<Rightarrow> 'w \<Rightarrow> ('g \<times> gate_values \<Rightarrow> ('b, 'w) startup) \<Rightarrow> ('b, 'w) startup" where
  "load_gates A G w k =
     or_exit (case FeatureGates G of (fs, rs) \<Rightarrow> pSupportedFeatures A fs rs) ''unable to load feature gates'' w (\<lambda>g.
     check_gate A g Gate_UseHelm3Defaults w (\<lambda>helm3.
     check_gate A g Gate_DefaultToRetryOnFailure w (\<lambda>retry.
     check_gate A g Gate_CancelHealthCheckOnNewRevision w (\<lambda>cancel.
     k (g, \<lparr>gv_UseHelm3Defaults = helm3, gv_DefaultToRetryOnFailure = retry, gv_CancelHealthCheckOnNewRevision = cancel\<rparr>)))))"

record watch_values =
  wv_Namespace :: string
  wv_Selector :: nat
  wv_ConfigsPredicate :: nat
  wv_DisableCacheFor :: "string list"
  wv_LeaderElectionId :: string

definition configure_watches ::
  "('g, 'w) startup_api \<Rightarrow> gate_names \<Rightarrow> bound_options \<Rightarrow> 'g \<Rightarrow> 'w \<Rightarrow> (watch_values \<Rightarrow> ('b, 'w) startup) \<Rightarrow> ('b, 'w) startup" where
  "configure_watches A G B g w k =
     then_exit (pSetGlobalJitter A, w) ''unable to set global jitter'' (\<lambda>w.
     or_exit (pGetWatchSelector A) ''unable to configure watch label selector for manager'' w (\<lambda>sel.
     or_exit (pGetWatchConfigsPredicate A) ''unable to configure watch configs label selector for controller'' w (\<lambda>pred.
     check_gate A g (FeatureGateCacheSecretsAndConfigMaps G) w (\<lambda>shouldCache.
     let name = controllerName @ ''-'' @ ''leader-election''
     in k \<lparr>wv_Namespace = (if AllNamespaces B then '''' else pGetenv A ''RUNTIME_NAMESPACE''), wv_Selector = sel,
          wv_ConfigsPredicate = pred, wv_DisableCacheFor = (if shouldCache then [] else [''Secret'', ''ConfigMap'']),
          wv_LeaderElectionId = (if LabelSelector B \<noteq> '''' then pGenerateID A name (LabelSelector B) else name)\<rparr>))))"

text \<open>The digest algorithm: a name other than the canonical one is looked up.\<close>

definition canonical_algorithm ::
  "digest_api \<Rightarrow> command_line \<Rightarrow> 'w \<Rightarrow> (string \<Rightarrow> ('b, 'w) startup) \<Rightarrow> ('b, 'w) startup" where
  "canonical_algorithm D L w k =
     (if snapshotDigestAlgo L \<noteq> dCanonical D
      then or_exit (case AlgorithmForName D (snapshotDigestAlgo L) of Ok a \<Rightarrow> Inr a | Err e \<Rightarrow> Inl e | Panic \<Rightarrow> Inl (errors_New ''''))
             ''unable to configure canonical digest algorithm'' w k
      else k (dCanonical D))"

definition manager_config :: "command_line \<Rightarrow> bound_options \<Rightarrow> watch_values \<Rightarrow> ManagerConfig" where
  "manager_config L B v =
     \<lparr>HealthProbeBindAddress = healthAddr L, LeaderElection = LeaderElect B, LeaderElectionID = wv_LeaderElectionId v,
      GracefulShutdown = gracefulShutdownTimeout L, CacheDisabledFor = wv_DisableCacheFor v, WatchSelector = wv_Selector v,
      RecoverPanic = True, MaxConcurrentReconciles = concurrent L, MetricsBindAddress = metricsAddr L,
      DefaultNamespaces = (if wv_Namespace v \<noteq> '''' then [wv_Namespace v] else [])\<rparr>"

definition setup_oom_watcher ::
  "('g, 'w) startup_api \<Rightarrow> 'w cgroup_api \<Rightarrow> command_line \<Rightarrow> 'g \<Rightarrow> 'w \<Rightarrow> (Watcher option \<Rightarrow> ('b, 'w) startup) \<Rightarrow> ('b, 'w) startup" where
  "setup_oom_watcher A C L g w k =
     (if gate_on A g Gate_OOMWatch
      then or_exit (New_Watcher C (oomWatchMaxMemoryPath L) (oomWatchCurrentMemoryPath L) (oomWatchMemoryThreshold L)
             (oomWatchInterval L) w) ''unable to setup OOM watcher'' w (\<lambda>ow. k (Some ow))
      else k None)"

text \<open>SPIFFE: the TLS configurations of the artifact fetcher and the event server, and what is closed
  when \<^verbatim>\<open>main\<close> returns, the last opened first.\<close>

definition setup_tls ::
  "('g, 'w) startup_api \<Rightarrow> string list \<Rightarrow> string \<Rightarrow> 'w \<Rightarrow> (nat option \<Rightarrow> 'w \<Rightarrow> ('b, 'w) startup) \<Rightarrow> ('b, 'w) startup" where
  "setup_tls A ids msg w k =
     (if ids \<noteq> [] then (case pBuildTLSConfig A ids w of (Inl e, w1) \<Rightarrow> (Inl msg, w1) | (Inr t, w1) \<Rightarrow> k (Some t) w1)
      else k None w)"

definition uses_broker :: "command_line \<Rightarrow> bool" where
  "uses_broker L \<longleftrightarrow> spiffeBrokerEndpoint L \<noteq> '''' \<or> spiffeBrokerIDs L \<noteq> []"

definition setup_spiffe ::
  "('g, 'w) startup_api \<Rightarrow> command_line \<Rightarrow> Watcher option \<Rightarrow> 'w \<Rightarrow>
     (nat option \<Rightarrow> nat option \<Rightarrow> string list \<Rightarrow> 'w \<Rightarrow> ('b, 'w) startup) \<Rightarrow> ('b, 'w) startup" where
  "setup_spiffe A L ctx w k =
     (if authorizedArtifactServers L \<noteq> [] \<or> authorizedEventServers L \<noteq> [] \<or> uses_broker L
      then then_exit (pNewX509Source A ctx w) ''unable to create SPIFFE X.509 source'' (\<lambda>w.
           setup_tls A (authorizedArtifactServers L) ''unable to configure SPIFFE mTLS for the artifact fetcher'' w (\<lambda>artifactTLS w.
           setup_tls A (authorizedEventServers L) ''unable to configure SPIFFE mTLS for the event server'' w (\<lambda>eventTLS w.
           if uses_broker L
           then then_exit (pNewBroker A (spiffeBrokerEndpoint L) (spiffeBrokerIDs L) w) ''unable to create SPIFFE Broker client''
                  (k artifactTLS eventTLS [''broker'', ''source''])
           else k artifactTLS eventTLS [''source''] w)))
      else k None None [] w)"

definition setup_token_cache ::
  "('g, 'w) startup_api \<Rightarrow> bound_options \<Rightarrow> 'w \<Rightarrow> ('w \<Rightarrow> ('b, 'w) startup) \<Rightarrow> ('b, 'w) startup" where
  "setup_token_cache A B w k =
     (if TokenCacheMaxSize B > 0 then then_exit (pNewTokenCache A (TokenCacheMaxSize B) w) ''unable to create token cache'' k
      else k w)"

text \<open>What the reconciler is built with: its fields, the global variables of the process, and the options
  of its set-up.\<close>

record configuration =
  cfg_Reconciler :: HelmReleaseReconciler
  cfg_Flags :: flags
  cfg_Canonical :: string
  cfg_ArtifactServerTLS :: "nat option"
  cfg_Options :: HelmReleaseReconcilerOptions

definition new_reconciler ::
  "command_line \<Rightarrow> bound_options \<Rightarrow> gate_values \<Rightarrow> bool \<Rightarrow> bool \<Rightarrow> bool \<Rightarrow> bool \<Rightarrow> HelmReleaseReconciler" where
  "new_reconciler L B gv disableChartDigestTracking additiveCEL allowExternalArtifact directSourceFetch =
     \<lparr>AllowCrossNamespaceRef = \<not> NoCrossNamespaceRefs B, DefaultServiceAccountName = defaultServiceAccount L,
      DefaultKubeConfigServiceAccount = defaultKubeConfigServiceAccount L, ClientOpts = clientOptions B,
      DependencyRequeueInterval = requeueDependency L, ArtifactFetchRetries = httpRetry L,
      ArtifactFetchTimeout = httpTimeout L, AdditiveCELDependencyCheck = additiveCEL,
      AllowExternalArtifact = allowExternalArtifact, DefaultToRetryOnFailure = gv_DefaultToRetryOnFailure gv,
      DirectSourceFetch = directSourceFetch, DisableChartDigestTracking = disableChartDigestTracking\<rparr>"

definition process_flags :: "('g, 'w) startup_api \<Rightarrow> command_line \<Rightarrow> 'g \<Rightarrow> gate_values \<Rightarrow> flags" where
  "process_flags A L g gv =
     \<lparr>UseHelm3Defaults = gv_UseHelm3Defaults gv, AllowDNSLookups = gate_on A g Gate_AllowDNSLookups,
      defaultToRetryOnFailure = gv_DefaultToRetryOnFailure gv, fieldManager = controllerName,
      disallowedFieldManagers = overrideManagers L, ManagedFieldsManager = controllerName\<rparr>"

definition build_controller ::
  "('g, 'w) startup_api \<Rightarrow> gate_names \<Rightarrow> command_line \<Rightarrow> bound_options \<Rightarrow> 'g \<Rightarrow> gate_values \<Rightarrow> watch_values \<Rightarrow>
     string \<Rightarrow> nat option \<Rightarrow> bool \<Rightarrow> bool \<Rightarrow> 'w \<Rightarrow> (configuration \<Rightarrow> ('b, 'w) startup) \<Rightarrow> ('b, 'w) startup" where
  "build_controller A G L B g gv v algo artifactTLS digestOff celAdd w k =
     check_gate A g (FeatureGateExternalArtifact G) w (\<lambda>ext.
     check_gate A g (FeatureGateDirectSourceFetch G) w (\<lambda>direct.
     check_gate A g (FeatureGateDisableConfigWatchers G) w (\<lambda>noConfigs.
     k \<lparr>cfg_Reconciler = new_reconciler L B gv digestOff celAdd ext direct, cfg_Flags = process_flags A L g gv,
        cfg_Canonical = algo, cfg_ArtifactServerTLS = artifactTLS,
        cfg_Options = \<lparr>RateLimiter = pGetRateLimiter A, WatchConfigs = \<not> noConfigs,
          WatchConfigsPredicate = wv_ConfigsPredicate v, WatchExternalArtifacts = ext,
          CancelHealthCheckOnRequeue = gv_CancelHealthCheckOnNewRevision gv\<rparr>\<rparr>)))"

definition prepare ::
  "('g, 'w) startup_api \<Rightarrow> 'w cgroup_api \<Rightarrow> digest_api \<Rightarrow> gate_names \<Rightarrow> command_line \<Rightarrow> bound_options \<Rightarrow> 'w \<Rightarrow>
     (configuration \<Rightarrow> Watcher option \<Rightarrow> string list \<Rightarrow> 'w \<Rightarrow> ('b, 'w) startup) \<Rightarrow> ('b, 'w) startup" where
  "prepare A C D G L B w k =
     load_gates A G w (\<lambda>(g, gv).
     configure_watches A G B g w (\<lambda>v.
     check_gate A g Gate_DisableChartDigestTracking w (\<lambda>digestOff.
     check_gate A g (FeatureGateAdditiveCELDependencyCheck G) w (\<lambda>celAdd.
     canonical_algorithm D L w (\<lambda>algo.
     then_exit (pRESTConfig A, w) '''' (\<lambda>w.
     then_exit (pNewManager A (manager_config L B v) w) ''unable to start manager'' (\<lambda>w.
     setup_oom_watcher A C L g w (\<lambda>ctx.
     setup_spiffe A L ctx w (\<lambda>artifactTLS eventTLS closers w.
     then_exit (pNewRecorder A (eventsAddr L) controllerName eventTLS w) ''unable to create event recorder'' (\<lambda>w.
     setup_token_cache A B w (\<lambda>w.
     build_controller A G L B g gv v algo artifactTLS digestOff celAdd w (\<lambda>cfg. k cfg ctx closers w))))))))))))"

definition main ::
  "('g, 'w) startup_api \<Rightarrow> 'w manager_api \<Rightarrow> 'w cgroup_api \<Rightarrow> digest_api \<Rightarrow> gate_names \<Rightarrow> command_line \<Rightarrow> bound_options \<Rightarrow>
     'w \<Rightarrow> (configuration, 'w) startup" where
  "main A M C D G L B w =
     prepare A C D G L B w (\<lambda>cfg ctx closers w.
     then_exit (SetupWithManager M (cfg_Options cfg) w) ''unable to create controller'' (\<lambda>w.
     then_exit (pStart A ctx w) ''problem running manager'' (\<lambda>w.
     (Inr cfg, fold (pClose A) closers w))))"

subsection \<open>What a started process was built with\<close>

lemma or_exit_Inr: "or_exit r msg w k = (Inr x, w') \<longleftrightarrow> (\<exists>a. r = Inr a \<and> k a = (Inr x, w'))"
  by (auto simp: or_exit_def split: sum.split)

lemma then_exit_Inr: "then_exit r msg k = (Inr x, w') \<longleftrightarrow> (\<exists>w. r = (None, w) \<and> k w = (Inr x, w'))"
  by (auto simp: then_exit_def split: prod.split option.split)

lemma setup_tls_Inr:
  "setup_tls A ids msg w k = (Inr x, w') \<Longrightarrow> \<exists>t w1. k t w1 = (Inr x, w')"
  by (auto simp: setup_tls_def split: if_splits prod.splits sum.splits)

lemma setup_spiffe_Inr:
  "setup_spiffe A L ctx w k = (Inr x, w') \<Longrightarrow> \<exists>t1 t2 cs w1. k t1 t2 cs w1 = (Inr x, w')"
  by (auto simp: setup_spiffe_def then_exit_Inr split: if_splits dest!: setup_tls_Inr; metis)

lemma setup_oom_watcher_Inr:
  "setup_oom_watcher A C L g w k = (Inr x, w') \<Longrightarrow> \<exists>ctx. k ctx = (Inr x, w') \<and> (ctx \<noteq> None \<longleftrightarrow> gate_on A g Gate_OOMWatch)"
  by (auto simp: setup_oom_watcher_def or_exit_Inr split: if_splits)

lemma setup_token_cache_Inr: "setup_token_cache A B w k = (Inr x, w') \<Longrightarrow> \<exists>w1. k w1 = (Inr x, w')"
  by (auto simp: setup_token_cache_def then_exit_Inr split: if_splits)

lemma canonical_algorithm_Inr:
  assumes "canonical_algorithm D L w k = (Inr x, w')"
  shows "\<exists>algo. k algo = (Inr x, w') \<and> (algo = dCanonical D \<and> algo = snapshotDigestAlgo L \<or> AlgorithmForName D (snapshotDigestAlgo L) = Ok algo)"
  using assms by (auto simp: canonical_algorithm_def or_exit_Inr split: if_splits res.splits)

lemmas startup_inversions = or_exit_Inr then_exit_Inr check_gate_def load_gates_def configure_watches_def build_controller_def
  FeatureGates_def Let_def

text \<open>What the library of gates promises: after the supported gates were loaded, each of them is what the command
  line gives for it, or else its default.\<close>

definition gates_ok :: "('g, 'w) startup_api \<Rightarrow> (string \<times> bool) list \<Rightarrow> bool" where
  "gates_ok A given \<longleftrightarrow> (\<forall>fs rs g f d. pSupportedFeatures A fs rs = Inr g \<longrightarrow> map_of fs f = Some d \<longrightarrow>
     pEnabled A g f = Inr (case map_of given f of None \<Rightarrow> d | Some b \<Rightarrow> b))"

definition opted_in :: "(string \<times> bool) list \<Rightarrow> string \<Rightarrow> bool" where
  "opted_in given f \<longleftrightarrow> map_of given f = Some True"

lemma supported_gate:
  assumes "gates_ok A given" "pSupportedFeatures A (features G) rs = Inr g" "f \<in> fst ` set (features G)"
  shows "pEnabled A g f = Inr (opted_in given f)"
proof -
  have "map_of (features G) f = Some False" using assms(3) by (auto simp: features_def)
  with assms(1,2) show ?thesis by (fastforce simp: gates_ok_def opted_in_def split: option.split)
qed

lemma gate_supported:
  "{Gate_UseHelm3Defaults, Gate_DefaultToRetryOnFailure, Gate_CancelHealthCheckOnNewRevision, Gate_OOMWatch,
    Gate_DisableChartDigestTracking, Gate_AllowDNSLookups, FeatureGateCacheSecretsAndConfigMaps G,
    FeatureGateAdditiveCELDependencyCheck G, FeatureGateExternalArtifact G, FeatureGateDisableConfigWatchers G,
    FeatureGateDirectSourceFetch G} \<subseteq> fst ` set (features G)"
  by (simp add: features_def)

text \<open>The configuration that a command line asks for.\<close>

definition configured :: "gate_names \<Rightarrow> command_line \<Rightarrow> bound_options \<Rightarrow> (string \<times> bool) list \<Rightarrow> configuration \<Rightarrow> bool" where
  "configured G L B given cfg \<longleftrightarrow>
     cfg_Reconciler cfg =
       \<lparr>AllowCrossNamespaceRef = \<not> NoCrossNamespaceRefs B, DefaultServiceAccountName = defaultServiceAccount L,
        DefaultKubeConfigServiceAccount = defaultKubeConfigServiceAccount L, ClientOpts = clientOptions B,
        DependencyRequeueInterval = requeueDependency L, ArtifactFetchRetries = httpRetry L,
        ArtifactFetchTimeout = httpTimeout L,
        AdditiveCELDependencyCheck = opted_in given (FeatureGateAdditiveCELDependencyCheck G),
        AllowExternalArtifact = opted_in given (FeatureGateExternalArtifact G),
        DefaultToRetryOnFailure = opted_in given Gate_DefaultToRetryOnFailure,
        DirectSourceFetch = opted_in given (FeatureGateDirectSourceFetch G),
        DisableChartDigestTracking = opted_in given Gate_DisableChartDigestTracking\<rparr> \<and>
     cfg_Flags cfg =
       \<lparr>UseHelm3Defaults = opted_in given Gate_UseHelm3Defaults, AllowDNSLookups = opted_in given Gate_AllowDNSLookups,
        defaultToRetryOnFailure = opted_in given Gate_DefaultToRetryOnFailure, fieldManager = ''helm-controller'',
        disallowedFieldManagers = overrideManagers L, ManagedFieldsManager = ''helm-controller''\<rparr> \<and>
     (WatchSource KExternalArtifact [SourceRevisionChangePredicate] \<in> set (setup_watches (cfg_Options cfg)) \<longleftrightarrow>
        opted_in given (FeatureGateExternalArtifact G)) \<and>
     (WatchConfigs (cfg_Options cfg) \<longleftrightarrow> \<not> opted_in given (FeatureGateDisableConfigWatchers G)) \<and>
     (CancelHealthCheckOnRequeue (cfg_Options cfg) \<longleftrightarrow> opted_in given Gate_CancelHealthCheckOnNewRevision)"

lemma external_artifacts_watched:
  "WatchSource KExternalArtifact [SourceRevisionChangePredicate] \<in> set (setup_watches opts) \<longleftrightarrow> WatchExternalArtifacts opts"
  by (simp add: setup_watches_def)

lemma build_controller_configured:
  assumes "build_controller A G L B g gv v algo t digestOff celAdd w k = (Inr x, w')"
    and "\<And>f. f \<in> fst ` set (features G) \<Longrightarrow> pEnabled A g f = Inr (opted_in given f)"
    and "gv = \<lparr>gv_UseHelm3Defaults = opted_in given Gate_UseHelm3Defaults,
      gv_DefaultToRetryOnFailure = opted_in given Gate_DefaultToRetryOnFailure,
      gv_CancelHealthCheckOnNewRevision = opted_in given Gate_CancelHealthCheckOnNewRevision\<rparr>"
    and "digestOff = opted_in given Gate_DisableChartDigestTracking"
    and "celAdd = opted_in given (FeatureGateAdditiveCELDependencyCheck G)"
  shows "\<exists>cfg. k cfg = (Inr x, w') \<and> configured G L B given cfg \<and> cfg_Canonical cfg = algo"
  using assms gate_supported [of G]
  by (auto simp: startup_inversions configured_def new_reconciler_def process_flags_def gate_on_def controllerName_def
      external_artifacts_watched)

lemma prepare_configured:
  assumes "gates_ok A given" "prepare A C D G L B w k = (Inr x, w')"
  shows "\<exists>cfg ctx closers w1. k cfg ctx closers w1 = (Inr x, w') \<and> configured G L B given cfg \<and>
    (ctx \<noteq> None \<longleftrightarrow> opted_in given Gate_OOMWatch) \<and>
    (cfg_Canonical cfg = dCanonical D \<and> cfg_Canonical cfg = snapshotDigestAlgo L \<or>
     AlgorithmForName D (snapshotDigestAlgo L) = Ok (cfg_Canonical cfg))"
proof -
  from assms(2) obtain g where g: "pSupportedFeatures A (features G) (retiredFeatures G) = Inr g"
    by (auto simp: prepare_def startup_inversions)
  note on = supported_gate [OF assms(1) g]
  have gates: "pEnabled A g f = Inr (opted_in given f)"
    if "f \<in> {Gate_UseHelm3Defaults, Gate_DefaultToRetryOnFailure, Gate_CancelHealthCheckOnNewRevision, Gate_OOMWatch,
      Gate_DisableChartDigestTracking, FeatureGateCacheSecretsAndConfigMaps G, FeatureGateAdditiveCELDependencyCheck G}" for f
    using on gate_supported [of G] that by auto
  have oom: "gate_on A g Gate_OOMWatch = opted_in given Gate_OOMWatch" by (simp add: gate_on_def gates)
  let ?gv = "\<lparr>gv_UseHelm3Defaults = opted_in given Gate_UseHelm3Defaults,
      gv_DefaultToRetryOnFailure = opted_in given Gate_DefaultToRetryOnFailure,
      gv_CancelHealthCheckOnNewRevision = opted_in given Gate_CancelHealthCheckOnNewRevision\<rparr>"
  from assms(2) obtain v algo ctx t closers w1 where
    "build_controller A G L B g ?gv v algo t (opted_in given Gate_DisableChartDigestTracking)
       (opted_in given (FeatureGateAdditiveCELDependencyCheck G)) w1 (\<lambda>cfg. k cfg ctx closers w1) = (Inr x, w')"
    and ctx: "ctx \<noteq> None \<longleftrightarrow> opted_in given Gate_OOMWatch"
    and algo: "algo = dCanonical D \<and> algo = snapshotDigestAlgo L \<or> AlgorithmForName D (snapshotDigestAlgo L) = Ok algo"
    unfolding prepare_def load_gates_def configure_watches_def FeatureGates_def Let_def
    by (fastforce simp: or_exit_Inr then_exit_Inr check_gate_def g gates oom dest!: canonical_algorithm_Inr
        setup_oom_watcher_Inr setup_spiffe_Inr setup_token_cache_Inr)
  from build_controller_configured [OF this(1) on refl refl refl] ctx algo show ?thesis by metis
qed

text \<open>C37. When \<^verbatim>\<open>main\<close> gets as far as running the manager to its end, the reconciler, the process-wide settings and the
  watches are those that the command line asks for: each optional behaviour is on exactly if its gate was
  enabled (by default none is), artifacts of external sources are watched exactly if they are accepted,
  the memory of the process is watched exactly if asked for, and the digest algorithm is the named one and is available. With references
  across namespaces forbidden on the command line, the reconciler refuses every source in another namespace.\<close>

theorem started_as_configured:
  assumes "gates_ok A given" and "main A M C D G L B w = (Inr cfg, w')"
  shows "configured G L B given cfg \<and>
    (cfg_Canonical cfg = dCanonical D \<and> cfg_Canonical cfg = snapshotDigestAlgo L \<or>
     AlgorithmForName D (snapshotDigestAlgo L) = Ok (cfg_Canonical cfg)) \<and>
    (\<exists>ctx w1 w2. (ctx \<noteq> None \<longleftrightarrow> opted_in given Gate_OOMWatch) \<and>
       SetupWithManager M (cfg_Options cfg) w1 = (None, w2) \<and> fst (pStart A ctx w2) = None) \<and>
    (NoCrossNamespaceRefs B \<longrightarrow> (\<forall>S obj ref v. Spec_GetHelmChartReference obj = Some ref \<longrightarrow>
       Ref_Namespace ref \<noteq> HR_Namespace obj \<longrightarrow> getSource (cfg_Reconciler cfg) (S :: 'v source_api) obj v = Err (access_denied ref)))"
proof -
  from prepare_configured [OF assms(1) assms(2) [unfolded main_def]]
  obtain cfg1 ctx closers w1 where k: "then_exit (SetupWithManager M (cfg_Options cfg1) w1) ''unable to create controller'' (\<lambda>w.
      then_exit (pStart A ctx w) ''problem running manager'' (\<lambda>w. (Inr cfg1, fold (pClose A) closers w))) = (Inr cfg, w')"
    and c: "configured G L B given cfg1" "ctx \<noteq> None \<longleftrightarrow> opted_in given Gate_OOMWatch"
      "cfg_Canonical cfg1 = dCanonical D \<and> cfg_Canonical cfg1 = snapshotDigestAlgo L \<or>
       AlgorithmForName D (snapshotDigestAlgo L) = Ok (cfg_Canonical cfg1)"
    by blast
  from k obtain w2 w3 where run: "SetupWithManager M (cfg_Options cfg1) w1 = (None, w2)" "pStart A ctx w2 = (None, w3)"
    and cfg: "cfg = cfg1" by (auto simp: then_exit_Inr)
  have "NoCrossNamespaceRefs B \<longrightarrow> \<not> AllowCrossNamespaceRef (cfg_Reconciler cfg)"
    using c(1) cfg by (simp add: configured_def)
  then have "NoCrossNamespaceRefs B \<longrightarrow> (\<forall>S obj ref v. Spec_GetHelmChartReference obj = Some ref \<longrightarrow>
      Ref_Namespace ref \<noteq> HR_Namespace obj \<longrightarrow> getSource (cfg_Reconciler cfg) (S :: 'v source_api) obj v = Err (access_denied ref))"
    by (blast intro: getSource_cross_namespace)
  moreover have "\<exists>ctx w1 w2. (ctx \<noteq> None \<longleftrightarrow> opted_in given Gate_OOMWatch) \<and>
      SetupWithManager M (cfg_Options cfg) w1 = (None, w2) \<and> fst (pStart A ctx w2) = None"
    using c(2) run cfg by (metis fst_conv)
  ultimately show ?thesis using c cfg by blast
qed

subsection \<open>Exits\<close>

text \<open>A part of \<^verbatim>\<open>main\<close> with its continuation is the part run to its end and then the continuation.\<close>

definition continue :: "('a, 'w) startup \<Rightarrow> ('a \<Rightarrow> 'w \<Rightarrow> ('b, 'w) startup) \<Rightarrow> ('b, 'w) startup" where
  "continue r k = (case r of (Inl m, w) \<Rightarrow> (Inl m, w) | (Inr a, w) \<Rightarrow> k a w)"

named_theorems continue_simps

lemma continue_exit [continue_simps]:
  "continue (or_exit r msg w f) k = or_exit r msg w (\<lambda>a. continue (f a) k)"
  "continue (then_exit r' msg h) k = then_exit r' msg (\<lambda>w. continue (h w) k)"
  "continue (check_gate A g gate w f') k = check_gate A g gate w (\<lambda>b. continue (f' b) k)"
  by (auto simp: continue_def or_exit_def then_exit_def check_gate_def split: sum.split prod.split option.split)

lemma continue_steps [continue_simps]:
  "continue (load_gates A G w f1) k = load_gates A G w (\<lambda>x. continue (f1 x) k)"
  "continue (configure_watches A G B g w f2) k = configure_watches A G B g w (\<lambda>x. continue (f2 x) k)"
  "continue (canonical_algorithm D L w f3) k = canonical_algorithm D L w (\<lambda>x. continue (f3 x) k)"
  "continue (setup_oom_watcher A C L g w f4) k = setup_oom_watcher A C L g w (\<lambda>x. continue (f4 x) k)"
  "continue (setup_tls A ids msg w f5) k = setup_tls A ids msg w (\<lambda>x w. continue (f5 x w) k)"
  "continue (setup_token_cache A B w f6) k = setup_token_cache A B w (\<lambda>w. continue (f6 w) k)"
  "continue (build_controller A G L B g gv v algo t d1 d2 w f7) k = build_controller A G L B g gv v algo t d1 d2 w (\<lambda>x. continue (f7 x) k)"
  by (auto simp: load_gates_def configure_watches_def canonical_algorithm_def setup_oom_watcher_def setup_tls_def
      setup_token_cache_def build_controller_def continue_exit Let_def split: sum.split prod.split)
    (auto simp: continue_def)

lemma continue_spiffe [continue_simps]:
  "continue (setup_spiffe A L ctx w f) k = setup_spiffe A L ctx w (\<lambda>x y z w. continue (f x y z w) k)"
  by (cases "uses_broker L") (simp_all add: setup_spiffe_def continue_simps)

definition prepared ::
  "('g, 'w) startup_api \<Rightarrow> 'w cgroup_api \<Rightarrow> digest_api \<Rightarrow> gate_names \<Rightarrow> command_line \<Rightarrow> bound_options \<Rightarrow> 'w \<Rightarrow>
     (configuration \<times> Watcher option \<times> string list, 'w) startup" where
  "prepared A C D G L B w = prepare A C D G L B w (\<lambda>cfg ctx closers w. (Inr (cfg, ctx, closers), w))"

lemma prepare_prepared: "prepare A C D G L B w k = continue (prepared A C D G L B w) (\<lambda>(cfg, ctx, closers). k cfg ctx closers)"
  by (simp add: prepared_def prepare_def continue_simps split_beta') (simp add: continue_def)

lemma start_free_fields:
  "pSupportedFeatures (A\<lparr>pStart := s\<rparr>) = pSupportedFeatures A" "pEnabled (A\<lparr>pStart := s\<rparr>) = pEnabled A"
  "pSetGlobalJitter (A\<lparr>pStart := s\<rparr>) = pSetGlobalJitter A" "pGetenv (A\<lparr>pStart := s\<rparr>) = pGetenv A"
  "pGetWatchSelector (A\<lparr>pStart := s\<rparr>) = pGetWatchSelector A" "pGetWatchConfigsPredicate (A\<lparr>pStart := s\<rparr>) = pGetWatchConfigsPredicate A"
  "pGenerateID (A\<lparr>pStart := s\<rparr>) = pGenerateID A" "pRESTConfig (A\<lparr>pStart := s\<rparr>) = pRESTConfig A"
  "pNewManager (A\<lparr>pStart := s\<rparr>) = pNewManager A" "pNewX509Source (A\<lparr>pStart := s\<rparr>) = pNewX509Source A"
  "pBuildTLSConfig (A\<lparr>pStart := s\<rparr>) = pBuildTLSConfig A" "pNewBroker (A\<lparr>pStart := s\<rparr>) = pNewBroker A"
  "pNewRecorder (A\<lparr>pStart := s\<rparr>) = pNewRecorder A" "pNewTokenCache (A\<lparr>pStart := s\<rparr>) = pNewTokenCache A"
  "pGetRateLimiter (A\<lparr>pStart := s\<rparr>) = pGetRateLimiter A"
  by simp_all

lemma start_free_gates:
  "check_gate (A\<lparr>pStart := s\<rparr>) = check_gate A" "gate_on (A\<lparr>pStart := s\<rparr>) = gate_on A"
  "setup_tls (A\<lparr>pStart := s\<rparr>) = setup_tls A" "process_flags (A\<lparr>pStart := s\<rparr>) = process_flags A"
  by (simp_all add: fun_eq_iff check_gate_def gate_on_def setup_tls_def process_flags_def)

lemma start_free_steps:
  "load_gates (A\<lparr>pStart := s\<rparr>) = load_gates A" "configure_watches (A\<lparr>pStart := s\<rparr>) = configure_watches A"
  "setup_oom_watcher (A\<lparr>pStart := s\<rparr>) = setup_oom_watcher A" "setup_spiffe (A\<lparr>pStart := s\<rparr>) = setup_spiffe A"
  "setup_token_cache (A\<lparr>pStart := s\<rparr>) = setup_token_cache A" "build_controller (A\<lparr>pStart := s\<rparr>) = build_controller A"
  by (intro ext; simp only: load_gates_def configure_watches_def setup_oom_watcher_def setup_spiffe_def
      setup_token_cache_def build_controller_def start_free_gates start_free_fields)+

lemma prepared_pStart: "prepared (A\<lparr>pStart := s\<rparr>) C D G L B w = prepared A C D G L B w"
  by (simp only: prepared_def prepare_def start_free_gates start_free_steps start_free_fields)

text \<open>When \<^verbatim>\<open>main\<close> exits for any reason but a failure of the running manager, the manager was not started: whatever starting
  it does, \<^verbatim>\<open>main\<close> exits with the same message in the same state of the world.\<close>

theorem exit_before_start:
  assumes "main A M C D G L B w = (Inl msg, w')" and "msg \<noteq> ''problem running manager''"
  shows "main (A\<lparr>pStart := s\<rparr>) M C D G L B w = (Inl msg, w')"
  using assms by (auto simp: main_def prepare_prepared prepared_pStart continue_def then_exit_def
      split: prod.splits sum.splits option.splits)

subsection \<open>An instance\<close>

text \<open>The steps with an effect write it to the world; the gates are those given, over the defaults.\<close>

definition sample_given :: "(string \<times> bool) list" where "sample_given = [(''ExternalArtifact'', True)]"

definition sample_startup :: "((string \<times> bool) list, string list) startup_api" where
  "sample_startup =
     \<lparr>pSupportedFeatures = (\<lambda>fs rs. if list_all (\<lambda>(f, b). f \<in> fst ` set fs) sample_given then Inr (sample_given @ fs)
        else Inl (errors_New ''feature-gate not supported'')),
      pEnabled = (\<lambda>g f. case map_of g f of None \<Rightarrow> Inl (errors_New ''feature-gate not supported'') | Some b \<Rightarrow> Inr b),
      pSetGlobalJitter = None, pGetenv = (\<lambda>n. ''flux-system''), pGetWatchSelector = Inr 0,
      pGetWatchConfigsPredicate = Inr 0, pGenerateID = (\<lambda>n s. n @ ''-'' @ s), pRESTConfig = None,
      pNewManager = (\<lambda>c w. (None, w @ [''manager''])), pNewX509Source = (\<lambda>ctx w. (None, w @ [''source''])),
      pBuildTLSConfig = (\<lambda>ids w. (Inr 0, w)), pNewBroker = (\<lambda>e ids w. (None, w @ [''broker''])),
      pClose = (\<lambda>n w. w @ [''closed '' @ n]), pNewRecorder = (\<lambda>a n t w. (None, w @ [''recorder''])),
      pNewTokenCache = (\<lambda>n w. (None, w)), pGetRateLimiter = 0, pStart = (\<lambda>ctx w. (None, w @ [''started'']))\<rparr>"

definition sample_gates :: gate_names where
  "sample_gates =
     \<lparr>FeatureGateCacheSecretsAndConfigMaps = ''CacheSecretsAndConfigMaps'',
      FeatureGateAdditiveCELDependencyCheck = ''AdditiveCELDependencyCheck'', FeatureGateExternalArtifact = ''ExternalArtifact'',
      FeatureGateDisableConfigWatchers = ''DisableConfigWatchers'', FeatureGateDirectSourceFetch = ''DirectSourceFetch'',
      FeatureGateObjectLevelWorkloadIdentity = ''ObjectLevelWorkloadIdentity'',
      FeatureGateObjectLevelWorkloadIdentityRetirementReason = ''''\<rparr>"

definition sample_manager :: "string list manager_api" where
  "sample_manager = \<lparr>mIndexField = (\<lambda>n f w. (None, w)), mComplete = (\<lambda>b w. (None, w @ [''controller'']))\<rparr>"

definition sample_bound :: bound_options where
  "sample_bound = \<lparr>NoCrossNamespaceRefs = True, AllNamespaces = True, LabelSelector = '''',
     clientOptions = \<lparr>Opt_QPS = 50, Opt_Burst = 300\<rparr>, LeaderElect = False, TokenCacheMaxSize = 100\<rparr>"

definition sample_command_line :: command_line where
  "sample_command_line = (command_line_defaults sample_digest)\<lparr>authorizedEventServers := [''spiffe://events'']\<rparr>"

definition sample_cgroup :: "string list cgroup_api" where
  "sample_cgroup = \<lparr>fLstat = (\<lambda>p w. None), fReadFile = (\<lambda>p w. Inr ''100'')\<rparr>"

lemma sample_gates_ok: "gates_ok sample_startup sample_given"
  by (auto simp: gates_ok_def sample_startup_def map_add_def split: if_splits option.split)

abbreviation sample_main :: "string list \<Rightarrow> (configuration, string list) startup" where
  "sample_main \<equiv> main sample_startup sample_manager sample_cgroup sample_digest sample_gates sample_command_line sample_bound"

lemma sample_supported:
  "pSupportedFeatures sample_startup (features sample_gates) rs = Inr (sample_given @ features sample_gates)"
  by (simp add: sample_startup_def sample_given_def features_def sample_gates_def)

lemma sample_enabled:
  "f \<in> fst ` set (features sample_gates) \<Longrightarrow>
   pEnabled sample_startup (sample_given @ features sample_gates) f = Inr (opted_in sample_given f)"
  using supported_gate [OF sample_gates_ok sample_supported] by simp

lemma sample_enabled_gates:
  "f \<in> {Gate_UseHelm3Defaults, Gate_DefaultToRetryOnFailure, Gate_CancelHealthCheckOnNewRevision,
     Gate_DisableChartDigestTracking, FeatureGateCacheSecretsAndConfigMaps sample_gates,
     FeatureGateAdditiveCELDependencyCheck sample_gates, FeatureGateExternalArtifact sample_gates,
     FeatureGateDisableConfigWatchers sample_gates, FeatureGateDirectSourceFetch sample_gates} \<Longrightarrow>
   pEnabled sample_startup (sample_given @ features sample_gates) f = Inr (opted_in sample_given f)"
  using gate_supported [of sample_gates] by (intro sample_enabled) blast

lemma sample_OOMWatch: "pEnabled sample_startup (sample_given @ features sample_gates) Gate_OOMWatch = Inr False"
  using gate_supported [of sample_gates] sample_enabled [of Gate_OOMWatch]
  by (simp add: opted_in_def sample_given_def Gate_OOMWatch_def)

lemma sample_startup_fields:
  "pSetGlobalJitter sample_startup = None" "pGetWatchSelector sample_startup = Inr 0"
  "pGetWatchConfigsPredicate sample_startup = Inr 0" "pRESTConfig sample_startup = None"
  "pNewManager sample_startup c w = (None, w @ [''manager''])" "pNewX509Source sample_startup ctx w = (None, w @ [''source''])"
  "pBuildTLSConfig sample_startup ids w = (Inr 0, w)" "pNewRecorder sample_startup a n t w = (None, w @ [''recorder''])"
  "pNewTokenCache sample_startup m w = (None, w)" "pStart sample_startup ctx w = (None, w @ [''started''])"
  "pClose sample_startup n w = w @ [''closed '' @ n]"
  by (simp_all add: sample_startup_def)

lemma sample_options:
  "authorizedArtifactServers sample_command_line = []" "authorizedEventServers sample_command_line = [''spiffe://events'']"
  "\<not> uses_broker sample_command_line" "snapshotDigestAlgo sample_command_line = dCanonical sample_digest"
  "TokenCacheMaxSize sample_bound > 0"
  by (simp_all add: sample_command_line_def command_line_defaults_def uses_broker_def sample_bound_def)

abbreviation sample_state :: "(string \<times> bool) list" where "sample_state \<equiv> sample_given @ features sample_gates"

lemma passes:
  "or_exit (Inr a) msg w k = k a" "then_exit (None, w) msg h = h w"
  by (simp_all add: or_exit_def then_exit_def)

lemma sample_check_gate:
  "f \<in> {Gate_UseHelm3Defaults, Gate_DefaultToRetryOnFailure, Gate_CancelHealthCheckOnNewRevision,
     Gate_DisableChartDigestTracking, FeatureGateCacheSecretsAndConfigMaps sample_gates,
     FeatureGateAdditiveCELDependencyCheck sample_gates, FeatureGateExternalArtifact sample_gates,
     FeatureGateDisableConfigWatchers sample_gates, FeatureGateDirectSourceFetch sample_gates} \<Longrightarrow>
   check_gate sample_startup sample_state f w k = k (opted_in sample_given f)"
  by (simp add: check_gate_def sample_enabled_gates passes)

lemma sample_steps:
  "\<exists>gv. \<forall>w k. load_gates sample_startup sample_gates w k = (k (sample_state, gv) :: ('b, string list) startup)"
  "\<exists>v. \<forall>w h. configure_watches sample_startup sample_gates sample_bound sample_state w h = (h v :: ('b, string list) startup)"
  "\<exists>c. \<forall>w f. build_controller sample_startup sample_gates sample_command_line sample_bound sample_state gv v algo t d1 d2 w f =
     (f c :: ('b, string list) startup)"
  by (simp_all add: load_gates_def configure_watches_def build_controller_def FeatureGates_def sample_supported passes
      sample_check_gate sample_startup_fields Let_def) blast+

lemma sample_setups:
  "setup_oom_watcher sample_startup C L sample_state w k = k None"
  "setup_spiffe sample_startup sample_command_line ctx w h = h None (Some 0) [''source''] (w @ [''source''])"
  "setup_token_cache sample_startup sample_bound w f = f w"
  "canonical_algorithm sample_digest sample_command_line w f' = f' (dCanonical sample_digest)"
  by (simp_all add: setup_oom_watcher_def gate_on_def sample_OOMWatch setup_spiffe_def setup_tls_def setup_token_cache_def
      canonical_algorithm_def sample_options sample_startup_fields passes)

lemma sample_prepared:
  "\<exists>cfg. \<forall>k. prepare sample_startup sample_cgroup sample_digest sample_gates sample_command_line sample_bound [] k =
     (k cfg None [''source''] [''manager'', ''source'', ''recorder''] :: ('b, string list) startup)"
proof -
  obtain gv where gv: "load_gates sample_startup sample_gates w k = k (sample_state, gv)" for w and k :: "_ \<Rightarrow> ('b, string list) startup"
    using sample_steps(1) by blast
  obtain v where v: "configure_watches sample_startup sample_gates sample_bound sample_state w h = h v" for w
    and h :: "_ \<Rightarrow> ('b, string list) startup"
    using sample_steps(2) by blast
  obtain c where c: "build_controller sample_startup sample_gates sample_command_line sample_bound sample_state gv v
      (dCanonical sample_digest) None (opted_in sample_given Gate_DisableChartDigestTracking)
      (opted_in sample_given (FeatureGateAdditiveCELDependencyCheck sample_gates)) w f = f c" for w and f :: "_ \<Rightarrow> ('b, string list) startup"
    using sample_steps(3) by blast
  show ?thesis
    by (intro exI [of _ c]) (simp add: prepare_def gv v c sample_setups sample_check_gate sample_startup_fields passes)
qed

lemma sample_main_runs:
  "\<exists>cfg. sample_main [] = (Inr cfg, [''manager'', ''source'', ''recorder'', ''controller'', ''started'', ''closed source''])"
proof -
  obtain cfg where "prepare sample_startup sample_cgroup sample_digest sample_gates sample_command_line sample_bound [] k =
      k cfg None [''source''] [''manager'', ''source'', ''recorder'']" for k :: "_ \<Rightarrow> _ \<Rightarrow> _ \<Rightarrow> _ \<Rightarrow> (configuration, string list) startup"
    using sample_prepared by blast
  then show ?thesis by (simp add: main_def SetupWithManager_def sample_manager_def passes sample_startup_fields)
qed

theorem started_as_configured_witness:
  "\<exists>cfg w'. sample_main [] = (Inr cfg, w') \<and> AllowExternalArtifact (cfg_Reconciler cfg) \<and>
     \<not> AllowCrossNamespaceRef (cfg_Reconciler cfg) \<and> \<not> UseHelm3Defaults (cfg_Flags cfg) \<and>
     getSource (cfg_Reconciler cfg) sample_source (Object foreign_request) [] =
       Err (access_denied \<lparr>Ref_Kind = ''OCIRepository'', Ref_Name = ''podinfo'', Ref_Namespace = ''other''\<rparr>)"
proof -
  obtain cfg w' where run: "sample_main [] = (Inr cfg, w')" using sample_main_runs by blast
  have ref: "Spec_GetHelmChartReference (Object foreign_request) =
      Some \<lparr>Ref_Kind = ''OCIRepository'', Ref_Name = ''podinfo'', Ref_Namespace = ''other''\<rparr>"
    "Ref_Namespace \<lparr>Ref_Kind = ''OCIRepository'', Ref_Name = ''podinfo'', Ref_Namespace = ''other''\<rparr> \<noteq> HR_Namespace (Object foreign_request)"
    by (simp_all add: foreign_request_def sample_request_def sample_object_def sample_spec_def Spec_GetHelmChartReference_def)
  have opts: "opted_in sample_given (FeatureGateExternalArtifact sample_gates)" "\<not> opted_in sample_given Gate_UseHelm3Defaults"
    "NoCrossNamespaceRefs sample_bound"
    by (simp_all add: opted_in_def sample_given_def sample_gates_def Gate_UseHelm3Defaults_def sample_bound_def)
  note started = started_as_configured [OF sample_gates_ok run]
  have "AllowExternalArtifact (cfg_Reconciler cfg)" "\<not> AllowCrossNamespaceRef (cfg_Reconciler cfg)" "\<not> UseHelm3Defaults (cfg_Flags cfg)"
    using conjunct1 [OF started, unfolded configured_def, THEN conjunct1]
      conjunct1 [OF started, unfolded configured_def, THEN conjunct2, THEN conjunct1] opts
    by (simp_all only: HelmReleaseReconciler.select_convs flags.select_convs simp_thms)
  moreover have "getSource (cfg_Reconciler cfg) sample_source (Object foreign_request) [] =
      Err (access_denied \<lparr>Ref_Kind = ''OCIRepository'', Ref_Name = ''podinfo'', Ref_Namespace = ''other''\<rparr>)"
    by (rule started [THEN conjunct2, THEN conjunct2, THEN conjunct2, rule_format, OF opts(3) ref])
  ultimately show ?thesis using run by (intro exI conjI)
qed

theorem exit_before_start_witness:
  "main (sample_startup\<lparr>pStart := (\<lambda>ctx w. (None, w @ [''started again'']))\<rparr>)
     (sample_manager\<lparr>mComplete := (\<lambda>b w. (Some (errors_New ''no kind''), w))\<rparr>)
     sample_cgroup sample_digest sample_gates sample_command_line sample_bound [] =
   (Inl ''unable to create controller'', [''manager'', ''source'', ''recorder''])"
proof -
  obtain cfg where p: "prepare sample_startup sample_cgroup sample_digest sample_gates sample_command_line sample_bound [] k =
      k cfg None [''source''] [''manager'', ''source'', ''recorder'']" for k :: "_ \<Rightarrow> _ \<Rightarrow> _ \<Rightarrow> _ \<Rightarrow> (configuration, string list) startup"
    using sample_prepared by blast
  show ?thesis
    by (rule exit_before_start) (simp_all add: main_def p SetupWithManager_def sample_manager_def then_exit_def)
qed

end
