(* ===== verification/UnstructuredDiff.thy ===== *)
theory UnstructuredDiff
  imports Diffs
begin

section \<open>Comparing objects: internal/diff/unstructured.go and internal/cmp/simple\_unstructured.go\<close>

text \<open>
  \<^verbatim>\<open>Unstructured\<close> compares two objects and describes the differences. The comparison itself is that
  of the \<^verbatim>\<open>go-cmp\<close> library, a parameter: it walks through both values and tells a reporter each step down,
  the result at a leaf, and each step up. The walk is a tree, \<open>cmp_node\<close>; its events reach the reporter one by one.
\<close>

subsection \<open>The walk\<close>

text \<open>A step and the values it leads to, which are \<open>None\<close> where there is none. The text of a step into a list
  is made by the library.\<close>

datatype step_kind = MapIndex string | SliceIndex string | OtherStep

record PathStep =
  Step_Kind :: step_kind
  Step_X :: "json option"
  Step_Y :: "json option"

datatype cmp_node = Compared PathStep bool | Descended PathStep "cmp_node list"

datatype cmp_event = PushedStep PathStep | Reported bool | PoppedStep

fun events_of :: "cmp_node \<Rightarrow> cmp_event list" where
  "events_of (Compared s equal) = [PushedStep s, Reported equal, PoppedStep]"
| "events_of (Descended s ns) = PushedStep s # concat (map events_of ns) @ [PoppedStep]"

subsection \<open>Printing values\<close>

text \<open>The verb \<^verbatim>\<open>%v\<close> of \<^verbatim>\<open>fmt\<close> on decoded JSON; maps are printed in the order of their keys.\<close>

fun fmt_v :: "json \<Rightarrow> string" where
  "fmt_v JNull = ''<nil>''"
| "fmt_v (JBool b) = (if b then ''true'' else ''false'')"
| "fmt_v (JInt i) = itoa i"
| "fmt_v (JStr s) = s"
| "fmt_v (JArr vs) = ''['' @ Join (map fmt_v vs) '' '' @ '']''"
| "fmt_v (JObj kvs) = ''map['' @ Join (map snd (SliceStable (\<lambda>a b. string_less (fst a) (fst b))
     (map (\<lambda>(k, v). (k, k @ '':'' @ fmt_v v)) kvs))) '' '' @ '']''"

subsection \<open>The reporter\<close>

record SimpleUnstructuredReporter =
  rep_path :: "PathStep list"
  rep_diffs :: "string list"

definition SimpleUnstructuredReporter_zero :: SimpleUnstructuredReporter where
  "SimpleUnstructuredReporter_zero = \<lparr>rep_path = [], rep_diffs = []\<rparr>"

definition isValidAndNonEmpty :: "json option \<Rightarrow> bool" where
  "isValidAndNonEmpty v = (case v of None \<Rightarrow> False | Some JNull \<Rightarrow> False | Some (JArr vs) \<Rightarrow> vs \<noteq> []
     | Some (JObj kvs) \<Rightarrow> kvs \<noteq> [] | Some (JStr s) \<Rightarrow> s \<noteq> [] | _ \<Rightarrow> True)"

fun writePathString :: "PathStep list \<Rightarrow> string" where
  "writePathString [] = []"
| "writePathString (s # ss) = (case Step_Kind s of
      MapIndex k \<Rightarrow> ''.'' @ k | SliceIndex t \<Rightarrow> t | OtherStep \<Rightarrow> []) @ writePathString ss"

definition value_line :: "string \<Rightarrow> json option \<Rightarrow> string" where
  "value_line sign v = (if isValidAndNonEmpty v
     then sign @ (case v of None \<Rightarrow> [] | Some v \<Rightarrow> fmt_v v) @ [CHR 0x0A] else [])"

text \<open>Without a step there are no values to report, and no step to go back; the code panics, \<open>None\<close>.\<close>

definition Reporter_Report :: "bool \<Rightarrow> SimpleUnstructuredReporter \<Rightarrow> SimpleUnstructuredReporter option" where
  "Reporter_Report equal r =
     (if equal then Some r
      else if rep_path r = [] then None
      else (let s = last (rep_path r)
            in if \<not> isValidAndNonEmpty (Step_X s) \<and> \<not> isValidAndNonEmpty (Step_Y s) then Some r
               else Some (r\<lparr>rep_diffs := rep_diffs r @
                 [writePathString (rep_path r) @ [CHR 0x0A] @ value_line ''-'' (Step_X s) @ value_line ''+'' (Step_Y s)]\<rparr>)))"

definition Reporter_String :: "SimpleUnstructuredReporter \<Rightarrow> string" where
  "Reporter_String r = TrimSpace (Join (rep_diffs r) [CHR 0x0A])"

definition Reporter_PushStep :: "PathStep \<Rightarrow> SimpleUnstructuredReporter \<Rightarrow> SimpleUnstructuredReporter" where
  "Reporter_PushStep s r = r\<lparr>rep_path := rep_path r @ [s]\<rparr>"

definition Reporter_PopStep :: "SimpleUnstructuredReporter \<Rightarrow> SimpleUnstructuredReporter option" where
  "Reporter_PopStep r = (if rep_path r = [] then None else Some (r\<lparr>rep_path := butlast (rep_path r)\<rparr>))"

fun reporter_run :: "cmp_event list \<Rightarrow> SimpleUnstructuredReporter \<Rightarrow> SimpleUnstructuredReporter option" where
  "reporter_run [] r = Some r"
| "reporter_run (PushedStep s # es) r = reporter_run es (Reporter_PushStep s r)"
| "reporter_run (Reported b # es) r = (case Reporter_Report b r of None \<Rightarrow> None | Some r' \<Rightarrow> reporter_run es r')"
| "reporter_run (PoppedStep # es) r = (case Reporter_PopStep r of None \<Rightarrow> None | Some r' \<Rightarrow> reporter_run es r')"

subsection \<open>The comparison\<close>

type_synonym unst_content = "(string \<times> json) list"
type_synonym CompareOption = "unst_content \<Rightarrow> unst_content"

definition WithoutStatus :: CompareOption where
  "WithoutStatus u = List.filter (\<lambda>p. fst p \<noteq> ''status'') u"

text \<open>The options change copies of the objects; the objects themselves stay as they are. The library is
  \<open>walk\<close>. The result is the description and whether the objects are equal.\<close>

definition Unstructured ::
  "(unst_content \<Rightarrow> unst_content \<Rightarrow> cmp_node) \<Rightarrow> unst_content \<Rightarrow> unst_content \<Rightarrow> CompareOption list \<Rightarrow> (string \<times> bool) option" where
  "Unstructured walk x y opts =
     (let x' = fold (\<lambda>opt u. opt u) opts x; y' = fold (\<lambda>opt u. opt u) opts y
      in map_option (\<lambda>r. (Reporter_String r, Reporter_String r = []))
           (reporter_run (events_of (walk x' y')) SimpleUnstructuredReporter_zero))"

subsection \<open>The differences of a walk\<close>

text \<open>The reference: the leaves that differ, with the way to them and their values, leaving out those
  where both values are empty.\<close>

fun differences :: "PathStep list \<Rightarrow> cmp_node \<Rightarrow> (PathStep list \<times> json option \<times> json option) list" where
  "differences p (Compared s equal) =
     (if equal \<or> \<not> isValidAndNonEmpty (Step_X s) \<and> \<not> isValidAndNonEmpty (Step_Y s) then []
      else [(p @ [s], Step_X s, Step_Y s)])"
| "differences p (Descended s ns) = concat (map (differences (p @ [s])) ns)"

definition describe :: "PathStep list \<times> json option \<times> json option \<Rightarrow> string" where
  "describe d = (case d of (p, x, y) \<Rightarrow> writePathString p @ [CHR 0x0A] @ value_line ''-'' x @ value_line ''+'' y)"

lemma reporter_run_append:
  "reporter_run (es @ fs) r = (case reporter_run es r of None \<Rightarrow> None | Some r' \<Rightarrow> reporter_run fs r')"
  by (induction es r rule: reporter_run.induct) (auto split: option.split)

lemma reporter_run_node:
  "reporter_run (events_of n) \<lparr>rep_path = p, rep_diffs = ds\<rparr> =
     Some \<lparr>rep_path = p, rep_diffs = ds @ map describe (differences p n)\<rparr>"
proof (induction n arbitrary: p ds)
  case (Compared s equal)
  show ?case
    by (auto simp: Reporter_PushStep_def Reporter_Report_def Reporter_PopStep_def describe_def Let_def)
next
  case (Descended s ns)
  have "reporter_run (concat (map events_of ns)) \<lparr>rep_path = q, rep_diffs = es\<rparr> =
      Some \<lparr>rep_path = q, rep_diffs = es @ map describe (concat (map (differences q) ns))\<rparr>" for q es
    using Descended by (induction ns arbitrary: es) (simp_all add: reporter_run_append)
  then show ?case by (simp add: Reporter_PushStep_def reporter_run_append Reporter_PopStep_def)
qed

text \<open>The description of a difference has a sign, so it does not vanish.\<close>

lemma dropWhile_keeps: "c \<in> set s \<Longrightarrow> \<not> P c \<Longrightarrow> c \<in> set (dropWhile P s)"
  by (induction s) auto

lemma TrimSpace_nonempty: "c \<in> set s \<Longrightarrow> \<not> is_space c \<Longrightarrow> TrimSpace s \<noteq> []"
  using dropWhile_keeps [of c s is_space] by (auto simp: TrimSpace_def)

lemma Join_set: "s \<in> set ss \<Longrightarrow> set s \<subseteq> set (Join ss sep)"
  by (induction ss sep rule: Join.induct) auto

lemma describe_sign:
  assumes "d \<in> set (differences p n)"
  shows "CHR ''-'' \<in> set (describe d) \<or> CHR ''+'' \<in> set (describe d)"
  using assms by (induction n arbitrary: p) (auto simp: describe_def value_line_def split: if_splits)

lemma Reporter_String_empty:
  "Reporter_String \<lparr>rep_path = q, rep_diffs = map describe (differences p n)\<rparr> = [] \<longleftrightarrow> differences p n = []"
proof (cases "differences p n")
  case Nil
  then show ?thesis by (simp add: Reporter_String_def TrimSpace_def)
next
  case (Cons d ds)
  then have d: "d \<in> set (differences p n)" by simp
  then have "set (describe d) \<subseteq> set (Join (map describe (differences p n)) [CHR 0x0A])" by (intro Join_set) simp
  moreover have "\<not> is_space (CHR ''-'')" "\<not> is_space (CHR ''+'')" by (simp_all add: is_space_def)
  ultimately have "TrimSpace (Join (map describe (differences p n)) [CHR 0x0A]) \<noteq> []"
    using describe_sign [OF d] TrimSpace_nonempty by blast
  with Cons show ?thesis by (simp add: Reporter_String_def)
qed


text \<open>A field that is missing on one side and empty on the other is reported by the library, and left out by the
  reporter.\<close>

lemma empty_values_count_as_equal:
  assumes "walk x y = Descended root [Compared \<lparr>Step_Kind = MapIndex ''spec'', Step_X = None, Step_Y = Some (JObj [])\<rparr> False]"
  shows "Unstructured walk x y [] = Some ([], True)"
  by (simp add: Unstructured_def assms SimpleUnstructuredReporter_zero_def Reporter_PushStep_def Reporter_Report_def
      Reporter_PopStep_def isValidAndNonEmpty_def Reporter_String_def TrimSpace_def Let_def)

lemma no_dot_before_index:
  "writePathString (map (\<lambda>k. \<lparr>Step_Kind = k, Step_X = x, Step_Y = y\<rparr>)
     [OtherStep, MapIndex ''containers'', SliceIndex ''[0]'', MapIndex ''name'']) = ''.containers[0].name''"
  by simp

end
