(* ===== verification/Spec2Isabelle.thy ===== *)
theory Spec2Isabelle
  imports EndToEnd Retries Watches
    Rendering Waiting LogHandler Drivers MemoryWatch
    Lifecycle ApiVersions Startup UnstructuredDiff
begin

text \<open>
  A verification of the Flux helm-controller.

  \<^bold>\<open>The program.\<close> The controller keeps Helm releases in the state that \<^verbatim>\<open>HelmRelease\<close> objects ask for.
  Watches on these objects, on their sources and on the configuration they use request
  reconciliations (\<^verbatim>\<open>internal/controller/helmrelease_manager.go\<close>, \<^verbatim>\<open>helmrelease_indexers.go\<close>). The reconciler
  (\<^verbatim>\<open>helmrelease_controller.go\<close>) keeps the chart object of the template up to date
  (\<^verbatim>\<open>internal/reconcile/helmchart_template.go\<close>), waits for dependencies and the source, loads the chart
  (\<^verbatim>\<open>internal/loader\<close>) and the values, builds the clients (\<^verbatim>\<open>internal/kube\<close>, \<^verbatim>\<open>internal/action/config.go\<close>) and
  hands all of it as a \<^verbatim>\<open>Request\<close> to the release loop (\<^verbatim>\<open>internal/reconcile/atomic_release.go\<close>). The loop determines the state of the release
  (\<^verbatim>\<open>state.go\<close>), decides on the next action, runs one of eight sub-reconcilers (install, upgrade, test,
  unlock, rollback and uninstall as remediation, uninstall, correction of cluster drift), and goes
  on until nothing is left to do, an action would run twice, or a remediation was run. The
  sub-reconcilers call the Helm SDK through \<^verbatim>\<open>internal/action\<close>; what Helm writes to its storage is seen
  by an observing storage driver (\<^verbatim>\<open>internal/storage\<close>) and recorded as snapshots in the status of the
  object (\<^verbatim>\<open>internal/release\<close>, \<^verbatim>\<open>release.go\<close>, \<^verbatim>\<open>api/v2/snapshot_types.go\<close>). Conditions, failure counters
  and events tell the user what happened.

  \<^bold>\<open>The model.\<close> Every operation is a function. A \<open>Request\<close> carries the object, the chart, the values,
  the events recorded so far and the world, a type \<open>'w\<close> that stands for the cluster, the Helm storage
  and the clock. Code that is not part of the repository (Helm, Kubernetes clients, the digest
  library, the Flux condition setters, CEL, semver) enters as functions of the record \<open>env\<close> and, around
  the loop, of \<open>ctrl_env\<close>, \<open>source_api\<close>, \<open>loader_api\<close>, \<open>semver_api\<close>, \<open>discovery_api\<close>, \<open>watch_api\<close>, \<open>manager_api\<close> and \<open>startup_api\<close>;
  what a proof needs of it is a named hypothesis (\<open>conditions_ok\<close>, \<open>digest_ok\<close>, \<open>source_ok\<close>, \<open>semver_ok\<close>,
  \<open>watch_ok\<close>, or a premise), and executable instances, first of all in the theory \<open>Sample\<close>, show that they can hold. A Go error is the list of sentinel errors it wraps
  with its message; a call returns \<open>Ok\<close>, \<open>Err\<close> or \<open>Panic\<close> (a nil dereference). Integers of the status
  are unbounded in the type but counted with the wrap-around of 64 bits (\<open>inc64\<close>).

  \<^bold>\<open>The theories\<close>, in the order of their imports:
  \<^item> \<open>Prelude\<close>: strings, durations, sorting as Go does it, JSON, the collections of lemmas.
  \<^item> \<open>Snapshots\<close> (\<^verbatim>\<open>api/v2/snapshot_types.go\<close>): the history of a release; truncation keeps what a
    rollback needs and bounds the length.
  \<^item> \<open>ApiTypes\<close> (\<^verbatim>\<open>api/v2/helmrelease_types.go\<close>, \<^verbatim>\<open>reference_types.go\<close>): specification and status, their
    accessors, retries and remediation. The locale \<open>remediation\<close> is the contract of the interface
    \<^verbatim>\<open>Remediation\<close>, interpreted by its two implementations and by the dispatch between them.
  \<^item> \<open>Errors\<close>, \<open>Releases\<close> (\<^verbatim>\<open>internal/release\<close>, \<^verbatim>\<open>internal/storage\<close>): errors; observations of releases,
    digests, test hooks, and the driver that notifies observers of what was persisted.
  \<^item> \<open>Environment\<close>: conditions, actions, the parameters and the request. \<open>Annotations\<close>
    (\<^verbatim>\<open>api/v2/annotations.go\<close>): force and reset requests, with the locale \<open>annotation_request\<close>.
    \<open>Sample\<close>: an in-memory instance.
  \<^item> \<open>Verify\<close> (\<^verbatim>\<open>internal/action/verify.go\<close>, \<^verbatim>\<open>reset.go\<close>), \<open>LogBuffer\<close> (\<^verbatim>\<open>log.go\<close>), \<open>PostRender\<close>, \<open>Crds\<close>,
    \<open>Actions\<close> (the Helm actions and their settings), \<open>Diffs\<close>, \<open>Inventory\<close>: the packages below the
    reconcilers.
  \<^item> \<open>ReleaseRecord\<close> (\<^verbatim>\<open>release.go\<close>), \<open>ReleaseStates\<close> (\<^verbatim>\<open>state.go\<close>), \<open>Reconcilers\<close> (one group of definitions
    for each sub-reconciler, with its \<^verbatim>\<open>failure\<close> and \<^verbatim>\<open>success\<close>).
  \<^item> \<open>Contracts\<close> (\<^verbatim>\<open>reconcile.go\<close>): the locale \<open>status_relation\<close> has what a relation between requests
    needs for all reconcilers to stay within it. It is interpreted by \<open>keeps\<close> (only the status of
    the object, the world and the events change) and by \<open>quiet\<close> (a sub-reconciler neither starts nor
    ends the progress reported on the object); the locale \<open>action_reconciler\<close> is the contract of the
    interface \<^verbatim>\<open>ActionReconciler\<close>, interpreted by the eight reconcilers.
  \<^item> \<open>AtomicRelease\<close> (\<^verbatim>\<open>atomic_release.go\<close>): the decision, one pass, and the loop, a total function whose
    measure is the number of action types not run yet; \<open>atomic_run\<close> relates a request to the actions
    run, the result and the final request.
  \<^item> \<open>ReleaseLoop\<close>, \<open>Decisions\<close>, \<open>Outcomes\<close>, \<open>ActionResults\<close>, \<open>Summary\<close>: the properties of the loop, of
    its decisions, of what install and upgrade record, of what the other actions report, and of the
    Ready condition. \<open>Convergence\<close>: a release in which nothing is left to do is \<open>settled\<close>; a pass keeps it
    so, and an action for which Helm \<open>delivered\<close> what was asked for leads to it. \<open>Retries\<close>: the failure
    counter of installations followed through every action, a pass, the loop, and the inductive relation
    \<open>reconciliations\<close> of a sequence of reconciliations.
  \<^item> \<open>ClusterAccess\<close> (\<^verbatim>\<open>internal/kube\<close>, \<^verbatim>\<open>internal/action/config.go\<close>): client getters, impersonation, the retrying
    round tripper, Helm configurations. The locale \<open>kept_value\<close> is what the three persistent values of a
    getter have in common, interpreted by each of them.
  \<^item> \<open>ChartTemplate\<close> (\<^verbatim>\<open>helmchart_template.go\<close>, \<^verbatim>\<open>internal/acl\<close>, \<^verbatim>\<open>internal/strings\<close>) and \<open>Sources\<close> (the source of a
    release, its readiness, loading and the revision in the chart version).
  \<^item> \<open>Controller\<close> (\<^verbatim>\<open>helmrelease_controller.go\<close>): each step of \<^verbatim>\<open>reconcileRelease\<close> is a definition that calls
    the next one. \<open>ControllerProps\<close>: the locale \<open>reconcile_invariant\<close> has what an invariant of the request
    needs to be kept on every path of the controller up to the release loop; it is interpreted for the
    parts of the object that are never written and for the types of its conditions. \<open>EndToEnd\<close>: the
    controller composed with the loop; \<open>prepare_release\<close> is what its steps come to when all of them succeed, and
    \<open>at_rest\<close> the state a reconciliation leads to and keeps.
  \<^item> \<open>Watches\<close> (\<^verbatim>\<open>helmrelease_manager.go\<close>, \<^verbatim>\<open>helmrelease_indexers.go\<close>, \<^verbatim>\<open>internal/predicates\<close>): indices, events
    and the requests they lead to.
  \<^item> \<open>Rendering\<close> (\<^verbatim>\<open>internal/postrender\<close>): running the post-renderers. \<open>Waiting\<close> (\<^verbatim>\<open>wait.go\<close>, \<^verbatim>\<open>client.go\<close>,
    \<^verbatim>\<open>pod_status_reader.go\<close>): the waiter that Helm's actions use. \<open>LogHandler\<close> (\<^verbatim>\<open>log.go\<close>): the handler that
    feeds the log buffer. \<open>Drivers\<close> (\<^verbatim>\<open>internal/storage\<close>): the observing and the failing storage driver as
    drivers, over whole runs of calls. \<open>MemoryWatch\<close> (\<^verbatim>\<open>internal/oomwatch\<close>): the watcher that stops the
    controller near the limit of memory.
  \<^item> \<open>Lifecycle\<close>: the inductive relation \<open>lifecycle\<close> interleaves reconciliations with creations, edits and
    deletions by users and with interruptions; its reachable states are treated by rule induction.
  \<^item> \<open>Startup\<close> (\<^verbatim>\<open>main.go\<close>, \<^verbatim>\<open>internal/features\<close>): the gates, and the steps of \<^verbatim>\<open>main\<close> with their exits up to the
    start of the manager, with the libraries it configures as the record \<open>startup_api\<close>.
  \<^item> \<open>V2beta2\<close>, \<open>V2beta1\<close> (\<^verbatim>\<open>api/v2beta2\<close>, \<^verbatim>\<open>api/v2beta1\<close>): the older versions of the API, whose remediations interpret
    the locale \<open>remediation\<close> too. \<open>ApiVersions\<close>: the decoding of an object in a newer version, and what
    commutes with it.
  \<^item> \<open>UnstructuredDiff\<close> (\<^verbatim>\<open>internal/diff/unstructured.go\<close>, \<^verbatim>\<open>internal/cmp\<close>): comparing objects; the walk of the
    library is a tree, the reporter a machine on its events.

  \<^bold>\<open>What is shown.\<close> A reconciliation terminates and runs at most five actions of different types, a
  remediation last and never with success; the actions fit the state they are chosen for; a release
  is in sync only when everything asked for holds; the history records what Helm persisted, failures
  are counted exactly when there is something to remediate; reconciling and stalled exclude each
  other; exhausted retries stall, and no sequence of reconciliations has more failed installations
  than its retries allow; requests by annotation are handled once; an action that succeeds
  settles the release, makes the object ready and leaves nothing to do for the next reconciliation. Around the loop: nothing is
  released before all prerequisites are met, and when they are, one reconciliation takes an object from
  no release to an installed one that is ready and at rest, where further ones leave it; the finalizer is removed only after the cleanup; what an
  attempt notes is recognized by the next one; sources of other namespaces are neither read nor
  released from unless this is allowed; the chart object follows the template; a changed source
  requests exactly the releases that use it; conditions stay a map on every path. Below it: the observing
  driver refines the one it wraps, rendered objects carry their origin, a wait covers all resources. Over whole
  runs of the controller and its users no release is left behind by a deleted object; the process that is started is
  the one its command line asks for; the older API versions read an object as v2 does, except for the
  default number of releases kept in v2beta1, the chart of another kind in the status, and nil or running tests. Each property is stated
  over all environments, without a bound on the size of the history, and needs no fuel.

  \<^bold>\<open>Bounds.\<close> \<^verbatim>\<open>sort.Slice\<close> and \<^verbatim>\<open>sort.SliceStable\<close> are insertion sort, which is what Go runs on short
  slices; with distinct versions the result does not depend on the algorithm. The log buffer has ten
  lines as in the code.

  \<^bold>\<open>Not modelled.\<close> Contexts and their timeouts, apart from a context that is done at the start of a pass;
  concurrency of several objects; the text of log lines, metrics and the related object of an event;
  rendering by kustomize and the polling of the status library themselves; the generated deep copies, as values
  of the model are never shared; the parsing of the command line; the helpers of tests.
\<close>

end
